(* ===== verification/Prelude.thy ===== *)
theory Prelude
  imports Main "HOL-Library.Word" "HOL-Library.Char_ord" "HOL-Library.List_Lexorder"
    "HOL-Library.Product_Lexorder"
begin

text \<open>
  The shared vocabulary of the development: machine integers, Rust's \<open>Result\<close> and its
  question-mark operator, fallible calls on a state, the string functions of Rust's standard
  library the program uses (a \<open>String\<close> is its UTF-8 bytes, so \<open>length\<close> is Rust's
  \<open>len\<close>), unsigned integer parsing and printing, and \<open>BTreeMap\<close> as a strictly sorted
  association list. Nothing here is specific to the conductor.
\<close>

named_theorems result_simps \<open>equations that run the question-mark operator\<close>
named_theorems btree_simps \<open>what a lookup returns after an update of a B-tree map\<close>

section \<open>Machine integers and durations\<close>

type_synonym u8 = "8 word"
type_synonym u16 = "16 word"
type_synonym u64 = "64 word"

text \<open>No code of the program computes with an \<open>i64\<close>; its values are only compared and stored.\<close>

type_synonym i64 = int

definition u64_max :: u64 where
  "u64_max = - 1"

definition saturating_sub :: "u64 \<Rightarrow> u64 \<Rightarrow> u64" where
  "saturating_sub a b = (if a < b then 0 else a - b)"

definition saturating_add :: "u64 \<Rightarrow> u64 \<Rightarrow> u64" where
  "saturating_add a b = (if unat a + unat b < 2 ^ 64 then a + b else u64_max)"

text \<open>A \<open>Duration\<close> is its number of nanoseconds.\<close>

type_synonym duration = nat

definition from_secs :: "u64 \<Rightarrow> duration" where
  "from_secs s = unat s * 1000000000"

definition from_millis :: "u64 \<Rightarrow> duration" where
  "from_millis ms = unat ms * 1000000"

text \<open>
  The sum of two durations, whose seconds are a \<open>u64\<close>: the operator \<open>+\<close> panics beyond
  that, which is \<^const>\<open>None\<close>.
\<close>

definition duration_limit :: duration where
  "duration_limit = 2 ^ 64 * 1000000000"

definition duration_add :: "duration \<Rightarrow> duration \<Rightarrow> duration option" where
  "duration_add a b = (if a + b < duration_limit then Some (a + b) else None)"

definition as_secs :: "duration \<Rightarrow> u64" where
  "as_secs d = of_nat (d div 1000000000)"

section \<open>Results\<close>

text \<open>
  \<open>Result<A, E>\<close> is \<open>'e + 'a\<close>, errors on the left. \<open>and_then\<close> is the question-mark operator of
  a computation without state, \<open>try_call\<close> the one of a call that also changes a state.
\<close>

fun and_then :: "'e + 'a \<Rightarrow> ('a \<Rightarrow> 'e + 'b) \<Rightarrow> 'e + 'b" where
  "and_then (Inl e) f = Inl e"
| "and_then (Inr a) f = f a"

fun map_err :: "('e \<Rightarrow> 'f) \<Rightarrow> 'e + 'a \<Rightarrow> 'f + 'a" where
  "map_err f (Inl e) = Inl (f e)"
| "map_err f (Inr a) = Inr a"

fun map_ok :: "('a \<Rightarrow> 'b) \<Rightarrow> 'e + 'a \<Rightarrow> 'e + 'b" where
  "map_ok f (Inl e) = Inl e"
| "map_ok f (Inr a) = Inr (f a)"

fun is_ok :: "'e + 'a \<Rightarrow> bool" where
  "is_ok (Inl e) = False"
| "is_ok (Inr a) = True"

fun ok_or :: "'a option \<Rightarrow> 'e \<Rightarrow> 'e + 'a" where
  "ok_or None e = Inl e"
| "ok_or (Some a) e = Inr a"

fun ok :: "'e + 'a \<Rightarrow> 'a option" where
  "ok (Inl e) = None"
| "ok (Inr a) = Some a"

fun opt_or :: "'a option \<Rightarrow> 'a option \<Rightarrow> 'a option" where
  "opt_or None b = b"
| "opt_or (Some a) b = Some a"

fun unwrap_or :: "'a option \<Rightarrow> 'a \<Rightarrow> 'a" where
  "unwrap_or None d = d"
| "unwrap_or (Some a) d = a"

type_synonym ('s, 'e, 'a) call = "'s \<Rightarrow> ('e + 'a) \<times> 's"

definition try_call :: "('s, 'e, 'a) call \<Rightarrow> ('a \<Rightarrow> ('s, 'e, 'b) call) \<Rightarrow> ('s, 'e, 'b) call" where
  "try_call m f s = (case m s of (Inl e, s') \<Rightarrow> (Inl e, s') | (Inr a, s') \<Rightarrow> f a s')"

definition call_err :: "('e \<Rightarrow> 'f) \<Rightarrow> ('s, 'e, 'a) call \<Rightarrow> ('s, 'f, 'a) call" where
  "call_err f m s = (case m s of (r, s') \<Rightarrow> (map_err f r, s'))"

definition call_ok :: "'a \<Rightarrow> ('s, 'e, 'a) call" where
  "call_ok a s = (Inr a, s)"

definition call_fail :: "'e \<Rightarrow> ('s, 'e, 'a) call" where
  "call_fail e s = (Inl e, s)"

text \<open>The loop of a fallible body over a list: the first error ends it.\<close>

fun try_map :: "('a \<Rightarrow> 'e + 'b) \<Rightarrow> 'a list \<Rightarrow> 'e + 'b list" where
  "try_map f [] = Inr []"
| "try_map f (x # xs) = and_then (f x) (\<lambda>y. and_then (try_map f xs) (\<lambda>ys. Inr (y # ys)))"

lemma and_then_ok_iff [result_simps]:
  "and_then m f = Inr b \<longleftrightarrow> (\<exists>a. m = Inr a \<and> f a = Inr b)"
  by (cases m) auto

lemma and_then_err_iff [result_simps]:
  "and_then m f = Inl e \<longleftrightarrow> m = Inl e \<or> (\<exists>a. m = Inr a \<and> f a = Inl e)"
  by (cases m) auto

lemma map_err_ok_iff [result_simps]: "map_err f m = Inr a \<longleftrightarrow> m = Inr a"
  by (cases m) auto

lemma map_ok_ok_iff [result_simps]: "map_ok f m = Inr b \<longleftrightarrow> (\<exists>a. m = Inr a \<and> b = f a)"
  by (cases m) auto

lemma ok_or_ok_iff [result_simps]: "ok_or m e = Inr a \<longleftrightarrow> m = Some a"
  by (cases m) auto

lemma ok_or_err_iff [result_simps]: "ok_or m e = Inl e' \<longleftrightarrow> m = None \<and> e' = e"
  by (cases m) auto

lemma is_ok_iff: "is_ok m \<longleftrightarrow> (\<exists>a. m = Inr a)"
  by (cases m) auto

lemma is_ok_map_err [simp]: "is_ok (map_err f m) = is_ok m"
  by (cases m) auto

lemma try_call_simps [simp]:
  "m s = (Inl e, s') \<Longrightarrow> try_call m f s = (Inl e, s')"
  "m s = (Inr a, s') \<Longrightarrow> try_call m f s = f a s'"
  by (simp_all add: try_call_def)

lemma call_err_simps [simp]:
  "m s = (Inl e, s') \<Longrightarrow> call_err g m s = (Inl (g e), s')"
  "m s = (Inr a, s') \<Longrightarrow> call_err g m s = (Inr a, s')"
  by (simp_all add: call_err_def)

lemma try_map_ok_iff: "try_map f xs = Inr ys \<longleftrightarrow> list_all2 (\<lambda>x y. f x = Inr y) xs ys"
  by (induction xs arbitrary: ys) (auto simp: result_simps list_all2_Cons1)

lemma try_map_cong_ok:
  "(\<And>x. x \<in> set xs \<Longrightarrow> f x = Inr (g x)) \<Longrightarrow> try_map f xs = Inr (map g xs)"
  by (induction xs) auto

section \<open>Strings\<close>

definition starts_with :: "string \<Rightarrow> string \<Rightarrow> bool" where
  "starts_with s p = (take (length p) s = p)"

definition ends_with :: "string \<Rightarrow> string \<Rightarrow> bool" where
  "ends_with s p = (length p \<le> length s \<and> drop (length s - length p) s = p)"

definition strip_prefix :: "string \<Rightarrow> string \<Rightarrow> string option" where
  "strip_prefix s p = (if starts_with s p then Some (drop (length p) s) else None)"

fun str_contains :: "string \<Rightarrow> string \<Rightarrow> bool" where
  "str_contains [] needle = (needle = [])"
| "str_contains (c # s) needle = (starts_with (c # s) needle \<or> str_contains s needle)"

definition trim_end_matches :: "char \<Rightarrow> string \<Rightarrow> string" where
  "trim_end_matches c s = rev (dropWhile (\<lambda>d. d = c) (rev s))"

fun replace_char :: "char \<Rightarrow> string \<Rightarrow> string \<Rightarrow> string" where
  "replace_char c r [] = []"
| "replace_char c r (d # s) = (if d = c then r @ replace_char c r s else d # replace_char c r s)"

definition char_code :: "char \<Rightarrow> nat" where
  "char_code c = of_char c"

definition is_ascii_digit :: "char \<Rightarrow> bool" where
  "is_ascii_digit c = (48 \<le> char_code c \<and> char_code c \<le> 57)"

definition is_ascii_hexdigit :: "char \<Rightarrow> bool" where
  "is_ascii_hexdigit c =
     (is_ascii_digit c \<or> (65 \<le> char_code c \<and> char_code c \<le> 70) \<or> (97 \<le> char_code c \<and> char_code c \<le> 102))"

definition ascii_lower :: "char \<Rightarrow> char" where
  "ascii_lower c = (if 65 \<le> char_code c \<and> char_code c \<le> 90 then char_of (char_code c + 32) else c)"

definition to_ascii_lowercase :: "string \<Rightarrow> string" where
  "to_ascii_lowercase s = map ascii_lower s"

definition eq_ignore_ascii_case :: "string \<Rightarrow> string \<Rightarrow> bool" where
  "eq_ignore_ascii_case a b = (to_ascii_lowercase a = to_ascii_lowercase b)"

text \<open>
  The UTF-8 encodings of the characters with the Unicode property \<open>White_Space\<close>, which
  \<open>str::trim\<close> removes at both ends.
\<close>

definition whitespace_encodings :: "string list" where
  "whitespace_encodings =
     map (\<lambda>n. [char_of n]) [9, 10, 11, 12, 13, 32 :: nat]
     @ map (map char_of) ([[194, 133], [194, 160], [225, 154, 128], [226, 128, 168], [226, 128, 169],
         [226, 128, 175], [226, 129, 159], [227, 128, 128]] :: nat list list)
     @ map (\<lambda>n. map char_of [226, 128, n]) ([128..<139] :: nat list)"

function trim_start :: "string \<Rightarrow> string" where
  "trim_start s =
     (case find (\<lambda>w. w \<noteq> [] \<and> starts_with s w) whitespace_encodings of
        None \<Rightarrow> s
      | Some w \<Rightarrow> trim_start (drop (length w) s))"
  by pat_completeness auto
termination
proof (relation "measure length")
  fix s w
  assume "find (\<lambda>w. w \<noteq> [] \<and> starts_with s w) whitespace_encodings = Some w"
  then have "w \<noteq> []" "take (length w) s = w"
    by (auto simp: find_Some_iff starts_with_def)
  then have "0 < length w" "0 < length s" by auto
  then show "(drop (length w) s, s) \<in> measure length" by simp
qed simp

function trim_end :: "string \<Rightarrow> string" where
  "trim_end s =
     (case find (\<lambda>w. w \<noteq> [] \<and> ends_with s w) whitespace_encodings of
        None \<Rightarrow> s
      | Some w \<Rightarrow> trim_end (take (length s - length w) s))"
  by pat_completeness auto
termination
proof (relation "measure length")
  fix s w
  assume "find (\<lambda>w. w \<noteq> [] \<and> ends_with s w) whitespace_encodings = Some w"
  then have "w \<noteq> []" "length w \<le> length s"
    by (auto simp: find_Some_iff ends_with_def)
  then have "0 < length w" "0 < length s" by auto
  then show "(take (length s - length w) s, s) \<in> measure length" by simp
qed simp

declare trim_start.simps [simp del] trim_end.simps [simp del]

definition str_trim :: "string \<Rightarrow> string" where
  "str_trim s = trim_end (trim_start s)"

lemma strip_prefix_Some_iff: "strip_prefix s p = Some r \<longleftrightarrow> s = p @ r"
  by (auto simp: strip_prefix_def starts_with_def split: if_splits)
    (metis append_take_drop_id)

lemma strip_prefix_append [simp]: "strip_prefix (p @ r) p = Some r"
  by (simp add: strip_prefix_Some_iff)

lemma starts_with_iff: "starts_with s p \<longleftrightarrow> (\<exists>r. s = p @ r)"
  by (metis starts_with_def append_eq_conv_conj append_take_drop_id)

lemma str_contains_iff: "str_contains s needle \<longleftrightarrow> (\<exists>a b. s = a @ needle @ b)"
proof (induction s)
  case Nil
  then show ?case by auto
next
  case (Cons c s)
  show ?case
  proof
    assume "str_contains (c # s) needle"
    then show "\<exists>a b. c # s = a @ needle @ b"
      using Cons.IH by (auto simp: starts_with_iff) (metis append_Cons append_Nil)+
  next
    assume "\<exists>a b. c # s = a @ needle @ b"
    then obtain a b where "c # s = a @ needle @ b" by blast
    then have "starts_with (c # s) needle \<or> (\<exists>a' b. s = a' @ needle @ b)"
      unfolding starts_with_iff by (cases a) auto
    then show "str_contains (c # s) needle"
      using Cons.IH by (simp del: Cons.IH)
  qed
qed

lemma char_code_less [simp]: "char_code c < 256"
  by (simp add: char_code_def)

lemma char_of_char_code [simp]: "char_of (char_code c) = c"
  by (simp add: char_code_def)

lemma char_code_char_of [simp]: "n < 256 \<Longrightarrow> char_code (char_of n) = n"
  by (simp add: char_code_def)

lemma char_code_inject: "char_code a = char_code b \<longleftrightarrow> a = b"
  by (metis char_of_char_code)

lemma ascii_lower_idem [simp]: "ascii_lower (ascii_lower c) = ascii_lower c"
  by (simp add: ascii_lower_def)

lemma ascii_lower_hexdigit [simp]: "is_ascii_hexdigit (ascii_lower c) = is_ascii_hexdigit c"
  by (auto simp: ascii_lower_def is_ascii_hexdigit_def is_ascii_digit_def)

lemma to_ascii_lowercase_idem [simp]: "to_ascii_lowercase (to_ascii_lowercase s) = to_ascii_lowercase s"
  by (simp add: to_ascii_lowercase_def)

lemma length_to_ascii_lowercase [simp]: "length (to_ascii_lowercase s) = length s"
  by (simp add: to_ascii_lowercase_def)

lemma to_ascii_lowercase_hexdigits [simp]:
  "list_all is_ascii_hexdigit (to_ascii_lowercase s) = list_all is_ascii_hexdigit s"
  by (induction s) (auto simp: to_ascii_lowercase_def)

section \<open>Printing and parsing unsigned integers\<close>

definition digit_char :: "nat \<Rightarrow> char" where
  "digit_char d = char_of (if d < 10 then d + 48 else d + 87)"

definition digit_value :: "char \<Rightarrow> nat option" where
  "digit_value c =
     (if is_ascii_digit c then Some (char_code c - 48)
      else if 97 \<le> char_code c \<and> char_code c \<le> 122 then Some (char_code c - 87)
      else if 65 \<le> char_code c \<and> char_code c \<le> 90 then Some (char_code c - 55)
      else None)"

text \<open>\<open>char::to_digit(radix)\<close>.\<close>

definition to_digit :: "nat \<Rightarrow> char \<Rightarrow> nat option" where
  "to_digit radix c = (case digit_value c of None \<Rightarrow> None | Some d \<Rightarrow> if d < radix then Some d else None)"

fun show_radix :: "nat \<Rightarrow> nat \<Rightarrow> string" where
  "show_radix radix n =
     (if n < radix \<or> radix < 2 then [digit_char n]
      else show_radix radix (n div radix) @ [digit_char (n mod radix)])"

declare show_radix.simps [simp del]

definition show_nat :: "nat \<Rightarrow> string" where
  "show_nat n = show_radix 10 n"

definition show_u64 :: "u64 \<Rightarrow> string" where
  "show_u64 n = show_nat (unat n)"

text \<open>The format specifier \<open>0x{:x}\<close>.\<close>

definition show_hex :: "u64 \<Rightarrow> string" where
  "show_hex n = ''0x'' @ show_radix 16 (unat n)"

definition show_int :: "int \<Rightarrow> string" where
  "show_int i = (if i < 0 then CHR ''-'' # show_nat (nat (- i)) else show_nat (nat i))"

definition show_bool :: "bool \<Rightarrow> string" where
  "show_bool b = (if b then ''true'' else ''false'')"

datatype int_error = EmptyInt | InvalidDigit | PosOverflow

fun show_int_error :: "int_error \<Rightarrow> string" where
  "show_int_error EmptyInt = ''cannot parse integer from empty string''"
| "show_int_error InvalidDigit = ''invalid digit found in string''"
| "show_int_error PosOverflow = ''number too large to fit in target type''"

text \<open>
  \<open>u64::from_str_radix\<close>: an optional plus sign, then at least one digit, read from the left with a
  checked multiplication and addition per digit.
\<close>

fun parse_digits :: "nat \<Rightarrow> nat \<Rightarrow> string \<Rightarrow> int_error + nat" where
  "parse_digits radix acc [] = Inr acc"
| "parse_digits radix acc (c # cs) =
     (case to_digit radix c of
        None \<Rightarrow> Inl InvalidDigit
      | Some d \<Rightarrow>
          if acc * radix < 2 ^ 64 \<and> acc * radix + d < 2 ^ 64 then parse_digits radix (acc * radix + d) cs
          else Inl PosOverflow)"

definition from_str_radix :: "nat \<Rightarrow> string \<Rightarrow> int_error + u64" where
  "from_str_radix radix s =
     (if s = [] then Inl EmptyInt
      else if s = ''+'' \<or> s = ''-'' then Inl InvalidDigit
      else map_ok of_nat (parse_digits radix 0 (if hd s = CHR ''+'' then tl s else s)))"

definition parse_u64 :: "string \<Rightarrow> int_error + u64" where
  "parse_u64 s = from_str_radix 10 s"

lemma unat_u64_less: "unat (n :: u64) < 2 ^ 64"
  using unsigned_less [of n] by simp

lemma unat_plus1_less: "(v :: u64) < m \<Longrightarrow> unat (v + 1) = unat v + 1"
proof -
  assume "v < m"
  then have "unat v < unat m" by (simp add: word_less_nat_alt)
  with unat_u64_less [of m] have "unat v + 1 < 2 ^ 64" by simp
  then show ?thesis by (simp add: unat_word_ariths)
qed

lemma to_digit_digit_char [simp]:
  assumes "d < radix" "radix \<le> 16"
  shows "to_digit radix (digit_char d) = Some d"
  using assms
  by (auto simp: to_digit_def digit_value_def digit_char_def is_ascii_digit_def)

lemma digit_char_hexdigit: "d < 16 \<Longrightarrow> is_ascii_hexdigit (digit_char d)"
  by (auto simp: digit_char_def is_ascii_hexdigit_def is_ascii_digit_def)

lemma digit_char_digit: "d < 10 \<Longrightarrow> is_ascii_digit (digit_char d)"
  by (auto simp: digit_char_def is_ascii_digit_def)

lemma show_radix_nonempty [simp]: "show_radix radix n \<noteq> []"
  by (subst show_radix.simps) simp

lemma show_radix_digits:
  assumes "2 \<le> radix"
  shows "\<forall>c \<in> set (show_radix radix n). \<exists>d < radix. c = digit_char d"
  using assms
proof (induction radix n rule: show_radix.induct)
  case (1 radix n)
  show ?case
  proof (cases "n < radix")
    case True
    then show ?thesis by (subst show_radix.simps) auto
  next
    case False
    with 1 have "\<forall>c \<in> set (show_radix radix (n div radix)). \<exists>d < radix. c = digit_char d"
      by simp
    moreover from \<open>2 \<le> radix\<close> have "n mod radix < radix" by simp
    then have "\<exists>d < radix. digit_char (n mod radix) = digit_char d" by blast
    ultimately show ?thesis
      using False \<open>2 \<le> radix\<close> by (subst show_radix.simps) auto
  qed
qed

lemma parse_digits_snoc:
  assumes "parse_digits radix acc cs = Inr m" "to_digit radix c = Some d" "m * radix + d < 2 ^ 64"
  shows "parse_digits radix acc (cs @ [c]) = Inr (m * radix + d)"
  using assms by (induction cs arbitrary: acc) (auto split: option.splits if_splits)

lemma parse_show_radix:
  assumes "2 \<le> radix" "radix \<le> 16" "n < 2 ^ 64"
  shows "parse_digits radix 0 (show_radix radix n) = Inr n"
  using assms
proof (induction radix n rule: show_radix.induct)
  case (1 radix n)
  show ?case
  proof (cases "n < radix")
    case True
    with 1(2-) show ?thesis by (subst show_radix.simps) simp
  next
    case False
    have lt: "n div radix < 2 ^ 64"
      using "1.prems" div_le_dividend [of n radix] by linarith
    with False 1 have "parse_digits radix 0 (show_radix radix (n div radix)) = Inr (n div radix)"
      by simp
    moreover have "to_digit radix (digit_char (n mod radix)) = Some (n mod radix)"
      using "1.prems" by simp
    moreover have "n div radix * radix + n mod radix < 2 ^ 64"
      using "1.prems" by simp
    ultimately have
      "parse_digits radix 0 (show_radix radix (n div radix) @ [digit_char (n mod radix)])
       = Inr (n div radix * radix + n mod radix)"
      by (rule parse_digits_snoc)
    with False "1.prems" show ?thesis by (subst show_radix.simps) simp
  qed
qed

lemma digit_char_not_sign: "d < 16 \<Longrightarrow> digit_char d \<noteq> CHR ''+'' \<and> digit_char d \<noteq> CHR ''-''"
  using char_code_inject [of "digit_char d" "CHR ''+''"] char_code_inject [of "digit_char d" "CHR ''-''"]
  by (auto simp: digit_char_def char_code_def split: if_splits)

lemma show_radix_no_sign:
  assumes "2 \<le> radix" "radix \<le> 16"
  shows "hd (show_radix radix n) \<noteq> CHR ''+'' \<and> hd (show_radix radix n) \<noteq> CHR ''-''"
proof -
  have "hd (show_radix radix n) \<in> set (show_radix radix n)" by simp
  then obtain d where "d < radix" "hd (show_radix radix n) = digit_char d"
    using show_radix_digits [OF assms(1), of n] by blast
  with assms digit_char_not_sign [of d] show ?thesis by simp
qed

text \<open>Printing in base 10 or 16 and reading back is the identity.\<close>

lemma from_str_radix_show:
  assumes "2 \<le> radix" "radix \<le> 16"
  shows "from_str_radix radix (show_radix radix (unat (n :: u64))) = Inr n"
proof -
  have "unat n < 2 ^ 64" by (rule unat_u64_less)
  then have "parse_digits radix 0 (show_radix radix (unat n)) = Inr (unat n)"
    by (rule parse_show_radix [OF assms])
  moreover have "show_radix radix (unat n) \<noteq> ''+''" "show_radix radix (unat n) \<noteq> ''-''"
    using show_radix_no_sign [OF assms, of "unat n"] by auto
  ultimately show ?thesis
    using show_radix_no_sign [OF assms, of "unat n"] by (simp add: from_str_radix_def)
qed

lemma parse_digits_bound: "parse_digits radix acc cs = Inr m \<Longrightarrow> acc < 2 ^ 64 \<Longrightarrow> m < 2 ^ 64"
  by (induction cs arbitrary: acc) (auto split: option.splits if_splits)

section \<open>Ordered maps\<close>

text \<open>A \<open>BTreeMap\<close> is its sequence of entries in iteration order: strictly increasing keys.\<close>

type_synonym ('k, 'v) btree = "('k \<times> 'v) list"

definition bt_wf :: "('k :: linorder, 'v) btree \<Rightarrow> bool" where
  "bt_wf m = sorted_wrt (<) (map fst m)"

definition bt_get :: "('k :: linorder, 'v) btree \<Rightarrow> 'k \<Rightarrow> 'v option" where
  "bt_get m k = map_of m k"

fun bt_insert :: "'k :: linorder \<Rightarrow> 'v \<Rightarrow> ('k, 'v) btree \<Rightarrow> ('k, 'v) btree" where
  "bt_insert k v [] = [(k, v)]"
| "bt_insert k v ((k', v') # m) =
     (if k < k' then (k, v) # (k', v') # m
      else if k = k' then (k, v) # m
      else (k', v') # bt_insert k v m)"

definition bt_remove :: "'k :: linorder \<Rightarrow> ('k, 'v) btree \<Rightarrow> ('k, 'v) btree" where
  "bt_remove k m = filter (\<lambda>kv. fst kv \<noteq> k) m"

definition bt_keys :: "('k :: linorder, 'v) btree \<Rightarrow> 'k list" where
  "bt_keys m = map fst m"

definition bt_last :: "('k :: linorder, 'v) btree \<Rightarrow> ('k \<times> 'v) option" where
  "bt_last m = (if m = [] then None else Some (last m))"

text \<open>\<open>*map.entry(k).or_default() += n\<close> on a map of counters.\<close>

definition bt_add :: "'k :: linorder \<Rightarrow> u64 \<Rightarrow> ('k, u64) btree \<Rightarrow> ('k, u64) btree" where
  "bt_add k n m = bt_insert k (unwrap_or (bt_get m k) 0 + n) m"

lemma bt_get_Nil [btree_simps, simp]: "bt_get [] k = None"
  by (simp add: bt_get_def)

lemma bt_get_insert [btree_simps]: "bt_get (bt_insert k v m) k' = (if k' = k then Some v else bt_get m k')"
  by (induction m) (auto simp: bt_get_def)

lemma map_of_filter_neq: "map_of (filter (\<lambda>kv. fst kv \<noteq> k) m) k' = (if k' = k then None else map_of m k')"
  by (induction m) auto

lemma bt_get_remove [btree_simps]: "bt_get (bt_remove k m) k' = (if k' = k then None else bt_get m k')"
  by (simp add: bt_get_def bt_remove_def map_of_filter_neq)

lemma bt_wf_Nil [simp]: "bt_wf []"
  by (simp add: bt_wf_def)

lemma bt_single [simp]: "bt_wf [(k, v)]" "bt_get [(k, v)] k' = (if k' = k then Some v else None)"
  by (simp_all add: bt_wf_def bt_get_def)

lemma set_keys_bt_insert: "fst ` set (bt_insert k v m) = insert k (fst ` set m)"
  by (induction k v m rule: bt_insert.induct) (simp_all add: insert_commute)

lemma bt_wf_insert: "bt_wf m \<Longrightarrow> bt_wf (bt_insert k v m)"
proof (induction m)
  case Nil
  then show ?case by (simp add: bt_wf_def)
next
  case (Cons kv m)
  obtain k' v' where kv: "kv = (k', v')" by (cases kv)
  with Cons.prems have lt: "\<forall>x \<in> fst ` set m. k' < x" and wf: "bt_wf m"
    by (simp_all add: bt_wf_def)
  then show ?case
    using Cons.IH [OF wf] kv by (auto simp: bt_wf_def set_keys_bt_insert simp del: image_iff)
qed

lemma bt_wf_remove: "bt_wf m \<Longrightarrow> bt_wf (bt_remove k m)"
  unfolding bt_wf_def bt_remove_def by (induction m) auto

lemma bt_wf_distinct: "bt_wf m \<Longrightarrow> distinct (map fst m)"
  by (simp add: bt_wf_def strict_sorted_iff)

lemma bt_get_add [btree_simps]:
  "bt_get (bt_add k n m) k' = (if k' = k then Some (unwrap_or (bt_get m k) 0 + n) else bt_get m k')"
  by (simp add: bt_add_def bt_get_insert)

lemma bt_wf_add: "bt_wf m \<Longrightarrow> bt_wf (bt_add k n m)"
  by (simp add: bt_add_def bt_wf_insert)

lemma set_bt_keys: "set (bt_keys m) = {k. bt_get m k \<noteq> None}"
  by (auto simp: bt_keys_def bt_get_def map_of_eq_None_iff)

lemma bt_eqI:
  assumes "bt_wf m" "bt_wf m'" "\<And>k. bt_get m k = bt_get m' k"
  shows "m = m'"
proof -
  have dist: "distinct (map fst m)" "distinct (map fst m')"
    using assms(1,2) by (auto intro: bt_wf_distinct)
  have "set m = set m'"
  proof (rule set_eqI)
    fix kv
    show "kv \<in> set m \<longleftrightarrow> kv \<in> set m'"
      using assms(3) [of "fst kv"] map_of_eq_Some_iff [OF dist(1), of "fst kv" "snd kv"]
        map_of_eq_Some_iff [OF dist(2), of "fst kv" "snd kv"]
      by (simp add: bt_get_def)
  qed
  moreover have "sorted (map fst m)" "sorted (map fst m')"
    using assms(1,2) by (auto simp: bt_wf_def strict_sorted_iff)
  moreover have "inj_on fst (set m)"
    using dist(1) by (simp add: distinct_map)
  ultimately show ?thesis
    using dist by (intro map_sorted_distinct_set_unique) auto
qed

text \<open>
  The interface the components rely on. Its clients update a map entry by entry in a loop; what
  they read afterwards is proved once, from the laws.
\<close>

locale ordered_map =
  fixes empty :: 'm
    and get :: "'m \<Rightarrow> 'k \<Rightarrow> 'v option"
    and insert :: "'k \<Rightarrow> 'v \<Rightarrow> 'm \<Rightarrow> 'm"
    and remove :: "'k \<Rightarrow> 'm \<Rightarrow> 'm"
    and invar :: "'m \<Rightarrow> bool"
  assumes get_empty: "get empty k = None"
    and get_insert: "get (insert k v m) k' = (if k' = k then Some v else get m k')"
    and get_remove: "get (remove k m) k' = (if k' = k then None else get m k')"
    and invar_empty: "invar empty"
    and invar_insert: "invar m \<Longrightarrow> invar (insert k v m)"
    and invar_remove: "invar m \<Longrightarrow> invar (remove k m)"
begin

lemma get_fold_remove: "get (fold remove ks m) k = (if k \<in> set ks then None else get m k)"
  by (induction ks arbitrary: m) (auto simp: get_remove)

lemma invar_fold_remove: "invar m \<Longrightarrow> invar (fold remove ks m)"
  by (induction ks arbitrary: m) (auto simp: invar_remove)

lemma get_fold_insert:
  "get (fold (\<lambda>(k, v). insert k v) kvs m) k =
     (case map_of (rev kvs) k of None \<Rightarrow> get m k | Some v \<Rightarrow> Some v)"
proof (induction kvs arbitrary: m)
  case Nil
  then show ?case by simp
next
  case (Cons kv kvs)
  obtain k' v where kv: "kv = (k', v)" by (cases kv)
  show ?case
    by (simp add: kv Cons.IH get_insert map_of_append map_add_def split: option.splits)
qed

lemma invar_fold_insert: "invar m \<Longrightarrow> invar (fold (\<lambda>(k, v). insert k v) kvs m)"
  by (induction kvs arbitrary: m) (auto simp: invar_insert)

end

interpretation bt: ordered_map "[]" bt_get bt_insert bt_remove bt_wf
  by unfold_locales (auto simp: btree_simps bt_wf_insert bt_wf_remove)

end
