(* ===== verification/Json_Value.thy ===== *)
theory Json_Value
  imports Prelude
begin

text \<open>
  The data the program exchanges: a JSON document as the constructors of \<open>serde_json::Value\<close>,
  which the code matches on, with the accessors the code calls. A number carries the variant its
  integer accessors distinguish; the text of a float is never looked at. What \<open>serde_json\<close>, \<open>serde\<close>
  and \<open>hex\<close> compute beyond that (parsing, printing, error messages, hexadecimal bytes) is not
  defined here: it is the record \<open>lib\<close> every definition that needs it takes as an argument.
\<close>

datatype number = PosInt u64 | NegInt i64 | Float string

datatype json =
    JNull
  | JBool bool
  | JNumber number
  | JString string
  | JArray "json list"
  | JObject "(string \<times> json) list"

fun num_as_u64 :: "number \<Rightarrow> u64 option" where
  "num_as_u64 (PosInt n) = Some n"
| "num_as_u64 (NegInt _) = None"
| "num_as_u64 (Float _) = None"

fun num_as_i64 :: "number \<Rightarrow> i64 option" where
  "num_as_i64 (PosInt n) = (if unat n < 2 ^ 63 then Some (int (unat n)) else None)"
| "num_as_i64 (NegInt i) = Some i"
| "num_as_i64 (Float _) = None"

fun json_get :: "json \<Rightarrow> string \<Rightarrow> json option" where
  "json_get (JObject kvs) k = bt_get kvs k"
| "json_get _ k = None"

fun json_as_str :: "json \<Rightarrow> string option" where
  "json_as_str (JString s) = Some s"
| "json_as_str _ = None"

fun json_as_bool :: "json \<Rightarrow> bool option" where
  "json_as_bool (JBool b) = Some b"
| "json_as_bool _ = None"

fun json_as_i64 :: "json \<Rightarrow> i64 option" where
  "json_as_i64 (JNumber n) = num_as_i64 n"
| "json_as_i64 _ = None"

fun json_as_object :: "json \<Rightarrow> (string, json) btree option" where
  "json_as_object (JObject kvs) = Some kvs"
| "json_as_object _ = None"

text \<open>\<open>Value::pointer\<close> at a path of field names.\<close>

fun json_pointer :: "json \<Rightarrow> string list \<Rightarrow> json option" where
  "json_pointer v [] = Some v"
| "json_pointer v (k # ks) = (case json_get v k of None \<Rightarrow> None | Some w \<Rightarrow> json_pointer w ks)"

text \<open>The object literal of \<open>json!\<close>: entries inserted in order.\<close>

definition json_object :: "(string \<times> json) list \<Rightarrow> json" where
  "json_object kvs = JObject (fold (\<lambda>(k, v). bt_insert k v) kvs [])"

text \<open>What a failed deserialisation reports, before it is rendered as text.\<close>

datatype de_error =
    DeMissingField string
  | DeDuplicateField string
  | DeInvalidType json string
  | DeInvalidValue json string
  | DeInvalidLength nat string
  | DeCustom string

record lib =
  hex_decode :: "string \<Rightarrow> nat \<Rightarrow> u8 list option"
  hex_encode :: "u8 list \<Rightarrow> string"
  json_text :: "json \<Rightarrow> string"
  json_parse :: "string \<Rightarrow> string + json"
  de_text :: "de_error \<Rightarrow> string"
  debug_text :: "string \<Rightarrow> string"

lemma json_get_object [simp]:
  "json_get (json_object kvs) k = map_of (rev kvs) k"
  by (simp add: json_object_def bt.get_fold_insert split: option.splits)

lemma json_object_wf: "\<exists>m. json_object kvs = JObject m \<and> bt_wf m"
  by (auto simp: json_object_def intro: bt.invar_fold_insert)

end
