(* ===== verification/Core_Types.thy ===== *)
theory Core_Types
  imports Json_Value
begin

text \<open>
  \<open>src/types.rs\<close>: 32-byte hashes, block references, the payload envelope with its two accessors,
  and the quantity parser, together with the derived deserialisers of the structures the node
  returns. Shows that hashes and quantities survive printing and parsing.
\<close>

section \<open>Errors and hashes\<close>

datatype type_error =
    InvalidHash string
  | MissingField string
  | InvalidBlockNumber string
  | MissingExecutionPayload

fun show_type_error :: "type_error \<Rightarrow> string" where
  "show_type_error (InvalidHash s) = ''expected 0x-prefixed 32-byte hash, got '' @ s"
| "show_type_error (MissingField f) = ''missing field '' @ f"
| "show_type_error (InvalidBlockNumber s) = ''invalid block number '' @ s"
| "show_type_error MissingExecutionPayload = ''payload is missing executionPayload''"

datatype hash = Hash (as_bytes: "u8 list")

definition hash_wf :: "hash \<Rightarrow> bool" where
  "hash_wf h = (length (as_bytes h) = 32)"

definition hash_zero :: hash where
  "hash_zero = Hash (replicate 32 0)"

instantiation hash :: linorder
begin

definition less_eq_hash :: "hash \<Rightarrow> hash \<Rightarrow> bool" where
  "less_eq_hash a b = (as_bytes a \<le> as_bytes b)"

definition less_hash :: "hash \<Rightarrow> hash \<Rightarrow> bool" where
  "less_hash a b = (as_bytes a < as_bytes b)"

instance
  by standard (auto simp: less_eq_hash_def less_hash_def hash.expand)

end

definition hash_from_str :: "lib \<Rightarrow> string \<Rightarrow> type_error + hash" where
  "hash_from_str L value =
     and_then (ok_or (strip_prefix value ''0x'') (InvalidHash value)) (\<lambda>stripped.
       if length stripped \<noteq> 64 then Inl (InvalidHash value)
       else and_then (ok_or (hex_decode L stripped 32) (InvalidHash value)) (\<lambda>bytes. Inr (Hash bytes)))"

definition show_hash :: "lib \<Rightarrow> hash \<Rightarrow> string" where
  "show_hash L h = ''0x'' @ hex_encode L (as_bytes h)"

definition serialize_hash :: "lib \<Rightarrow> hash \<Rightarrow> json" where
  "serialize_hash L h = JString (show_hash L h)"

definition deserialize_hash :: "lib \<Rightarrow> json \<Rightarrow> de_error + hash" where
  "deserialize_hash L v =
     (case json_as_str v of
        None \<Rightarrow> Inl (DeInvalidType v ''a string'')
      | Some raw \<Rightarrow> map_err (\<lambda>e. DeCustom (show_type_error e)) (hash_from_str L raw))"

section \<open>Quantities\<close>

definition parse_quantity :: "lib \<Rightarrow> json \<Rightarrow> type_error + u64" where
  "parse_quantity L value =
     (case value of
        JNumber n \<Rightarrow> ok_or (num_as_u64 n) (InvalidBlockNumber (json_text L value))
      | JString s \<Rightarrow>
          (case strip_prefix s ''0x'' of
             Some hex \<Rightarrow> map_err (\<lambda>_. InvalidBlockNumber s) (from_str_radix 16 hex)
           | None \<Rightarrow> map_err (\<lambda>_. InvalidBlockNumber s) (parse_u64 s))
      | _ \<Rightarrow> Inl (InvalidBlockNumber (json_text L value)))"

definition deserialize_quantity :: "lib \<Rightarrow> json \<Rightarrow> de_error + u64" where
  "deserialize_quantity L v = map_err (\<lambda>e. DeCustom (show_type_error e)) (parse_quantity L v)"

section \<open>Structures the node returns\<close>

text \<open>
  A derived deserialiser reads an object entry by entry: an entry whose key is a field name or an
  alias is decoded on the spot, a second entry of the same field is an error, other keys are
  skipped; a sequence is read by position. The result is the value of each field that was present.
\<close>

fun visit_map ::
  "(string \<times> string list) list \<Rightarrow> (string \<Rightarrow> json \<Rightarrow> de_error + unit) \<Rightarrow> (string \<times> json) list \<Rightarrow>
   (string \<times> json) list \<Rightarrow> de_error + (string \<times> json) list" where
  "visit_map flds check [] acc = Inr acc"
| "visit_map flds check ((k, v) # kvs) acc =
     (case find (\<lambda>(name, aliases). k = name \<or> k \<in> set aliases) flds of
        None \<Rightarrow> visit_map flds check kvs acc
      | Some (name, _) \<Rightarrow>
          if map_of acc name \<noteq> None then Inl (DeDuplicateField name)
          else and_then (check name v) (\<lambda>_. visit_map flds check kvs ((name, v) # acc)))"

fun visit_seq ::
  "(string \<times> string list) list \<Rightarrow> (string \<Rightarrow> json \<Rightarrow> de_error + unit) \<Rightarrow> json list \<Rightarrow>
   de_error + (string \<times> json) list" where
  "visit_seq [] check [] = Inr []"
| "visit_seq [] check (v # vs) = Inl (DeInvalidLength (length (v # vs)) ''fewer elements in array'')"
| "visit_seq flds check [] = Inr []"
| "visit_seq ((name, _) # flds) check (v # vs) =
     and_then (check name v) (\<lambda>_. and_then (visit_seq flds check vs) (\<lambda>fs. Inr ((name, v) # fs)))"

definition struct_fields ::
  "string \<Rightarrow> (string \<times> string list) list \<Rightarrow> (string \<Rightarrow> json \<Rightarrow> de_error + unit) \<Rightarrow> json \<Rightarrow>
   de_error + (string \<times> json) list" where
  "struct_fields name flds check v =
     (case v of
        JObject kvs \<Rightarrow> visit_map flds check kvs []
      | JArray vs \<Rightarrow> visit_seq flds check vs
      | _ \<Rightarrow> Inl (DeInvalidType v name))"

definition struct_field :: "(string \<times> json) list \<Rightarrow> string \<Rightarrow> (json \<Rightarrow> de_error + 'a) \<Rightarrow> de_error + 'a" where
  "struct_field fs name dec = and_then (ok_or (map_of fs name) (DeMissingField name)) dec"

record block_info =
  bi_hash :: hash
  bi_number :: u64

record l2_block_ref =
  br_hash :: "hash option"
  br_number :: u64
  br_time :: u64

record sync_status =
  unsafe_l2 :: l2_block_ref
  safe_l2 :: l2_block_ref

record peer_stats =
  connected :: u64

definition deserialize_opt_hash :: "lib \<Rightarrow> json \<Rightarrow> de_error + hash option" where
  "deserialize_opt_hash L v = (if v = JNull then Inr None else map_ok Some (deserialize_hash L v))"

definition deserialize_l2_block_ref :: "lib \<Rightarrow> json \<Rightarrow> de_error + l2_block_ref" where
  "deserialize_l2_block_ref L v =
     and_then
       (struct_fields ''struct L2BlockRef'' [(''hash'', []), (''number'', []), (''timestamp'', [''time''])]
         (\<lambda>name w. if name = ''hash'' then map_ok (\<lambda>_. ()) (deserialize_opt_hash L w)
                   else map_ok (\<lambda>_. ()) (deserialize_quantity L w)) v)
       (\<lambda>fs.
         and_then (case map_of fs ''hash'' of None \<Rightarrow> Inr None | Some w \<Rightarrow> deserialize_opt_hash L w) (\<lambda>h.
         and_then (struct_field fs ''number'' (deserialize_quantity L)) (\<lambda>n.
         and_then (struct_field fs ''timestamp'' (deserialize_quantity L)) (\<lambda>t.
           Inr \<lparr>br_hash = h, br_number = n, br_time = t\<rparr>))))"

definition deserialize_sync_status :: "lib \<Rightarrow> json \<Rightarrow> de_error + sync_status" where
  "deserialize_sync_status L v =
     and_then
       (struct_fields ''struct SyncStatus'' [(''unsafe_l2'', [''unsafeL2'']), (''safe_l2'', [''safeL2''])]
         (\<lambda>_ w. map_ok (\<lambda>_. ()) (deserialize_l2_block_ref L w)) v)
       (\<lambda>fs.
         and_then (struct_field fs ''unsafe_l2'' (deserialize_l2_block_ref L)) (\<lambda>u.
         and_then (struct_field fs ''safe_l2'' (deserialize_l2_block_ref L)) (\<lambda>s.
           Inr \<lparr>unsafe_l2 = u, safe_l2 = s\<rparr>)))"

definition deserialize_peer_stats :: "lib \<Rightarrow> json \<Rightarrow> de_error + peer_stats" where
  "deserialize_peer_stats L v =
     and_then
       (struct_fields ''struct PeerStats'' [(''connected'', [''Connected''])]
         (\<lambda>_ w. map_ok (\<lambda>_. ()) (deserialize_quantity L w)) v)
       (\<lambda>fs. and_then (struct_field fs ''connected'' (deserialize_quantity L)) (\<lambda>n. Inr \<lparr>connected = n\<rparr>))"

section \<open>The payload envelope\<close>

datatype payload_envelope = PayloadEnvelope (raw: json)

definition execution_payload :: "payload_envelope \<Rightarrow> type_error + json" where
  "execution_payload p =
     ok_or (opt_or (json_get (raw p) ''executionPayload'') (json_get (raw p) ''execution_payload''))
       MissingExecutionPayload"

definition block_hash :: "lib \<Rightarrow> payload_envelope \<Rightarrow> type_error + hash" where
  "block_hash L p =
     and_then (execution_payload p) (\<lambda>payload.
     and_then
       (ok_or
         (Option.bind (opt_or (json_get payload ''blockHash'') (json_get payload ''block_hash'')) json_as_str)
         (MissingField ''executionPayload.blockHash''))
       (\<lambda>s. hash_from_str L s))"

definition block_number :: "lib \<Rightarrow> payload_envelope \<Rightarrow> type_error + u64" where
  "block_number L p =
     and_then (execution_payload p) (\<lambda>payload.
     and_then
       (ok_or (opt_or (json_get payload ''blockNumber'') (json_get payload ''block_number''))
         (MissingField ''executionPayload.blockNumber''))
       (\<lambda>value. parse_quantity L value))"

section \<open>Lemmas\<close>

text \<open>What the code relies on in the \<open>hex\<close> crate.\<close>

definition hex_laws :: "lib \<Rightarrow> bool" where
  "hex_laws L =
     ((\<forall>bs. length (hex_encode L bs) = 2 * length bs)
      \<and> (\<forall>bs. hex_decode L (hex_encode L bs) (length bs) = Some bs)
      \<and> (\<forall>s n bs. hex_decode L s n = Some bs \<longrightarrow> length bs = n))"

lemma hash_from_str_ok_iff:
  "hash_from_str L s = Inr h \<longleftrightarrow>
     (\<exists>hex. s = ''0x'' @ hex \<and> length hex = 64 \<and> hex_decode L hex 32 = Some (as_bytes h))"
  by (auto simp: hash_from_str_def result_simps strip_prefix_Some_iff hash.expand)

lemma hash_from_str_wf: "hex_laws L \<Longrightarrow> hash_from_str L s = Inr h \<Longrightarrow> hash_wf h"
  by (auto simp: hash_from_str_ok_iff hex_laws_def hash_wf_def)

lemma hash_from_str_show: "hex_laws L \<Longrightarrow> hash_wf h \<Longrightarrow> hash_from_str L (show_hash L h) = Inr h"
  by (simp add: hash_from_str_ok_iff show_hash_def hex_laws_def hash_wf_def) metis

lemma block_hash_wf: "hex_laws L \<Longrightarrow> block_hash L p = Inr h \<Longrightarrow> hash_wf h"
  by (auto simp: block_hash_def result_simps intro: hash_from_str_wf)

lemma show_u64_no_prefix: "strip_prefix (show_u64 n) ''0x'' = None"
proof (rule ccontr)
  assume "strip_prefix (show_u64 n) ''0x'' \<noteq> None"
  then obtain r where "show_u64 n = ''0x'' @ r"
    by (auto simp: strip_prefix_Some_iff)
  then have "CHR ''x'' \<in> set (show_radix 10 (unat n))"
    by (simp add: show_u64_def show_nat_def)
  then obtain d where "d < 10" "CHR ''x'' = digit_char d"
    using show_radix_digits [of 10 "unat n"] by auto
  then have "is_ascii_digit CHR ''x''"
    using digit_char_digit by metis
  then show False by (simp add: is_ascii_digit_def char_code_def)
qed

text \<open>A JSON number, its decimal and its hexadecimal text all decode to the number.\<close>

lemma parse_quantity_number: "parse_quantity L (JNumber (PosInt n)) = Inr n"
  by (simp add: parse_quantity_def)

lemma parse_quantity_hex: "parse_quantity L (JString (show_hex n)) = Inr n"
proof -
  have "strip_prefix (show_hex n) ''0x'' = Some (show_radix 16 (unat n))"
    unfolding show_hex_def by (rule strip_prefix_append)
  then show ?thesis
    by (simp add: parse_quantity_def from_str_radix_show)
qed

lemma parse_quantity_decimal: "parse_quantity L (JString (show_u64 n)) = Inr n"
  using show_u64_no_prefix [of n]
  by (simp add: parse_quantity_def parse_u64_def from_str_radix_show show_u64_def show_nat_def)

lemmas parse_quantity_forms = parse_quantity_number parse_quantity_hex parse_quantity_decimal

end
