(* ===== verification/Sample_Lib.thy ===== *)
theory Sample_Lib
  imports Core_Types
begin

text \<open>
  One concrete instance of the external functions, on which the theorems with hypotheses about
  them are exercised: lower-case hexadecimal, and texts that are constant. No model of the program
  mentions it.
\<close>

definition hex_byte :: "u8 \<Rightarrow> string" where
  "hex_byte b = [digit_char (unat b div 16), digit_char (unat b mod 16)]"

fun unhex :: "string \<Rightarrow> u8 list option" where
  "unhex [] = Some []"
| "unhex [c] = None"
| "unhex (c # d # s) =
     (case (to_digit 16 c, to_digit 16 d, unhex s) of
        (Some a, Some b, Some bs) \<Rightarrow> Some (of_nat (a * 16 + b) # bs)
      | _ \<Rightarrow> None)"

definition sample_lib :: lib where
  "sample_lib =
     \<lparr>hex_decode = (\<lambda>s n. case unhex s of None \<Rightarrow> None | Some bs \<Rightarrow> if length bs = n then Some bs else None),
      hex_encode = (\<lambda>bs. concat (map hex_byte bs)),
      json_text = (\<lambda>_. ''<json>''),
      json_parse = (\<lambda>_. Inl ''<parse error>''),
      de_text = (\<lambda>_. ''<decode error>''),
      debug_text = (\<lambda>s. s)\<rparr>"

lemma unhex_hex_bytes: "unhex (concat (map hex_byte bs)) = Some bs"
proof (induction bs)
  case Nil
  then show ?case by simp
next
  case (Cons b bs)
  have lt: "unat b < 256" using unsigned_less [of b] by simp
  then have "unat b div 16 < 16" by (simp add: less_mult_imp_div_less)
  moreover have "of_nat (unat b div 16 * 16 + unat b mod 16) = b"
    by (simp only: div_mult_mod_eq) simp
  ultimately show ?case
    using Cons.IH by (simp add: hex_byte_def)
qed

lemma sample_hex_laws: "hex_laws sample_lib"
proof -
  have "length (concat (map hex_byte bs)) = 2 * length bs" for bs
    by (induction bs) (simp_all add: hex_byte_def)
  then show ?thesis
    by (auto simp: hex_laws_def sample_lib_def unhex_hex_bytes split: option.splits if_splits)
qed

text \<open>The payload of block \<open>n\<close> whose hash repeats the byte \<open>b\<close>, as the tests build it.\<close>

definition sample_hash :: "u8 \<Rightarrow> hash" where
  "sample_hash b = Hash (replicate 32 b)"

definition sample_payload :: "u64 \<Rightarrow> u8 \<Rightarrow> payload_envelope" where
  "sample_payload n b =
     PayloadEnvelope (JObject [(''executionPayload'',
       JObject [(''blockHash'', JString (show_hash sample_lib (sample_hash b))),
                (''blockNumber'', JString (show_hex n))])])"

lemma sample_hash_wf: "hash_wf (sample_hash b)"
  by (simp add: hash_wf_def sample_hash_def)

lemma sample_payload_number: "block_number sample_lib (sample_payload n b) = Inr n"
  by (simp add: block_number_def execution_payload_def sample_payload_def bt_get_def parse_quantity_hex)

lemma sample_payload_hash: "block_hash sample_lib (sample_payload n b) = Inr (sample_hash b)"
  by (simp add: block_hash_def execution_payload_def sample_payload_def bt_get_def
      hash_from_str_show [OF sample_hex_laws sample_hash_wf])

lemma sample_hash_eq_iff: "sample_hash a = sample_hash b \<longleftrightarrow> a = b"
  by (simp add: sample_hash_def replicate_eq_replicate)

lemmas sample_payload_simps = sample_payload_number sample_payload_hash sample_hash_eq_iff

end
