(* ===== verification/File_System.thy ===== *)
theory File_System
  imports Prelude
begin

text \<open>
  The file operations of the standard library the two stores use. A file has its contents and
  whether they have reached the disk; every operation may fail, which the script \<open>faults\<close> decides:
  one entry per operation, \<open>None\<close> to let it through and \<open>Some (e, n)\<close> to make it fail with \<open>e\<close>, a
  write having then stored only its first \<open>n\<close> bytes. A statement for every script therefore covers
  every point at which the process may be interrupted. A path is the list of its components.
\<close>

type_synonym path = "string list"

datatype io_kind = NotFound | InvalidData | OtherKind string

record io_error =
  io_kind :: io_kind
  io_msg :: string

record disk_file =
  content :: string
  synced :: bool

record fsys =
  files :: "path \<Rightarrow> disk_file option"
  faults :: "(io_error \<times> nat) option list"

definition not_found :: io_error where
  "not_found = \<lparr>io_kind = NotFound, io_msg = ''No such file or directory (os error 2)''\<rparr>"

fun next_fault :: "fsys \<Rightarrow> (io_error \<times> nat) option \<times> fsys" where
  "next_fault fs = (case faults fs of [] \<Rightarrow> (None, fs) | f # rest \<Rightarrow> (f, fs\<lparr>faults := rest\<rparr>))"

text \<open>An operation without effect on the contents, such as opening a file or creating a directory.\<close>

definition fs_touch :: "(fsys, io_error, unit) call" where
  "fs_touch fs = (case next_fault fs of (Some (e, _), fs') \<Rightarrow> (Inl e, fs') | (None, fs') \<Rightarrow> (Inr (), fs'))"

definition fs_read :: "path \<Rightarrow> (fsys, io_error, string) call" where
  "fs_read p fs =
     (case next_fault fs of
        (Some (e, _), fs') \<Rightarrow> (Inl e, fs')
      | (None, fs') \<Rightarrow> (case files fs' p of None \<Rightarrow> (Inl not_found, fs') | Some f \<Rightarrow> (Inr (content f), fs')))"

text \<open>Writing \<open>data\<close> as the new contents; \<open>File::create\<close> and \<open>set_len(0)\<close> write nothing.\<close>

definition fs_write :: "path \<Rightarrow> string \<Rightarrow> (fsys, io_error, unit) call" where
  "fs_write p data fs =
     (case next_fault fs of
        (Some (e, n), fs') \<Rightarrow>
          (Inl e, fs'\<lparr>files := (files fs')(p \<mapsto> \<lparr>content = take n data, synced = False\<rparr>)\<rparr>)
      | (None, fs') \<Rightarrow>
          (Inr (), fs'\<lparr>files := (files fs')(p \<mapsto> \<lparr>content = data, synced = False\<rparr>)\<rparr>))"

definition fs_sync :: "path \<Rightarrow> (fsys, io_error, unit) call" where
  "fs_sync p fs =
     (case next_fault fs of
        (Some (e, _), fs') \<Rightarrow> (Inl e, fs')
      | (None, fs') \<Rightarrow>
          (case files fs' p of
             None \<Rightarrow> (Inl not_found, fs')
           | Some f \<Rightarrow> (Inr (), fs'\<lparr>files := (files fs')(p \<mapsto> f\<lparr>synced := True\<rparr>)\<rparr>)))"

definition fs_rename :: "path \<Rightarrow> path \<Rightarrow> (fsys, io_error, unit) call" where
  "fs_rename src dst fs =
     (case next_fault fs of
        (Some (e, _), fs') \<Rightarrow> (Inl e, fs')
      | (None, fs') \<Rightarrow>
          (case files fs' src of
             None \<Rightarrow> (Inl not_found, fs')
           | Some f \<Rightarrow> (Inr (), fs'\<lparr>files := (files fs')(src := None, dst \<mapsto> f)\<rparr>)))"

section \<open>Paths\<close>

definition path_parent :: "path \<Rightarrow> path option" where
  "path_parent p = (if p = [] then None else Some (butlast p))"

definition file_stem :: "string \<Rightarrow> string" where
  "file_stem name =
     (let before = drop 1 (dropWhile (\<lambda>c. c \<noteq> CHR ''.'') (rev name))
      in if before = [] then name else rev before)"

definition with_extension :: "path \<Rightarrow> string \<Rightarrow> path" where
  "with_extension p ext =
     (if p = [] \<or> last p = ''..'' then p
      else butlast p @ [file_stem (last p) @ (if ext = [] then [] else CHR ''.'' # ext)])"

section \<open>Replacing a file\<close>

text \<open>
  Both stores replace a file in the same way: the new contents are written to a temporary file and
  synced, then renamed over the old file; the directory is synced at the end, whatever comes of it.
\<close>

definition sync_dir :: "path \<Rightarrow> fsys \<Rightarrow> fsys" where
  "sync_dir p fs =
     (case path_parent p of
        None \<Rightarrow> fs
      | Some _ \<Rightarrow> (case fs_touch fs of (Inl _, fs') \<Rightarrow> fs' | (Inr _, fs') \<Rightarrow> snd (fs_touch fs')))"

definition replace_file :: "path \<Rightarrow> path \<Rightarrow> string \<Rightarrow> (fsys, io_error, unit) call" where
  "replace_file tmp p data =
     try_call (fs_write tmp []) (\<lambda>_.
     try_call (fs_write tmp []) (\<lambda>_.
     try_call (fs_write tmp data) (\<lambda>_.
     try_call fs_touch (\<lambda>_.
     try_call (fs_sync tmp) (\<lambda>_.
     try_call (fs_rename tmp p) (\<lambda>_ fs. (Inr (), sync_dir p fs)))))))"

definition create_parent :: "path \<Rightarrow> (fsys, io_error, unit) call" where
  "create_parent p = (case path_parent p of None \<Rightarrow> (\<lambda>fs. (Inr (), fs)) | Some _ \<Rightarrow> fs_touch)"

section \<open>Lemmas\<close>

lemma files_next_fault [simp]: "files (snd (next_fault fs)) = files fs"
  by (simp split: list.split)

lemma files_fs_touch: "files (snd (fs_touch fs)) = files fs"
  by (simp add: fs_touch_def split: list.split option.split prod.split)

lemma files_create_parent: "files (snd (create_parent p fs)) = files fs"
  by (simp add: create_parent_def files_fs_touch split: option.split)

lemma files_sync_dir [simp]: "files (sync_dir p fs) = files fs"
proof -
  obtain r fs' where t: "fs_touch fs = (r, fs')" by (cases "fs_touch fs")
  then have "files fs' = files fs" using files_fs_touch [of fs] by simp
  with t show ?thesis
    by (cases r) (simp_all add: sync_dir_def files_fs_touch split: option.split)
qed

text \<open>A call \<open>keeps\<close> a predicate on the files when it holds afterwards, whatever the faults.\<close>

definition keeps :: "((path \<Rightarrow> disk_file option) \<Rightarrow> bool) \<Rightarrow> (fsys, 'e, 'a) call \<Rightarrow> bool" where
  "keeps P m = (\<forall>fs. P (files fs) \<longrightarrow> P (files (snd (m fs))))"

lemma keepsD: "keeps P m \<Longrightarrow> P (files fs) \<Longrightarrow> m fs = (r, fs') \<Longrightarrow> P (files fs')"
  unfolding keeps_def by (metis snd_conv)

lemma keepsI: "(\<And>fs r fs'. P (files fs) \<Longrightarrow> m fs = (r, fs') \<Longrightarrow> P (files fs')) \<Longrightarrow> keeps P m"
  unfolding keeps_def by (metis prod.collapse)

lemma keeps_try_call:
  assumes m: "keeps P m" and f: "\<And>a. keeps P (f a)"
  shows "keeps P (try_call m f)"
proof (rule keepsI)
  fix fs r fs'
  assume before: "P (files fs)" and run: "try_call m f fs = (r, fs')"
  obtain r1 fs1 where ms: "m fs = (r1, fs1)" by (cases "m fs")
  have after: "P (files fs1)" using m before ms by (rule keepsD)
  show "P (files fs')"
  proof (cases r1)
    case (Inl e)
    with ms run after show ?thesis by simp
  next
    case (Inr a)
    with ms run have "f a fs1 = (r, fs')" by simp
    with f after show ?thesis by (rule keepsD)
  qed
qed

lemma keeps_fs_touch: "keeps P fs_touch"
  by (simp add: keeps_def files_fs_touch)

text \<open>What every step before the rename leaves: all files but the temporary one.\<close>

definition same_but :: "path \<Rightarrow> (path \<Rightarrow> disk_file option) \<Rightarrow> (path \<Rightarrow> disk_file option) \<Rightarrow> bool" where
  "same_but tmp old now = (\<forall>q. q \<noteq> tmp \<longrightarrow> now q = old q)"

lemma same_but_refl: "same_but tmp old old"
  by (simp add: same_but_def)

lemma keeps_fs_write: "keeps (same_but tmp old) (fs_write tmp data)"
  by (auto simp: keeps_def same_but_def fs_write_def split: list.split option.split)

lemma keeps_fs_sync: "keeps (same_but tmp old) (fs_sync tmp)"
  by (auto simp: keeps_def same_but_def fs_sync_def split: list.split option.split)

text \<open>The state of the temporary file when the rename starts, if the steps before succeeded.\<close>

lemma fs_write_ok: "fs_write p data fs = (Inr u, fs') \<Longrightarrow> files fs' p = Some \<lparr>content = data, synced = False\<rparr>"
  by (auto simp: fs_write_def split: list.splits option.splits)

lemma fs_sync_ok:
  "fs_sync p fs = (Inr u, fs') \<Longrightarrow> \<exists>f. files fs p = Some f \<and> files fs' p = Some (f\<lparr>synced := True\<rparr>)"
  by (auto simp: fs_sync_def split: list.splits option.splits)

lemma fs_rename_ok:
  "fs_rename src dst fs = (Inr u, fs') \<Longrightarrow>
     \<exists>f. files fs src = Some f \<and> files fs' = (files fs)(src := None, dst \<mapsto> f)"
  by (auto simp: fs_rename_def split: list.splits option.splits)

lemma fs_rename_err: "fs_rename src dst fs = (Inl e, fs') \<Longrightarrow> files fs' = files fs"
  by (auto simp: fs_rename_def split: list.splits option.splits)

text \<open>The steps up to and including the sync of the temporary file.\<close>

definition prepare_file :: "path \<Rightarrow> string \<Rightarrow> (fsys, io_error, unit) call" where
  "prepare_file tmp data =
     try_call (fs_write tmp []) (\<lambda>_.
     try_call (fs_write tmp []) (\<lambda>_.
     try_call (fs_write tmp data) (\<lambda>_.
     try_call fs_touch (\<lambda>_. fs_sync tmp))))"

lemma try_call_assoc: "try_call (try_call m f) g = try_call m (\<lambda>a. try_call (f a) g)"
  by (auto simp: try_call_def fun_eq_iff split: prod.split sum.split)

lemma replace_file_prepare:
  "replace_file tmp p data =
     try_call (prepare_file tmp data) (\<lambda>_. try_call (fs_rename tmp p) (\<lambda>_ fs. (Inr (), sync_dir p fs)))"
  by (simp add: replace_file_def prepare_file_def try_call_assoc)

lemma keeps_prepare: "keeps (same_but tmp old) (prepare_file tmp data)"
  unfolding prepare_file_def
  by (intro keeps_try_call keeps_fs_write keeps_fs_touch keeps_fs_sync)

lemma try_call_okE:
  assumes "try_call m f s = (Inr b, s'')"
  obtains a s' where "m s = (Inr a, s')" "f a s' = (Inr b, s'')"
  using assms by (auto simp: try_call_def split: prod.splits sum.splits)

lemma prepare_file_ok:
  assumes "prepare_file tmp data fs = (Inr u, fs')"
  shows "files fs' tmp = Some \<lparr>content = data, synced = True\<rparr>"
proof -
  obtain fs3 fs4 fs5 u3 u4 where w: "fs_write tmp data fs3 = (Inr u3, fs4)"
    and t: "fs_touch fs4 = (Inr u4, fs5)" and s: "fs_sync tmp fs5 = (Inr u, fs')"
    using assms unfolding prepare_file_def by (elim try_call_okE) auto
  have "files fs5 tmp = Some \<lparr>content = data, synced = False\<rparr>"
    using fs_write_ok [OF w] files_fs_touch [of fs4] t by simp
  with fs_sync_ok [OF s] show ?thesis by auto
qed

text \<open>
  Replacing a file is atomic under every fault script: it either fails and leaves every file but
  the temporary one as it was, or succeeds and the file has exactly the new contents, synced.
\<close>

lemma replace_file_cases:
  assumes "replace_file tmp p data fs = (r, fs')" "tmp \<noteq> p"
  shows "(\<exists>e. r = Inl e \<and> same_but tmp (files fs) (files fs'))
    \<or> (r = Inr () \<and> files fs' p = Some \<lparr>content = data, synced = True\<rparr> \<and> files fs' tmp = None
       \<and> (\<forall>q. q \<noteq> tmp \<longrightarrow> q \<noteq> p \<longrightarrow> files fs' q = files fs q))"
proof -
  obtain r1 fs1 where prep: "prepare_file tmp data fs = (r1, fs1)" by fastforce
  have same: "same_but tmp (files fs) (files fs1)"
    using keeps_prepare [of tmp "files fs" data, unfolded keeps_def, rule_format, of fs] same_but_refl prep
    by simp
  show ?thesis
  proof (cases r1)
    case (Inl e)
    with assms(1) prep same show ?thesis
      by (auto simp: replace_file_prepare)
  next
    case (Inr u)
    have tmp: "files fs1 tmp = Some \<lparr>content = data, synced = True\<rparr>"
      using prepare_file_ok prep Inr by blast
    have run: "try_call (fs_rename tmp p) (\<lambda>_ fs. (Inr (), sync_dir p fs)) fs1 = (r, fs')"
      using assms(1) prep Inr by (simp add: replace_file_prepare)
    obtain r2 fs2 where ren: "fs_rename tmp p fs1 = (r2, fs2)" by fastforce
    show ?thesis
    proof (cases r2)
      case (Inl e)
      then have "r = Inl e" "fs' = fs2" using run ren by simp_all
      moreover have "files fs2 = files fs1" using fs_rename_err ren Inl by blast
      ultimately show ?thesis using same by simp
    next
      case (Inr u2)
      then have r: "r = Inr ()" "files fs' = files fs2" using run ren by auto
      have "files fs2 = (files fs1)(tmp := None, p \<mapsto> \<lparr>content = data, synced = True\<rparr>)"
        using fs_rename_ok ren Inr tmp by fastforce
      with r assms(2) same show ?thesis
        by (simp add: same_but_def)
    qed
  qed
qed

text \<open>Without faults it succeeds.\<close>

lemma no_faults:
  assumes "faults fs = []"
  shows "fs_touch fs = (Inr (), fs)"
    and "fs_write q data fs = (Inr (), fs\<lparr>files := (files fs)(q \<mapsto> \<lparr>content = data, synced = False\<rparr>)\<rparr>)"
    and "files fs q = Some f \<Longrightarrow>
      fs_sync q fs = (Inr (), fs\<lparr>files := (files fs)(q \<mapsto> f\<lparr>synced := True\<rparr>)\<rparr>)"
    and "files fs q = Some f \<Longrightarrow>
      fs_rename q q' fs = (Inr (), fs\<lparr>files := (files fs)(q := None, q' \<mapsto> f)\<rparr>)"
    and "sync_dir q fs = fs"
  using assms
  by (simp_all add: fs_touch_def fs_write_def fs_sync_def fs_rename_def sync_dir_def split: option.split)

lemma replace_file_no_faults:
  assumes "faults fs = []"
  shows "\<exists>fs'. replace_file tmp p data fs = (Inr (), fs') \<and> faults fs' = []"
  using assms by (simp add: replace_file_def no_faults)

lemma create_parent_no_faults: "faults fs = [] \<Longrightarrow> create_parent p fs = (Inr (), fs)"
  by (simp add: create_parent_def fs_touch_def split: option.split)

end
