(* ===== verification/Payload_Store.thy ===== *)
theory Payload_Store
  imports Sample_Lib File_System
begin

text \<open>
  \<open>src/store.rs\<close>: the store of the latest unsafe payload, kept in memory and in one JSON file. Its
  operations run on the pair of the store and the file system. Shows that a commit is atomic under
  every fault, that reopening the store gives back what was committed, and, through the interface
  \<open>head_store\<close> shared with the replicated state machine, that the head only moves forward.
\<close>

datatype store_error = StorePayload type_error | StoreIo io_error | StoreSerde string

fun show_store_error :: "store_error \<Rightarrow> string" where
  "show_store_error (StorePayload e) = ''payload error: '' @ show_type_error e"
| "show_store_error (StoreIo e) = ''io error: '' @ io_msg e"
| "show_store_error (StoreSerde e) = ''serialization error: '' @ e"

record persisted_payload =
  pp_version :: u8
  pp_payload :: payload_envelope

text \<open>\<open>serde_json::to_vec_pretty\<close> and \<open>serde_json::from_slice\<close> at this type.\<close>

record payload_codec =
  encode_payload :: "persisted_payload \<Rightarrow> string + string"
  decode_payload :: "string \<Rightarrow> string + persisted_payload"

record file_payload_store =
  fps_path :: path
  fps_latest :: "payload_envelope option"

section \<open>Operations\<close>

definition store_open :: "payload_codec \<Rightarrow> path \<Rightarrow> (fsys, store_error, file_payload_store) call" where
  "store_open K p fs =
     (case fs_read p fs of
        (Inr bytes, fs') \<Rightarrow>
          (map_ok (\<lambda>persisted. \<lparr>fps_path = p, fps_latest = Some (pp_payload persisted)\<rparr>)
            (map_err StoreSerde (decode_payload K bytes)), fs')
      | (Inl err, fs') \<Rightarrow>
          if io_kind err = NotFound then (Inr \<lparr>fps_path = p, fps_latest = None\<rparr>, fs')
          else (Inl (StoreIo err), fs'))"

definition store_persist :: "payload_codec \<Rightarrow> path \<Rightarrow> payload_envelope \<Rightarrow> (fsys, store_error, unit) call" where
  "store_persist K p payload =
     try_call (call_err StoreIo (create_parent p)) (\<lambda>_ fs.
       case encode_payload K \<lparr>pp_version = 1, pp_payload = payload\<rparr> of
         Inl e \<Rightarrow> (Inl (StoreSerde e), fs)
       | Inr bytes \<Rightarrow> call_err StoreIo (replace_file (with_extension p ''tmp'') p bytes) fs)"

definition store_commit ::
  "lib \<Rightarrow> payload_codec \<Rightarrow> payload_envelope \<Rightarrow> (file_payload_store \<times> fsys, store_error, unit) call" where
  "store_commit L K payload sf =
     (case sf of (st, fs) \<Rightarrow>
        (case map_err StorePayload (block_number L payload) of
           Inl e \<Rightarrow> (Inl e, st, fs)
         | Inr new_number \<Rightarrow>
        (case map_err StorePayload (block_hash L payload) of
           Inl e \<Rightarrow> (Inl e, st, fs)
         | Inr _ \<Rightarrow>
        (case (case fps_latest st of
                 None \<Rightarrow> Inr False
               | Some current \<Rightarrow>
                   map_ok (\<lambda>n. n \<ge> new_number) (map_err StorePayload (block_number L current))) of
           Inl e \<Rightarrow> (Inl e, st, fs)
         | Inr True \<Rightarrow> (Inr (), st, fs)
         | Inr False \<Rightarrow>
        (case store_persist K (fps_path st) payload fs of
           (Inl e, fs') \<Rightarrow> (Inl e, st, fs')
         | (Inr _, fs') \<Rightarrow> (Inr (), st\<lparr>fps_latest := Some payload\<rparr>, fs'))))))"

definition store_latest :: "file_payload_store \<Rightarrow> payload_envelope option" where
  "store_latest st = fps_latest st"

section \<open>The interface of a store of the unsafe head\<close>

text \<open>
  What the consensus layers promise their callers: a commit of a valid payload replaces the head
  exactly when its block number is higher.
\<close>

fun newer_head :: "('p \<Rightarrow> 'n :: linorder) \<Rightarrow> 'p \<Rightarrow> 'p option \<Rightarrow> 'p option" where
  "newer_head num p None = Some p"
| "newer_head num p (Some q) = (if num q < num p then Some p else Some q)"

locale head_store =
  fixes num :: "'p \<Rightarrow> 'n :: linorder"
    and valid :: "'p \<Rightarrow> bool"
    and commit :: "'p \<Rightarrow> 's \<Rightarrow> 's"
    and head :: "'s \<Rightarrow> 'p option"
    and invar :: "'s \<Rightarrow> bool"
  assumes head_commit: "invar s \<Longrightarrow> valid p \<Longrightarrow> head (commit p s) = newer_head num p (head s)"
    and invar_commit: "invar s \<Longrightarrow> valid p \<Longrightarrow> invar (commit p s)"
begin

lemma head_mono:
  assumes "invar s" "\<forall>p \<in> set ps. valid p" "head s = Some q"
  shows "\<exists>q'. head (fold commit ps s) = Some q' \<and> num q \<le> num q'"
  using assms
proof (induction ps arbitrary: s q)
  case Nil
  then show ?case by simp
next
  case (Cons p ps)
  then have s': "invar (commit p s)" "head (commit p s) = newer_head num p (Some q)"
    by (simp_all add: invar_commit head_commit)
  then obtain q1 where q1: "head (commit p s) = Some q1" "num q \<le> num q1"
    by (auto split: if_splits)
  with Cons.IH [OF s'(1) _ q1(1)] Cons.prems show ?case by fastforce
qed

lemma head_bounds_all:
  assumes "invar s" "\<forall>p \<in> set ps. valid p" "p \<in> set ps"
  shows "\<exists>q. head (fold commit ps s) = Some q \<and> num p \<le> num q"
  using assms
proof (induction ps arbitrary: s)
  case Nil
  then show ?case by simp
next
  case (Cons p' ps)
  then have s': "invar (commit p' s)" "head (commit p' s) = newer_head num p' (head s)"
    by (simp_all add: invar_commit head_commit)
  show ?case
  proof (cases "p \<in> set ps")
    case True
    with Cons s' show ?thesis by simp
  next
    case False
    with Cons.prems have "p' = p" by simp
    with s' obtain q1 where "head (commit p' s) = Some q1" "num p \<le> num q1"
      by (cases "head s") (auto split: if_splits)
    with head_mono [OF s'(1), of ps q1] Cons.prems show ?thesis by fastforce
  qed
qed

lemma head_origin:
  assumes "invar s" "\<forall>p \<in> set ps. valid p" "head (fold commit ps s) = Some q"
  shows "q \<in> set ps \<or> head s = Some q"
  using assms
proof (induction ps arbitrary: s)
  case Nil
  then show ?case by simp
next
  case (Cons p ps)
  then have s': "invar (commit p s)" "head (commit p s) = newer_head num p (head s)"
    by (simp_all add: invar_commit head_commit)
  from Cons.IH [OF s'(1)] Cons.prems have "q \<in> set ps \<or> head (commit p s) = Some q" by simp
  with s'(2) show ?case by (cases "head s") (auto split: if_splits)
qed

lemma invar_fold: "invar s \<Longrightarrow> \<forall>p \<in> set ps. valid p \<Longrightarrow> invar (fold commit ps s)"
  by (induction ps arbitrary: s) (auto simp: invar_commit)

lemma head_fold_newer:
  "invar s \<Longrightarrow> \<forall>p \<in> set ps. valid p \<Longrightarrow> head (fold commit ps s) = fold (newer_head num) ps (head s)"
  by (induction ps arbitrary: s) (auto simp: invar_commit head_commit)

end

text \<open>The specification is itself such a store.\<close>

interpretation newest: head_store num "\<lambda>_. True" "newer_head num" id "\<lambda>_. True"
  for num :: "'p \<Rightarrow> 'n :: linorder"
  by unfold_locales simp_all

section \<open>Commits of the file store\<close>

definition payload_valid :: "lib \<Rightarrow> payload_envelope \<Rightarrow> bool" where
  "payload_valid L p = (is_ok (block_number L p) \<and> is_ok (block_hash L p))"

definition payload_num :: "lib \<Rightarrow> payload_envelope \<Rightarrow> u64" where
  "payload_num L p = unwrap_or (ok (block_number L p)) 0"

definition store_inv :: "lib \<Rightarrow> file_payload_store \<Rightarrow> bool" where
  "store_inv L st = (\<forall>p. fps_latest st = Some p \<longrightarrow> payload_valid L p)"

text \<open>The file holds exactly the latest payload, or does not exist while there is none.\<close>

definition store_agrees :: "payload_codec \<Rightarrow> file_payload_store \<Rightarrow> fsys \<Rightarrow> bool" where
  "store_agrees K st fs =
     (case fps_latest st of
        None \<Rightarrow> files fs (fps_path st) = None
      | Some p \<Rightarrow>
          (\<exists>f v. files fs (fps_path st) = Some f
            \<and> decode_payload K (content f) = Inr \<lparr>pp_version = v, pp_payload = p\<rparr>))"

definition codec_ok :: "payload_codec \<Rightarrow> bool" where
  "codec_ok K = (\<forall>x b. encode_payload K x = Inr b \<longrightarrow> decode_payload K b = Inr x)"

lemma payload_valid_number: "payload_valid L p \<Longrightarrow> block_number L p = Inr (payload_num L p)"
  by (auto simp: payload_valid_def payload_num_def is_ok_iff)

lemma store_persist_cases:
  assumes "store_persist K p payload fs = (r, fs')" "with_extension p ''tmp'' \<noteq> p"
  shows "(\<exists>e. r = Inl e) \<and> files fs' p = files fs p
    \<or> r = Inr () \<and> (\<exists>b. encode_payload K \<lparr>pp_version = 1, pp_payload = payload\<rparr> = Inr b
         \<and> files fs' p = Some \<lparr>content = b, synced = True\<rparr>)"
proof -
  obtain r1 fs1 where cp: "create_parent p fs = (r1, fs1)" by (cases "create_parent p fs")
  then have fs1: "files fs1 = files fs" using files_create_parent [of p fs] by simp
  show ?thesis
  proof (cases r1)
    case (Inl e)
    then have "call_err StoreIo (create_parent p) fs = (Inl (StoreIo e), fs1)" using cp by simp
    then show ?thesis using assms(1) fs1 by (auto simp: store_persist_def)
  next
    case (Inr u)
    then have cp': "call_err StoreIo (create_parent p) fs = (Inr u, fs1)" using cp by simp
    show ?thesis
    proof (cases "encode_payload K \<lparr>pp_version = 1, pp_payload = payload\<rparr>")
      case (Inl e)
      then show ?thesis using assms(1) cp' fs1 by (auto simp: store_persist_def)
    next
      case (Inr b)
      obtain r2 fs2 where rf: "replace_file (with_extension p ''tmp'') p b fs1 = (r2, fs2)"
        by (cases "replace_file (with_extension p ''tmp'') p b fs1")
      have run: "r = map_err StoreIo r2" "fs' = fs2"
        using assms(1) cp' Inr rf by (auto simp: store_persist_def call_err_def)
      show ?thesis
        using replace_file_cases [OF rf assms(2)] run Inr fs1 assms(2)
        by (auto simp: same_but_def)
    qed
  qed
qed

text \<open>The three outcomes of a commit.\<close>

lemma store_commit_cases:
  assumes "store_commit L K payload (st, fs) = (r, st', fs')"
    and "with_extension (fps_path st) ''tmp'' \<noteq> fps_path st"
  obtains (failed) e where "r = Inl e" "st' = st" "files fs' (fps_path st) = files fs (fps_path st)"
  | (stale) q where "r = Inr ()" "st' = st" "fs' = fs" "fps_latest st = Some q"
      "payload_valid L payload" "payload_num L payload \<le> payload_num L q"
  | (stored) b where "r = Inr ()" "st' = st\<lparr>fps_latest := Some payload\<rparr>" "payload_valid L payload"
      "\<And>q. fps_latest st = Some q \<Longrightarrow> payload_num L q < payload_num L payload"
      "encode_payload K \<lparr>pp_version = 1, pp_payload = payload\<rparr> = Inr b"
      "files fs' (fps_path st) = Some \<lparr>content = b, synced = True\<rparr>"
proof (cases "payload_valid L payload")
  case False
  then have "(\<exists>e. r = Inl e) \<and> st' = st \<and> fs' = fs"
    using assms(1) by (cases "block_number L payload"; cases "block_hash L payload")
      (auto simp: store_commit_def payload_valid_def)
  then show thesis using failed by auto
next
  case True
  then obtain n h where nh: "block_number L payload = Inr n" "block_hash L payload = Inr h"
    by (auto simp: payload_valid_def is_ok_iff)
  then have n: "payload_num L payload = n" by (simp add: payload_num_def)
  obtain r1 fs1 where per: "store_persist K (fps_path st) payload fs = (r1, fs1)"
    by (cases "store_persist K (fps_path st) payload fs")
  note pc = store_persist_cases [OF per assms(2)]
  consider (none) "fps_latest st = None"
    | (bad) q e where "fps_latest st = Some q" "block_number L q = Inl e"
    | (good) q m where "fps_latest st = Some q" "block_number L q = Inr m"
    by (metis not_Some_eq sumE)
  then show thesis
  proof cases
    case none
    then show thesis using assms(1) nh per pc True failed stored
      by (auto simp: store_commit_def)
  next
    case bad
    then show thesis using assms(1) nh failed by (auto simp: store_commit_def)
  next
    case good
    then have m: "payload_num L q = m" by (simp add: payload_num_def)
    show thesis
    proof (cases "n \<le> m")
      case True
      then show thesis using assms(1) nh good m n \<open>payload_valid L payload\<close> stale
        by (auto simp: store_commit_def)
    next
      case False
      then show thesis using assms(1) nh good m n \<open>payload_valid L payload\<close> per pc failed stored
        by (auto simp: store_commit_def)
    qed
  qed
qed

lemma store_commit_inv:
  assumes "store_commit L K payload (st, fs) = (r, st', fs')" "store_inv L st"
    and "with_extension (fps_path st) ''tmp'' \<noteq> fps_path st"
  shows "store_inv L st' \<and> fps_path st' = fps_path st"
  using assms(1,3) by (cases rule: store_commit_cases) (use assms(2) in \<open>auto simp: store_inv_def\<close>)

lemma store_commit_agrees:
  assumes "store_commit L K payload (st, fs) = (r, st', fs')" "store_agrees K st fs" "codec_ok K"
    and "with_extension (fps_path st) ''tmp'' \<noteq> fps_path st"
  shows "store_agrees K st' fs' \<and> fps_path st' = fps_path st"
  using assms(1,4)
proof (cases rule: store_commit_cases)
  case (stored b)
  with assms(3) have "decode_payload K b = Inr \<lparr>pp_version = 1, pp_payload = payload\<rparr>"
    by (simp add: codec_ok_def)
  with stored show ?thesis by (simp add: store_agrees_def)
qed (use assms(2) in \<open>auto simp: store_agrees_def split: option.splits\<close>)

definition commit_all ::
  "lib \<Rightarrow> payload_codec \<Rightarrow> payload_envelope list \<Rightarrow> file_payload_store \<times> fsys \<Rightarrow> file_payload_store \<times> fsys" where
  "commit_all L K ps sf = fold (\<lambda>p sf. snd (store_commit L K p sf)) ps sf"

lemma commit_all_agrees:
  assumes "commit_all L K ps (st, fs) = (st', fs')" "store_agrees K st fs" "codec_ok K"
    and "with_extension (fps_path st) ''tmp'' \<noteq> fps_path st"
  shows "store_agrees K st' fs' \<and> fps_path st' = fps_path st"
  using assms
proof (induction ps arbitrary: st fs)
  case Nil
  then show ?case by (simp add: commit_all_def)
next
  case (Cons p ps)
  obtain r st1 fs1 where c: "store_commit L K p (st, fs) = (r, st1, fs1)"
    by (cases "store_commit L K p (st, fs)") auto
  with Cons.prems store_commit_agrees have "store_agrees K st1 fs1 \<and> fps_path st1 = fps_path st"
    by blast
  moreover have "commit_all L K ps (st1, fs1) = (st', fs')"
    using Cons.prems(1) c by (simp add: commit_all_def)
  ultimately show ?case using Cons.IH [of st1 fs1] Cons.prems by simp
qed

lemma store_open_agrees:
  assumes "store_agrees K st fs" "faults fs = []"
  shows "store_open K (fps_path st) fs = (Inr st, fs)"
  using assms
  by (cases "fps_latest st") (auto simp: store_open_def fs_read_def store_agrees_def not_found_def)

text \<open>A file system that never fails makes the store an instance of the interface.\<close>

lemma store_commit_no_faults:
  assumes "store_inv L st" "faults fs = []" "payload_valid L p"
    and "encode_payload K \<lparr>pp_version = 1, pp_payload = p\<rparr> = Inr b"
  shows "\<exists>fs'. store_commit L K p (st, fs)
           = (Inr (), st\<lparr>fps_latest := newer_head (payload_num L) p (fps_latest st)\<rparr>, fs') \<and> faults fs' = []"
proof -
  obtain n h where nh: "block_number L p = Inr n" "block_hash L p = Inr h"
    using assms(3) by (auto simp: payload_valid_def is_ok_iff)
  obtain fs' where "replace_file (with_extension (fps_path st) ''tmp'') (fps_path st) b fs = (Inr (), fs')"
      "faults fs' = []"
    using replace_file_no_faults [OF assms(2)] by blast
  then have per: "store_persist K (fps_path st) p fs = (Inr (), fs')" "faults fs' = []"
    using assms(2,4) by (simp_all add: store_persist_def create_parent_no_faults)
  show ?thesis
  proof (cases "fps_latest st")
    case None
    with nh per show ?thesis by (simp add: store_commit_def)
  next
    case (Some q)
    with assms(1) have q: "block_number L q = Inr (payload_num L q)"
      by (simp add: store_inv_def payload_valid_number)
    have n: "payload_num L p = n" using nh by (simp add: payload_num_def)
    show ?thesis
    proof (cases "payload_num L q < n")
      case True
      then have "(n \<le> payload_num L q) = False" by simp
      with True Some nh q n per show ?thesis by (simp add: store_commit_def)
    next
      case False
      then have "(n \<le> payload_num L q) = True" by simp
      with Some nh q n assms(2) have
        "store_commit L K p (st, fs) = (Inr (), st, fs)" by (simp add: store_commit_def)
      with Some n False assms(2) show ?thesis by simp
    qed
  qed
qed

definition encodable :: "lib \<Rightarrow> payload_codec \<Rightarrow> payload_envelope \<Rightarrow> bool" where
  "encodable L K p = (payload_valid L p \<and> is_ok (encode_payload K \<lparr>pp_version = 1, pp_payload = p\<rparr>))"

interpretation file_head: head_store "payload_num L" "encodable L K"
  "\<lambda>p sf. snd (store_commit L K p sf)" "\<lambda>sf. fps_latest (fst sf)"
  "\<lambda>sf. store_inv L (fst sf) \<and> faults (snd sf) = []"
  for L K
proof (unfold_locales, goal_cases)
  case (1 sf p)
  then obtain b where "encode_payload K \<lparr>pp_version = 1, pp_payload = p\<rparr> = Inr b"
    by (auto simp: encodable_def is_ok_iff)
  with 1 store_commit_no_faults [of L "fst sf" "snd sf" p K b] show ?case
    by (auto simp: encodable_def)
next
  case (2 sf p)
  then obtain b where "encode_payload K \<lparr>pp_version = 1, pp_payload = p\<rparr> = Inr b"
    by (auto simp: encodable_def is_ok_iff)
  with 2 store_commit_no_faults [of L "fst sf" "snd sf" p K b] show ?case
    by (cases "fps_latest (fst sf)") (auto simp: encodable_def store_inv_def split: if_splits)
qed

section \<open>Properties\<close>

text \<open>A codec for two payloads and a path, for the instances below.\<close>

definition sample_codec :: payload_codec where
  "sample_codec =
     \<lparr>encode_payload = (\<lambda>x.
        if x = \<lparr>pp_version = 1, pp_payload = sample_payload 10 1\<rparr> then Inr ''ten''
        else if x = \<lparr>pp_version = 1, pp_payload = sample_payload 11 2\<rparr> then Inr ''eleven''
        else Inl ''unknown payload''),
      decode_payload = (\<lambda>s.
        if s = ''ten'' then Inr \<lparr>pp_version = 1, pp_payload = sample_payload 10 1\<rparr>
        else if s = ''eleven'' then Inr \<lparr>pp_version = 1, pp_payload = sample_payload 11 2\<rparr>
        else Inl ''malformed'')\<rparr>"

definition sample_path :: path where
  "sample_path = [''data'', ''unsafe.json'']"

lemma sample_codec_ok: "codec_ok sample_codec"
  by (simp add: codec_ok_def sample_codec_def)

lemma sample_path_tmp: "with_extension sample_path ''tmp'' = [''data'', ''unsafe.tmp'']"
  by (simp add: with_extension_def sample_path_def file_stem_def)

lemma sample_path_neq: "with_extension sample_path ''tmp'' \<noteq> sample_path"
  by (simp add: sample_path_tmp) (simp add: sample_path_def)

definition empty_store :: file_payload_store where
  "empty_store = \<lparr>fps_path = sample_path, fps_latest = None\<rparr>"

definition empty_disk :: "(io_error \<times> nat) option list \<Rightarrow> fsys" where
  "empty_disk script = \<lparr>files = (\<lambda>_. None), faults = script\<rparr>"

lemma store_agrees_faults [simp]: "store_agrees K st (fs\<lparr>faults := fl\<rparr>) = store_agrees K st fs"
  by (cases "fps_latest st") (simp_all add: store_agrees_def)

lemma empty_store_agrees: "store_agrees K empty_store (empty_disk script)"
  by (simp add: store_agrees_def empty_store_def empty_disk_def)

lemma sample_payload_neq: "sample_payload 10 1 \<noteq> sample_payload 11 2"
  using sample_payload_number [of 10 1] sample_payload_number [of 11 2] by auto

text \<open>
  C17. A commit is atomic whatever fails: an error leaves the store and its file as they were, and
  success means that the payload was valid, that the head is at least as new, and, if the head
  changed, that the file holds exactly the encoded payload and has been synced.
\<close>

theorem store_commit_atomic:
  assumes "store_commit L K p (st, fs) = (r, st', fs')"
    and "with_extension (fps_path st) ''tmp'' \<noteq> fps_path st"
  shows "case r of
      Inl e \<Rightarrow> st' = st \<and> files fs' (fps_path st) = files fs (fps_path st)
    | Inr _ \<Rightarrow> payload_valid L p
        \<and> (\<exists>q. fps_latest st' = Some q \<and> payload_num L p \<le> payload_num L q)
        \<and> (st' = st \<or> fps_latest st' = Some p
            \<and> (\<exists>b. encode_payload K \<lparr>pp_version = 1, pp_payload = p\<rparr> = Inr b
                \<and> files fs' (fps_path st) = Some \<lparr>content = b, synced = True\<rparr>))"
  using assms by (cases rule: store_commit_cases) auto

theorem store_commit_atomic_witness:
  "\<exists>st' fs'. store_commit sample_lib sample_codec (sample_payload 10 1) (empty_store, empty_disk [])
       = (Inr (), st', fs')
     \<and> fps_latest st' = Some (sample_payload 10 1)
     \<and> files fs' sample_path = Some \<lparr>content = ''ten'', synced = True\<rparr>"
proof -
  have inv: "store_inv sample_lib empty_store" "faults (empty_disk []) = []"
    by (simp_all add: store_inv_def empty_store_def empty_disk_def)
  have valid: "payload_valid sample_lib (sample_payload 10 1)"
    by (simp add: payload_valid_def sample_payload_simps)
  obtain fs' where run: "store_commit sample_lib sample_codec (sample_payload 10 1) (empty_store, empty_disk [])
      = (Inr (), empty_store\<lparr>fps_latest := Some (sample_payload 10 1)\<rparr>, fs')"
    using store_commit_no_faults [OF inv valid, of sample_codec "''ten''"]
    by (auto simp: sample_codec_def empty_store_def)
  have "with_extension (fps_path empty_store) ''tmp'' \<noteq> fps_path empty_store"
    using sample_path_neq by (simp add: empty_store_def)
  from store_commit_atomic [OF run this] run show ?thesis
    by (auto simp: empty_store_def sample_codec_def)
qed

text \<open>
  C18. Reopening the store after any sequence of commits, some of which failed at arbitrary points,
  gives back the store as it was in memory.
\<close>

theorem store_reopen:
  assumes "codec_ok K" "with_extension (fps_path st) ''tmp'' \<noteq> fps_path st" "store_agrees K st fs"
    and "commit_all L K ps (st, fs) = (st', fs')"
  shows "store_open K (fps_path st) (fs'\<lparr>faults := []\<rparr>) = (Inr st', fs'\<lparr>faults := []\<rparr>)"
  using commit_all_agrees [OF assms(4,3,1,2)] store_open_agrees [of K st' "fs'\<lparr>faults := []\<rparr>"]
  by simp

theorem store_reopen_witness:
  "\<exists>st' fs'. commit_all sample_lib sample_codec [sample_payload 10 1, sample_payload 11 2]
       (empty_store, empty_disk [None, None, None, Some (not_found, 2)]) = (st', fs')
     \<and> fps_latest st' = Some (sample_payload 11 2)
     \<and> store_open sample_codec sample_path (fs'\<lparr>faults := []\<rparr>) = (Inr st', fs'\<lparr>faults := []\<rparr>)"
proof -
  let ?fs = "empty_disk [None, None, None, Some (not_found, 2)]"
  obtain e fs1 where one: "store_commit sample_lib sample_codec (sample_payload 10 1) (empty_store, ?fs)
      = (Inl e, empty_store, fs1)" and "faults fs1 = []"
    by (auto simp: store_commit_def sample_payload_simps empty_store_def empty_disk_def sample_codec_def
        store_persist_def create_parent_def path_parent_def sample_path_def fs_touch_def fs_write_def
        replace_file_def try_call_def call_err_def)
  have inv: "store_inv sample_lib empty_store"
    by (simp add: store_inv_def empty_store_def)
  have valid: "payload_valid sample_lib (sample_payload 11 2)"
    by (simp add: payload_valid_def sample_payload_simps)
  obtain fs2 where two: "store_commit sample_lib sample_codec (sample_payload 11 2) (empty_store, fs1)
      = (Inr (), empty_store\<lparr>fps_latest := Some (sample_payload 11 2)\<rparr>, fs2)"
    using store_commit_no_faults [OF inv \<open>faults fs1 = []\<close> valid, of sample_codec "''eleven''"]
      sample_payload_neq
    by (auto simp: sample_codec_def empty_store_def)
  have all: "commit_all sample_lib sample_codec [sample_payload 10 1, sample_payload 11 2] (empty_store, ?fs)
      = (empty_store\<lparr>fps_latest := Some (sample_payload 11 2)\<rparr>, fs2)"
    using one two by (simp add: commit_all_def)
  have "with_extension (fps_path empty_store) ''tmp'' \<noteq> fps_path empty_store"
    using sample_path_neq by (simp add: empty_store_def)
  from store_reopen [OF sample_codec_ok this empty_store_agrees all] all show ?thesis
    by (simp add: empty_store_def)
qed

text \<open>
  C19. On a disk that does not fail, the head after any sequence of commits is one of the committed
  payloads (or the old head) and at least as new as every one of them.
\<close>

theorem store_head_newest:
  assumes "store_inv L st" "faults fs = []" "\<forall>p \<in> set ps. encodable L K p" "p \<in> set ps"
  shows "\<exists>q. fps_latest (fst (commit_all L K ps (st, fs))) = Some q
    \<and> payload_num L p \<le> payload_num L q \<and> (q \<in> set ps \<or> fps_latest st = Some q)"
  using file_head.head_bounds_all [of L "(st, fs)" ps K p] file_head.head_origin [of L "(st, fs)" ps K] assms
  by (auto simp: commit_all_def)

theorem store_head_newest_witness:
  "\<exists>q. fps_latest (fst (commit_all sample_lib sample_codec [sample_payload 11 2, sample_payload 10 1]
          (empty_store, empty_disk []))) = Some q
     \<and> payload_num sample_lib (sample_payload 11 2) \<le> payload_num sample_lib q
     \<and> (q \<in> set [sample_payload 11 2, sample_payload 10 1] \<or> fps_latest empty_store = Some q)"
proof (rule store_head_newest)
  show "store_inv sample_lib empty_store" "faults (empty_disk []) = []"
    by (simp_all add: store_inv_def empty_store_def empty_disk_def)
  show "\<forall>p \<in> set [sample_payload 11 2, sample_payload 10 1]. encodable sample_lib sample_codec p"
    using sample_payload_neq
    by (auto simp: encodable_def payload_valid_def sample_payload_simps sample_codec_def)
qed simp

end
