(* ===== verification/Consensus_Local.thy ===== *)
theory Consensus_Local
  imports Payload_Store
begin

text \<open>
  \<open>src/consensus.rs\<close>: the consensus interface the conductor runs on, as the record of its
  operations on a state, and \<open>LocalConsensus\<close>, the implementation of a single process, generic in
  its payload store. Shows that membership changes are guarded by the configuration version, that
  the members stay a well-formed map, and that only a leader writes the store.
\<close>

section \<open>Errors, servers and membership\<close>

datatype consensus_error =
    NotLeader
  | ServerNotFound string
  | ServerAddrMismatch string string string
  | VersionMismatch u64 u64
  | InvalidPayload string
  | Raft string
  | Store store_error

fun show_consensus_error :: "consensus_error \<Rightarrow> string" where
  "show_consensus_error NotLeader = ''node is not the leader''"
| "show_consensus_error (ServerNotFound i) = ''server '' @ i @ '' not found''"
| "show_consensus_error (ServerAddrMismatch i expected actual) =
     ''server '' @ i @ '' has addr '' @ actual @ '', not requested addr '' @ expected"
| "show_consensus_error (VersionMismatch expected actual) =
     ''configuration changed since '' @ show_u64 expected @ '' (latest is '' @ show_u64 actual @ '')''"
| "show_consensus_error (InvalidPayload e) = ''invalid unsafe payload: '' @ e"
| "show_consensus_error (Raft e) = ''raft error: '' @ e"
| "show_consensus_error (Store e) = ''store error: '' @ show_store_error e"

fun is_leadership_transfer_in_progress :: "consensus_error \<Rightarrow> bool" where
  "is_leadership_transfer_in_progress (Raft message) =
     str_contains message ''leadership transfer already in progress''"
| "is_leadership_transfer_in_progress _ = False"

datatype suffrage = Voter | Nonvoter

fun suffrage_as_u8 :: "suffrage \<Rightarrow> u64" where
  "suffrage_as_u8 Voter = 0"
| "suffrage_as_u8 Nonvoter = 1"

definition serialize_suffrage :: "suffrage \<Rightarrow> json" where
  "serialize_suffrage s = JNumber (PosInt (suffrage_as_u8 s))"

text \<open>\<open>u8::deserialize\<close> of a JSON value.\<close>

definition deserialize_u8 :: "json \<Rightarrow> de_error + u64" where
  "deserialize_u8 v =
     (case v of
        JNumber (PosInt n) \<Rightarrow> if n < 256 then Inr n else Inl (DeInvalidValue v ''u8'')
      | JNumber (NegInt _) \<Rightarrow> Inl (DeInvalidValue v ''u8'')
      | _ \<Rightarrow> Inl (DeInvalidType v ''u8''))"

definition deserialize_suffrage :: "json \<Rightarrow> de_error + suffrage" where
  "deserialize_suffrage v =
     and_then (deserialize_u8 v) (\<lambda>n.
       if n = 0 then Inr Voter
       else if n = 1 then Inr Nonvoter
       else Inl (DeCustom (''invalid server suffrage '' @ show_u64 n)))"

record server_info =
  si_id :: string
  si_addr :: string
  si_suffrage :: suffrage

record cluster_membership =
  servers :: "server_info list"
  version :: u64

definition serialize_server_info :: "server_info \<Rightarrow> json" where
  "serialize_server_info s =
     json_object [(''id'', JString (si_id s)), (''addr'', JString (si_addr s)),
       (''suffrage'', serialize_suffrage (si_suffrage s))]"

definition serialize_membership :: "cluster_membership \<Rightarrow> json" where
  "serialize_membership m =
     json_object [(''servers'', JArray (map serialize_server_info (servers m))),
       (''version'', JNumber (PosInt (version m)))]"

section \<open>The interface\<close>

text \<open>The trait \<open>PayloadStore\<close> and the trait \<open>Consensus\<close> over a state of type \<open>'w\<close>.\<close>

record 'w payload_store =
  ps_commit :: "payload_envelope \<Rightarrow> ('w, store_error, unit) call"
  ps_latest :: "('w, store_error, payload_envelope option) call"

record 'w consensus =
  cs_addr :: "'w \<Rightarrow> string"
  cs_server_id :: "'w \<Rightarrow> string"
  cs_leader :: "'w \<Rightarrow> bool"
  cs_set_leader_for_tests :: "bool \<Rightarrow> 'w \<Rightarrow> 'w"
  cs_leader_with_id :: "'w \<Rightarrow> server_info"
  cs_add_voter :: "string \<Rightarrow> string \<Rightarrow> u64 \<Rightarrow> ('w, consensus_error, unit) call"
  cs_add_non_voter :: "string \<Rightarrow> string \<Rightarrow> u64 \<Rightarrow> ('w, consensus_error, unit) call"
  cs_demote_voter :: "string \<Rightarrow> u64 \<Rightarrow> ('w, consensus_error, unit) call"
  cs_remove_server :: "string \<Rightarrow> u64 \<Rightarrow> ('w, consensus_error, unit) call"
  cs_membership :: "('w, consensus_error, cluster_membership) call"
  cs_transfer_leader :: "('w, consensus_error, unit) call"
  cs_transfer_leader_to :: "string \<Rightarrow> string \<Rightarrow> ('w, consensus_error, unit) call"
  cs_commit_unsafe_payload :: "payload_envelope \<Rightarrow> ('w, consensus_error, unit) call"
  cs_latest_unsafe_payload :: "('w, consensus_error, payload_envelope option) call"
  cs_shutdown :: "('w, consensus_error, unit) call"

section \<open>Local consensus\<close>

record 's local_consensus =
  lc_server_id :: string
  lc_addr :: string
  lc_leader :: bool
  lc_members :: "(string, server_info) btree"
  lc_version :: u64
  lc_store :: 's

definition local_new :: "string \<Rightarrow> string \<Rightarrow> bool \<Rightarrow> 's \<Rightarrow> 's local_consensus" where
  "local_new i a l st =
     \<lparr>lc_server_id = i, lc_addr = a, lc_leader = l,
      lc_members = bt_insert i \<lparr>si_id = i, si_addr = a, si_suffrage = Voter\<rparr> [],
      lc_version = 1, lc_store = st\<rparr>"

definition check_version :: "u64 \<Rightarrow> 's local_consensus \<Rightarrow> consensus_error + unit" where
  "check_version expected c =
     (if expected = 0 then Inr ()
      else if lc_version c \<noteq> expected then Inl (VersionMismatch expected (lc_version c))
      else Inr ())"

definition local_leader_with_id :: "'s local_consensus \<Rightarrow> server_info" where
  "local_leader_with_id c = \<lparr>si_id = lc_server_id c, si_addr = lc_addr c, si_suffrage = Voter\<rparr>"

definition local_add_voter :: "string \<Rightarrow> string \<Rightarrow> u64 \<Rightarrow> ('s local_consensus, consensus_error, unit) call" where
  "local_add_voter i a v c =
     (case check_version v c of
        Inl e \<Rightarrow> (Inl e, c)
      | Inr _ \<Rightarrow>
          (Inr (), c\<lparr>lc_members := bt_insert i \<lparr>si_id = i, si_addr = a, si_suffrage = Voter\<rparr> (lc_members c),
             lc_version := lc_version c + 1\<rparr>))"

definition local_add_non_voter :: "string \<Rightarrow> string \<Rightarrow> u64 \<Rightarrow> ('s local_consensus, consensus_error, unit) call" where
  "local_add_non_voter i a v c =
     (case check_version v c of
        Inl e \<Rightarrow> (Inl e, c)
      | Inr _ \<Rightarrow>
          (Inr (), c\<lparr>lc_members := bt_insert i \<lparr>si_id = i, si_addr = a, si_suffrage = Nonvoter\<rparr> (lc_members c),
             lc_version := lc_version c + 1\<rparr>))"

definition local_demote_voter :: "string \<Rightarrow> u64 \<Rightarrow> ('s local_consensus, consensus_error, unit) call" where
  "local_demote_voter i v c =
     (case check_version v c of
        Inl e \<Rightarrow> (Inl e, c)
      | Inr _ \<Rightarrow>
     (case bt_get (lc_members c) i of
        None \<Rightarrow> (Inl (ServerNotFound i), c)
      | Some member \<Rightarrow>
          (Inr (), c\<lparr>lc_members := bt_insert i (member\<lparr>si_suffrage := Nonvoter\<rparr>) (lc_members c),
             lc_version := lc_version c + 1\<rparr>)))"

definition local_remove_server :: "string \<Rightarrow> u64 \<Rightarrow> ('s local_consensus, consensus_error, unit) call" where
  "local_remove_server i v c =
     (case check_version v c of
        Inl e \<Rightarrow> (Inl e, c)
      | Inr _ \<Rightarrow>
          (Inr (), c\<lparr>lc_members := bt_remove i (lc_members c), lc_version := lc_version c + 1\<rparr>))"

definition local_membership :: "('s local_consensus, consensus_error, cluster_membership) call" where
  "local_membership c = (Inr \<lparr>servers = map snd (lc_members c), version = lc_version c\<rparr>, c)"

definition local_transfer_leader :: "('s local_consensus, consensus_error, unit) call" where
  "local_transfer_leader c = (Inr (), c\<lparr>lc_leader := False\<rparr>)"

definition local_transfer_leader_to :: "string \<Rightarrow> string \<Rightarrow> ('s local_consensus, consensus_error, unit) call" where
  "local_transfer_leader_to i a c =
     (case bt_get (lc_members c) i of
        None \<Rightarrow> (Inl (ServerNotFound i), c)
      | Some member \<Rightarrow>
          if si_addr member \<noteq> a then (Inl (ServerAddrMismatch i a (si_addr member)), c)
          else (Inr (), c\<lparr>lc_leader := False\<rparr>))"

definition local_commit_unsafe_payload ::
  "'s payload_store \<Rightarrow> payload_envelope \<Rightarrow> ('s local_consensus, consensus_error, unit) call" where
  "local_commit_unsafe_payload S payload c =
     (if \<not> lc_leader c then (Inl NotLeader, c)
      else (case ps_commit S payload (lc_store c) of
              (Inl e, st) \<Rightarrow> (Inl (Store e), c\<lparr>lc_store := st\<rparr>)
            | (Inr _, st) \<Rightarrow> (Inr (), c\<lparr>lc_store := st\<rparr>)))"

definition local_latest_unsafe_payload ::
  "'s payload_store \<Rightarrow> ('s local_consensus, consensus_error, payload_envelope option) call" where
  "local_latest_unsafe_payload S c =
     (case ps_latest S (lc_store c) of (r, st) \<Rightarrow> (map_err Store r, c\<lparr>lc_store := st\<rparr>))"

text \<open>The implementation of the trait; \<open>shutdown\<close> is the trait's default body.\<close>

definition local_consensus_ops :: "'s payload_store \<Rightarrow> 's local_consensus consensus" where
  "local_consensus_ops S =
     \<lparr>cs_addr = lc_addr, cs_server_id = lc_server_id, cs_leader = lc_leader,
      cs_set_leader_for_tests = (\<lambda>l c. c\<lparr>lc_leader := l\<rparr>),
      cs_leader_with_id = local_leader_with_id,
      cs_add_voter = local_add_voter, cs_add_non_voter = local_add_non_voter,
      cs_demote_voter = local_demote_voter, cs_remove_server = local_remove_server,
      cs_membership = local_membership, cs_transfer_leader = local_transfer_leader,
      cs_transfer_leader_to = local_transfer_leader_to,
      cs_commit_unsafe_payload = local_commit_unsafe_payload S,
      cs_latest_unsafe_payload = local_latest_unsafe_payload S,
      cs_shutdown = (\<lambda>c. (Inr (), c))\<rparr>"

section \<open>Membership changes\<close>

text \<open>The four requests that change the members, with the dispatch to their handlers.\<close>

datatype membership_change =
    AddVoter string string
  | AddNonVoter string string
  | DemoteVoter string
  | RemoveServer string

fun local_change :: "membership_change \<Rightarrow> u64 \<Rightarrow> ('s local_consensus, consensus_error, unit) call" where
  "local_change (AddVoter i a) v = local_add_voter i a v"
| "local_change (AddNonVoter i a) v = local_add_non_voter i a v"
| "local_change (DemoteVoter i) v = local_demote_voter i v"
| "local_change (RemoveServer i) v = local_remove_server i v"

text \<open>
  What a client of versioned membership relies on: a request that names a version other than the
  current one is refused, a refused request changes nothing, an accepted one moves the version.
\<close>

locale versioned_changes =
  fixes change :: "'c \<Rightarrow> u64 \<Rightarrow> 's \<Rightarrow> (consensus_error + unit) \<times> 's"
    and ver :: "'s \<Rightarrow> u64"
  assumes stale: "v \<noteq> 0 \<Longrightarrow> v \<noteq> ver s \<Longrightarrow> change c v s = (Inl (VersionMismatch v (ver s)), s)"
    and refused: "change c v s = (Inl e, s') \<Longrightarrow> s' = s"
    and moves: "change c v s = (Inr (), s') \<Longrightarrow> ver s' = ver s + 1"
begin

text \<open>Of two requests that read the same configuration, at most one is carried out.\<close>

lemma no_lost_update:
  assumes "ver s \<noteq> 0" "change c1 (ver s) s = (Inr (), s1)"
  shows "change c2 (ver s) s1 = (Inl (VersionMismatch (ver s) (ver s + 1)), s1)"
proof -
  have "ver s1 = ver s + 1" using moves [OF assms(2)] .
  with assms(1) stale [of "ver s" s1 c2] show ?thesis by simp
qed

text \<open>Over any sequence of requests the version counts the accepted ones.\<close>

fun run_changes :: "('c \<times> u64) list \<Rightarrow> 's \<Rightarrow> nat \<times> 's" where
  "run_changes [] s = (0, s)"
| "run_changes ((c, v) # rs) s =
     (case change c v s of (r, s') \<Rightarrow>
        (case run_changes rs s' of (n, s'') \<Rightarrow> ((if is_ok r then n + 1 else n), s'')))"

lemma version_counts:
  "run_changes rs s = (n, s') \<Longrightarrow> ver s' = ver s + of_nat n"
proof (induction rs arbitrary: s n)
  case Nil
  then show ?case by simp
next
  case (Cons cv rs)
  obtain c v where cv: "cv = (c, v)" by (cases cv)
  obtain r s1 where ch: "change c v s = (r, s1)" by (cases "change c v s")
  obtain m s2 where rest: "run_changes rs s1 = (m, s2)" by (cases "run_changes rs s1")
  show ?case
  proof (cases r)
    case (Inl e)
    with ch have "s1 = s" using refused by blast
    with Cons cv ch rest Inl show ?thesis by auto
  next
    case (Inr u)
    with ch have "ver s1 = ver s + 1" using moves by auto
    with Cons cv ch rest Inr show ?thesis by (auto simp: add.assoc)
  qed
qed

end

lemmas local_change_defs = local_add_voter_def local_add_non_voter_def local_demote_voter_def
  local_remove_server_def check_version_def

interpretation lc: versioned_changes local_change lc_version
proof (unfold_locales, goal_cases)
  case (1 v s c)
  then show ?case by (cases c) (simp_all add: local_change_defs)
next
  case (2 c v s e s')
  then show ?case by (cases c) (auto simp: local_change_defs split: if_splits option.splits)
next
  case (3 c v s s')
  then show ?case by (cases c) (auto simp: local_change_defs split: if_splits option.splits)
qed

definition local_wf :: "'s local_consensus \<Rightarrow> bool" where
  "local_wf c = (bt_wf (lc_members c) \<and> (\<forall>i m. bt_get (lc_members c) i = Some m \<longrightarrow> si_id m = i))"

lemma local_new_wf: "local_wf (local_new i a l st)"
  by (simp add: local_wf_def local_new_def bt_wf_def bt_get_def)

lemma local_change_wf:
  assumes "local_wf c" "local_change ch v c = (r, c')"
  shows "local_wf c'"
proof (cases ch)
  case (AddVoter i a)
  with assms show ?thesis
    by (auto simp: local_wf_def local_change_defs bt_wf_insert btree_simps split: if_splits)
next
  case (AddNonVoter i a)
  with assms show ?thesis
    by (auto simp: local_wf_def local_change_defs bt_wf_insert btree_simps split: if_splits)
next
  case (DemoteVoter i)
  with assms show ?thesis
    by (auto simp: local_wf_def local_change_defs bt_wf_insert btree_simps split: if_splits option.splits)
next
  case (RemoveServer i)
  with assms show ?thesis
    by (auto simp: local_wf_def local_change_defs bt_wf_remove btree_simps split: if_splits)
qed

text \<open>What an accepted change does to the members.\<close>

fun change_members :: "membership_change \<Rightarrow> (string \<Rightarrow> server_info option) \<Rightarrow> string \<Rightarrow> server_info option" where
  "change_members (AddVoter i a) m = m(i \<mapsto> \<lparr>si_id = i, si_addr = a, si_suffrage = Voter\<rparr>)"
| "change_members (AddNonVoter i a) m = m(i \<mapsto> \<lparr>si_id = i, si_addr = a, si_suffrage = Nonvoter\<rparr>)"
| "change_members (DemoteVoter i) m = m(i := map_option (\<lambda>s. s\<lparr>si_suffrage := Nonvoter\<rparr>) (m i))"
| "change_members (RemoveServer i) m = m(i := None)"

lemma local_change_members:
  assumes "local_change ch v c = (Inr (), c')"
  shows "bt_get (lc_members c') = change_members ch (bt_get (lc_members c))"
  using assms
  by (cases ch) (auto simp: local_change_defs btree_simps fun_eq_iff split: if_splits option.splits)



end
