(* ===== verification/Rpc_Client.thy ===== *)
theory Rpc_Client
  imports Sample_Lib
begin

text \<open>
  \<open>src/rpc/client.rs\<close>: the JSON-RPC client and the clients of the rollup node and of the execution
  node. The HTTP exchange (\<open>reqwest\<close>: sending the body, refusing error statuses, reading the answer
  as JSON) is the argument \<open>http\<close>, a call on the state \<open>'w\<close> of everything outside the process. Shows
  exactly which answers a call accepts.
\<close>

datatype rpc_error =
    Http string
  | JsonRpc i64 string "json option"
  | MissingResult
  | InvalidResponse string
  | RpcType type_error

fun show_rpc_error :: "rpc_error \<Rightarrow> string" where
  "show_rpc_error (Http e) = ''http error: '' @ e"
| "show_rpc_error (JsonRpc code message _) = ''json-rpc error '' @ show_int code @ '': '' @ message"
| "show_rpc_error MissingResult = ''json-rpc response is missing result and error''"
| "show_rpc_error (InvalidResponse e) = ''invalid response: '' @ e"
| "show_rpc_error (RpcType e) = ''type error: '' @ show_type_error e"

fun is_invalid_params :: "rpc_error \<Rightarrow> bool" where
  "is_invalid_params (JsonRpc code _ _) = (code = - 32602)"
| "is_invalid_params _ = False"

fun is_method_not_found :: "rpc_error \<Rightarrow> bool" where
  "is_method_not_found (JsonRpc code message _) =
     (code = - 32601 \<or> str_contains (to_ascii_lowercase message) ''method not found'')"
| "is_method_not_found _ = False"

type_synonym url = string

record json_rpc_client =
  jc_url :: url
  jc_timeout :: duration
  jc_next_id :: u64

definition rpc_call_timeout :: duration where
  "rpc_call_timeout = from_secs 10"

definition client_with_timeout :: "url \<Rightarrow> duration \<Rightarrow> json_rpc_client" where
  "client_with_timeout u t = \<lparr>jc_url = u, jc_timeout = t, jc_next_id = 1\<rparr>"

definition client_new :: "url \<Rightarrow> json_rpc_client" where
  "client_new u = client_with_timeout u rpc_call_timeout"

definition client_clone :: "json_rpc_client \<Rightarrow> json_rpc_client" where
  "client_clone c = \<lparr>jc_url = jc_url c, jc_timeout = jc_timeout c, jc_next_id = jc_next_id c\<rparr>"

type_synonym 'w http = "url \<Rightarrow> duration \<Rightarrow> json \<Rightarrow> ('w, string, json) call"

section \<open>A call\<close>

definition rpc_request :: "u64 \<Rightarrow> string \<Rightarrow> json \<Rightarrow> json" where
  "rpc_request i meth params =
     json_object [(''jsonrpc'', JString ''2.0''), (''id'', JNumber (PosInt i)), (''method'', JString meth),
       (''params'', params)]"

text \<open>What the code makes of an answer, in the order it looks at the members.\<close>

definition read_response :: "lib \<Rightarrow> (json \<Rightarrow> de_error + 'a) \<Rightarrow> u64 \<Rightarrow> json \<Rightarrow> rpc_error + 'a" where
  "read_response L dec i response =
     (if Option.bind (json_get response ''jsonrpc'') json_as_str \<noteq> Some ''2.0''
      then Inl (InvalidResponse ''json-rpc response is missing jsonrpc 2.0'')
      else
        (case json_get response ''id'' of
           None \<Rightarrow> Inl (InvalidResponse ''json-rpc response is missing id'')
         | Some actual_id \<Rightarrow>
             if actual_id \<noteq> JNumber (PosInt i)
             then Inl (InvalidResponse (''json-rpc response id mismatch: expected '' @
                    json_text L (JNumber (PosInt i)) @ '', got '' @ json_text L actual_id))
             else
               (case json_get response ''error'' of
                  Some err \<Rightarrow>
                    Inl (JsonRpc (unwrap_or (Option.bind (json_get err ''code'') json_as_i64) 0)
                      (unwrap_or (Option.bind (json_get err ''message'') json_as_str) ''unknown json-rpc error'')
                      (json_get err ''data''))
                | None \<Rightarrow>
                    and_then (ok_or (json_get response ''result'') MissingResult) (\<lambda>result.
                      map_err (\<lambda>e. InvalidResponse (de_text L e)) (dec result)))))"

definition rpc_call ::
  "lib \<Rightarrow> 'w http \<Rightarrow> (json \<Rightarrow> de_error + 'a) \<Rightarrow> string \<Rightarrow> json \<Rightarrow> (json_rpc_client \<times> 'w, rpc_error, 'a) call" where
  "rpc_call L http dec meth params cw =
     (case cw of (c, w) \<Rightarrow>
        let i = jc_next_id c; c' = c\<lparr>jc_next_id := i + 1\<rparr> in
        (case http (jc_url c) (jc_timeout c) (rpc_request i meth params) w of
           (Inl e, w') \<Rightarrow> (Inl (Http e), c', w')
         | (Inr response, w') \<Rightarrow> (read_response L dec i response, c', w')))"

text \<open>The deserialisers of the standard types that occur as results.\<close>

definition deserialize_unit :: "json \<Rightarrow> de_error + unit" where
  "deserialize_unit v = (if v = JNull then Inr () else Inl (DeInvalidType v ''unit''))"

definition deserialize_bool :: "json \<Rightarrow> de_error + bool" where
  "deserialize_bool v = ok_or (json_as_bool v) (DeInvalidType v ''a boolean'')"

definition deserialize_value :: "json \<Rightarrow> de_error + json" where
  "deserialize_value v = Inr v"

fun deserialize_values :: "json \<Rightarrow> de_error + json list" where
  "deserialize_values (JArray vs) = Inr vs"
| "deserialize_values v = Inl (DeInvalidType v ''a sequence'')"

section \<open>The rollup node\<close>

definition node_start_sequencer_with_hash ::
  "lib \<Rightarrow> 'w http \<Rightarrow> hash \<Rightarrow> (json_rpc_client \<times> 'w, rpc_error, unit) call" where
  "node_start_sequencer_with_hash L http h =
     rpc_call L http deserialize_unit ''admin_startSequencer'' (JArray [serialize_hash L h])"

definition node_start_sequencer_parameterless ::
  "lib \<Rightarrow> 'w http \<Rightarrow> (json_rpc_client \<times> 'w, rpc_error, unit) call" where
  "node_start_sequencer_parameterless L http =
     rpc_call L http deserialize_unit ''admin_startSequencer'' (JArray [])"

definition node_stop_sequencer :: "lib \<Rightarrow> 'w http \<Rightarrow> (json_rpc_client \<times> 'w, rpc_error, hash) call" where
  "node_stop_sequencer L http = rpc_call L http (deserialize_hash L) ''admin_stopSequencer'' (JArray [])"

definition node_sequencer_active :: "lib \<Rightarrow> 'w http \<Rightarrow> (json_rpc_client \<times> 'w, rpc_error, bool) call" where
  "node_sequencer_active L http = rpc_call L http deserialize_bool ''admin_sequencerActive'' (JArray [])"

definition node_conductor_enabled :: "lib \<Rightarrow> 'w http \<Rightarrow> (json_rpc_client \<times> 'w, rpc_error, bool) call" where
  "node_conductor_enabled L http = rpc_call L http deserialize_bool ''admin_conductorEnabled'' (JArray [])"

definition node_sync_status :: "lib \<Rightarrow> 'w http \<Rightarrow> (json_rpc_client \<times> 'w, rpc_error, sync_status) call" where
  "node_sync_status L http = rpc_call L http (deserialize_sync_status L) ''optimism_syncStatus'' (JArray [])"

definition node_peer_stats :: "lib \<Rightarrow> 'w http \<Rightarrow> (json_rpc_client \<times> 'w, rpc_error, peer_stats) call" where
  "node_peer_stats L http = rpc_call L http (deserialize_peer_stats L) ''opp2p_peerStats'' (JArray [])"

definition node_post_unsafe_payload ::
  "lib \<Rightarrow> 'w http \<Rightarrow> payload_envelope \<Rightarrow> (json_rpc_client \<times> 'w, rpc_error, unit) call" where
  "node_post_unsafe_payload L http p =
     rpc_call L http deserialize_unit ''admin_postUnsafePayload'' (JArray [raw p])"

section \<open>The execution node\<close>

definition read_block :: "lib \<Rightarrow> json \<Rightarrow> type_error + block_info" where
  "read_block L v =
     and_then (ok_or (Option.bind (json_get v ''hash'') json_as_str) (MissingField ''hash'')) (\<lambda>s.
     and_then (hash_from_str L s) (\<lambda>h.
     and_then (and_then (ok_or (json_get v ''number'') (MissingField ''number'')) (parse_quantity L)) (\<lambda>n.
       Inr \<lparr>bi_hash = h, bi_number = n\<rparr>)))"

definition exec_block_by_number_param ::
  "lib \<Rightarrow> 'w http \<Rightarrow> json \<Rightarrow> (json_rpc_client \<times> 'w, rpc_error, block_info) call" where
  "exec_block_by_number_param L http n =
     try_call (rpc_call L http deserialize_value ''eth_getBlockByNumber'' (JArray [n, JBool False]))
       (\<lambda>v s. (map_err RpcType (read_block L v), s))"

definition exec_latest_unsafe_block :: "lib \<Rightarrow> 'w http \<Rightarrow> (json_rpc_client \<times> 'w, rpc_error, block_info) call" where
  "exec_latest_unsafe_block L http = exec_block_by_number_param L http (JString ''latest'')"

definition exec_block_by_number ::
  "lib \<Rightarrow> 'w http \<Rightarrow> u64 \<Rightarrow> (json_rpc_client \<times> 'w, rpc_error, block_info) call" where
  "exec_block_by_number L http n = exec_block_by_number_param L http (JString (show_hex n))"

section \<open>Lemmas\<close>

lemma read_response_ok_iff:
  "read_response L dec i response = Inr a \<longleftrightarrow>
     Option.bind (json_get response ''jsonrpc'') json_as_str = Some ''2.0''
     \<and> json_get response ''id'' = Some (JNumber (PosInt i))
     \<and> json_get response ''error'' = None
     \<and> (\<exists>v. json_get response ''result'' = Some v \<and> dec v = Inr a)"
  by (auto simp: read_response_def result_simps split: option.splits)

lemma rpc_call_state:
  "rpc_call L http dec meth params (c, w) = (r, c', w') \<Longrightarrow> c' = c\<lparr>jc_next_id := jc_next_id c + 1\<rparr>"
  by (auto simp: rpc_call_def Let_def split: prod.splits sum.splits)

text \<open>
  C36. A call succeeds exactly when the exchange delivers an answer that declares JSON-RPC 2.0,
  carries the id of this very request, has no error member, and whose result decodes to the value
  returned. In particular an answer to an earlier request of the client, which carries another id,
  is never taken for the answer of this one.
\<close>

theorem rpc_call_ok_iff:
  "(\<exists>s. rpc_call L http dec meth params (c, w) = (Inr a, s)) \<longleftrightarrow>
     (\<exists>response w'. http (jc_url c) (jc_timeout c) (rpc_request (jc_next_id c) meth params) w = (Inr response, w')
       \<and> json_get response ''jsonrpc'' = Some (JString ''2.0'')
       \<and> json_get response ''id'' = json_get (rpc_request (jc_next_id c) meth params) ''id''
       \<and> json_get response ''error'' = None
       \<and> (\<exists>v. json_get response ''result'' = Some v \<and> dec v = Inr a))"
proof -
  have str: "Option.bind m json_as_str = Some s \<longleftrightarrow> m = Some (JString s)" for m s
  proof (cases m)
    case (Some v)
    then show ?thesis by (cases v) auto
  qed simp
  have i: "json_get (rpc_request j meth params) ''id'' = Some (JNumber (PosInt j))" for j
    by (simp add: rpc_request_def)
  obtain r w' where h: "http (jc_url c) (jc_timeout c) (rpc_request (jc_next_id c) meth params) w = (r, w')"
    by (cases "http (jc_url c) (jc_timeout c) (rpc_request (jc_next_id c) meth params) w")
  then show ?thesis
    by (cases r) (auto simp: rpc_call_def Let_def read_response_ok_iff str i)
qed

end
