(* ===== verification/Sequencer_Control.thy ===== *)
theory Sequencer_Control
  imports Rpc_Client
begin

text \<open>
  \<open>src/sequencer.rs\<close>: the interface through which the conductor drives a sequencer, as the record
  of its operations, and \<open>SequencerController\<close>, its implementation over the two node clients, with
  the three ways of starting the sequencer. Shows that a start without a hash is only ever sent
  right after the node confirmed the expected head.
\<close>

datatype start_mode = HashParam | Parameterless | Auto

datatype sequencer_error = SeqRpc rpc_error | SeqUnsafeHeadMismatch hash hash u64

definition show_sequencer_error :: "lib \<Rightarrow> sequencer_error \<Rightarrow> string" where
  "show_sequencer_error L e =
     (case e of
        SeqRpc r \<Rightarrow> ''rpc error: '' @ show_rpc_error r
      | SeqUnsafeHeadMismatch expected actual n \<Rightarrow>
          ''unsafe head mismatch: expected '' @ show_hash L expected @ '', node has '' @ show_hash L actual @
          '' at block '' @ show_u64 n)"

definition message_contains :: "string list \<Rightarrow> sequencer_error \<Rightarrow> bool" where
  "message_contains needles e =
     (case e of
        SeqRpc (JsonRpc _ message _) \<Rightarrow> list_ex (str_contains message) needles
      | SeqRpc (InvalidResponse message) \<Rightarrow> list_ex (str_contains message) needles
      | _ \<Rightarrow> False)"

definition is_sequencer_already_started :: "sequencer_error \<Rightarrow> bool" where
  "is_sequencer_already_started =
     message_contains [''sequencer already running'', ''sequencer already started'', ''already started'']"

definition is_sequencer_already_stopped :: "sequencer_error \<Rightarrow> bool" where
  "is_sequencer_already_stopped =
     message_contains [''sequencer not running'', ''sequencer already stopped'', ''already stopped'']"

section \<open>The interface\<close>

record 'w sequencer =
  sq_latest_unsafe_block :: "('w, sequencer_error, block_info) call"
  sq_block_by_number :: "u64 \<Rightarrow> ('w, sequencer_error, block_info) call"
  sq_start_sequencer :: "hash \<Rightarrow> ('w, sequencer_error, unit) call"
  sq_stop_sequencer :: "('w, sequencer_error, hash) call"
  sq_sequencer_active :: "('w, sequencer_error, bool) call"
  sq_sync_status :: "('w, sequencer_error, sync_status) call"
  sq_peer_stats :: "('w, sequencer_error, peer_stats) call"
  sq_post_unsafe_payload :: "payload_envelope \<Rightarrow> ('w, sequencer_error, unit) call"
  sq_conductor_enabled :: "('w, sequencer_error, bool) call"

section \<open>The controller\<close>

record sequencer_controller =
  sc_node :: json_rpc_client
  sc_execution :: json_rpc_client
  sc_start_mode :: start_mode

definition controller_new :: "json_rpc_client \<Rightarrow> json_rpc_client \<Rightarrow> start_mode \<Rightarrow> sequencer_controller" where
  "controller_new n e m = \<lparr>sc_node = n, sc_execution = e, sc_start_mode = m\<rparr>"

text \<open>A call of one of the two clients, its error wrapped as the conversion into \<open>SequencerError\<close> does.\<close>

definition on_node ::
  "(json_rpc_client \<times> 'w, rpc_error, 'a) call \<Rightarrow> (sequencer_controller \<times> 'w, rpc_error, 'a) call" where
  "on_node m s = (case s of (sc, w) \<Rightarrow>
     (case m (sc_node sc, w) of (r, c, w') \<Rightarrow> (r, sc\<lparr>sc_node := c\<rparr>, w')))"

definition on_execution ::
  "(json_rpc_client \<times> 'w, rpc_error, 'a) call \<Rightarrow> (sequencer_controller \<times> 'w, rpc_error, 'a) call" where
  "on_execution m s = (case s of (sc, w) \<Rightarrow>
     (case m (sc_execution sc, w) of (r, c, w') \<Rightarrow> (r, sc\<lparr>sc_execution := c\<rparr>, w')))"

definition assert_latest_unsafe ::
  "lib \<Rightarrow> 'w http \<Rightarrow> hash \<Rightarrow> (sequencer_controller \<times> 'w, sequencer_error, block_info) call" where
  "assert_latest_unsafe L http expected =
     try_call (call_err SeqRpc (on_execution (exec_latest_unsafe_block L http))) (\<lambda>b s.
       if bi_hash b \<noteq> expected then (Inl (SeqUnsafeHeadMismatch expected (bi_hash b) (bi_number b)), s)
       else (Inr b, s))"

definition start_parameterless_after_check ::
  "lib \<Rightarrow> 'w http \<Rightarrow> hash \<Rightarrow> (sequencer_controller \<times> 'w, sequencer_error, unit) call" where
  "start_parameterless_after_check L http expected =
     try_call (assert_latest_unsafe L http expected) (\<lambda>_.
       call_err SeqRpc (on_node (node_start_sequencer_parameterless L http)))"

definition controller_start_sequencer ::
  "lib \<Rightarrow> 'w http \<Rightarrow> hash \<Rightarrow> (sequencer_controller \<times> 'w, sequencer_error, unit) call" where
  "controller_start_sequencer L http expected s =
     (case sc_start_mode (fst s) of
        HashParam \<Rightarrow> call_err SeqRpc (on_node (node_start_sequencer_with_hash L http expected)) s
      | Parameterless \<Rightarrow> start_parameterless_after_check L http expected s
      | Auto \<Rightarrow>
          (case on_node (node_start_sequencer_with_hash L http expected) s of
             (Inr _, s') \<Rightarrow> (Inr (), s')
           | (Inl err, s') \<Rightarrow>
               if is_invalid_params err then start_parameterless_after_check L http expected s'
               else (Inl (SeqRpc err), s')))"

definition controller_ops :: "lib \<Rightarrow> 'w http \<Rightarrow> (sequencer_controller \<times> 'w) sequencer" where
  "controller_ops L http =
     \<lparr>sq_latest_unsafe_block = call_err SeqRpc (on_execution (exec_latest_unsafe_block L http)),
      sq_block_by_number = (\<lambda>n. call_err SeqRpc (on_execution (exec_block_by_number L http n))),
      sq_start_sequencer = controller_start_sequencer L http,
      sq_stop_sequencer = call_err SeqRpc (on_node (node_stop_sequencer L http)),
      sq_sequencer_active = call_err SeqRpc (on_node (node_sequencer_active L http)),
      sq_sync_status = call_err SeqRpc (on_node (node_sync_status L http)),
      sq_peer_stats = call_err SeqRpc (on_node (node_peer_stats L http)),
      sq_post_unsafe_payload = (\<lambda>p. call_err SeqRpc (on_node (node_post_unsafe_payload L http p))),
      sq_conductor_enabled = call_err SeqRpc (on_node (node_conductor_enabled L http))\<rparr>"

section \<open>What is sent\<close>

text \<open>An exchange that also records every request with its answer.\<close>

type_synonym exchange = "url \<times> json \<times> (string + json)"

definition traced :: "'w http \<Rightarrow> ('w \<times> exchange list) http" where
  "traced http u t req s = (case s of (w, tr) \<Rightarrow>
     (case http u t req w of (r, w') \<Rightarrow> (r, w', tr @ [(u, req, r)])))"

definition is_parameterless_start :: "exchange \<Rightarrow> bool" where
  "is_parameterless_start x = (case x of (u, req, r) \<Rightarrow>
     json_get req ''method'' = Some (JString ''admin_startSequencer'')
     \<and> json_get req ''params'' = Some (JArray []))"

text \<open>An exchange in which the node reports the block with hash \<open>h\<close> as its latest one.\<close>

definition confirms_head :: "lib \<Rightarrow> hash \<Rightarrow> exchange \<Rightarrow> bool" where
  "confirms_head L h x = (case x of (u, req, r) \<Rightarrow>
     json_get req ''method'' = Some (JString ''eth_getBlockByNumber'')
     \<and> json_get req ''params'' = Some (JArray [JString ''latest'', JBool False])
     \<and> (\<exists>response v b. r = Inr response \<and> json_get response ''result'' = Some v
          \<and> read_block L v = Inr b \<and> bi_hash b = h))"

text \<open>Every parameterless start directly follows a confirmation of the head.\<close>

definition starts_confirmed :: "lib \<Rightarrow> hash \<Rightarrow> exchange list \<Rightarrow> bool" where
  "starts_confirmed L h tr =
     (\<forall>i < length tr. is_parameterless_start (tr ! i) \<longrightarrow> (\<exists>j. i = Suc j \<and> confirms_head L h (tr ! j)))"

lemma rpc_call_traced:
  assumes "rpc_call L (traced http) dec meth params (c, w, tr) = (r, c', w', tr')"
  obtains a where "tr' = tr @ [(jc_url c, rpc_request (jc_next_id c) meth params, a)]"
    and "\<And>x. r = Inr x \<Longrightarrow> \<exists>response. a = Inr response \<and> read_response L dec (jc_next_id c) response = Inr x"
proof -
  obtain a v where h: "http (jc_url c) (jc_timeout c) (rpc_request (jc_next_id c) meth params) w = (a, v)"
    by (cases "http (jc_url c) (jc_timeout c) (rpc_request (jc_next_id c) meth params) w")
  with assms have "tr' = tr @ [(jc_url c, rpc_request (jc_next_id c) meth params, a)]"
    by (cases a) (auto simp: rpc_call_def traced_def Let_def)
  moreover have "\<exists>response. a = Inr response \<and> read_response L dec (jc_next_id c) response = Inr x"
    if "r = Inr x" for x
    using assms h that by (cases a) (auto simp: rpc_call_def traced_def Let_def)
  ultimately show thesis using that by blast
qed

lemma rpc_request_members [simp]:
  "json_get (rpc_request i meth params) ''method'' = Some (JString meth)"
  "json_get (rpc_request i meth params) ''params'' = Some params"
  by (simp_all add: rpc_request_def)

lemma start_with_hash_traced:
  assumes "on_node (node_start_sequencer_with_hash L (traced http) h) (sc, w, tr) = (r, sc', w', tr')"
  obtains x where "tr' = tr @ [x]" "\<not> is_parameterless_start x" "sc_start_mode sc' = sc_start_mode sc"
proof -
  obtain r0 c0 w0 tr0 where call:
    "rpc_call L (traced http) deserialize_unit ''admin_startSequencer'' (JArray [serialize_hash L h])
       (sc_node sc, w, tr) = (r0, c0, w0, tr0)"
    by (metis prod_cases4)
  then obtain a where
    "tr0 = tr @ [(jc_url (sc_node sc),
       rpc_request (jc_next_id (sc_node sc)) ''admin_startSequencer'' (JArray [serialize_hash L h]), a)]"
    by (rule rpc_call_traced)
  with assms call show thesis
    by (intro that) (auto simp: on_node_def node_start_sequencer_with_hash_def is_parameterless_start_def)
qed

lemma latest_block_traced:
  assumes "on_execution (exec_latest_unsafe_block L (traced http)) (sc, w, tr) = (r, sc', w', tr')"
  obtains x where "tr' = tr @ [x]" "\<not> is_parameterless_start x" "\<And>b. r = Inr b \<Longrightarrow> confirms_head L (bi_hash b) x"
proof -
  let ?ps = "JArray [JString ''latest'', JBool False]"
  obtain r0 c0 w0 tr0 where call:
    "rpc_call L (traced http) deserialize_value ''eth_getBlockByNumber'' ?ps (sc_execution sc, w, tr)
       = (r0, c0, w0, tr0)"
    by (metis prod_cases4)
  from call obtain a where
    a: "tr0 = tr @ [(jc_url (sc_execution sc), rpc_request (jc_next_id (sc_execution sc)) ''eth_getBlockByNumber'' ?ps, a)]"
       "\<And>x. r0 = Inr x \<Longrightarrow> \<exists>resp. a = Inr resp
          \<and> read_response L deserialize_value (jc_next_id (sc_execution sc)) resp = Inr x"
    by (rule rpc_call_traced) blast
  let ?x = "(jc_url (sc_execution sc), rpc_request (jc_next_id (sc_execution sc)) ''eth_getBlockByNumber'' ?ps, a)"
  have "tr' = tr @ [?x]"
    using assms call a(1)
    by (cases r0) (auto simp: on_execution_def exec_latest_unsafe_block_def exec_block_by_number_param_def
        try_call_def)
  moreover have "confirms_head L (bi_hash b) ?x" if "r = Inr b" for b
  proof (cases r0)
    case (Inl e)
    with assms call that show ?thesis
      by (simp add: on_execution_def exec_latest_unsafe_block_def exec_block_by_number_param_def)
  next
    case (Inr v)
    with assms call that have "read_block L v = Inr b"
      by (auto simp: on_execution_def exec_latest_unsafe_block_def exec_block_by_number_param_def result_simps)
    moreover obtain resp where "a = Inr resp" "json_get resp ''result'' = Some v"
      using a(2) [OF Inr] by (auto simp: read_response_ok_iff deserialize_value_def)
    ultimately show ?thesis by (auto simp: confirms_head_def)
  qed
  ultimately show thesis
    by (intro that) (auto simp: is_parameterless_start_def)
qed

lemma starts_confirmed_snoc:
  assumes "starts_confirmed L h tr" "\<not> is_parameterless_start x"
  shows "starts_confirmed L h (tr @ [x])"
  using assms by (fastforce simp: starts_confirmed_def nth_append less_Suc_eq)

lemma starts_confirmed_snoc2:
  assumes "starts_confirmed L h tr" "\<not> is_parameterless_start x" "confirms_head L h x"
  shows "starts_confirmed L h (tr @ [x, y])"
  unfolding starts_confirmed_def
proof (intro allI impI)
  fix i assume i: "i < length (tr @ [x, y])" "is_parameterless_start ((tr @ [x, y]) ! i)"
  then consider "i < length tr" | "i = length tr" | "i = Suc (length tr)" by fastforce
  then show "\<exists>j. i = Suc j \<and> confirms_head L h ((tr @ [x, y]) ! j)"
  proof cases
    case 1
    with i assms(1) show ?thesis by (fastforce simp: starts_confirmed_def nth_append)
  next
    case 2
    with i assms(2) show ?thesis by (simp add: nth_append)
  next
    case 3
    with assms(3) show ?thesis by (simp add: nth_append)
  qed
qed

lemma parameterless_traced:
  assumes "starts_confirmed L h tr"
    "start_parameterless_after_check L (traced http) h (sc, w, tr) = (r, sc', w', tr')"
  shows "starts_confirmed L h tr'"
proof -
  obtain r1 sc1 w1 tr1 where latest:
    "on_execution (exec_latest_unsafe_block L (traced http)) (sc, w, tr) = (r1, sc1, w1, tr1)"
    by (metis prod_cases4)
  then obtain x where x: "tr1 = tr @ [x]" "\<not> is_parameterless_start x"
      "\<And>b. r1 = Inr b \<Longrightarrow> confirms_head L (bi_hash b) x"
    by (rule latest_block_traced) blast
  note defs = start_parameterless_after_check_def assert_latest_unsafe_def try_call_def call_err_def
  have one: "starts_confirmed L h tr1" unfolding x(1) by (rule starts_confirmed_snoc [OF assms(1) x(2)])
  show ?thesis
  proof (cases r1)
    case (Inl e)
    with assms(2) latest one show ?thesis by (auto simp: defs)
  next
    case (Inr b)
    show ?thesis
    proof (cases "bi_hash b = h")
      case False
      with assms(2) latest one Inr show ?thesis by (auto simp: defs)
    next
      case True
      obtain r2 c2 w2 tr2 where start:
        "rpc_call L (traced http) deserialize_unit ''admin_startSequencer'' (JArray []) (sc_node sc1, w1, tr1)
           = (r2, c2, w2, tr2)"
        by (metis prod_cases4)
      then obtain y where "tr2 = tr1 @ [y]" by (rule rpc_call_traced) blast
      moreover have "tr' = tr2"
        using assms(2) latest Inr True start
        by (auto simp: defs on_node_def node_start_sequencer_parameterless_def)
      ultimately show ?thesis
        using starts_confirmed_snoc2 [OF assms(1) x(2), of y] x(1,3) Inr True by simp
    qed
  qed
qed

text \<open>
  C35. In every start mode and whatever the nodes answer, starting the sequencer at \<open>h\<close> sends a start
  request without a hash only as the direct successor of a query in which the execution node
  reported \<open>h\<close> as its latest block; so the sequencer is never started on another head.
\<close>

theorem start_never_unconfirmed:
  assumes "controller_start_sequencer L (traced http) h (sc, w, []) = (r, sc', w', tr)"
  shows "starts_confirmed L h tr"
proof -
  have empty: "starts_confirmed L h []" by (simp add: starts_confirmed_def)
  obtain r1 sc1 w1 tr1 where hashed:
    "on_node (node_start_sequencer_with_hash L (traced http) h) (sc, w, []) = (r1, sc1, w1, tr1)"
    by (metis prod_cases4)
  then obtain x where "tr1 = [] @ [x]" "\<not> is_parameterless_start x"
    by (rule start_with_hash_traced)
  then have tr1: "starts_confirmed L h tr1" using starts_confirmed_snoc [OF empty] by simp
  show ?thesis
  proof (cases "sc_start_mode sc")
    case HashParam
    with assms hashed tr1 show ?thesis
      by (cases r1) (auto simp: controller_start_sequencer_def call_err_def)
  next
    case Parameterless
    with assms parameterless_traced [OF empty] show ?thesis
      by (auto simp: controller_start_sequencer_def)
  next
    case Auto
    show ?thesis
    proof (cases "\<exists>e. r1 = Inl e \<and> is_invalid_params e")
      case True
      with assms hashed Auto have
        "start_parameterless_after_check L (traced http) h (sc1, w1, tr1) = (r, sc', w', tr)"
        by (auto simp: controller_start_sequencer_def)
      then show ?thesis by (rule parameterless_traced [OF tr1])
    next
      case False
      with assms hashed Auto tr1 show ?thesis
        by (cases r1) (auto simp: controller_start_sequencer_def)
    qed
  qed
qed

text \<open>A node whose latest block is number 5 with hash \<open>7\<dots>7\<close> and which starts when asked.\<close>

definition sample_node :: "unit http" where
  "sample_node u t req w =
     (let i = the (json_get req ''id'') in
      (if json_get req ''method'' = Some (JString ''eth_getBlockByNumber'')
       then (Inr (JObject [(''id'', i), (''jsonrpc'', JString ''2.0''),
              (''result'', JObject [(''hash'', JString (show_hash sample_lib (sample_hash 7))),
                                    (''number'', JString (show_hex 5))])]), w)
       else (Inr (JObject [(''id'', i), (''jsonrpc'', JString ''2.0''), (''result'', JNull)]), w)))"

lemma sample_node_start:
  "\<exists>sc' tr. controller_start_sequencer sample_lib (traced sample_node) (sample_hash 7)
     (controller_new (client_new ''http://node'') (client_new ''http://execution'') Parameterless, (), [])
     = (Inr (), sc', (), tr) \<and> length tr = 2 \<and> is_parameterless_start (tr ! 1)"
  by (simp add: controller_start_sequencer_def controller_new_def start_parameterless_after_check_def
      assert_latest_unsafe_def try_call_def call_err_def on_execution_def on_node_def
      exec_latest_unsafe_block_def exec_block_by_number_param_def rpc_call_def Let_def traced_def sample_node_def
      client_new_def client_with_timeout_def read_response_def rpc_request_def bt_get_def deserialize_value_def
      read_block_def hash_from_str_show [OF sample_hex_laws sample_hash_wf] parse_quantity_hex
      node_start_sequencer_parameterless_def deserialize_unit_def is_parameterless_start_def)

theorem start_never_unconfirmed_witness:
  "\<exists>sc' tr. controller_start_sequencer sample_lib (traced sample_node) (sample_hash 7)
     (controller_new (client_new ''http://node'') (client_new ''http://execution'') Parameterless, (), [])
     = (Inr (), sc', (), tr) \<and> length tr = 2 \<and> is_parameterless_start (tr ! 1)
     \<and> starts_confirmed sample_lib (sample_hash 7) tr"
proof -
  obtain sc' tr where run: "controller_start_sequencer sample_lib (traced sample_node) (sample_hash 7)
     (controller_new (client_new ''http://node'') (client_new ''http://execution'') Parameterless, (), [])
     = (Inr (), sc', (), tr)" "length tr = 2" "is_parameterless_start (tr ! 1)"
    using sample_node_start by blast
  from start_never_unconfirmed [OF run(1)] run show ?thesis by blast
qed

end
