(* ===== verification/Health_Checks.thy ===== *)
theory Health_Checks
  imports Rpc_Client
begin

text \<open>
  \<open>src/health.rs\<close>: the clients that ask rollup-boost, the supervisor and the execution node for
  their health. An HTTP answer is its status and the chunks of its body, in which an error may
  occur; sending the request is the argument \<open>get\<close>, and decoding the body of a health document the
  argument \<open>decode\<close> (\<open>serde\<close>). Shows that the body kept in memory is the bounded prefix of what the
  server sends.
\<close>

text \<open>A parsed URL: everything before the path, the path, and the query and fragment.\<close>

record http_url =
  url_origin :: string
  url_path :: string
  url_rest :: string

definition url_text :: "http_url \<Rightarrow> string" where
  "url_text u = url_origin u @ url_path u @ url_rest u"

datatype rollup_boost_config =
    StatusCode http_url duration
  | JsonHealth string duration

datatype rollup_boost_status = RbHealthy | RbPartial | RbUnhealthy

datatype check_api = Net | Admin

record execution_p2p_config =
  p2p_rpc :: url
  p2p_check_api :: check_api
  p2p_min_peer_count :: u64

record execution_p2p_client =
  p2p_client :: json_rpc_client
  p2p_api :: check_api

datatype rollup_boost_error =
    RbHttp string
  | UnexpectedStatus nat
  | UnexpectedJsonHealth string
  | RbInvalidResponse string

definition show_rollup_boost_error :: "lib \<Rightarrow> (nat \<Rightarrow> string) \<Rightarrow> rollup_boost_error \<Rightarrow> string" where
  "show_rollup_boost_error L status_text e =
     (case e of
        RbHttp m \<Rightarrow> ''http error: '' @ m
      | UnexpectedStatus s \<Rightarrow> ''unexpected status code '' @ status_text s
      | UnexpectedJsonHealth h \<Rightarrow> ''unexpected rollup_boost_health '' @ debug_text L h
      | RbInvalidResponse m \<Rightarrow> ''invalid health response: '' @ m)"

record http_response =
  rs_status :: nat
  rs_chunks :: "(string + string) list"

type_synonym 'w http_get = "string \<Rightarrow> duration \<Rightarrow> ('w, string, http_response) call"

section \<open>Rollup-boost\<close>

definition healthz_url :: "http_url \<Rightarrow> http_url" where
  "healthz_url base = base\<lparr>url_path := trim_end_matches CHR ''/'' (url_path base) @ ''/healthz''\<rparr>"

definition max_health_response_bytes :: nat where
  "max_health_response_bytes = 2 ^ 20"

fun drain_body :: "(string + string) list \<Rightarrow> rollup_boost_error + unit" where
  "drain_body [] = Inr ()"
| "drain_body (Inl e # cs) = Inl (RbHttp e)"
| "drain_body (Inr _ # cs) = drain_body cs"

text \<open>The loop of \<open>read_limited_body\<close> with the body read so far, for a limit of \<open>lim\<close> bytes.\<close>

fun read_limited :: "nat \<Rightarrow> string \<Rightarrow> (string + string) list \<Rightarrow> rollup_boost_error + string" where
  "read_limited lim body [] = Inr body"
| "read_limited lim body (Inl e # cs) = Inl (RbHttp e)"
| "read_limited lim body (Inr chunk # cs) =
     (let remaining = lim - length body in
      if remaining = 0 then Inr body
      else if length chunk \<le> remaining then read_limited lim (body @ chunk) cs
      else Inr (body @ take remaining chunk))"

definition read_limited_body :: "(string + string) list \<Rightarrow> rollup_boost_error + string" where
  "read_limited_body cs = read_limited max_health_response_bytes [] cs"

text \<open>The outcome of \<open>drain_body\<close> is ignored, so the status alone decides.\<close>

definition check_status_code ::
  "'w http_get \<Rightarrow> http_url \<Rightarrow> duration \<Rightarrow> ('w, rollup_boost_error, rollup_boost_status) call" where
  "check_status_code get base timeout =
     try_call (call_err RbHttp (get (url_text (healthz_url base)) timeout)) (\<lambda>response w.
       let drained = drain_body (rs_chunks response); status = rs_status response in
       ((if status = 200 then Inr RbHealthy
         else if status = 206 then Inr RbPartial
         else if status = 503 then Inr RbUnhealthy
         else Inl (UnexpectedStatus status)), w))"

definition check_json ::
  "'w http_get \<Rightarrow> (string \<Rightarrow> string + string) \<Rightarrow> string \<Rightarrow> duration \<Rightarrow>
   ('w, rollup_boost_error, rollup_boost_status) call" where
  "check_json get decode u timeout =
     try_call (call_err RbHttp (get u timeout)) (\<lambda>response w.
       (if rs_status response \<noteq> 200 then Inl (UnexpectedStatus (rs_status response))
        else
          and_then (read_limited_body (rs_chunks response)) (\<lambda>body.
          and_then (map_err RbInvalidResponse (decode body)) (\<lambda>health.
            if health = ''Healthy'' then Inr RbHealthy
            else if health = ''PartialContent'' then Inr RbPartial
            else if health = ''ServiceUnavailable'' then Inr RbUnhealthy
            else Inl (UnexpectedJsonHealth health))), w))"

definition rollup_boost_check ::
  "'w http_get \<Rightarrow> (string \<Rightarrow> string + string) \<Rightarrow> rollup_boost_config \<Rightarrow>
   ('w, rollup_boost_error, rollup_boost_status) call" where
  "rollup_boost_check get decode config =
     (case config of
        StatusCode base timeout \<Rightarrow> check_status_code get base timeout
      | JsonHealth u timeout \<Rightarrow> check_json get decode u timeout)"

section \<open>Supervisor and execution node\<close>

definition supervisor_new :: "url \<Rightarrow> json_rpc_client" where
  "supervisor_new rpc = client_new rpc"

definition supervisor_check :: "lib \<Rightarrow> 'w http \<Rightarrow> (json_rpc_client \<times> 'w, rpc_error, unit) call" where
  "supervisor_check L http =
     try_call (rpc_call L http deserialize_value ''supervisor_syncStatus'' (JArray [])) (\<lambda>_ s. (Inr (), s))"

definition execution_p2p_new :: "execution_p2p_config \<Rightarrow> execution_p2p_client" where
  "execution_p2p_new config = \<lparr>p2p_client = client_new (p2p_rpc config), p2p_api = p2p_check_api config\<rparr>"

definition execution_peer_count ::
  "lib \<Rightarrow> 'w http \<Rightarrow> check_api \<Rightarrow> (json_rpc_client \<times> 'w, rpc_error, u64) call" where
  "execution_peer_count L http api =
     (case api of
        Net \<Rightarrow>
          try_call (rpc_call L http deserialize_value ''net_peerCount'' (JArray []))
            (\<lambda>v s. (map_err RpcType (parse_quantity L v), s))
      | Admin \<Rightarrow>
          try_call (rpc_call L http deserialize_values ''admin_peers'' (JArray []))
            (\<lambda>peers s. (Inr (of_nat (length peers)), s)))"

section \<open>Bounded bodies\<close>

text \<open>The bytes a server sends up to the first transport error.\<close>

fun sent_bytes :: "(string + string) list \<Rightarrow> string" where
  "sent_bytes [] = []"
| "sent_bytes (Inl e # cs) = []"
| "sent_bytes (Inr c # cs) = c @ sent_bytes cs"

lemma read_limited_prefix:
  assumes "length body \<le> lim" "read_limited lim body cs = Inr b"
  shows "b = body @ take (lim - length body) (sent_bytes cs)"
  using assms
proof (induction lim body cs rule: read_limited.induct)
  case (3 lim body chunk cs)
  show ?case
  proof (cases "length chunk \<le> lim - length body")
    case True
    show ?thesis
    proof (cases "lim - length body = 0")
      case True
      with "3.prems" show ?thesis by simp
    next
      case False
      with True 3 have "b = (body @ chunk) @ take (lim - length (body @ chunk)) (sent_bytes cs)"
        by (simp add: Let_def)
      with True show ?thesis by simp
    qed
  next
    case False
    then have "b = body @ take (lim - length body) chunk"
      using "3.prems"(2) by (simp add: Let_def split: if_splits)
    with False show ?thesis by simp
  qed
qed simp_all

lemma read_limited_total:
  assumes "\<forall>c \<in> set cs. is_ok c"
  shows "\<exists>b. read_limited lim body cs = Inr b"
  using assms
proof (induction cs arbitrary: body)
  case (Cons c cs)
  then obtain chunk where "c = Inr chunk" by (cases c) simp_all
  moreover from Cons obtain b where "read_limited lim (body @ chunk) cs = Inr b" by force
  ultimately show ?case by (simp add: Let_def)
qed simp

text \<open>
  The body a health check reads is the prefix of at most \<open>2^20\<close> bytes of what the server sent,
  and it is read whenever the transport reports no error: a server that keeps sending can neither
  exhaust memory nor have bytes of its document dropped below that bound.
\<close>

theorem read_limited_body_prefix:
  "(\<forall>b. read_limited_body cs = Inr b \<longrightarrow>
      b = take max_health_response_bytes (sent_bytes cs) \<and> length b \<le> max_health_response_bytes)
   \<and> ((\<forall>c \<in> set cs. is_ok c) \<longrightarrow> read_limited_body cs = Inr (take max_health_response_bytes (sent_bytes cs)))"
proof (intro conjI allI impI)
  fix b assume "read_limited_body cs = Inr b"
  then show b: "b = take max_health_response_bytes (sent_bytes cs)"
    using read_limited_prefix [of "[]" max_health_response_bytes cs b] by (simp add: read_limited_body_def)
  then show "length b \<le> max_health_response_bytes" by simp
next
  assume "\<forall>c \<in> set cs. is_ok c"
  then obtain b where "read_limited max_health_response_bytes [] cs = Inr b"
    using read_limited_total [of cs max_health_response_bytes "[]"] by blast
  then show "read_limited_body cs = Inr (take max_health_response_bytes (sent_bytes cs))"
    using read_limited_prefix [of "[]" max_health_response_bytes cs b] by (simp add: read_limited_body_def)
qed

theorem read_limited_body_prefix_witness:
  "read_limited_body [Inr ''{}'', Inr '' ''] = Inr (take max_health_response_bytes ''{} '')"
proof -
  let ?cs = "[Inr ''{}'', Inr '' ''] :: (string + string) list"
  have "\<forall>c \<in> set ?cs. is_ok c" by simp
  moreover have "sent_bytes ?cs = ''{} ''" by simp
  ultimately show ?thesis using read_limited_body_prefix [of ?cs] by metis
qed

end
