(* ===== verification/Metrics_Registry.thy ===== *)
theory Metrics_Registry
  imports Prelude
begin

text \<open>
  \<open>src/metrics.rs\<close>: the counters, gauges and histograms the other components record, and their
  Prometheus text. Counters wrap as in a release build. A sum of seconds is kept as the list of the
  durations added to it, since its floating-point value is only ever printed; comparing a duration
  in nanoseconds with a bucket bound is the comparison the code makes in seconds. Shows that every
  histogram counts exactly the durations recorded, and that label texts can be read back.
\<close>

section \<open>State\<close>

text \<open>The bounds in nanoseconds, with the text Rust prints for them in seconds.\<close>

definition loop_execution_buckets :: "(duration \<times> string) list" where
  "loop_execution_buckets =
     [(5000000, ''0.005''), (10000000, ''0.01''), (25000000, ''0.025''), (50000000, ''0.05''),
      (100000000, ''0.1''), (250000000, ''0.25''), (500000000, ''0.5''), (1000000000, ''1''),
      (2500000000, ''2.5''), (5000000000, ''5''), (10000000000, ''10'')]"

record counters =
  healthchecks :: "(bool \<times> string, u64) btree"
  leader_transfers :: "(bool, u64) btree"
  sequencer_starts :: "(bool, u64) btree"
  sequencer_stops :: "(bool, u64) btree"
  state_changes :: "(bool \<times> bool \<times> bool, u64) btree"
  rollup_boost_connection_attempts :: "(bool \<times> string, u64) btree"
  loop_buckets :: "u64 list"
  loop_execution_count :: u64
  loop_execution_sum :: "duration list"
  rpc_server_requests :: "(string, u64) btree"
  rpc_server_responses :: "(string \<times> string, u64) btree"
  rpc_server_params_size :: "(string, u64) btree"
  rpc_server_results_size :: "(string, u64) btree"
  rpc_server_request_buckets :: "(string, u64 list) btree"
  rpc_server_request_count :: "(string, u64) btree"
  rpc_server_request_sum :: "(string, duration list) btree"
  rpc_notifications_received :: "(string, u64) btree"

record metrics =
  m_version :: string
  up :: u64
  websocket_clients :: u64
  m_counters :: counters

definition zero_buckets :: "u64 list" where
  "zero_buckets = replicate (length loop_execution_buckets) 0"

definition metrics_new :: "string \<Rightarrow> metrics" where
  "metrics_new v =
     \<lparr>m_version = v, up = 0, websocket_clients = 0,
      m_counters =
        \<lparr>healthchecks = [], leader_transfers = [], sequencer_starts = [], sequencer_stops = [],
         state_changes = [], rollup_boost_connection_attempts = [], loop_buckets = zero_buckets,
         loop_execution_count = 0, loop_execution_sum = [], rpc_server_requests = [],
         rpc_server_responses = [], rpc_server_params_size = [], rpc_server_results_size = [],
         rpc_server_request_buckets = [], rpc_server_request_count = [],
         rpc_server_request_sum = [], rpc_notifications_received = []\<rparr>\<rparr>"

section \<open>Recording\<close>

definition with_counters :: "(counters \<Rightarrow> counters) \<Rightarrow> metrics \<Rightarrow> metrics" where
  "with_counters f m = m\<lparr>m_counters := f (m_counters m)\<rparr>"

definition record_up :: "metrics \<Rightarrow> metrics" where
  "record_up m = m\<lparr>up := 1\<rparr>"

definition record_health_check :: "bool \<Rightarrow> string \<Rightarrow> metrics \<Rightarrow> metrics" where
  "record_health_check success err =
     with_counters (\<lambda>c. c\<lparr>healthchecks := bt_add (success, err) 1 (healthchecks c)\<rparr>)"

definition record_leader_transfer :: "bool \<Rightarrow> metrics \<Rightarrow> metrics" where
  "record_leader_transfer success =
     with_counters (\<lambda>c. c\<lparr>leader_transfers := bt_add success 1 (leader_transfers c)\<rparr>)"

definition record_start_sequencer :: "bool \<Rightarrow> metrics \<Rightarrow> metrics" where
  "record_start_sequencer success =
     with_counters (\<lambda>c. c\<lparr>sequencer_starts := bt_add success 1 (sequencer_starts c)\<rparr>)"

definition record_stop_sequencer :: "bool \<Rightarrow> metrics \<Rightarrow> metrics" where
  "record_stop_sequencer success =
     with_counters (\<lambda>c. c\<lparr>sequencer_stops := bt_add success 1 (sequencer_stops c)\<rparr>)"

definition record_state_change :: "bool \<Rightarrow> bool \<Rightarrow> bool \<Rightarrow> metrics \<Rightarrow> metrics" where
  "record_state_change leader healthy active =
     with_counters (\<lambda>c. c\<lparr>state_changes := bt_add (leader, healthy, active) 1 (state_changes c)\<rparr>)"

definition record_rollup_boost_connection_attempt :: "bool \<Rightarrow> string \<Rightarrow> metrics \<Rightarrow> metrics" where
  "record_rollup_boost_connection_attempt success src =
     with_counters (\<lambda>c. c\<lparr>rollup_boost_connection_attempts :=
       bt_add (success, src) 1 (rollup_boost_connection_attempts c)\<rparr>)"

text \<open>
  The loop over the bucket bounds, which adds one to the count at the same index. The index is in
  range because every vector of counts has one entry per bound (\<open>metrics_wf\<close> below, which all
  operations keep), so the guard, where the code would panic, never fails.
\<close>

fun add_to_buckets :: "duration \<Rightarrow> (duration \<times> string) list \<Rightarrow> nat \<Rightarrow> u64 list \<Rightarrow> u64 list" where
  "add_to_buckets d [] i counts = counts"
| "add_to_buckets d ((bound, _) # bs) i counts =
     add_to_buckets d bs (Suc i)
       (if d \<le> bound \<and> i < length counts then counts[i := counts ! i + 1] else counts)"

definition record_loop_execution_time :: "duration \<Rightarrow> metrics \<Rightarrow> metrics" where
  "record_loop_execution_time d =
     with_counters (\<lambda>c. c\<lparr>loop_buckets := add_to_buckets d loop_execution_buckets 0 (loop_buckets c),
       loop_execution_count := loop_execution_count c + 1,
       loop_execution_sum := loop_execution_sum c @ [d]\<rparr>)"

definition record_websocket_client_count :: "u64 \<Rightarrow> metrics \<Rightarrow> metrics" where
  "record_websocket_client_count n m = m\<lparr>websocket_clients := n\<rparr>"

definition record_rpc_server_notification :: "string \<Rightarrow> metrics \<Rightarrow> metrics" where
  "record_rpc_server_notification meth =
     with_counters (\<lambda>c. c\<lparr>rpc_notifications_received := bt_add meth 1 (rpc_notifications_received c)\<rparr>)"

definition record_rpc_server_request ::
  "string \<Rightarrow> u64 \<Rightarrow> duration \<Rightarrow> i64 option \<Rightarrow> u64 option \<Rightarrow> metrics \<Rightarrow> metrics" where
  "record_rpc_server_request meth params_size d error_code result_size =
     with_counters (\<lambda>c.
       let err = (case error_code of Some code \<Rightarrow> ''rpc_'' @ show_int code | None \<Rightarrow> ''<nil>'');
           buckets = unwrap_or (bt_get (rpc_server_request_buckets c) meth) zero_buckets
       in c\<lparr>rpc_server_requests := bt_add meth 1 (rpc_server_requests c),
            rpc_server_params_size := bt_add meth params_size (rpc_server_params_size c),
            rpc_server_responses := bt_add (meth, err) 1 (rpc_server_responses c),
            rpc_server_results_size :=
              (case result_size of
                 Some n \<Rightarrow> bt_add meth n (rpc_server_results_size c)
               | None \<Rightarrow> rpc_server_results_size c),
            rpc_server_request_buckets :=
              bt_insert meth (add_to_buckets d loop_execution_buckets 0 buckets) (rpc_server_request_buckets c),
            rpc_server_request_count := bt_add meth 1 (rpc_server_request_count c),
            rpc_server_request_sum :=
              bt_insert meth (unwrap_or (bt_get (rpc_server_request_sum c) meth) [] @ [d])
                (rpc_server_request_sum c)\<rparr>)"

section \<open>Prometheus text\<close>

definition quote_char :: char where "quote_char = CHR 0x22"
definition backslash_char :: char where "backslash_char = CHR 0x5C"
definition newline_char :: char where "newline_char = CHR 0x0A"

definition escape_label :: "string \<Rightarrow> string" where
  "escape_label raw_label =
     replace_char quote_char [backslash_char, quote_char]
       (replace_char backslash_char [backslash_char, backslash_char] raw_label)"

definition push_line :: "string \<Rightarrow> string" where
  "push_line l = l @ [newline_char]"

fun render_labels :: "(string \<times> string) list \<Rightarrow> string" where
  "render_labels [] = []"
| "render_labels [(k, v)] = k @ ''='' @ [quote_char] @ v @ [quote_char]"
| "render_labels ((k, v) # kv # kvs) =
     k @ ''='' @ [quote_char] @ v @ [quote_char] @ '','' @ render_labels (kv # kvs)"

text \<open>A line \<open>name{label="value",...} value\<close>.\<close>

definition sample_line :: "string \<Rightarrow> (string \<times> string) list \<Rightarrow> string \<Rightarrow> string" where
  "sample_line name labels v =
     push_line (name @ (if labels = [] then [] else ''{'' @ render_labels labels @ ''}'') @ '' '' @ v)"

definition type_line :: "string \<Rightarrow> string \<Rightarrow> string" where
  "type_line name kind = push_line (''# TYPE '' @ name @ '' '' @ kind)"

definition counter_lines ::
  "string \<Rightarrow> ('k \<Rightarrow> (string \<times> string) list) \<Rightarrow> ('k, u64) btree \<Rightarrow> string" where
  "counter_lines name labels entries =
     type_line name ''counter'' @ concat (map (\<lambda>(k, n). sample_line name (labels k) (show_u64 n)) entries)"

definition bucket_lines :: "string \<Rightarrow> (string \<times> string) list \<Rightarrow> u64 list \<Rightarrow> string" where
  "bucket_lines name labels counts =
     concat (map (\<lambda>((_, le), n). sample_line name (labels @ [(''le'', le)]) (show_u64 n))
       (zip loop_execution_buckets counts))"

definition main_labels :: "string \<Rightarrow> (string \<times> string) list" where
  "main_labels meth = [(''rpc'', ''main''), (''method'', escape_label meth)]"

text \<open>\<open>sum_text\<close> is the text of the floating-point sum of the durations, in seconds.\<close>

definition request_histogram :: "(duration list \<Rightarrow> string) \<Rightarrow> counters \<Rightarrow> string" where
  "request_histogram sum_text c =
     (let name = ''op_conductor_rpc_server_request_duration_seconds'' in
      type_line name ''histogram''
      @ concat (map (\<lambda>(meth, counts).
          bucket_lines (name @ ''_bucket'') (main_labels meth) counts
          @ sample_line (name @ ''_bucket'') (main_labels meth @ [(''le'', ''+Inf'')])
              (show_u64 (unwrap_or (bt_get (rpc_server_request_count c) meth) 0))
          @ sample_line (name @ ''_sum'') (main_labels meth)
              (sum_text (unwrap_or (bt_get (rpc_server_request_sum c) meth) []))
          @ sample_line (name @ ''_count'') (main_labels meth)
              (show_u64 (unwrap_or (bt_get (rpc_server_request_count c) meth) 0)))
        (rpc_server_request_buckets c)))"

definition render_prometheus :: "(duration list \<Rightarrow> string) \<Rightarrow> metrics \<Rightarrow> string" where
  "render_prometheus sum_text m =
     (let c = m_counters m; loop = ''op_conductor_loop_execution_time'' in
      type_line ''op_conductor_info'' ''gauge''
      @ sample_line ''op_conductor_info'' [(''version'', escape_label (m_version m))] ''1''
      @ type_line ''op_conductor_up'' ''gauge''
      @ sample_line ''op_conductor_up'' [] (show_u64 (up m))
      @ counter_lines ''op_conductor_healthchecks_count''
          (\<lambda>(success, e). [(''success'', show_bool success), (''error'', escape_label e)]) (healthchecks c)
      @ counter_lines ''op_conductor_leader_transfers_count''
          (\<lambda>success. [(''success'', show_bool success)]) (leader_transfers c)
      @ counter_lines ''op_conductor_sequencer_starts_count''
          (\<lambda>success. [(''success'', show_bool success)]) (sequencer_starts c)
      @ counter_lines ''op_conductor_sequencer_stops_count''
          (\<lambda>success. [(''success'', show_bool success)]) (sequencer_stops c)
      @ counter_lines ''op_conductor_state_changes_count''
          (\<lambda>(leader, healthy, active). [(''leader'', show_bool leader), (''healthy'', show_bool healthy),
             (''active'', show_bool active)]) (state_changes c)
      @ counter_lines ''op_conductor_rollup_boost_connection_attempts_count''
          (\<lambda>(success, src). [(''success'', show_bool success), (''source'', escape_label src)])
          (rollup_boost_connection_attempts c)
      @ type_line loop ''histogram''
      @ bucket_lines (loop @ ''_bucket'') [] (loop_buckets c)
      @ sample_line (loop @ ''_bucket'') [(''le'', ''+Inf'')] (show_u64 (loop_execution_count c))
      @ sample_line (loop @ ''_sum'') [] (sum_text (loop_execution_sum c))
      @ sample_line (loop @ ''_count'') [] (show_u64 (loop_execution_count c))
      @ type_line ''op_conductor_websocket_clients_connected'' ''gauge''
      @ sample_line ''op_conductor_websocket_clients_connected'' [] (show_u64 (websocket_clients m))
      @ counter_lines ''op_conductor_rpc_server_requests_total'' main_labels (rpc_server_requests c)
      @ request_histogram sum_text c
      @ counter_lines ''op_conductor_rpc_server_responses_total''
          (\<lambda>(meth, e). main_labels meth @ [(''error'', escape_label e)]) (rpc_server_responses c)
      @ counter_lines ''op_conductor_rpc_server_params_size_total'' main_labels (rpc_server_params_size c)
      @ counter_lines ''op_conductor_rpc_server_results_size_total'' main_labels (rpc_server_results_size c)
      @ counter_lines ''op_conductor_rpc_client_notifications_received_total'' main_labels
          (rpc_notifications_received c))"

section \<open>Histograms count what was recorded\<close>

text \<open>The counts a histogram of the durations \<open>ds\<close> must show.\<close>

definition bucket_counts :: "duration list \<Rightarrow> u64 list" where
  "bucket_counts ds =
     map (\<lambda>(bound, _). of_nat (length (filter (\<lambda>d. d \<le> bound) ds))) loop_execution_buckets"

lemma add_to_buckets_from:
  assumes "length counts = i + length bs"
  shows "add_to_buckets d bs i counts =
    take i counts @ map2 (\<lambda>(bound, _) n. if d \<le> bound then n + 1 else n) bs (drop i counts)"
  using assms
proof (induction bs arbitrary: i counts)
  case Nil
  then show ?case by simp
next
  case (Cons b bs)
  obtain bound t where b: "b = (bound, t)" by (cases b)
  let ?x = "if d \<le> bound then counts ! i + 1 else counts ! i"
  from Cons.prems have i: "i < length counts" by simp
  have upd: "(if d \<le> bound \<and> i < length counts then counts[i := counts ! i + 1] else counts) = counts[i := ?x]"
    using i by simp
  have "add_to_buckets d (b # bs) i counts = add_to_buckets d bs (Suc i) (counts[i := ?x])"
    using upd by (simp add: b)
  also have "\<dots> = take (Suc i) (counts[i := ?x])
      @ map2 (\<lambda>(bound, _) n. if d \<le> bound then n + 1 else n) bs (drop (Suc i) counts)"
    using Cons by simp
  also have "take (Suc i) (counts[i := ?x]) = take i counts @ [?x]"
    using i by (simp add: take_Suc_conv_app_nth)
  finally show ?case
    using i by (simp add: b Cons_nth_drop_Suc [symmetric])
qed

lemma add_to_buckets_counts:
  "add_to_buckets d loop_execution_buckets 0 (bucket_counts ds) = bucket_counts (ds @ [d])"
proof -
  let ?n = "\<lambda>ds (bound, _). of_nat (length (filter (\<lambda>d. d \<le> bound) ds)) :: u64"
  have "map2 (\<lambda>(bound, _) n. if d \<le> bound then n + 1 else n) bs (map (?n ds) bs) = map (?n (ds @ [d])) bs"
    for bs :: "(duration \<times> string) list"
    by (induction bs) auto
  then show ?thesis by (simp add: add_to_buckets_from bucket_counts_def)
qed

lemma bucket_counts_Nil: "bucket_counts [] = zero_buckets"
  by (simp add: bucket_counts_def zero_buckets_def loop_execution_buckets_def)

text \<open>
  The invariant: the loop histogram and the histogram of every method show exactly the durations
  recorded, and the three maps of a method's histogram have the same keys.
\<close>

definition histogram_of :: "u64 list \<Rightarrow> u64 \<Rightarrow> duration list \<Rightarrow> bool" where
  "histogram_of counts n ds = (counts = bucket_counts ds \<and> n = of_nat (length ds))"

definition request_durations :: "metrics \<Rightarrow> string \<Rightarrow> duration list" where
  "request_durations m meth = unwrap_or (bt_get (rpc_server_request_sum (m_counters m)) meth) []"

definition metrics_wf :: "metrics \<Rightarrow> bool" where
  "metrics_wf m =
     (let c = m_counters m in
      histogram_of (loop_buckets c) (loop_execution_count c) (loop_execution_sum c)
      \<and> (\<forall>meth.
           histogram_of (unwrap_or (bt_get (rpc_server_request_buckets c) meth) zero_buckets)
             (unwrap_or (bt_get (rpc_server_request_count c) meth) 0) (request_durations m meth)))"

text \<open>Everything the components record, as one datatype.\<close>

datatype metric_event =
    MUp
  | MHealthCheck bool string
  | MLeaderTransfer bool
  | MStart bool
  | MStop bool
  | MStateChange bool bool bool
  | MRollupBoost bool string
  | MLoopTime duration
  | MClients u64
  | MNotification string
  | MRequest string u64 duration "i64 option" "u64 option"

fun apply_metric :: "metric_event \<Rightarrow> metrics \<Rightarrow> metrics" where
  "apply_metric MUp = record_up"
| "apply_metric (MHealthCheck s e) = record_health_check s e"
| "apply_metric (MLeaderTransfer s) = record_leader_transfer s"
| "apply_metric (MStart s) = record_start_sequencer s"
| "apply_metric (MStop s) = record_stop_sequencer s"
| "apply_metric (MStateChange l h a) = record_state_change l h a"
| "apply_metric (MRollupBoost s src) = record_rollup_boost_connection_attempt s src"
| "apply_metric (MLoopTime d) = record_loop_execution_time d"
| "apply_metric (MClients n) = record_websocket_client_count n"
| "apply_metric (MNotification meth) = record_rpc_server_notification meth"
| "apply_metric (MRequest meth p d e r) = record_rpc_server_request meth p d e r"

lemmas recorder_defs = with_counters_def record_up_def record_health_check_def record_leader_transfer_def
  record_start_sequencer_def record_stop_sequencer_def record_state_change_def
  record_rollup_boost_connection_attempt_def record_loop_execution_time_def
  record_websocket_client_count_def record_rpc_server_notification_def record_rpc_server_request_def

fun loop_times :: "metric_event list \<Rightarrow> duration list" where
  "loop_times [] = []"
| "loop_times (MLoopTime d # es) = d # loop_times es"
| "loop_times (_ # es) = loop_times es"

fun request_times :: "string \<Rightarrow> metric_event list \<Rightarrow> duration list" where
  "request_times meth [] = []"
| "request_times meth (MRequest meth' _ d _ _ # es) =
     (if meth' = meth then d # request_times meth es else request_times meth es)"
| "request_times meth (_ # es) = request_times meth es"

lemma histogram_of_snoc:
  "histogram_of counts n ds \<Longrightarrow>
   histogram_of (add_to_buckets d loop_execution_buckets 0 counts) (n + 1) (ds @ [d])"
  by (simp add: histogram_of_def add_to_buckets_counts)

lemma metrics_new_wf: "metrics_wf (metrics_new v)"
  by (simp add: metrics_wf_def metrics_new_def histogram_of_def request_durations_def bucket_counts_Nil)

lemma apply_metric_wf: "metrics_wf m \<Longrightarrow> metrics_wf (apply_metric e m)"
  by (cases e)
    (auto simp: metrics_wf_def recorder_defs Let_def request_durations_def btree_simps histogram_of_snoc)

lemma apply_metric_loop:
  "loop_execution_sum (m_counters (apply_metric e m)) = loop_execution_sum (m_counters m) @ loop_times [e]"
  by (cases e) (simp_all add: recorder_defs Let_def)

lemma apply_metric_request:
  "request_durations (apply_metric e m) meth = request_durations m meth @ request_times meth [e]"
  by (cases e) (simp_all add: recorder_defs Let_def request_durations_def btree_simps)

lemma loop_times_Cons: "loop_times (e # es) = loop_times [e] @ loop_times es"
  by (cases e) simp_all

lemma request_times_Cons: "request_times meth (e # es) = request_times meth [e] @ request_times meth es"
  by (cases e) simp_all

lemma fold_metrics:
  assumes "metrics_wf m"
  shows "metrics_wf (fold apply_metric es m)
    \<and> loop_execution_sum (m_counters (fold apply_metric es m)) = loop_execution_sum (m_counters m) @ loop_times es
    \<and> request_durations (fold apply_metric es m) meth = request_durations m meth @ request_times meth es"
  using assms
proof (induction es arbitrary: m)
  case Nil
  then show ?case by simp
next
  case (Cons e es)
  then show ?case
    using apply_metric_wf [of m e]
    by (simp add: apply_metric_loop apply_metric_request loop_times_Cons [of e es]
        request_times_Cons [of meth e es])
qed

text \<open>
  C39. After any sequence of recordings the loop histogram and the request histogram of every method
  show exactly the durations that were recorded for them: each bucket counts the durations up to
  its bound and the total counts them all (both modulo \<open>2^64\<close>), so no vector of counts is ever
  indexed out of range.
\<close>

theorem histograms_exact:
  "let c = m_counters (fold apply_metric es (metrics_new v)) in
     loop_buckets c = bucket_counts (loop_times es)
     \<and> loop_execution_count c = of_nat (length (loop_times es))
     \<and> unwrap_or (bt_get (rpc_server_request_buckets c) meth) zero_buckets = bucket_counts (request_times meth es)
     \<and> unwrap_or (bt_get (rpc_server_request_count c) meth) 0 = of_nat (length (request_times meth es))"
proof -
  have "loop_execution_sum (m_counters (metrics_new v)) = []" "request_durations (metrics_new v) meth = []"
    by (simp_all add: metrics_new_def request_durations_def)
  with fold_metrics [OF metrics_new_wf, of es v meth] show ?thesis
    by (simp add: metrics_wf_def histogram_of_def Let_def)
qed

section \<open>Labels can be read back\<close>

text \<open>
  How a Prometheus reader takes a label value: up to the first quote that no backslash precedes, a
  backslash standing for the character after it, or for a line feed before the letter n. The result
  is the value and what follows it.
\<close>

fun read_quoted :: "string \<Rightarrow> (string \<times> string) option" where
  "read_quoted [] = None"
| "read_quoted [c] = (if c = quote_char then Some ([], []) else None)"
| "read_quoted (c # d # s) =
     (if c = quote_char then Some ([], d # s)
      else if c = backslash_char then map_option (\<lambda>(a, r). ((if d = CHR ''n'' then newline_char else d) # a, r)) (read_quoted s)
      else map_option (\<lambda>(a, r). (c # a, r)) (read_quoted (d # s)))"

lemma escape_label_Cons:
  "escape_label (c # s) =
     (if c = backslash_char \<or> c = quote_char then [backslash_char, c] else [c]) @ escape_label s"
  by (auto simp: escape_label_def quote_char_def backslash_char_def)

lemma escape_label_Nil: "escape_label [] = []"
  by (simp add: escape_label_def)

lemma read_quoted_plain:
  "c \<noteq> quote_char \<Longrightarrow> c \<noteq> backslash_char \<Longrightarrow>
   read_quoted (c # s) = map_option (\<lambda>(a, r). (c # a, r)) (read_quoted s)"
  by (cases s) simp_all

text \<open>
  An escaped label between quotes reads back as the label, whatever quotes and backslashes it
  contains, so no recorded text can end its label early.
\<close>

theorem escape_label_reads_back:
  "read_quoted (escape_label s @ quote_char # rest) = Some (s, rest)"
proof (induction s)
  case Nil
  show ?case by (cases rest) (simp_all add: escape_label_Nil)
next
  case (Cons c s)
  have "quote_char \<noteq> backslash_char" "quote_char \<noteq> CHR ''n''" "backslash_char \<noteq> CHR ''n''"
    by (simp_all add: quote_char_def backslash_char_def)
  then show ?case
    using Cons.IH by (auto simp: escape_label_Cons read_quoted_plain)
qed

end
