(* ===== verification/Time_Counter.thy ===== *)
theory Time_Counter
  imports Prelude
begin

text \<open>
  \<open>TimeBoundedCounter\<close> of \<open>src/conductor.rs\<close>: how many partial-health answers of rollup-boost were
  tolerated in each interval of time. Shows that an interval tolerates exactly as many as the limit
  allows and that the table stays bounded.
\<close>

record time_counter =
  buckets :: "(u64, u64) btree"

definition bucket :: "u64 \<Rightarrow> u64 \<Rightarrow> u64" where
  "bucket now interval_secs = now div interval_secs"

definition current_value :: "time_counter \<Rightarrow> u64 \<Rightarrow> u64 \<Rightarrow> u64" where
  "current_value c now interval_secs = unwrap_or (bt_get (buckets c) (bucket now interval_secs)) 0"

definition increment :: "u64 \<Rightarrow> u64 \<Rightarrow> time_counter \<Rightarrow> u64 \<times> time_counter" where
  "increment now interval_secs c =
     (let b = bucket now interval_secs;
          latest = unwrap_or (bt_get (buckets c) b) 0 + 1;
          m = bt_insert b latest (buckets c)
      in (latest, c\<lparr>buckets := (if 1000 < length m then bt_insert b latest [] else m)\<rparr>))"

record partial_tolerance =
  pt_limit :: u64
  pt_interval :: duration

text \<open>
  \<open>Conductor::tolerate_rollup_boost_partial_health\<close>, on the counter it locks. The interval is not
  zero where it divides.
\<close>

definition tolerate_partial_health ::
  "partial_tolerance option \<Rightarrow> u64 \<Rightarrow> time_counter \<Rightarrow> bool \<times> time_counter" where
  "tolerate_partial_health t now c =
     (case t of
        None \<Rightarrow> (False, c)
      | Some tolerance \<Rightarrow>
          let interval_secs = as_secs (pt_interval tolerance) in
          if pt_limit tolerance = 0 \<or> interval_secs = 0 then (False, c)
          else if current_value c now interval_secs \<ge> pt_limit tolerance then (False, c)
          else (True, snd (increment now interval_secs c)))"

section \<open>Lemmas\<close>

definition counter_wf :: "time_counter \<Rightarrow> bool" where
  "counter_wf c = (bt_wf (buckets c) \<and> length (buckets c) \<le> 1000)"

lemma increment_wf: "counter_wf c \<Longrightarrow> counter_wf (snd (increment now i c))"
  by (auto simp: counter_wf_def increment_def Let_def bt_wf_insert)

lemma tolerate_wf: "counter_wf c \<Longrightarrow> counter_wf (snd (tolerate_partial_health t now c))"
  by (auto simp: tolerate_partial_health_def Let_def increment_wf split: option.split)

lemma current_value_increment:
  assumes "bucket now' i = bucket now i"
  shows "current_value (snd (increment now i c)) now' i = current_value c now i + 1"
  using assms by (simp add: current_value_def increment_def Let_def btree_simps)

text \<open>Tolerating at a list of times, one after the other, with the number of times it succeeded.\<close>

fun tolerate_all :: "partial_tolerance \<Rightarrow> u64 list \<Rightarrow> time_counter \<Rightarrow> nat \<times> time_counter" where
  "tolerate_all t [] c = (0, c)"
| "tolerate_all t (now # ts) c =
     (case tolerate_partial_health (Some t) now c of (b, c') \<Rightarrow>
        (case tolerate_all t ts c' of (n, c'') \<Rightarrow> ((if b then n + 1 else n), c'')))"

lemma tolerate_all_wf: "counter_wf c \<Longrightarrow> counter_wf (snd (tolerate_all t ts c))"
proof (induction ts arbitrary: c)
  case (Cons now ts)
  then show ?case
    using tolerate_wf [of c "Some t" now] by (auto split: prod.split) (metis snd_conv)
qed simp

lemma tolerate_all_count:
  assumes "as_secs (pt_interval t) \<noteq> 0"
    and "\<forall>now \<in> set ts. bucket now (as_secs (pt_interval t)) = bucket now0 (as_secs (pt_interval t))"
  shows "fst (tolerate_all t ts c) =
    min (length ts) (unat (pt_limit t) - unat (current_value c now0 (as_secs (pt_interval t))))"
  using assms(2)
proof (induction ts arbitrary: c)
  case Nil
  then show ?case by simp
next
  case (Cons now ts)
  let ?i = "as_secs (pt_interval t)"
  let ?v = "current_value c now0 ?i"
  have b: "bucket now ?i = bucket now0 ?i" using Cons.prems by simp
  then have same: "current_value c now ?i = ?v" by (simp add: current_value_def)
  show ?case
  proof (cases "?v < pt_limit t")
    case True
    let ?c' = "snd (increment now ?i c)"
    have step: "tolerate_partial_health (Some t) now c = (True, ?c')"
      using True same assms(1) by (auto simp: tolerate_partial_health_def Let_def)
    have "current_value ?c' now0 ?i = ?v + 1"
      using current_value_increment [of now0 ?i now c] b same by simp
    moreover have "unat (?v + 1) = unat ?v + 1"
      using True by (rule unat_plus1_less)
    moreover have "unat ?v < unat (pt_limit t)" using True by (simp add: word_less_nat_alt)
    moreover have "fst (tolerate_all t ts ?c') = min (length ts) (unat (pt_limit t) - unat (current_value ?c' now0 ?i))"
      using Cons by simp
    ultimately show ?thesis using step by (auto split: prod.split)
  next
    case False
    have step: "tolerate_partial_health (Some t) now c = (False, c)"
      using False same by (auto simp: tolerate_partial_health_def Let_def)
    moreover have "fst (tolerate_all t ts c) = min (length ts) (unat (pt_limit t) - unat ?v)"
      using Cons by simp
    moreover have "unat (pt_limit t) - unat ?v = 0" using False by (simp add: word_less_nat_alt not_less)
    ultimately show ?thesis by (simp split: prod.split)
  qed
qed

text \<open>
  C38. Within one interval rollup-boost may be partially healthy exactly as often as the limit
  allows: of any number of checks at times in the same interval, the first ones are tolerated up to
  the limit minus those already used, and all later ones refused; the table never exceeds 1000
  entries.
\<close>

theorem tolerated_up_to_limit:
  assumes "counter_wf c" "as_secs (pt_interval t) \<noteq> 0"
    "\<forall>now \<in> set ts. bucket now (as_secs (pt_interval t)) = bucket now0 (as_secs (pt_interval t))"
  shows "fst (tolerate_all t ts c) =
      min (length ts) (unat (pt_limit t) - unat (current_value c now0 (as_secs (pt_interval t))))
    \<and> length (buckets (snd (tolerate_all t ts c))) \<le> 1000"
  using tolerate_all_count [OF assms(2,3)] tolerate_all_wf [OF assms(1)] by (simp add: counter_wf_def)

theorem tolerated_up_to_limit_witness:
  "fst (tolerate_all \<lparr>pt_limit = 2, pt_interval = 60000000000\<rparr> [120, 130, 179] \<lparr>buckets = []\<rparr>) = 2"
  using tolerated_up_to_limit [of "\<lparr>buckets = []\<rparr>" "\<lparr>pt_limit = 2, pt_interval = 60000000000\<rparr>" "[120, 130, 179]" 120]
  by (simp add: counter_wf_def as_secs_def bucket_def current_value_def)

end
