(* ===== verification/Conductor_State.thy ===== *)
theory Conductor_State
  imports Consensus_Local Sequencer_Control Health_Checks Metrics_Registry Time_Counter
begin

text \<open>
  \<open>src/conductor.rs\<close>: the state of the conductor, which keeps the sequencer running on the leader and
  stopped elsewhere, and the operations that touch little of it. Consensus, sequencer, health clients and the two watch channels (\<open>tokio\<close>) are the
  operations of the record \<open>env\<close> on one state \<open>'w\<close> of everything outside the conductor, so that any of
  them may change what the others see, as a leadership change during a call does. The state of the
  conductor itself is a record with the fields of the struct; the locks make each operation below
  one step on it, and elapsed times and the clock are arguments.
\<close>

section \<open>Configuration, health and errors\<close>

record conductor_config =
  start_paused :: bool
  unsafe_repair_depth :: u64
  round_robin_leader_transfer :: bool
  healthcheck_unsafe_interval :: duration
  healthcheck_safe_enabled :: bool
  healthcheck_safe_interval :: duration
  healthcheck_min_peer_count :: u64
  cc_execution_p2p_health :: "execution_p2p_config option"
  cc_supervisor_health :: "url option"
  cc_rollup_boost_health :: "rollup_boost_config option"
  cc_partial_health_tolerance :: "partial_tolerance option"

definition default_config :: conductor_config where
  "default_config =
     \<lparr>start_paused = False, unsafe_repair_depth = 1, round_robin_leader_transfer = False,
      healthcheck_unsafe_interval = from_secs 60, healthcheck_safe_enabled = False,
      healthcheck_safe_interval = from_secs 1200, healthcheck_min_peer_count = 1,
      cc_execution_p2p_health = None, cc_supervisor_health = None, cc_rollup_boost_health = None,
      cc_partial_health_tolerance = None\<rparr>"

record cstate =
  st_leader :: bool
  st_healthy :: bool
  st_active :: bool

datatype health =
    Healthy
  | Unhealthy string
  | SequencerConnectionDown string
  | SupervisorConnectionDown string
  | ExecutionP2pConnectionDown string
  | RollupBoostConnectionDown string
  | RollupBoostPartiallyHealthy string

definition healthy :: "health \<Rightarrow> bool" where
  "healthy h = (case h of Healthy \<Rightarrow> True | _ \<Rightarrow> False)"

definition prevents_new_leader_start :: "health \<Rightarrow> bool" where
  "prevents_new_leader_start h = (case h of SequencerConnectionDown _ \<Rightarrow> True | _ \<Rightarrow> False)"

definition prevents_health_recovery_wait :: "health \<Rightarrow> bool" where
  "prevents_health_recovery_wait h =
     (case h of SequencerConnectionDown _ \<Rightarrow> True | RollupBoostPartiallyHealthy _ \<Rightarrow> True | _ \<Rightarrow> False)"

definition err_sequencer_not_healthy :: string where
  "err_sequencer_not_healthy = ''sequencer is not healthy''"
definition err_sequencer_connection_down :: string where
  "err_sequencer_connection_down = ''cannot connect to sequencer rpc endpoints''"
definition err_supervisor_connection_down :: string where
  "err_supervisor_connection_down = ''cannot connect to supervisor rpc endpoint''"
definition err_rollup_boost_connection_down :: string where
  "err_rollup_boost_connection_down = ''cannot connect to rollup boost rpc endpoints''"
definition err_rollup_boost_partially_healthy :: string where
  "err_rollup_boost_partially_healthy =
     ''rollup boost is partially healthy, meaning that rbuilder is not healthy but the execution client is healthy''"
definition err_rollup_boost_not_healthy :: string where
  "err_rollup_boost_not_healthy = ''rollup boost is not healthy''"

definition metric_error :: "health \<Rightarrow> string" where
  "metric_error h =
     (case h of
        Healthy \<Rightarrow> []
      | Unhealthy err \<Rightarrow> if err = err_rollup_boost_not_healthy then err else err_sequencer_not_healthy
      | SequencerConnectionDown _ \<Rightarrow> err_sequencer_connection_down
      | SupervisorConnectionDown _ \<Rightarrow> err_supervisor_connection_down
      | ExecutionP2pConnectionDown err \<Rightarrow> err
      | RollupBoostConnectionDown _ \<Rightarrow> err_rollup_boost_connection_down
      | RollupBoostPartiallyHealthy _ \<Rightarrow> err_rollup_boost_partially_healthy)"

datatype conductor_error =
    CStopped
  | NoUnsafeHead
  | UnsafeHeadMismatch
  | CConsensus consensus_error
  | CSequencer sequencer_error
  | WaitingForHealthRecovery
  | StopAndTransfer string string

fun show_conductor_error :: "lib \<Rightarrow> conductor_error \<Rightarrow> string" where
  "show_conductor_error L CStopped = ''conductor is stopped''"
| "show_conductor_error L NoUnsafeHead = ''no unsafe head''"
| "show_conductor_error L UnsafeHeadMismatch = ''unsafe head mismatch''"
| "show_conductor_error L (CConsensus e) = ''consensus error: '' @ show_consensus_error e"
| "show_conductor_error L (CSequencer e) = ''sequencer error: '' @ show_sequencer_error L e"
| "show_conductor_error L WaitingForHealthRecovery = ''waiting for sequencing to become healthy by itself''"
| "show_conductor_error L (StopAndTransfer stop transfer) =
     ''failed to stop sequencer and transfer leadership: stop='' @ stop @ ''; transfer='' @ transfer"

section \<open>Environment and state\<close>

text \<open>The optional health clients; a client that is not configured is \<open>None\<close>.\<close>

record 'w health_clients =
  hc_supervisor :: "('w, rpc_error, unit) call option"
  hc_execution_p2p :: "('w, rpc_error, u64) call option"
  hc_rollup_boost :: "('w, rollup_boost_error, rollup_boost_status) call option"

text \<open>
  The two watch channels: sending on them, and the value a receiver that subscribes now would see
  on the channel of \<open>stopped_tx\<close>.
\<close>

record 'w signals =
  sg_send_stopped :: "bool \<Rightarrow> 'w \<Rightarrow> 'w"
  sg_send_action :: "u64 \<Rightarrow> 'w \<Rightarrow> 'w"
  sg_stopped_value :: "'w \<Rightarrow> bool"

record 'w env =
  e_lib :: lib
  e_status_text :: "nat \<Rightarrow> string"
  e_consensus :: "'w consensus"
  e_sequencer :: "'w sequencer"
  e_health :: "'w health_clients"
  e_signals :: "'w signals"

record 'w conductor =
  cfg :: conductor_config
  cm_metrics :: metrics
  leader_override :: bool
  paused :: bool
  stopping :: bool
  stopped :: bool
  action_seq :: u64
  c_health :: health
  seq_active :: bool
  previous :: cstate
  partial_counter :: time_counter
  world :: 'w

definition conductor_new :: "'w env \<Rightarrow> string \<Rightarrow> conductor_config \<Rightarrow> 'w \<Rightarrow> 'w conductor" where
  "conductor_new E pkg_version config w =
     \<lparr>cfg = config, cm_metrics = metrics_new pkg_version, leader_override = False,
      paused = start_paused config, stopping = False, stopped = False, action_seq = 0,
      c_health = Healthy, seq_active = False,
      previous = \<lparr>st_leader = cs_leader (e_consensus E) w, st_healthy = True, st_active = False\<rparr>,
      partial_counter = \<lparr>buckets = []\<rparr>, world = w\<rparr>"

text \<open>The clients \<open>Conductor::new\<close> builds from the configuration, over their own request counters.\<close>

record 'w health_world =
  hw_supervisor :: "json_rpc_client option"
  hw_execution_p2p :: "execution_p2p_client option"
  hw_outside :: 'w

definition health_world_new :: "conductor_config \<Rightarrow> 'w \<Rightarrow> 'w health_world" where
  "health_world_new config w =
     \<lparr>hw_supervisor = map_option supervisor_new (cc_supervisor_health config),
      hw_execution_p2p = map_option execution_p2p_new (cc_execution_p2p_health config),
      hw_outside = w\<rparr>"

definition health_clients_new ::
  "lib \<Rightarrow> 'w http \<Rightarrow> 'w http_get \<Rightarrow> (string \<Rightarrow> string + string) \<Rightarrow> conductor_config \<Rightarrow>
   'w health_world \<Rightarrow> 'w health_world health_clients" where
  "health_clients_new L http get decode config hw =
     \<lparr>hc_supervisor =
        map_option (\<lambda>c h. case supervisor_check L http (unwrap_or (hw_supervisor h) c, hw_outside h) of
          (r, c', w') \<Rightarrow> (r, h\<lparr>hw_supervisor := Some c', hw_outside := w'\<rparr>)) (hw_supervisor hw),
      hc_execution_p2p =
        map_option (\<lambda>p h. case execution_peer_count L http (p2p_api p)
            (p2p_client (unwrap_or (hw_execution_p2p h) p), hw_outside h) of
          (r, c', w') \<Rightarrow>
            (r, h\<lparr>hw_execution_p2p := Some (p\<lparr>p2p_client := c'\<rparr>), hw_outside := w'\<rparr>)) (hw_execution_p2p hw),
      hc_rollup_boost =
        map_option (\<lambda>rb h. case rollup_boost_check get decode rb (hw_outside h) of
          (r, w') \<Rightarrow> (r, h\<lparr>hw_outside := w'\<rparr>)) (cc_rollup_boost_health config)\<rparr>"

text \<open>A call to the outside from the conductor.\<close>

definition in_world :: "('w, 'e, 'a) call \<Rightarrow> ('w conductor, 'e, 'a) call" where
  "in_world m s = (case m (world s) of (r, w) \<Rightarrow> (r, s\<lparr>world := w\<rparr>))"

definition on_metrics :: "(metrics \<Rightarrow> metrics) \<Rightarrow> 'w conductor \<Rightarrow> 'w conductor" where
  "on_metrics f s = s\<lparr>cm_metrics := f (cm_metrics s)\<rparr>"

section \<open>Simple operations\<close>

definition leader :: "'w env \<Rightarrow> 'w conductor \<Rightarrow> bool" where
  "leader E s = (leader_override s \<or> cs_leader (e_consensus E) (world s))"

definition set_leader_override :: "bool \<Rightarrow> 'w conductor \<Rightarrow> 'w conductor" where
  "set_leader_override b s = s\<lparr>leader_override := b\<rparr>"

definition stopping_or_stopped :: "'w conductor \<Rightarrow> bool" where
  "stopping_or_stopped s = (stopping s \<or> stopped s)"

definition active :: "'w conductor \<Rightarrow> bool" where
  "active s = (\<not> paused s \<and> \<not> stopped s)"

definition sequencer_healthy :: "'w conductor \<Rightarrow> bool" where
  "sequencer_healthy s = healthy (c_health s)"

definition leader_with_id :: "'w env \<Rightarrow> 'w conductor \<Rightarrow> server_info" where
  "leader_with_id E s =
     (if leader_override s
      then \<lparr>si_id = ''N/A (Leader overridden)'', si_addr = ''N/A'', si_suffrage = Voter\<rparr>
      else cs_leader_with_id (e_consensus E) (world s))"

definition consensus_endpoint :: "'w env \<Rightarrow> 'w conductor \<Rightarrow> string" where
  "consensus_endpoint E s = cs_addr (e_consensus E) (world s)"

definition on_consensus :: "('w, consensus_error, 'a) call \<Rightarrow> ('w conductor, conductor_error, 'a) call" where
  "on_consensus m = call_err CConsensus (in_world m)"

definition on_sequencer :: "('w, sequencer_error, 'a) call \<Rightarrow> ('w conductor, conductor_error, 'a) call" where
  "on_sequencer m = call_err CSequencer (in_world m)"

definition add_server_as_voter ::
  "'w env \<Rightarrow> string \<Rightarrow> string \<Rightarrow> u64 \<Rightarrow> ('w conductor, conductor_error, unit) call" where
  "add_server_as_voter E i a v = on_consensus (cs_add_voter (e_consensus E) i a v)"

definition add_server_as_nonvoter ::
  "'w env \<Rightarrow> string \<Rightarrow> string \<Rightarrow> u64 \<Rightarrow> ('w conductor, conductor_error, unit) call" where
  "add_server_as_nonvoter E i a v = on_consensus (cs_add_non_voter (e_consensus E) i a v)"

definition remove_server :: "'w env \<Rightarrow> string \<Rightarrow> u64 \<Rightarrow> ('w conductor, conductor_error, unit) call" where
  "remove_server E i v = on_consensus (cs_remove_server (e_consensus E) i v)"

definition demote_voter :: "'w env \<Rightarrow> string \<Rightarrow> u64 \<Rightarrow> ('w conductor, conductor_error, unit) call" where
  "demote_voter E i v = on_consensus (cs_demote_voter (e_consensus E) i v)"

definition transfer_leader :: "'w env \<Rightarrow> ('w conductor, conductor_error, unit) call" where
  "transfer_leader E = on_consensus (cs_transfer_leader (e_consensus E))"

definition transfer_leader_to_server ::
  "'w env \<Rightarrow> string \<Rightarrow> string \<Rightarrow> ('w conductor, conductor_error, unit) call" where
  "transfer_leader_to_server E i a = on_consensus (cs_transfer_leader_to (e_consensus E) i a)"

definition conductor_membership :: "'w env \<Rightarrow> ('w conductor, conductor_error, cluster_membership) call" where
  "conductor_membership E = on_consensus (cs_membership (e_consensus E))"

definition commit_unsafe_payload :: "'w env \<Rightarrow> payload_envelope \<Rightarrow> ('w conductor, conductor_error, unit) call" where
  "commit_unsafe_payload E p = on_consensus (cs_commit_unsafe_payload (e_consensus E) p)"

definition latest_unsafe_payload :: "'w env \<Rightarrow> ('w conductor, conductor_error, payload_envelope option) call" where
  "latest_unsafe_payload E = on_consensus (cs_latest_unsafe_payload (e_consensus E))"

definition expected_start_hash :: "'w env \<Rightarrow> ('w conductor, conductor_error, hash) call" where
  "expected_start_hash E =
     try_call (latest_unsafe_payload E) (\<lambda>po s.
       (and_then (ok_or po NoUnsafeHead) (\<lambda>p. map_err (\<lambda>_. UnsafeHeadMismatch) (block_hash (e_lib E) p)), s))"

definition queue_action :: "'w env \<Rightarrow> 'w conductor \<Rightarrow> 'w conductor" where
  "queue_action E s =
     (let n = action_seq s + 1
      in s\<lparr>action_seq := n, world := sg_send_action (e_signals E) n (world s)\<rparr>)"

definition pause :: "('w conductor, conductor_error, unit) call" where
  "pause s = (if stopped s then (Inl CStopped, s) else (Inr (), s\<lparr>paused := True\<rparr>))"

definition resume :: "'w env \<Rightarrow> ('w conductor, conductor_error, unit) call" where
  "resume E s =
     (if stopped s then (Inl CStopped, s)
      else try_call (on_sequencer (sq_sequencer_active (e_sequencer E))) (\<lambda>a s'.
        (Inr (), queue_action E (s'\<lparr>seq_active := a, paused := False\<rparr>))) s)"

text \<open>
  \<open>stop\<close> first raises the \<open>stopping\<close> flag, then waits for the action lock: an action in progress
  finishes between the two halves.
\<close>

definition stop_begin :: "'w conductor \<Rightarrow> 'w conductor" where
  "stop_begin s = (if stopped s then s else s\<lparr>stopping := True\<rparr>)"

definition stop_finish :: "'w env \<Rightarrow> ('w conductor, conductor_error, unit) call" where
  "stop_finish E s =
     (if stopped s then (Inr (), s)
      else try_call (on_consensus (cs_shutdown (e_consensus E))) (\<lambda>_ s'.
        (Inr (), s'\<lparr>stopped := True, world := sg_send_stopped (e_signals E) True (world s')\<rparr>)) s)"

definition stop :: "'w env \<Rightarrow> ('w conductor, conductor_error, unit) call" where
  "stop E s = stop_finish E (stop_begin s)"

text \<open>
  The loop of \<open>wait_stopped\<close>: from the value it sees on subscribing, with what each \<open>changed\<close> brings,
  a new value or \<open>None\<close> for a closed channel. True when it has returned by the end of the list.
\<close>

fun wait_stopped :: "bool \<Rightarrow> bool option list \<Rightarrow> bool" where
  "wait_stopped v [] = v"
| "wait_stopped v (e # es) = (v \<or> (case e of None \<Rightarrow> True | Some v' \<Rightarrow> wait_stopped v' es))"

definition refresh_sequencer_active :: "'w env \<Rightarrow> ('w conductor, conductor_error, unit) call" where
  "refresh_sequencer_active E =
     try_call (on_sequencer (sq_sequencer_active (e_sequencer E))) (\<lambda>a s. (Inr (), s\<lparr>seq_active := a\<rparr>))"

definition current_state :: "'w env \<Rightarrow> 'w conductor \<Rightarrow> cstate" where
  "current_state E s =
     \<lparr>st_leader = cs_leader (e_consensus E) (world s), st_healthy = healthy (c_health s),
      st_active = seq_active s\<rparr>"

definition seed_previous_state_from_current :: "'w env \<Rightarrow> 'w conductor \<Rightarrow> 'w conductor" where
  "seed_previous_state_from_current E s = s\<lparr>previous := current_state E s\<rparr>"

definition initialize_startup_state :: "'w env \<Rightarrow> ('w conductor, conductor_error, unit) call" where
  "initialize_startup_state E =
     try_call (refresh_sequencer_active E) (\<lambda>_ s. (Inr (), seed_previous_state_from_current E s))"

lemma on_metrics_sel [simp]:
  "cfg (on_metrics f s) = cfg s" "leader_override (on_metrics f s) = leader_override s"
  "paused (on_metrics f s) = paused s" "stopping (on_metrics f s) = stopping s"
  "stopped (on_metrics f s) = stopped s" "action_seq (on_metrics f s) = action_seq s"
  "c_health (on_metrics f s) = c_health s" "seq_active (on_metrics f s) = seq_active s"
  "previous (on_metrics f s) = previous s" "partial_counter (on_metrics f s) = partial_counter s"
  "world (on_metrics f s) = world s" "cm_metrics (on_metrics f s) = f (cm_metrics s)"
  by (simp_all add: on_metrics_def)

end
