(* ===== verification/Conductor_Actions.thy ===== *)
theory Conductor_Actions
  imports Conductor_State
begin

text \<open>
  \<open>src/conductor.rs\<close>: starting and stopping the sequencer, handing over leadership, the decision
  \<open>action\<close> takes, the health checks and the periodic \<open>tick\<close>.
\<close>

section \<open>Stopping and starting the sequencer\<close>

definition stop_sequencer :: "'w env \<Rightarrow> ('w conductor, conductor_error, unit) call" where
  "stop_sequencer E s =
     (case in_world (sq_stop_sequencer (e_sequencer E)) s of
        (Inr _, s') \<Rightarrow> (Inr (), on_metrics (record_stop_sequencer True) (s'\<lparr>seq_active := False\<rparr>))
      | (Inl err, s') \<Rightarrow>
          if is_sequencer_already_stopped err
          then (Inr (), on_metrics (record_stop_sequencer False) (s'\<lparr>seq_active := False\<rparr>))
          else (Inl (CSequencer err), on_metrics (record_stop_sequencer False) s'))"

text \<open>The hash to start at, once the unsafe head of consensus and the head of the node are known.\<close>

definition choose_start_hash ::
  "'w env \<Rightarrow> payload_envelope \<Rightarrow> hash \<Rightarrow> u64 \<Rightarrow> block_info \<Rightarrow> ('w conductor, conductor_error, hash) call" where
  "choose_start_hash E payload consensus_hash consensus_number node_head s =
     (if bi_hash node_head \<noteq> consensus_hash
      then
        (if consensus_number > bi_number node_head
            \<and> consensus_number - bi_number node_head \<le> unsafe_repair_depth (cfg s)
         then try_call (on_sequencer (sq_post_unsafe_payload (e_sequencer E) payload))
                (\<lambda>_. call_ok consensus_hash) s
         else if bi_number node_head > consensus_number
         then try_call (on_sequencer (sq_block_by_number (e_sequencer E) consensus_number)) (\<lambda>ancestor.
                if bi_hash ancestor \<noteq> consensus_hash then call_fail UnsafeHeadMismatch
                else call_ok (bi_hash node_head)) s
         else (Inl UnsafeHeadMismatch, s))
      else (Inr consensus_hash, s))"

text \<open>The result tells whether the sequencer reported that it was running already.\<close>

definition start_at :: "'w env \<Rightarrow> hash \<Rightarrow> ('w conductor, conductor_error, bool) call" where
  "start_at E h s =
     (case in_world (sq_start_sequencer (e_sequencer E) h) s of
        (Inr _, s') \<Rightarrow> (Inr False, s'\<lparr>seq_active := True\<rparr>)
      | (Inl err, s') \<Rightarrow>
          if is_sequencer_already_started err then (Inr True, s'\<lparr>seq_active := True\<rparr>)
          else (Inl (CSequencer err), s'))"

definition start_attempt :: "'w env \<Rightarrow> ('w conductor, conductor_error, bool) call" where
  "start_attempt E =
     try_call (on_consensus (cs_latest_unsafe_payload (e_consensus E))) (\<lambda>po.
       case po of
         None \<Rightarrow> call_fail NoUnsafeHead
       | Some payload \<Rightarrow>
           (case (block_hash (e_lib E) payload, block_number (e_lib E) payload) of
              (Inl _, _) \<Rightarrow> call_fail UnsafeHeadMismatch
            | (_, Inl _) \<Rightarrow> call_fail UnsafeHeadMismatch
            | (Inr consensus_hash, Inr consensus_number) \<Rightarrow>
                try_call (on_sequencer (sq_latest_unsafe_block (e_sequencer E))) (\<lambda>node_head.
                try_call (choose_start_hash E payload consensus_hash consensus_number node_head)
                  (start_at E))))"

definition start_sequencer :: "'w env \<Rightarrow> ('w conductor, conductor_error, unit) call" where
  "start_sequencer E s =
     (case start_attempt E s of
        (Inl e, s') \<Rightarrow> (Inl e, on_metrics (record_start_sequencer False) s')
      | (Inr already_started, s') \<Rightarrow> (Inr (), on_metrics (record_start_sequencer (\<not> already_started)) s'))"

section \<open>Handing over leadership\<close>

text \<open>The loop over the offsets of the voters after the current one, with the last error.\<close>

fun try_transfer_targets ::
  "'w env \<Rightarrow> server_info list \<Rightarrow> consensus_error option \<Rightarrow> ('w conductor, conductor_error, unit) call" where
  "try_transfer_targets E [] last_err s =
     (if last_err \<noteq> None then on_consensus (cs_transfer_leader (e_consensus E)) s else (Inr (), s))"
| "try_transfer_targets E (target # targets) last_err s =
     (case in_world (cs_transfer_leader_to (e_consensus E) (si_id target) (si_addr target)) s of
        (Inr _, s') \<Rightarrow> (Inr (), s')
      | (Inl err, s') \<Rightarrow>
          if is_leadership_transfer_in_progress err then (Inr (), s')
          else try_transfer_targets E targets (Some err) s')"

definition round_robin_targets :: "server_info list \<Rightarrow> nat \<Rightarrow> server_info list" where
  "round_robin_targets voters current =
     map (\<lambda>offset. voters ! ((current + offset) mod length voters)) [1..<length voters]"

text \<open>\<open>Iterator::position\<close>.\<close>

fun position :: "('a \<Rightarrow> bool) \<Rightarrow> 'a list \<Rightarrow> nat option" where
  "position P [] = None"
| "position P (x # xs) = (if P x then Some 0 else map_option Suc (position P xs))"

definition transfer_leader_round_robin :: "'w env \<Rightarrow> ('w conductor, conductor_error, unit) call" where
  "transfer_leader_round_robin E =
     try_call (on_consensus (cs_membership (e_consensus E))) (\<lambda>membership s.
       let voters = filter (\<lambda>server. si_suffrage server = Voter) (servers membership) in
       if length voters \<le> 1 then (Inr (), s)
       else
         (let sorted_voters = sort_key si_id voters; me = cs_server_id (e_consensus E) (world s) in
          case position (\<lambda>server. si_id server = me) sorted_voters of
            None \<Rightarrow> (Inl (CConsensus (ServerNotFound me)), s)
          | Some current \<Rightarrow> try_transfer_targets E (round_robin_targets sorted_voters current) None s))"

definition set_consensus_leader :: "'w env \<Rightarrow> bool \<Rightarrow> 'w conductor \<Rightarrow> 'w conductor" where
  "set_consensus_leader E b s = s\<lparr>world := cs_set_leader_for_tests (e_consensus E) b (world s)\<rparr>"

definition transfer_leader_internal :: "'w env \<Rightarrow> ('w conductor, conductor_error, unit) call" where
  "transfer_leader_internal E s =
     (let was_consensus_leader = cs_leader (e_consensus E) (world s) in
      if \<not> was_consensus_leader then (Inr (), on_metrics (record_leader_transfer False) s)
      else
        (case (if round_robin_leader_transfer (cfg s) then transfer_leader_round_robin E s
               else on_consensus (cs_transfer_leader (e_consensus E)) s) of
           (Inl e, s') \<Rightarrow> (Inl e, on_metrics (record_leader_transfer False) s')
         | (Inr _, s') \<Rightarrow>
             (Inr (), on_metrics (record_leader_transfer True) (set_consensus_leader E False s'))))"

definition stop_and_transfer_leader :: "'w env \<Rightarrow> ('w conductor, conductor_error, unit) call" where
  "stop_and_transfer_leader E s =
     (case stop_sequencer E s of (stop_result, s1) \<Rightarrow>
        (case transfer_leader_internal E s1 of (transfer_result, s2) \<Rightarrow>
           (case (stop_result, transfer_result) of
              (Inr _, Inr _) \<Rightarrow> (Inr (), s2)
            | (Inl err, Inr _) \<Rightarrow> (Inl err, s2)
            | (Inr _, Inl err) \<Rightarrow> (Inl err, s2)
            | (Inl stop_err, Inl transfer_err) \<Rightarrow>
                (Inl (StopAndTransfer (show_conductor_error (e_lib E) stop_err)
                  (show_conductor_error (e_lib E) transfer_err)), s2))))"

section \<open>The action\<close>

definition should_wait_for_health_recovery :: "health \<Rightarrow> 'w conductor \<Rightarrow> bool" where
  "should_wait_for_health_recovery h s =
     (let prev = previous s in
      st_leader prev \<and> \<not> st_healthy prev \<and> \<not> st_active prev \<and> \<not> prevents_health_recovery_wait h)"

definition remember_state :: "cstate \<Rightarrow> 'w conductor \<Rightarrow> 'w conductor" where
  "remember_state status s =
     (if previous s \<noteq> status
      then on_metrics (record_state_change (st_leader status) (st_healthy status) (st_active status))
             (s\<lparr>previous := status\<rparr>)
      else s)"

definition action :: "'w env \<Rightarrow> ('w conductor, conductor_error, unit) call" where
  "action E s =
     (if paused s \<or> stopping_or_stopped s then (Inr (), s)
      else
        (let status = current_state E s;
             finish = (\<lambda>(r, s'). case r of Inr _ \<Rightarrow> (Inr (), remember_state status s') | Inl e \<Rightarrow> (Inl e, s'))
         in case (st_leader status, st_healthy status, st_active status) of
              (False, _, True) \<Rightarrow> finish (stop_sequencer E s)
            | (True, True, False) \<Rightarrow> finish (start_sequencer E s)
            | (True, False, False) \<Rightarrow>
                finish
                  (let prev = previous s in
                   if \<not> st_leader prev \<and> \<not> st_active prev \<and> \<not> prevents_new_leader_start (c_health s)
                   then (case start_sequencer E s of
                           (Inr _, s') \<Rightarrow> (Inr (), s')
                         | (Inl _, s') \<Rightarrow> transfer_leader_internal E s')
                   else transfer_leader_internal E s)
            | (True, False, True) \<Rightarrow>
                if should_wait_for_health_recovery (c_health s) s then (Inl WaitingForHealthRecovery, s)
                else finish (stop_and_transfer_leader E s)
            | _ \<Rightarrow> finish (Inr (), s)))"

definition update_leader :: "'w env \<Rightarrow> bool \<Rightarrow> ('w conductor, conductor_error, unit) call" where
  "update_leader E b s = action E (set_consensus_leader E b s)"

definition update_health :: "'w env \<Rightarrow> health \<Rightarrow> ('w conductor, conductor_error, unit) call" where
  "update_health E h s = action E (s\<lparr>c_health := h\<rparr>)"

section \<open>Health checks\<close>

definition check_sync_status :: "conductor_config \<Rightarrow> u64 \<Rightarrow> sync_status \<Rightarrow> health option" where
  "check_sync_status config now status =
     (let unsafe_lag = saturating_sub now (br_time (unsafe_l2 status)) in
      if unsafe_lag > as_secs (healthcheck_unsafe_interval config)
      then Some (Unhealthy (''unsafe head is '' @ show_u64 unsafe_lag @ ''s behind, above '' @
             show_u64 (as_secs (healthcheck_unsafe_interval config)) @ ''s interval''))
      else if healthcheck_safe_enabled config
      then
        (let safe_lag = saturating_sub now (br_time (safe_l2 status)) in
         if safe_lag > as_secs (healthcheck_safe_interval config)
         then Some (Unhealthy (''safe head is '' @ show_u64 safe_lag @ ''s behind, above '' @
                show_u64 (as_secs (healthcheck_safe_interval config)) @ ''s interval''))
         else None)
      else None)"

definition check_peer_stats :: "conductor_config \<Rightarrow> peer_stats \<Rightarrow> health option" where
  "check_peer_stats config stats =
     (if connected stats < healthcheck_min_peer_count config
      then Some (Unhealthy (''peer count '' @ show_u64 (connected stats) @ '' below minimum '' @
             show_u64 (healthcheck_min_peer_count config)))
      else None)"

definition check_supervisor :: "'w env \<Rightarrow> 'w conductor \<Rightarrow> health option \<times> 'w conductor" where
  "check_supervisor E s =
     (case hc_supervisor (e_health E) of
        None \<Rightarrow> (None, s)
      | Some check \<Rightarrow>
          (case in_world check s of
             (Inr _, s') \<Rightarrow> (None, s')
           | (Inl err, s') \<Rightarrow>
               (Some (SupervisorConnectionDown (''supervisor sync status: '' @ show_rpc_error err)), s')))"

definition check_execution_p2p :: "'w env \<Rightarrow> 'w conductor \<Rightarrow> health option \<times> 'w conductor" where
  "check_execution_p2p E s =
     (case hc_execution_p2p (e_health E) of
        None \<Rightarrow> (None, s)
      | Some peer_count_call \<Rightarrow>
          (let min_peer_count = unwrap_or (map_option p2p_min_peer_count (cc_execution_p2p_health (cfg s))) 0 in
           case in_world peer_count_call s of
             (Inr peer_count, s') \<Rightarrow>
               if peer_count < min_peer_count
               then (Some (Unhealthy (''execution p2p peer count '' @ show_u64 peer_count @ '' below minimum '' @
                      show_u64 min_peer_count)), s')
               else (None, s')
           | (Inl err, s') \<Rightarrow>
               (Some (ExecutionP2pConnectionDown (''execution p2p peer count: '' @ show_rpc_error err)), s')))"

definition check_rollup_boost :: "'w env \<Rightarrow> u64 \<Rightarrow> 'w conductor \<Rightarrow> health option \<times> 'w conductor" where
  "check_rollup_boost E now s =
     (case hc_rollup_boost (e_health E) of
        None \<Rightarrow> (None, s)
      | Some check \<Rightarrow>
          (case in_world check s of
             (Inr RbHealthy, s') \<Rightarrow> (None, s')
           | (Inr RbPartial, s') \<Rightarrow>
               (case tolerate_partial_health (cc_partial_health_tolerance (cfg s')) now (partial_counter s') of
                  (tolerated, c) \<Rightarrow>
                    ((if tolerated then None
                      else Some (RollupBoostPartiallyHealthy ''rollup boost is partially healthy'')),
                     s'\<lparr>partial_counter := c\<rparr>))
           | (Inr RbUnhealthy, s') \<Rightarrow> (Some (Unhealthy err_rollup_boost_not_healthy), s')
           | (Inl err, s') \<Rightarrow>
               (Some (RollupBoostConnectionDown (''rollup boost: '' @
                  show_rollup_boost_error (e_lib E) (e_status_text E) err)), s')))"

definition check_health_at :: "'w env \<Rightarrow> u64 \<Rightarrow> 'w conductor \<Rightarrow> health \<times> 'w conductor" where
  "check_health_at E now s =
     (case in_world (sq_sync_status (e_sequencer E)) s of
        (Inl err, s1) \<Rightarrow> (SequencerConnectionDown (''sync status: '' @ show_sequencer_error (e_lib E) err), s1)
      | (Inr status, s1) \<Rightarrow>
     (case check_supervisor E s1 of
        (Some h, s2) \<Rightarrow> (h, s2)
      | (None, s2) \<Rightarrow>
     (case check_sync_status (cfg s2) now status of
        Some h \<Rightarrow> (h, s2)
      | None \<Rightarrow>
     (case in_world (sq_peer_stats (e_sequencer E)) s2 of
        (Inl err, s3) \<Rightarrow> (SequencerConnectionDown (''peer stats: '' @ show_sequencer_error (e_lib E) err), s3)
      | (Inr stats, s3) \<Rightarrow>
     (case check_peer_stats (cfg s3) stats of
        Some h \<Rightarrow> (h, s3)
      | None \<Rightarrow>
     (case check_execution_p2p E s3 of
        (Some h, s4) \<Rightarrow> (h, s4)
      | (None, s4) \<Rightarrow>
     (case check_rollup_boost E now s4 of
        (Some h, s5) \<Rightarrow> (h, s5)
      | (None, s5) \<Rightarrow> (Healthy, s5))))))))"

section \<open>The tick\<close>

definition tick :: "'w env \<Rightarrow> u64 \<Rightarrow> duration \<Rightarrow> ('w conductor, conductor_error, unit) call" where
  "tick E now elapsed s =
     (if stopping_or_stopped s then (Inr (), on_metrics (record_loop_execution_time elapsed) s)
      else
        (case (case refresh_sequencer_active E s of
                 (Inr _, s1) \<Rightarrow>
                   (case check_health_at E now s1 of
                      (h, s2) \<Rightarrow>
                        update_health E h (on_metrics (record_health_check (healthy h) (metric_error h)) s2))
               | (Inl err, s1) \<Rightarrow>
                   update_health E (SequencerConnectionDown (show_conductor_error (e_lib E) err))
                     (on_metrics (record_health_check False err_sequencer_connection_down) s1)) of
           (r, s3) \<Rightarrow> (r, on_metrics (record_loop_execution_time elapsed) s3)))"

lemma remember_state_sel [simp]:
  "cfg (remember_state st s) = cfg s" "leader_override (remember_state st s) = leader_override s"
  "paused (remember_state st s) = paused s" "stopping (remember_state st s) = stopping s"
  "stopped (remember_state st s) = stopped s" "action_seq (remember_state st s) = action_seq s"
  "c_health (remember_state st s) = c_health s" "seq_active (remember_state st s) = seq_active s"
  "partial_counter (remember_state st s) = partial_counter s" "world (remember_state st s) = world s"
  "previous (remember_state st s) = st"
  by (simp_all add: remember_state_def)

end
