(* ===== verification/Conductor_Sample.thy ===== *)
theory Conductor_Sample
  imports Conductor_Actions
begin

text \<open>
  A small concrete environment, on which the theorems about the conductor are exercised: a cluster
  of three voters that has committed block 5, and a sequencer whose head is that block and which
  does what it is asked. Its state is whether this node leads and whether the sequencer runs.
\<close>

record sample_world =
  sw_leader :: bool
  sw_running :: bool

definition sample_server :: "string \<Rightarrow> server_info" where
  "sample_server i = \<lparr>si_id = i, si_addr = i @ '':50050'', si_suffrage = Voter\<rparr>"

definition sample_consensus :: "sample_world consensus" where
  "sample_consensus =
     \<lparr>cs_addr = (\<lambda>_. ''b:50050''), cs_server_id = (\<lambda>_. ''b''), cs_leader = sw_leader,
      cs_set_leader_for_tests = (\<lambda>_ w. w), cs_leader_with_id = (\<lambda>_. sample_server ''b''),
      cs_add_voter = (\<lambda>_ _ _ w. (Inr (), w)), cs_add_non_voter = (\<lambda>_ _ _ w. (Inr (), w)),
      cs_demote_voter = (\<lambda>_ _ w. (Inr (), w)), cs_remove_server = (\<lambda>_ _ w. (Inr (), w)),
      cs_membership = (\<lambda>w. (Inr \<lparr>servers = map sample_server [''a'', ''b'', ''c''], version = 1\<rparr>, w)),
      cs_transfer_leader = (\<lambda>w. (Inr (), w\<lparr>sw_leader := False\<rparr>)),
      cs_transfer_leader_to = (\<lambda>i a w. (Inl (Raft ''unreachable''), w)),
      cs_commit_unsafe_payload = (\<lambda>_ w. (Inr (), w)),
      cs_latest_unsafe_payload = (\<lambda>w. (Inr (Some (sample_payload 5 7)), w)),
      cs_shutdown = (\<lambda>w. (Inr (), w))\<rparr>"

definition sample_sequencer :: "sample_world sequencer" where
  "sample_sequencer =
     \<lparr>sq_latest_unsafe_block = (\<lambda>w. (Inr \<lparr>bi_hash = sample_hash 7, bi_number = 5\<rparr>, w)),
      sq_block_by_number = (\<lambda>n w. (Inr \<lparr>bi_hash = sample_hash 7, bi_number = n\<rparr>, w)),
      sq_start_sequencer = (\<lambda>_ w. (Inr (), w\<lparr>sw_running := True\<rparr>)),
      sq_stop_sequencer = (\<lambda>w. (Inr (sample_hash 7), w\<lparr>sw_running := False\<rparr>)),
      sq_sequencer_active = (\<lambda>w. (Inr (sw_running w), w)),
      sq_sync_status = (\<lambda>w. (Inr \<lparr>unsafe_l2 = \<lparr>br_hash = None, br_number = 5, br_time = 100\<rparr>,
                                   safe_l2 = \<lparr>br_hash = None, br_number = 4, br_time = 90\<rparr>\<rparr>, w)),
      sq_peer_stats = (\<lambda>w. (Inr \<lparr>connected = 3\<rparr>, w)),
      sq_post_unsafe_payload = (\<lambda>_ w. (Inr (), w)),
      sq_conductor_enabled = (\<lambda>w. (Inr True, w))\<rparr>"

text \<open>Watch channels nobody listens to: a send is lost.\<close>

definition sample_env :: "sample_world env" where
  "sample_env =
     \<lparr>e_lib = sample_lib, e_status_text = show_nat, e_consensus = sample_consensus,
      e_sequencer = sample_sequencer,
      e_health = \<lparr>hc_supervisor = None, hc_execution_p2p = None, hc_rollup_boost = None\<rparr>,
      e_signals = \<lparr>sg_send_stopped = (\<lambda>_ w. w), sg_send_action = (\<lambda>_ w. w), sg_stopped_value = (\<lambda>_. False)\<rparr>\<rparr>"

definition sample_world :: "bool \<Rightarrow> bool \<Rightarrow> sample_world" where
  "sample_world l r = \<lparr>sw_leader = l, sw_running = r\<rparr>"

lemmas sample_env_defs = sample_env_def sample_consensus_def sample_sequencer_def sample_world_def

end
