(* ===== verification/Conductor_Safety.thy ===== *)
theory Conductor_Safety
  imports Conductor_Sample
begin

text \<open>
  What the conductor asks of its sequencer, for any environment. The environment is wrapped so that
  its state also carries the log of the requests the conductor makes and of the answers its
  decisions rest on; every statement about the log holds whatever consensus, sequencer and health
  clients answer and whatever else changes in between. The operations of the conductor are then
  the steps of a transition system.
\<close>

section \<open>The log\<close>

datatype event =
    EvCommitted payload_envelope
  | EvHead block_info
  | EvBlock u64 block_info
  | EvPost payload_envelope
  | EvPosted payload_envelope
  | EvStart hash
  | EvStop
  | EvTransfer
  | EvTransferTo string string
  | EvShutdown

definition logged ::
  "event list \<Rightarrow> ('a \<Rightarrow> event list) \<Rightarrow> ('w, 'e, 'a) call \<Rightarrow> ('w \<times> event list, 'e, 'a) call" where
  "logged before after m wt =
     (case wt of (w, tr) \<Rightarrow>
        (case m w of
           (Inl e, w') \<Rightarrow> (Inl e, w', tr @ before)
         | (Inr a, w') \<Rightarrow> (Inr a, w', tr @ before @ after a)))"

definition silent :: "('w, 'e, 'a) call \<Rightarrow> ('w \<times> event list, 'e, 'a) call" where
  "silent = logged [] (\<lambda>_. [])"

definition log_sequencer :: "'w sequencer \<Rightarrow> ('w \<times> event list) sequencer" where
  "log_sequencer S =
     \<lparr>sq_latest_unsafe_block = logged [] (\<lambda>b. [EvHead b]) (sq_latest_unsafe_block S),
      sq_block_by_number = (\<lambda>n. logged [] (\<lambda>b. [EvBlock n b]) (sq_block_by_number S n)),
      sq_start_sequencer = (\<lambda>h. logged [EvStart h] (\<lambda>_. []) (sq_start_sequencer S h)),
      sq_stop_sequencer = logged [EvStop] (\<lambda>_. []) (sq_stop_sequencer S),
      sq_sequencer_active = silent (sq_sequencer_active S),
      sq_sync_status = silent (sq_sync_status S),
      sq_peer_stats = silent (sq_peer_stats S),
      sq_post_unsafe_payload = (\<lambda>p. logged [EvPost p] (\<lambda>_. [EvPosted p]) (sq_post_unsafe_payload S p)),
      sq_conductor_enabled = silent (sq_conductor_enabled S)\<rparr>"

definition log_consensus :: "'w consensus \<Rightarrow> ('w \<times> event list) consensus" where
  "log_consensus C =
     \<lparr>cs_addr = (\<lambda>(w, _). cs_addr C w), cs_server_id = (\<lambda>(w, _). cs_server_id C w),
      cs_leader = (\<lambda>(w, _). cs_leader C w),
      cs_set_leader_for_tests = (\<lambda>b (w, tr). (cs_set_leader_for_tests C b w, tr)),
      cs_leader_with_id = (\<lambda>(w, _). cs_leader_with_id C w),
      cs_add_voter = (\<lambda>i a v. silent (cs_add_voter C i a v)),
      cs_add_non_voter = (\<lambda>i a v. silent (cs_add_non_voter C i a v)),
      cs_demote_voter = (\<lambda>i v. silent (cs_demote_voter C i v)),
      cs_remove_server = (\<lambda>i v. silent (cs_remove_server C i v)),
      cs_membership = silent (cs_membership C),
      cs_transfer_leader = logged [EvTransfer] (\<lambda>_. []) (cs_transfer_leader C),
      cs_transfer_leader_to = (\<lambda>i a. logged [EvTransferTo i a] (\<lambda>_. []) (cs_transfer_leader_to C i a)),
      cs_commit_unsafe_payload = (\<lambda>p. silent (cs_commit_unsafe_payload C p)),
      cs_latest_unsafe_payload =
        logged [] (\<lambda>po. case po of None \<Rightarrow> [] | Some p \<Rightarrow> [EvCommitted p]) (cs_latest_unsafe_payload C),
      cs_shutdown = logged [EvShutdown] (\<lambda>_. []) (cs_shutdown C)\<rparr>"

definition log_health :: "'w health_clients \<Rightarrow> ('w \<times> event list) health_clients" where
  "log_health H =
     \<lparr>hc_supervisor = map_option silent (hc_supervisor H),
      hc_execution_p2p = map_option silent (hc_execution_p2p H),
      hc_rollup_boost = map_option silent (hc_rollup_boost H)\<rparr>"

definition log_env :: "'w env \<Rightarrow> ('w \<times> event list) env" where
  "log_env E =
     \<lparr>e_lib = e_lib E, e_status_text = e_status_text E, e_consensus = log_consensus (e_consensus E),
      e_sequencer = log_sequencer (e_sequencer E), e_health = log_health (e_health E),
      e_signals =
        \<lparr>sg_send_stopped = (\<lambda>b (w, tr). (sg_send_stopped (e_signals E) b w, tr)),
         sg_send_action = (\<lambda>n (w, tr). (sg_send_action (e_signals E) n w, tr)),
         sg_stopped_value = (\<lambda>(w, _). sg_stopped_value (e_signals E) w)\<rparr>\<rparr>"

lemmas log_defs = log_env_def log_sequencer_def log_consensus_def log_health_def

lemma log_env_sel [simp]:
  "e_lib (log_env E) = e_lib E" "e_status_text (log_env E) = e_status_text E"
  "hc_supervisor (e_health (log_env E)) = map_option silent (hc_supervisor (e_health E))"
  "hc_execution_p2p (e_health (log_env E)) = map_option silent (hc_execution_p2p (e_health E))"
  "hc_rollup_boost (e_health (log_env E)) = map_option silent (hc_rollup_boost (e_health E))"
  "sg_send_stopped (e_signals (log_env E)) b wt = (sg_send_stopped (e_signals E) b (fst wt), snd wt)"
  "sg_send_action (e_signals (log_env E)) n wt = (sg_send_action (e_signals E) n (fst wt), snd wt)"
  by (simp_all add: log_defs split: prod.split)

lemma log_sequencer_sel [simp]:
  "sq_latest_unsafe_block (e_sequencer (log_env E)) =
     logged [] (\<lambda>b. [EvHead b]) (sq_latest_unsafe_block (e_sequencer E))"
  "sq_block_by_number (e_sequencer (log_env E)) n =
     logged [] (\<lambda>b. [EvBlock n b]) (sq_block_by_number (e_sequencer E) n)"
  "sq_start_sequencer (e_sequencer (log_env E)) h =
     logged [EvStart h] (\<lambda>_. []) (sq_start_sequencer (e_sequencer E) h)"
  "sq_stop_sequencer (e_sequencer (log_env E)) = logged [EvStop] (\<lambda>_. []) (sq_stop_sequencer (e_sequencer E))"
  "sq_sequencer_active (e_sequencer (log_env E)) = silent (sq_sequencer_active (e_sequencer E))"
  "sq_sync_status (e_sequencer (log_env E)) = silent (sq_sync_status (e_sequencer E))"
  "sq_peer_stats (e_sequencer (log_env E)) = silent (sq_peer_stats (e_sequencer E))"
  "sq_post_unsafe_payload (e_sequencer (log_env E)) p =
     logged [EvPost p] (\<lambda>_. [EvPosted p]) (sq_post_unsafe_payload (e_sequencer E) p)"
  by (simp_all add: log_defs)

lemma log_consensus_sel [simp]:
  "cs_leader (e_consensus (log_env E)) wt = cs_leader (e_consensus E) (fst wt)"
  "cs_server_id (e_consensus (log_env E)) wt = cs_server_id (e_consensus E) (fst wt)"
  "cs_set_leader_for_tests (e_consensus (log_env E)) b wt =
     (cs_set_leader_for_tests (e_consensus E) b (fst wt), snd wt)"
  "cs_add_voter (e_consensus (log_env E)) i a v = silent (cs_add_voter (e_consensus E) i a v)"
  "cs_add_non_voter (e_consensus (log_env E)) i a v = silent (cs_add_non_voter (e_consensus E) i a v)"
  "cs_demote_voter (e_consensus (log_env E)) i v = silent (cs_demote_voter (e_consensus E) i v)"
  "cs_remove_server (e_consensus (log_env E)) i v = silent (cs_remove_server (e_consensus E) i v)"
  "cs_membership (e_consensus (log_env E)) = silent (cs_membership (e_consensus E))"
  "cs_transfer_leader (e_consensus (log_env E)) = logged [EvTransfer] (\<lambda>_. []) (cs_transfer_leader (e_consensus E))"
  "cs_transfer_leader_to (e_consensus (log_env E)) i a =
     logged [EvTransferTo i a] (\<lambda>_. []) (cs_transfer_leader_to (e_consensus E) i a)"
  "cs_commit_unsafe_payload (e_consensus (log_env E)) p = silent (cs_commit_unsafe_payload (e_consensus E) p)"
  "cs_latest_unsafe_payload (e_consensus (log_env E)) =
     logged [] (\<lambda>po. case po of None \<Rightarrow> [] | Some p \<Rightarrow> [EvCommitted p]) (cs_latest_unsafe_payload (e_consensus E))"
  "cs_shutdown (e_consensus (log_env E)) = logged [EvShutdown] (\<lambda>_. []) (cs_shutdown (e_consensus E))"
  by (simp_all add: log_defs split: prod.split)

section \<open>The effect of an operation on the log\<close>

abbreviation log_of :: "('w \<times> event list) conductor \<Rightarrow> event list" where
  "log_of s \<equiv> snd (world s)"

definition same_flags :: "'w conductor \<Rightarrow> 'w conductor \<Rightarrow> bool" where
  "same_flags s s' =
     (cfg s' = cfg s \<and> leader_override s' = leader_override s \<and> paused s' = paused s
      \<and> stopping s' = stopping s \<and> stopped s' = stopped s \<and> action_seq s' = action_seq s)"

text \<open>
  From \<open>s\<close> to \<open>s'\<close> the flags are kept and the log grew by a list that satisfies \<open>P\<close>.
\<close>

definition does ::
  "(event list \<Rightarrow> bool) \<Rightarrow> ('w \<times> event list) conductor \<Rightarrow> ('w \<times> event list) conductor \<Rightarrow> bool" where
  "does P s s' = (same_flags s s' \<and> (\<exists>new. log_of s' = log_of s @ new \<and> P new))"

lemma does_refl: "P [] \<Longrightarrow> does P s s"
  by (simp add: does_def same_flags_def)

lemma does_trans:
  assumes "does P s s1" "does Q s1 s2" "\<And>a b. P a \<Longrightarrow> Q b \<Longrightarrow> R (a @ b)"
  shows "does R s s2"
  using assms unfolding does_def same_flags_def by (metis append.assoc)

lemma does_mono: "does P s s' \<Longrightarrow> (\<And>a. P a \<Longrightarrow> Q a) \<Longrightarrow> does Q s s'"
  unfolding does_def by blast

lemma does_upd [simp]:
  "does P s (on_metrics f s') = does P s s'"
  "does P s (s'\<lparr>seq_active := a\<rparr>) = does P s s'"
  "does P s (s'\<lparr>previous := v\<rparr>) = does P s s'"
  "does P s (s'\<lparr>c_health := h\<rparr>) = does P s s'"
  "does P s (s'\<lparr>partial_counter := c\<rparr>) = does P s s'"
  "does P s (remember_state status s') = does P s s'"
  "does P s (set_consensus_leader (log_env E) b s') = does P s s'"
  by (simp_all add: does_def same_flags_def on_metrics_def remember_state_def set_consensus_leader_def)

lemma does_upd_left [simp]:
  "does P (on_metrics f s) s' = does P s s'"
  "does P (s\<lparr>c_health := h\<rparr>) s' = does P s s'"
  "does P (set_consensus_leader (log_env E) b s) s' = does P s s'"
  by (simp_all add: does_def same_flags_def on_metrics_def set_consensus_leader_def)

lemma does_logged:
  assumes "in_world (logged before after m) s = (r, s')"
  shows "does (\<lambda>new. new = (case r of Inl _ \<Rightarrow> before | Inr a \<Rightarrow> before @ after a)) s s'"
  using assms
  by (auto simp: in_world_def logged_def does_def same_flags_def split: prod.splits sum.splits)

lemma does_silent: "in_world (silent m) s = (r, s') \<Longrightarrow> does (\<lambda>new. new = []) s s'"
  unfolding silent_def by (drule does_logged) (auto elim: does_mono split: sum.splits)

lemma call_err_eq: "call_err f m s = (r, s') \<longleftrightarrow> (\<exists>r0. m s = (r0, s') \<and> r = map_err f r0)"
  by (auto simp: call_err_def split: prod.splits)

lemma does_call_err_logged:
  assumes "call_err f (in_world (logged before after m)) s = (r, s')"
  shows "does (\<lambda>new. new = (case r of Inl _ \<Rightarrow> before | Inr a \<Rightarrow> before @ after a)) s s'"
proof -
  obtain r0 where "in_world (logged before after m) s = (r0, s')" "r = map_err f r0"
    using assms unfolding call_err_eq by blast
  with does_logged [of before after m s r0 s'] show ?thesis by (cases r0) simp_all
qed

lemmas does_on_sequencer_logged = does_call_err_logged [of CSequencer, folded on_sequencer_def]
lemmas does_on_consensus_logged = does_call_err_logged [of CConsensus, folded on_consensus_def]

lemma does_on_consensus_silent: "on_consensus (silent m) s = (r, s') \<Longrightarrow> does (\<lambda>new. new = []) s s'"
  unfolding on_consensus_def call_err_eq by (auto dest: does_silent)

lemma does_on_sequencer_silent: "on_sequencer (silent m) s = (r, s') \<Longrightarrow> does (\<lambda>new. new = []) s s'"
  unfolding on_sequencer_def call_err_eq by (auto dest: does_silent)

section \<open>What each operation asks\<close>

definition is_start :: "event \<Rightarrow> bool" where
  "is_start e = (case e of EvStart _ \<Rightarrow> True | _ \<Rightarrow> False)"

definition is_command :: "event \<Rightarrow> bool" where
  "is_command e = (case e of EvStart _ \<Rightarrow> True | EvStop \<Rightarrow> True | EvPost _ \<Rightarrow> True | _ \<Rightarrow> False)"

definition quiet :: "event list \<Rightarrow> bool" where
  "quiet tr = (\<forall>e \<in> set tr. \<not> is_command e)"

text \<open>
  The log so far justifies starting at \<open>h\<close> by the payload \<open>p\<close>: consensus reported \<open>p\<close> as the
  committed unsafe head, and the node either has \<open>p\<close> as its head, or is behind by at most the repair
  depth and has accepted \<open>p\<close>, or is ahead with a head that descends from \<open>p\<close>.
\<close>

definition justified_by :: "lib \<Rightarrow> u64 \<Rightarrow> event list \<Rightarrow> payload_envelope \<Rightarrow> hash \<Rightarrow> bool" where
  "justified_by L depth tr p h =
     (\<exists>ch cn b. EvCommitted p \<in> set tr \<and> block_hash L p = Inr ch \<and> block_number L p = Inr cn
       \<and> EvHead b \<in> set tr
       \<and> (h = ch \<and> bi_hash b = ch
          \<or> h = ch \<and> bi_number b < cn \<and> cn - bi_number b \<le> depth \<and> EvPosted p \<in> set tr
          \<or> h = bi_hash b \<and> cn < bi_number b \<and> (\<exists>a. EvBlock cn a \<in> set tr \<and> bi_hash a = ch)))"

definition justified :: "lib \<Rightarrow> u64 \<Rightarrow> event list \<Rightarrow> hash \<Rightarrow> bool" where
  "justified L depth tr h = (\<exists>p. justified_by L depth tr p h)"

text \<open>The only committed head in the log is \<open>po\<close>.\<close>

definition reads_only :: "payload_envelope option \<Rightarrow> event list \<Rightarrow> bool" where
  "reads_only po tr = (\<forall>q. EvCommitted q \<in> set tr \<longrightarrow> po = Some q)"

lemma reads_only_simps [simp]:
  "reads_only po []"
  "reads_only po (e # tr) = ((\<forall>q. e = EvCommitted q \<longrightarrow> po = Some q) \<and> reads_only po tr)"
  "reads_only po (tr @ tr') = (reads_only po tr \<and> reads_only po tr')"
  by (auto simp: reads_only_def)

lemma reads_only_None: "reads_only None tr \<Longrightarrow> reads_only po tr"
  by (simp add: reads_only_def)

text \<open>The committed head consensus reports in the state \<open>s\<close>, if it does.\<close>

definition committed_head :: "'w env \<Rightarrow> ('w \<times> event list) conductor \<Rightarrow> payload_envelope option" where
  "committed_head E s =
     (case fst (cs_latest_unsafe_payload (e_consensus E) (fst (world s))) of Inl _ \<Rightarrow> None | Inr po \<Rightarrow> po)"

definition starts_justified :: "lib \<Rightarrow> u64 \<Rightarrow> event list \<Rightarrow> bool" where
  "starts_justified L depth tr = (\<forall>l1 h l2. tr = l1 @ EvStart h # l2 \<longrightarrow> justified L depth l1 h)"

lemma no_start_justified: "(\<forall>e \<in> set tr. \<not> is_start e) \<Longrightarrow> starts_justified L depth tr"
  by (auto simp: starts_justified_def is_start_def)

lemma starts_justified_snoc:
  assumes "\<forall>e \<in> set tr. \<not> is_start e" "justified L depth tr h"
  shows "starts_justified L depth (tr @ [EvStart h])"
  unfolding starts_justified_def
proof (intro allI impI)
  fix l1 h' l2 assume eq: "tr @ [EvStart h] = l1 @ EvStart h' # l2"
  show "justified L depth l1 h'"
  proof (cases l2 rule: rev_cases)
    case Nil
    with eq assms(2) show ?thesis by simp
  next
    case (snoc l3 e)
    with eq have "EvStart h' \<in> set tr" by (metis append_assoc append_Cons butlast_snoc in_set_conv_decomp)
    with assms(1) show ?thesis by (auto simp: is_start_def)
  qed
qed

lemma quiet_append [simp]: "quiet (a @ b) = (quiet a \<and> quiet b)"
  by (auto simp: quiet_def)

lemma quiet_Nil [simp]: "quiet []"
  by (simp add: quiet_def)

lemma quiet_justified: "quiet tr \<Longrightarrow> starts_justified L depth tr"
  by (rule no_start_justified) (auto simp: quiet_def is_start_def is_command_def split: event.splits)

lemma starts_justified_append_quiet:
  assumes "starts_justified L depth a" "quiet b"
  shows "starts_justified L depth (a @ b)"
  unfolding starts_justified_def
proof (intro allI impI)
  fix l1 h l2 assume eq: "a @ b = l1 @ EvStart h # l2"
  have "EvStart h \<notin> set b" using assms(2) by (auto simp: quiet_def is_command_def)
  with eq obtain l3 where "a = l1 @ EvStart h # l3"
    by (auto simp: append_eq_append_conv2 append_eq_Cons_conv)
  with assms(1) show "justified L depth l1 h" by (auto simp: starts_justified_def)
qed

lemma stop_sequencer_does:
  assumes "stop_sequencer (log_env E) s = (r, s')"
  shows "does (\<lambda>new. new = [EvStop]) s s' \<and> (r = Inr () \<longrightarrow> \<not> seq_active s')"
proof -
  obtain r0 s0 where call: "in_world (logged [EvStop] (\<lambda>_. []) (sq_stop_sequencer (e_sequencer E))) s = (r0, s0)"
    by (cases "in_world (logged [EvStop] (\<lambda>_. []) (sq_stop_sequencer (e_sequencer E))) s")
  from does_logged [OF call] have "does (\<lambda>new. new = [EvStop]) s s0" by (cases r0) simp_all
  with assms call show ?thesis
    by (cases r0) (auto simp: stop_sequencer_def split: if_splits)
qed

lemma choose_start_hash_does:
  assumes "choose_start_hash (log_env E) p ch cn b s = (r, s')"
    and "block_hash (e_lib E) p = Inr ch" "block_number (e_lib E) p = Inr cn"
  shows "does (\<lambda>new. (\<forall>e \<in> set new. \<not> is_start e) \<and> EvStop \<notin> set new \<and> reads_only None new
    \<and> (\<forall>h. r = Inr h \<longrightarrow> justified (e_lib E) (unsafe_repair_depth (cfg s)) ([EvCommitted p, EvHead b] @ new) h)) s s'"
proof -
  consider (same) "bi_hash b = ch"
    | (behind) "bi_hash b \<noteq> ch" "cn > bi_number b \<and> cn - bi_number b \<le> unsafe_repair_depth (cfg s)"
    | (ahead) "bi_hash b \<noteq> ch" "\<not> (cn > bi_number b \<and> cn - bi_number b \<le> unsafe_repair_depth (cfg s))" "bi_number b > cn"
    | (other) "bi_hash b \<noteq> ch" "\<not> (cn > bi_number b \<and> cn - bi_number b \<le> unsafe_repair_depth (cfg s))" "\<not> bi_number b > cn"
    by blast
  then show ?thesis
  proof cases
    case same
    with assms have "r = Inr ch" "s' = s" by (simp_all add: choose_start_hash_def)
    with same assms show ?thesis by (auto intro!: does_refl simp: justified_def justified_by_def)
  next
    case behind
    let ?call = "logged [EvPost p] (\<lambda>_. [EvPosted p]) (sq_post_unsafe_payload (e_sequencer E) p)"
    obtain r0 s0 where call: "on_sequencer ?call s = (r0, s0)" by (cases "on_sequencer ?call s")
    have "s' = s0 \<and> r = map_ok (\<lambda>_. ch) r0"
      using assms(1) behind call by (cases r0) (simp_all add: choose_start_hash_def call_ok_def)
    moreover have "justified (e_lib E) (unsafe_repair_depth (cfg s)) ([EvCommitted p, EvHead b] @ [EvPost p, EvPosted p]) ch"
      using behind assms by (auto simp: justified_def justified_by_def)
    ultimately show ?thesis
      using does_on_sequencer_logged [OF call] by (cases r0) (auto elim!: does_mono simp: is_start_def)
  next
    case ahead
    let ?call = "logged [] (\<lambda>a. [EvBlock cn a]) (sq_block_by_number (e_sequencer E) cn)"
    obtain r0 s0 where call: "on_sequencer ?call s = (r0, s0)" by (cases "on_sequencer ?call s")
    have "s' = s0 \<and> r = and_then r0 (\<lambda>a. if bi_hash a \<noteq> ch then Inl UnsafeHeadMismatch else Inr (bi_hash b))"
      using assms(1) ahead call
      by (cases r0) (auto simp: choose_start_hash_def call_ok_def call_fail_def split: if_splits)
    moreover have "justified (e_lib E) (unsafe_repair_depth (cfg s)) ([EvCommitted p, EvHead b] @ [EvBlock cn a]) (bi_hash b)"
      if "bi_hash a = ch" for a
      using ahead(3) assms(2,3) that by (auto simp: justified_def justified_by_def)
    ultimately show ?thesis
      using does_on_sequencer_logged [OF call]
      by (cases r0) (auto elim!: does_mono simp: is_start_def split: if_splits)
  next
    case other
    with assms have "r = Inl UnsafeHeadMismatch" "s' = s" by (simp_all add: choose_start_hash_def)
    then show ?thesis by (auto intro!: does_refl)
  qed
qed

lemma start_at_does:
  assumes "start_at (log_env E) h s = (r, s')"
  shows "does (\<lambda>new. new = [EvStart h]) s s' \<and> (is_ok r \<longrightarrow> seq_active s')"
proof -
  obtain r0 s0 where call: "in_world (logged [EvStart h] (\<lambda>_. []) (sq_start_sequencer (e_sequencer E) h)) s = (r0, s0)"
    by (cases "in_world (logged [EvStart h] (\<lambda>_. []) (sq_start_sequencer (e_sequencer E) h)) s")
  from does_logged [OF call] have "does (\<lambda>new. new = [EvStart h]) s s0" by (cases r0) simp_all
  with assms call show ?thesis
    by (cases r0) (auto simp: start_at_def split: if_splits)
qed

text \<open>
  What a start attempt may ask when consensus reports the head \<open>po\<close>: its starts are justified, by
  that head, and it never stops the sequencer.
\<close>

definition start_ok :: "lib \<Rightarrow> u64 \<Rightarrow> payload_envelope option \<Rightarrow> event list \<Rightarrow> bool" where
  "start_ok L depth po new = (starts_justified L depth new \<and> EvStop \<notin> set new \<and> reads_only po new)"

lemma does_same_cfg: "does P s s' \<Longrightarrow> cfg s' = cfg s"
  by (simp add: does_def same_flags_def)

lemma no_start_ok:
  "(\<forall>e \<in> set new. \<not> is_start e) \<Longrightarrow> EvStop \<notin> set new \<Longrightarrow> reads_only po new \<Longrightarrow> start_ok L d po new"
  by (simp add: start_ok_def no_start_justified)

lemma start_from_head:
  assumes "try_call (on_sequencer (sq_latest_unsafe_block (e_sequencer (log_env E)))) (\<lambda>b.
      try_call (choose_start_hash (log_env E) p ch cn b) (start_at (log_env E))) s = (r, s')"
    and p: "block_hash (e_lib E) p = Inr ch" "block_number (e_lib E) p = Inr cn"
  shows "does (\<lambda>new. start_ok (e_lib E) (unsafe_repair_depth (cfg s)) (Some p) (EvCommitted p # new)) s s'
    \<and> (is_ok r \<longrightarrow> seq_active s')"
proof -
  let ?d = "unsafe_repair_depth (cfg s)"
  obtain r1 s1 where head: "on_sequencer (logged [] (\<lambda>b. [EvHead b]) (sq_latest_unsafe_block (e_sequencer E))) s = (r1, s1)"
    by (cases "on_sequencer (logged [] (\<lambda>b. [EvHead b]) (sq_latest_unsafe_block (e_sequencer E))) s")
  note d1 = does_on_sequencer_logged [OF head]
  have cfg1: "cfg s1 = cfg s" using d1 by (rule does_same_cfg)
  show ?thesis
  proof (cases r1)
    case (Inl e)
    with assms(1) head have "r = Inl e" "s' = s1" by simp_all
    with d1 Inl show ?thesis by (auto elim!: does_mono intro!: no_start_ok simp: is_start_def)
  next
    case (Inr b)
    with d1 have d1': "does (\<lambda>new. new = [EvHead b]) s s1" by simp
    obtain r2 s2 where choose: "choose_start_hash (log_env E) p ch cn b s1 = (r2, s2)"
      by (cases "choose_start_hash (log_env E) p ch cn b s1")
    note d2 = choose_start_hash_does [OF choose p, unfolded cfg1]
    show ?thesis
    proof (cases r2)
      case (Inl e)
      with assms(1) head Inr choose have "r = Inl e" "s' = s2" by simp_all
      moreover have "does (\<lambda>new. start_ok (e_lib E) ?d (Some p) (EvCommitted p # new)) s s2"
        by (rule does_trans [OF d1' d2]) (auto intro!: no_start_ok simp: is_start_def reads_only_None)
      ultimately show ?thesis by simp
    next
      case (Inr h)
      with assms(1) head \<open>r1 = Inr b\<close> choose have start: "start_at (log_env E) h s2 = (r, s')" by simp
      have "does (\<lambda>new. (\<forall>e \<in> set new. \<not> is_start e) \<and> EvStop \<notin> set new \<and> reads_only None new
          \<and> justified (e_lib E) ?d (EvCommitted p # new) h) s s2"
        using Inr by (intro does_trans [OF d1' d2]) (auto simp: is_start_def)
      then have "does (\<lambda>new. start_ok (e_lib E) ?d (Some p) (EvCommitted p # new)) s s'"
      proof (rule does_trans [OF _ conjunct1 [OF start_at_does [OF start]]])
        fix a c
        assume "(\<forall>e \<in> set a. \<not> is_start e) \<and> EvStop \<notin> set a \<and> reads_only None a \<and> justified (e_lib E) ?d (EvCommitted p # a) h"
          and "c = [EvStart h]"
        then show "start_ok (e_lib E) ?d (Some p) (EvCommitted p # a @ c)"
          using starts_justified_snoc [of "EvCommitted p # a"] by (simp add: start_ok_def is_start_def reads_only_None)
      qed
      with start_at_does [OF start] show ?thesis by simp
    qed
  qed
qed

lemma start_sequencer_does:
  assumes "start_sequencer (log_env E) s = (r, s')"
  shows "does (start_ok (e_lib E) (unsafe_repair_depth (cfg s)) (committed_head E s)) s s' \<and> (is_ok r \<longrightarrow> seq_active s')"
proof -
  let ?m = "logged [] (\<lambda>po. case po of None \<Rightarrow> [] | Some p \<Rightarrow> [EvCommitted p]) (cs_latest_unsafe_payload (e_consensus E))"
  let ?d = "unsafe_repair_depth (cfg s)"
  obtain ra sa where att: "start_attempt (log_env E) s = (ra, sa)" by (cases "start_attempt (log_env E) s")
  obtain r1 s1 where com: "on_consensus ?m s = (r1, s1)" by (cases "on_consensus ?m s")
  note d1 = does_on_consensus_logged [OF com]
  have cfg1: "cfg s1 = cfg s" using d1 by (rule does_same_cfg)
  have po: "committed_head E s = (case r1 of Inl _ \<Rightarrow> None | Inr po \<Rightarrow> po)"
    using com by (auto simp: committed_head_def on_consensus_def call_err_def in_world_def logged_def
        split: prod.splits sum.splits)
  have "does (start_ok (e_lib E) ?d (committed_head E s)) s sa \<and> (is_ok ra \<longrightarrow> seq_active sa)"
  proof (cases "\<exists>p ch cn. r1 = Inr (Some p) \<and> block_hash (e_lib E) p = Inr ch \<and> block_number (e_lib E) p = Inr cn")
    case True
    then obtain p ch cn where p: "r1 = Inr (Some p)" "block_hash (e_lib E) p = Inr ch" "block_number (e_lib E) p = Inr cn"
      by blast
    with att com have rest: "try_call (on_sequencer (sq_latest_unsafe_block (e_sequencer (log_env E)))) (\<lambda>b.
      try_call (choose_start_hash (log_env E) p ch cn b) (start_at (log_env E))) s1 = (ra, sa)"
      by (simp add: start_attempt_def)
    note d2 = start_from_head [OF rest p(2,3), unfolded cfg1]
    have "does (\<lambda>new. new = [EvCommitted p]) s s1" using d1 p(1) by simp
    from does_trans [OF this conjunct1 [OF d2], of "start_ok (e_lib E) ?d (Some p)"] d2 show ?thesis using p(1) po by simp
  next
    case False
    then have ra: "sa = s1 \<and> \<not> is_ok ra"
      using att com
      by (cases r1) (auto simp: start_attempt_def call_fail_def split: option.splits sum.splits)
    have "does (start_ok (e_lib E) ?d (committed_head E s)) s s1"
      using d1 po by (cases r1) (auto elim!: does_mono intro!: no_start_ok simp: is_start_def split: option.splits)
    with ra show ?thesis by simp
  qed
  with att assms show ?thesis
    by (cases ra) (auto simp: start_sequencer_def)
qed

text \<open>Events that neither command the sequencer nor read the committed head.\<close>

definition inert :: "event list \<Rightarrow> bool" where
  "inert tr = (quiet tr \<and> reads_only None tr)"

lemma inert_simps [simp]:
  "inert []" "inert (a @ b) = (inert a \<and> inert b)" "inert [EvTransfer]" "inert [EvTransferTo i addr]"
  by (auto simp: inert_def quiet_def is_command_def)

lemma quiet_single [simp]: "quiet [e] = (\<not> is_command e)"
  by (simp add: quiet_def)

lemma try_transfer_targets_does:
  "try_transfer_targets (log_env E) ts le s = (r, s') \<Longrightarrow> does inert s s'"
proof (induction ts arbitrary: le s)
  case Nil
  then show ?case
    by (auto intro!: does_refl dest!: does_on_consensus_logged elim!: does_mono
        split: if_splits sum.splits)
next
  case (Cons t ts)
  let ?m = "logged [EvTransferTo (si_id t) (si_addr t)] (\<lambda>_. []) (cs_transfer_leader_to (e_consensus E) (si_id t) (si_addr t))"
  obtain r1 s1 where call: "in_world ?m s = (r1, s1)" by (cases "in_world ?m s")
  from does_logged [OF call] have d: "does inert s s1"
    by (cases r1) (auto elim!: does_mono)
  show ?case
  proof (cases r1)
    case (Inl e)
    have "does inert s1 s'"
      using Cons.prems call Inl Cons.IH [of "Some e" s1] by (auto split: if_splits intro: does_refl)
    with d show ?thesis by (rule does_trans) simp
  next
    case (Inr u)
    with Cons.prems call d show ?thesis by simp
  qed
qed

lemma round_robin_does:
  assumes "transfer_leader_round_robin (log_env E) s = (r, s')"
  shows "does inert s s'"
proof -
  obtain r1 s1 where mem: "on_consensus (silent (cs_membership (e_consensus E))) s = (r1, s1)"
    by (cases "on_consensus (silent (cs_membership (e_consensus E))) s")
  from does_on_consensus_silent [OF mem] have d: "does inert s s1" by (auto elim!: does_mono)
  show ?thesis
  proof (cases r1)
    case (Inl e)
    with assms mem d show ?thesis by (simp add: transfer_leader_round_robin_def)
  next
    case (Inr m)
    have "does inert s1 s'"
      using assms mem Inr
      by (auto simp: transfer_leader_round_robin_def Let_def split: if_splits option.splits
          intro: does_refl try_transfer_targets_does)
    with d show ?thesis by (rule does_trans) simp
  qed
qed

lemma transfer_leader_internal_does:
  assumes "transfer_leader_internal (log_env E) s = (r, s')"
  shows "does inert s s'"
proof -
  let ?m = "if round_robin_leader_transfer (cfg s) then transfer_leader_round_robin (log_env E) s
     else on_consensus (cs_transfer_leader (e_consensus (log_env E))) s"
  obtain r1 s1 where m: "?m = (r1, s1)" by (cases ?m)
  have d: "does inert s s1"
  proof (cases "round_robin_leader_transfer (cfg s)")
    case True
    with m round_robin_does show ?thesis by simp
  next
    case False
    with m have call: "on_consensus (logged [EvTransfer] (\<lambda>_. []) (cs_transfer_leader (e_consensus E))) s = (r1, s1)" by simp
    from does_on_consensus_logged [OF call] show ?thesis
      by (cases r1) (auto elim!: does_mono)
  qed
  show ?thesis
  proof (cases "cs_leader (e_consensus (log_env E)) (world s)")
    case False
    with assms show ?thesis by (auto simp: transfer_leader_internal_def Let_def intro!: does_refl)
  next
    case True
    then have "(case (r1, s1) of (Inl e, s') \<Rightarrow> (Inl e, on_metrics (record_leader_transfer False) s')
       | (Inr _, s') \<Rightarrow> (Inr (), on_metrics (record_leader_transfer True) (set_consensus_leader (log_env E) False s')))
       = (r, s')"
      using assms unfolding transfer_leader_internal_def Let_def m by simp
    with d show ?thesis by (cases r1) auto
  qed
qed

lemma stop_and_transfer_does:
  assumes "stop_and_transfer_leader (log_env E) s = (r, s')"
  shows "does (\<lambda>new. \<exists>rest. new = EvStop # rest \<and> quiet rest) s s'"
proof -
  obtain r1 s1 where st: "stop_sequencer (log_env E) s = (r1, s1)" by (cases "stop_sequencer (log_env E) s")
  obtain r2 s2 where tr: "transfer_leader_internal (log_env E) s1 = (r2, s2)"
    by (cases "transfer_leader_internal (log_env E) s1")
  have "s' = s2" using assms st tr by (auto simp: stop_and_transfer_leader_def split: sum.splits)
  with does_trans [OF conjunct1 [OF stop_sequencer_does [OF st]] transfer_leader_internal_does [OF tr]]
  show ?thesis by (simp add: inert_def)
qed

section \<open>The action\<close>

text \<open>
  The requests an action may make, in each of the situations it distinguishes. Only a leader starts
  the sequencer, and only at a justified hash; a stop is the first request of its action.
\<close>

definition action_ok :: "lib \<Rightarrow> u64 \<Rightarrow> payload_envelope option \<Rightarrow> cstate \<Rightarrow> event list \<Rightarrow> bool" where
  "action_ok L depth po status new =
     (if st_active status
      then (if st_leader status \<and> st_healthy status then new = []
            else if st_leader status then new = [] \<or> (\<exists>rest. new = EvStop # rest \<and> quiet rest)
            else new = [EvStop])
      else (if st_leader status then start_ok L depth po new else new = []))"

lemma quiet_no_stop: "quiet tr \<Longrightarrow> EvStop \<notin> set tr"
  by (auto simp: quiet_def is_command_def)

lemma leader_unhealthy_does:
  assumes "(let prev = previous s in
     if \<not> st_leader prev \<and> \<not> st_active prev \<and> \<not> prevents_new_leader_start (c_health s)
     then (case start_sequencer (log_env E) s of
             (Inr _, s') \<Rightarrow> (Inr (), s')
           | (Inl _, s') \<Rightarrow> transfer_leader_internal (log_env E) s')
     else transfer_leader_internal (log_env E) s) = (r, s')"
  shows "does (start_ok (e_lib E) (unsafe_repair_depth (cfg s)) (committed_head E s)) s s'"
proof -
  let ?P = "start_ok (e_lib E) (unsafe_repair_depth (cfg s)) (committed_head E s)"
  have transfer: "does ?P s s'" if "transfer_leader_internal (log_env E) s = (r, s')"
    using transfer_leader_internal_does [OF that]
    by (rule does_mono) (simp add: inert_def start_ok_def quiet_justified quiet_no_stop reads_only_None)
  obtain r0 s0 where st: "start_sequencer (log_env E) s = (r0, s0)" by (cases "start_sequencer (log_env E) s")
  have d: "does ?P s s0" using start_sequencer_does [OF st] by simp
  have failed: "does ?P s s'" if "transfer_leader_internal (log_env E) s0 = (r, s')"
    using d transfer_leader_internal_does [OF that]
    by (rule does_trans) (simp add: inert_def start_ok_def starts_justified_append_quiet quiet_no_stop reads_only_None)
  from assms st d transfer failed show ?thesis
    by (cases r0) (auto simp: Let_def split: if_splits)
qed

lemma action_does:
  assumes "action (log_env E) s = (r, s')"
  shows "does (\<lambda>new. if paused s \<or> stopping_or_stopped s then new = []
    else action_ok (e_lib E) (unsafe_repair_depth (cfg s)) (committed_head E s) (current_state (log_env E) s) new) s s'"
proof (cases "paused s \<or> stopping_or_stopped s")
  case True
  with assms have "s' = s" by (simp add: action_def)
  with True show ?thesis by (auto intro!: does_refl)
next
  case False
  let ?st = "current_state (log_env E) s"
  let ?ok = "action_ok (e_lib E) (unsafe_repair_depth (cfg s)) (committed_head E s) ?st"
  let ?unhealthy = "let prev = previous s in
     if \<not> st_leader prev \<and> \<not> st_active prev \<and> \<not> prevents_new_leader_start (c_health s)
     then (case start_sequencer (log_env E) s of
             (Inr _, s') \<Rightarrow> (Inr (), s')
           | (Inl _, s') \<Rightarrow> transfer_leader_internal (log_env E) s')
     else transfer_leader_internal (log_env E) s"
  obtain r1 s1 where stop: "stop_sequencer (log_env E) s = (r1, s1)" by (cases "stop_sequencer (log_env E) s")
  obtain r2 s2 where start: "start_sequencer (log_env E) s = (r2, s2)" by (cases "start_sequencer (log_env E) s")
  obtain r3 s3 where unhealthy: "?unhealthy = (r3, s3)" by (cases ?unhealthy)
  obtain r4 s4 where both: "stop_and_transfer_leader (log_env E) s = (r4, s4)"
    by (cases "stop_and_transfer_leader (log_env E) s")
  have ok1: "does ?ok s s1" if "\<not> st_leader ?st" "st_active ?st"
    using conjunct1 [OF stop_sequencer_does [OF stop]] that by (auto elim!: does_mono simp: action_ok_def)
  have ok2: "does ?ok s s2" if "st_leader ?st" "\<not> st_active ?st"
    using conjunct1 [OF start_sequencer_does [OF start]] that by (auto elim!: does_mono simp: action_ok_def)
  have ok3: "does ?ok s s3" if "st_leader ?st" "\<not> st_active ?st"
    using leader_unhealthy_does [OF unhealthy] that by (auto elim!: does_mono simp: action_ok_def)
  have ok4: "does ?ok s s4" if "st_leader ?st" "\<not> st_healthy ?st" "st_active ?st"
    using stop_and_transfer_does [OF both] that by (auto elim!: does_mono simp: action_ok_def)
  have ok5: "does ?ok s s" if "st_leader ?st = st_active ?st"
    using that by (auto intro!: does_refl simp: action_ok_def)
  have "does ?ok s s'"
    by (cases "st_leader ?st"; cases "st_healthy ?st"; cases "st_active ?st")
      (use assms False ok1 ok2 ok3 ok4 ok5 in \<open>simp add: action_def unhealthy [unfolded Let_def] Let_def stop start both
        split: if_splits sum.splits\<close>; force)+
  with False show ?thesis by simp
qed

lemma action_start_justified:
  assumes "action (log_env E) s = (r, s')" "log_of s = []" "log_of s' = before @ EvStart h # after"
  shows "\<not> paused s \<and> \<not> stopping_or_stopped s \<and> cs_leader (e_consensus E) (fst (world s)) \<and> \<not> seq_active s
    \<and> (\<exists>p. committed_head E s = Some p \<and> justified_by (e_lib E) (unsafe_repair_depth (cfg s)) before p h)"
proof -
  let ?ok = "action_ok (e_lib E) (unsafe_repair_depth (cfg s)) (committed_head E s) (current_state (log_env E) s)"
  let ?new = "before @ EvStart h # after"
  from action_does [OF assms(1)] assms(2,3) have
    new: "if paused s \<or> stopping_or_stopped s then ?new = [] else ?ok ?new"
    by (auto simp: does_def)
  then have run: "\<not> (paused s \<or> stopping_or_stopped s)" by auto
  have "\<not> (\<exists>rest. ?new = EvStop # rest \<and> quiet rest)"
    by (auto simp: quiet_def is_command_def append_eq_Cons_conv)
  with new run have st: "cs_leader (e_consensus E) (fst (world s))" "\<not> seq_active s"
    "start_ok (e_lib E) (unsafe_repair_depth (cfg s)) (committed_head E s) ?new"
    by (auto simp: action_ok_def current_state_def Cons_eq_append_conv split: if_splits)
  then obtain p where "justified_by (e_lib E) (unsafe_repair_depth (cfg s)) before p h"
    by (auto simp: start_ok_def starts_justified_def justified_def)
  moreover from this st(3) have "committed_head E s = Some p"
    by (auto simp: start_ok_def justified_by_def reads_only_def)
  ultimately show ?thesis using run st by blast
qed

text \<open>
  C1. Whatever consensus, the sequencer and the health clients answer, an action asks the sequencer
  to start only when it is neither paused nor stopping, consensus reported this node as leader and
  the sequencer was believed inactive; and it starts at a hash \<open>h\<close> only after, in the same action,
  consensus reported a committed unsafe head that \<open>h\<close> is or descends from, with the node's own head
  agreeing, repaired within the configured depth, or verified as a descendant. That head is the one
  consensus reports in the state in which the action decided to start.
\<close>

theorem start_only_justified:
  assumes "action (log_env E) s = (r, s')" "log_of s = []" "log_of s' = before @ EvStart h # after"
  shows "\<not> paused s \<and> \<not> stopping_or_stopped s \<and> cs_leader (e_consensus E) (fst (world s)) \<and> \<not> seq_active s
    \<and> (\<exists>p. fst (cs_latest_unsafe_payload (e_consensus E) (fst (world s))) = Inr (Some p)
         \<and> justified_by (e_lib E) (unsafe_repair_depth (cfg s)) before p h)"
  using action_start_justified [OF assms] by (auto simp: committed_head_def split: sum.splits)

text \<open>The conductor of the sample environment, with an empty log.\<close>

definition sample_start :: "bool \<Rightarrow> bool \<Rightarrow> (sample_world \<times> event list) conductor" where
  "sample_start l run = conductor_new (log_env sample_env) ''1'' default_config (sample_world l run, [])"

lemmas sample_run_defs = sample_start_def conductor_new_def default_config_def sample_env_defs log_defs
  action_def Let_def stopping_or_stopped_def current_state_def healthy_def start_sequencer_def start_attempt_def
  choose_start_hash_def start_at_def stop_sequencer_def on_consensus_def on_sequencer_def in_world_def
  logged_def silent_def try_call_def call_err_def sample_payload_simps

lemma sample_leader_starts:
  "\<exists>s'. action (log_env sample_env) (sample_start True False) = (Inr (), s')
     \<and> log_of s' = [EvCommitted (sample_payload 5 7), EvHead \<lparr>bi_hash = sample_hash 7, bi_number = 5\<rparr>]
         @ EvStart (sample_hash 7) # []"
  by (simp add: sample_run_defs)

theorem start_only_justified_witness:
  "\<exists>s'. action (log_env sample_env) (sample_start True False) = (Inr (), s')
     \<and> (\<exists>p. justified_by sample_lib 1
         [EvCommitted (sample_payload 5 7), EvHead \<lparr>bi_hash = sample_hash 7, bi_number = 5\<rparr>] p (sample_hash 7))"
proof -
  obtain s' where run: "action (log_env sample_env) (sample_start True False) = (Inr (), s')"
    and log: "log_of s' = [EvCommitted (sample_payload 5 7), EvHead \<lparr>bi_hash = sample_hash 7, bi_number = 5\<rparr>]
         @ EvStart (sample_hash 7) # []"
    using sample_leader_starts by blast
  have start: "log_of (sample_start True False) = []" "e_lib sample_env = sample_lib"
      "unsafe_repair_depth (cfg (sample_start True False)) = 1"
    by (simp_all add: sample_start_def conductor_new_def sample_env_def default_config_def)
  from start_only_justified [OF run start(1) log] run show ?thesis unfolding start by blast
qed

text \<open>
  C3. A node that is not the leader, not paused and not stopping asks for exactly one thing in an
  action: to stop its sequencer when it is believed active, and nothing at all otherwise; when the
  action succeeds the sequencer is recorded as inactive.
\<close>

theorem follower_only_stops:
  assumes "action (log_env E) s = (r, s')" "\<not> paused s" "\<not> stopping_or_stopped s"
    "\<not> cs_leader (e_consensus E) (fst (world s))"
  shows "log_of s' = log_of s @ (if seq_active s then [EvStop] else []) \<and> (r = Inr () \<longrightarrow> \<not> seq_active s')"
proof -
  from action_does [OF assms(1)] assms have log: "log_of s' = log_of s @ (if seq_active s then [EvStop] else [])"
    by (auto simp: does_def action_ok_def current_state_def split: if_splits)
  obtain r0 s0 where st: "stop_sequencer (log_env E) s = (r0, s0)" by (cases "stop_sequencer (log_env E) s")
  have "r = Inr () \<longrightarrow> \<not> seq_active s'"
    using assms st conjunct2 [OF stop_sequencer_does [OF st]]
    by (cases "seq_active s"; cases r0)
      (auto simp: action_def current_state_def Let_def split: bool.splits)
  with log show ?thesis by simp
qed

theorem follower_only_stops_witness:
  "\<exists>s'. action (log_env sample_env) ((sample_start False True)\<lparr>seq_active := True\<rparr>) = (Inr (), s')
     \<and> log_of s' = [EvStop] \<and> \<not> seq_active s'"
proof -
  let ?s = "(sample_start False True)\<lparr>seq_active := True\<rparr>"
  obtain s' where run: "action (log_env sample_env) ?s = (Inr (), s')"
    by (simp add: sample_run_defs)
  have "\<not> paused ?s" "\<not> stopping_or_stopped ?s" "\<not> cs_leader (e_consensus sample_env) (fst (world ?s))"
      "seq_active ?s" "log_of ?s = []"
    by (simp_all add: sample_run_defs)
  with follower_only_stops [OF run] run show ?thesis by auto
qed

end
