(* ===== verification/Conductor_Runs.thy ===== *)
theory Conductor_Runs
  imports Conductor_Safety
begin

text \<open>
  The conductor as a transition system: every operation the program exposes is a step, and so is
  any change outside. Steps of different tasks interleave in any order; \<open>stop\<close> is two steps, since
  other operations run between them. Shows what holds in every run: the flags only move forward,
  and a conductor that is stopping leaves its sequencer alone.
\<close>

section \<open>Steps and runs\<close>

inductive conductor_step :: "'w env \<Rightarrow> ('w \<Rightarrow> 'w \<Rightarrow> bool) \<Rightarrow> 'w conductor \<Rightarrow> 'w conductor \<Rightarrow> bool"
  for E :: "'w env" and out :: "'w \<Rightarrow> 'w \<Rightarrow> bool" where
  step_outside: "out (world s) w \<Longrightarrow> conductor_step E out s (s\<lparr>world := w\<rparr>)"
| step_action: "action E s = (r, s') \<Longrightarrow> conductor_step E out s s'"
| step_tick: "tick E now elapsed s = (r, s') \<Longrightarrow> conductor_step E out s s'"
| step_update_health: "update_health E h s = (r, s') \<Longrightarrow> conductor_step E out s s'"
| step_update_leader: "update_leader E b s = (r, s') \<Longrightarrow> conductor_step E out s s'"
| step_init: "initialize_startup_state E s = (r, s') \<Longrightarrow> conductor_step E out s s'"
| step_pause: "pause s = (r, s') \<Longrightarrow> conductor_step E out s s'"
| step_resume: "resume E s = (r, s') \<Longrightarrow> conductor_step E out s s'"
| step_stop_begin: "conductor_step E out s (stop_begin s)"
| step_stop_finish: "stopping s \<or> stopped s \<Longrightarrow> stop_finish E s = (r, s') \<Longrightarrow> conductor_step E out s s'"
| step_override: "conductor_step E out s (set_leader_override b s)"
| step_queue: "conductor_step E out s (queue_action E s)"
| step_add_voter: "add_server_as_voter E i a v s = (r, s') \<Longrightarrow> conductor_step E out s s'"
| step_add_nonvoter: "add_server_as_nonvoter E i a v s = (r, s') \<Longrightarrow> conductor_step E out s s'"
| step_remove: "remove_server E i v s = (r, s') \<Longrightarrow> conductor_step E out s s'"
| step_demote: "demote_voter E i v s = (r, s') \<Longrightarrow> conductor_step E out s s'"
| step_transfer: "transfer_leader E s = (r, s') \<Longrightarrow> conductor_step E out s s'"
| step_transfer_to: "transfer_leader_to_server E i a s = (r, s') \<Longrightarrow> conductor_step E out s s'"
| step_membership: "conductor_membership E s = (rm, s') \<Longrightarrow> conductor_step E out s s'"
| step_commit: "commit_unsafe_payload E p s = (r, s') \<Longrightarrow> conductor_step E out s s'"
| step_record: "conductor_step E out s (on_metrics (apply_metric op) s)"
| step_latest: "latest_unsafe_payload E s = (rl, s') \<Longrightarrow> conductor_step E out s s'"

definition conductor_run :: "'w env \<Rightarrow> ('w \<Rightarrow> 'w \<Rightarrow> bool) \<Rightarrow> 'w conductor \<Rightarrow> 'w conductor \<Rightarrow> bool" where
  "conductor_run E out = (conductor_step E out)\<^sup>*\<^sup>*"

text \<open>What goes on outside changes anything but the log.\<close>

definition outside :: "'w \<times> event list \<Rightarrow> 'w \<times> event list \<Rightarrow> bool" where
  "outside wt wt' = (snd wt' = snd wt)"

section \<open>The log along a step\<close>

text \<open>
  The effect of a step that begins while the conductor is stopping: no request to the sequencer,
  and the flags of \<open>stop\<close> stay up.
\<close>

definition calm :: "('w \<times> event list) conductor \<Rightarrow> ('w \<times> event list) conductor \<Rightarrow> bool" where
  "calm s s' =
     (stopping s' \<and> (stopped s \<longrightarrow> stopped s') \<and> (\<exists>new. log_of s' = log_of s @ new \<and> quiet new))"

lemma calm_refl: "stopping s \<Longrightarrow> calm s s"
  by (simp add: calm_def)

lemma does_calm: "does P s s' \<Longrightarrow> stopping s \<Longrightarrow> (\<And>new. P new \<Longrightarrow> quiet new) \<Longrightarrow> calm s s'"
  by (auto simp: does_def calm_def same_flags_def)

lemma does_quiet_calm: "does quiet s s' \<Longrightarrow> stopping s \<Longrightarrow> calm s s'"
  by (rule does_calm)

lemma consensus_silent_calm:
  "on_consensus (silent m) s = (r, s') \<Longrightarrow> stopping s \<Longrightarrow> calm s s'"
  by (drule does_on_consensus_silent) (auto intro: does_calm)

lemma sequencer_silent_calm:
  "on_sequencer (silent m) s = (r, s') \<Longrightarrow> stopping s \<Longrightarrow> calm s s'"
  by (drule does_on_sequencer_silent) (auto intro: does_calm)

lemma consensus_logged_calm:
  assumes "on_consensus (logged before after m) s = (r, s')" "stopping s"
    "quiet before" "\<And>a. quiet (after a)"
  shows "calm s s'"
  using does_on_consensus_logged [OF assms(1)] assms(2)
  by (rule does_calm) (use assms(3,4) in \<open>simp split: sum.splits\<close>)

lemma refresh_calm:
  assumes "refresh_sequencer_active (log_env E) s = (r, s')" "stopping s"
  shows "calm s s'"
proof -
  obtain r0 s0 where call: "on_sequencer (silent (sq_sequencer_active (e_sequencer E))) s = (r0, s0)"
    by (cases "on_sequencer (silent (sq_sequencer_active (e_sequencer E))) s")
  with assms sequencer_silent_calm [OF call] show ?thesis
    by (cases r0) (auto simp: refresh_sequencer_active_def calm_def)
qed

lemma resume_calm:
  assumes "resume (log_env E) s = (r, s')" "stopping s"
  shows "calm s s'"
proof (cases "stopped s")
  case True
  with assms show ?thesis by (simp add: resume_def calm_refl)
next
  case False
  obtain r0 s0 where call: "on_sequencer (silent (sq_sequencer_active (e_sequencer E))) s = (r0, s0)"
    by (cases "on_sequencer (silent (sq_sequencer_active (e_sequencer E))) s")
  with assms sequencer_silent_calm [OF call] False show ?thesis
    by (cases r0) (auto simp: resume_def calm_def queue_action_def Let_def)
qed

lemma stop_finish_calm:
  assumes "stop_finish (log_env E) s = (r, s')" "stopping s"
  shows "calm s s'"
proof (cases "stopped s")
  case True
  with assms show ?thesis by (simp add: stop_finish_def calm_refl)
next
  case False
  let ?m = "logged [EvShutdown] (\<lambda>_. []) (cs_shutdown (e_consensus E))"
  obtain r0 s0 where call: "on_consensus ?m s = (r0, s0)" by (cases "on_consensus ?m s")
  have "calm s s0" using consensus_logged_calm [OF call assms(2)] by (simp add: is_command_def)
  with assms call False show ?thesis
    by (cases r0) (auto simp: stop_finish_def calm_def)
qed

lemma action_calm:
  assumes "action (log_env E) s = (r, s')" "stopping s"
  shows "s' = s"
  using assms by (simp add: action_def stopping_or_stopped_def)

lemma update_calm:
  "update_health (log_env E) h s = (r, s') \<Longrightarrow> stopping s \<Longrightarrow> calm s s'"
  "update_leader (log_env E) b s = (r, s') \<Longrightarrow> stopping s \<Longrightarrow> calm s s'"
  by (auto simp: update_health_def update_leader_def set_consensus_leader_def calm_def dest!: action_calm)

lemma initialize_calm:
  assumes "initialize_startup_state (log_env E) s = (r, s')" "stopping s"
  shows "calm s s'"
proof -
  obtain r0 s0 where "refresh_sequencer_active (log_env E) s = (r0, s0)"
    by (cases "refresh_sequencer_active (log_env E) s")
  with assms refresh_calm show ?thesis
    by (cases r0) (auto simp: initialize_startup_state_def seed_previous_state_from_current_def calm_def)
qed

lemma step_calm:
  assumes "conductor_step (log_env E) outside s s'" "stopping s"
  shows "calm s s'"
  using assms
proof (induction rule: conductor_step.induct)
  case (step_action s r s')
  then show ?case by (metis action_calm calm_refl)
next
  case (step_transfer s r s')
  then show ?case
    by (auto simp: transfer_leader_def is_command_def intro: consensus_logged_calm)
next
  case (step_transfer_to i a s r s')
  then show ?case
    by (auto simp: transfer_leader_to_server_def is_command_def intro: consensus_logged_calm)
next
  case (step_latest s rl s')
  then show ?case
    by (auto simp: latest_unsafe_payload_def is_command_def intro!: consensus_logged_calm split: option.split)
qed (auto simp: add_server_as_voter_def add_server_as_nonvoter_def remove_server_def demote_voter_def
      conductor_membership_def commit_unsafe_payload_def intro: consensus_silent_calm resume_calm stop_finish_calm
      update_calm initialize_calm,
    auto simp: calm_def outside_def tick_def stopping_or_stopped_def pause_def stop_begin_def
      set_leader_override_def queue_action_def Let_def split: if_splits)

lemma conductor_run_calm:
  assumes "conductor_run (log_env E) outside c c'" "stopping c"
  shows "calm c c'"
  using assms(1) unfolding conductor_run_def
proof (induction rule: rtranclp_induct)
  case base
  then show ?case using assms(2) by (rule calm_refl)
next
  case (step c1 c2)
  then obtain new where "stopping c1" "stopped c \<longrightarrow> stopped c1" "log_of c1 = log_of c @ new" "quiet new"
    by (auto simp: calm_def)
  moreover from step(2) this(1) have "calm c1 c2" by (rule step_calm)
  then obtain new' where "stopping c2" "stopped c1 \<longrightarrow> stopped c2" "log_of c2 = log_of c1 @ new'" "quiet new'"
    by (auto simp: calm_def)
  ultimately show ?case by (auto simp: calm_def quiet_def intro!: exI [of _ "new @ new'"])
qed



end
