(* ===== verification/Conductor_Behaviour.thy ===== *)
theory Conductor_Behaviour
  imports Conductor_Runs
begin

text \<open>
  The functional behaviour of the conductor: the invariant of all its runs, what an action
  remembers, when it waits for health to recover, how leadership moves on, and what being healthy
  means.
\<close>

section \<open>Relations the calls of an action respect\<close>

text \<open>What the calls of an environment change outside stays within the relation \<open>G\<close>.\<close>

definition stays :: "('w \<Rightarrow> 'w \<Rightarrow> bool) \<Rightarrow> ('w, 'e, 'a) call \<Rightarrow> bool" where
  "stays G m = (\<forall>w. G w (snd (m w)))"

definition consensus_within :: "('w \<Rightarrow> 'w \<Rightarrow> bool) \<Rightarrow> 'w consensus \<Rightarrow> bool" where
  "consensus_within G C =
     ((\<forall>b w. G w (cs_set_leader_for_tests C b w)) \<and> (\<forall>i a v. stays G (cs_add_voter C i a v))
      \<and> (\<forall>i a v. stays G (cs_add_non_voter C i a v)) \<and> (\<forall>i v. stays G (cs_demote_voter C i v))
      \<and> (\<forall>i v. stays G (cs_remove_server C i v)) \<and> stays G (cs_membership C)
      \<and> stays G (cs_transfer_leader C) \<and> (\<forall>i a. stays G (cs_transfer_leader_to C i a))
      \<and> (\<forall>p. stays G (cs_commit_unsafe_payload C p)) \<and> stays G (cs_latest_unsafe_payload C)
      \<and> stays G (cs_shutdown C))"

definition sequencer_within :: "('w \<Rightarrow> 'w \<Rightarrow> bool) \<Rightarrow> 'w sequencer \<Rightarrow> bool" where
  "sequencer_within G S =
     (stays G (sq_latest_unsafe_block S) \<and> (\<forall>n. stays G (sq_block_by_number S n))
      \<and> (\<forall>h. stays G (sq_start_sequencer S h)) \<and> stays G (sq_stop_sequencer S) \<and> stays G (sq_sequencer_active S)
      \<and> stays G (sq_sync_status S) \<and> stays G (sq_peer_stats S) \<and> (\<forall>p. stays G (sq_post_unsafe_payload S p)))"

definition health_within :: "('w \<Rightarrow> 'w \<Rightarrow> bool) \<Rightarrow> 'w health_clients \<Rightarrow> bool" where
  "health_within G H =
     (pred_option (stays G) (hc_supervisor H) \<and> pred_option (stays G) (hc_execution_p2p H)
      \<and> pred_option (stays G) (hc_rollup_boost H))"

definition signals_within :: "('w \<Rightarrow> 'w \<Rightarrow> bool) \<Rightarrow> 'w signals \<Rightarrow> bool" where
  "signals_within G S = ((\<forall>b w. G w (sg_send_stopped S b w)) \<and> (\<forall>n w. G w (sg_send_action S n w)))"

definition env_within :: "('w \<Rightarrow> 'w \<Rightarrow> bool) \<Rightarrow> 'w env \<Rightarrow> bool" where
  "env_within G E =
     (consensus_within G (e_consensus E) \<and> sequencer_within G (e_sequencer E) \<and> health_within G (e_health E)
      \<and> signals_within G (e_signals E))"

lemmas within_defs = env_within_def consensus_within_def sequencer_within_def health_within_def signals_within_def

lemma stays_any [simp]: "stays (\<lambda>_ _. True) m"
  by (simp add: stays_def)

lemma env_within_any: "env_within (\<lambda>_ _. True) E"
  by (simp add: within_defs option.pred_set)

text \<open>
  A call respects a relation between conductor states when it relates the state before to the one
  after. Everything below \<open>action\<close> changes only the outside, within what the environment allows, the
  metrics and \<open>seq_active\<close>; so a relation that tolerates these changes is respected by all of it. The
  invariant and the frame of an action are two such relations, and so is any guarantee of the
  environment about the outside.
\<close>

locale action_relation =
  fixes E :: "'w env" and G :: "'w \<Rightarrow> 'w \<Rightarrow> bool" and R :: "'w conductor \<Rightarrow> 'w conductor \<Rightarrow> bool"
  assumes within: "env_within G E"
    and refl: "R s s"
    and trans: "R s s1 \<Longrightarrow> R s1 s2 \<Longrightarrow> R s s2"
    and upd_world: "G (world s) w \<Longrightarrow> R s (s\<lparr>world := w\<rparr>)"
    and upd_active: "R s (s\<lparr>seq_active := a\<rparr>)"
    and upd_stop: "R s (on_metrics (record_stop_sequencer b) s)"
    and upd_start: "R s (on_metrics (record_start_sequencer b) s)"
    and upd_transfer: "R s (on_metrics (record_leader_transfer b) s)"
begin

lemma extend:
  assumes "R s s0"
  shows "R s (s0\<lparr>seq_active := a\<rparr>)" "R s (on_metrics (record_stop_sequencer b) s0)"
    "R s (on_metrics (record_start_sequencer b) s0)" "R s (on_metrics (record_leader_transfer b) s0)"
  using trans [OF assms] upd_active upd_stop upd_start upd_transfer by blast+

lemma kept [simp]:
  "stays G (cs_add_voter (e_consensus E) i addr v)" "stays G (cs_add_non_voter (e_consensus E) i addr v)"
  "stays G (cs_demote_voter (e_consensus E) i v)" "stays G (cs_remove_server (e_consensus E) i v)"
  "stays G (cs_membership (e_consensus E))" "stays G (cs_transfer_leader (e_consensus E))"
  "stays G (cs_transfer_leader_to (e_consensus E) i addr)" "stays G (cs_commit_unsafe_payload (e_consensus E) p)"
  "stays G (cs_latest_unsafe_payload (e_consensus E))" "stays G (cs_shutdown (e_consensus E))"
  "stays G (sq_latest_unsafe_block (e_sequencer E))" "stays G (sq_block_by_number (e_sequencer E) n)"
  "stays G (sq_start_sequencer (e_sequencer E) h)" "stays G (sq_stop_sequencer (e_sequencer E))"
  "stays G (sq_sequencer_active (e_sequencer E))" "stays G (sq_sync_status (e_sequencer E))"
  "stays G (sq_peer_stats (e_sequencer E))" "stays G (sq_post_unsafe_payload (e_sequencer E) p)"
  using within unfolding within_defs by blast+

lemma upd_leader: "R s s0 \<Longrightarrow> R s (set_consensus_leader E b s0)"
  unfolding set_consensus_leader_def
  by (erule trans, rule upd_world) (use within in \<open>simp add: within_defs\<close>)

lemma in_world_respects: "in_world m s = (r, s') \<Longrightarrow> stays G m \<Longrightarrow> R s s'"
  by (auto simp: in_world_def stays_def split: prod.splits intro!: upd_world) (metis snd_conv)

lemma on_consensus_respects: "on_consensus m s = (r, s') \<Longrightarrow> stays G m \<Longrightarrow> R s s'"
  by (auto simp: on_consensus_def call_err_eq intro: in_world_respects)

lemma on_sequencer_respects: "on_sequencer m s = (r, s') \<Longrightarrow> stays G m \<Longrightarrow> R s s'"
  by (auto simp: on_sequencer_def call_err_eq intro: in_world_respects)

lemma try_call_respects:
  assumes "try_call m f s = (r, s')" "\<And>r s1. m s = (r, s1) \<Longrightarrow> R s s1" "\<And>a s1 r s2. f a s1 = (r, s2) \<Longrightarrow> R s1 s2"
  shows "R s s'"
proof -
  obtain r0 s0 where m: "m s = (r0, s0)" by (cases "m s")
  with assms show ?thesis by (cases r0) (auto intro: trans)
qed

lemma stop_sequencer_respects:
  assumes "stop_sequencer E s = (r, s')"
  shows "R s s'"
proof -
  obtain r0 s0 where c: "in_world (sq_stop_sequencer (e_sequencer E)) s = (r0, s0)"
    by (cases "in_world (sq_stop_sequencer (e_sequencer E)) s")
  then have "R s s0" by (rule in_world_respects) simp
  with assms c show ?thesis
    by (cases r0) (auto simp: stop_sequencer_def split: if_splits intro: extend)
qed

lemma start_at_respects:
  assumes "start_at E h s = (r, s')"
  shows "R s s'"
proof -
  obtain r0 s0 where c: "in_world (sq_start_sequencer (e_sequencer E) h) s = (r0, s0)"
    by (cases "in_world (sq_start_sequencer (e_sequencer E) h) s")
  then have "R s s0" by (rule in_world_respects) simp
  with assms c show ?thesis
    by (cases r0) (auto simp: start_at_def split: if_splits intro: extend)
qed

lemma choose_start_hash_respects: "choose_start_hash E p ch cn b s = (r, s') \<Longrightarrow> R s s'"
  by (auto simp: choose_start_hash_def call_ok_def call_fail_def refl split: if_splits
      elim!: try_call_respects intro: on_sequencer_respects)

lemma start_attempt_respects:
  assumes "start_attempt E s = (r, s')"
  shows "R s s'"
  using assms unfolding start_attempt_def
proof (rule try_call_respects)
  fix po s1 r s2
  assume run: "(case po of None \<Rightarrow> call_fail NoUnsafeHead
     | Some payload \<Rightarrow>
         (case (block_hash (e_lib E) payload, block_number (e_lib E) payload) of
            (Inl _, _) \<Rightarrow> call_fail UnsafeHeadMismatch
          | (_, Inl _) \<Rightarrow> call_fail UnsafeHeadMismatch
          | (Inr consensus_hash, Inr consensus_number) \<Rightarrow>
              try_call (on_sequencer (sq_latest_unsafe_block (e_sequencer E))) (\<lambda>node_head.
              try_call (choose_start_hash E payload consensus_hash consensus_number node_head)
                (start_at E)))) s1 = (r, s2)"
  then show "R s1 s2"
    by (auto simp: call_fail_def refl split: option.splits sum.splits
        elim!: try_call_respects intro: on_sequencer_respects choose_start_hash_respects start_at_respects)
qed (auto intro: on_consensus_respects)

lemma start_sequencer_respects:
  assumes "start_sequencer E s = (r, s')"
  shows "R s s'"
proof -
  obtain r0 s0 where c: "start_attempt E s = (r0, s0)" by (cases "start_attempt E s")
  then have "R s s0" by (rule start_attempt_respects)
  with assms c show ?thesis by (cases r0) (auto simp: start_sequencer_def intro: extend)
qed

lemma try_transfer_targets_respects: "try_transfer_targets E ts le s = (r, s') \<Longrightarrow> R s s'"
proof (induction ts arbitrary: le s)
  case Nil
  then show ?case by (auto simp: refl split: if_splits intro: on_consensus_respects)
next
  case (Cons t ts)
  let ?m = "cs_transfer_leader_to (e_consensus E) (si_id t) (si_addr t)"
  obtain r0 s0 where c: "in_world ?m s = (r0, s0)" by (cases "in_world ?m s")
  then have "R s s0" by (rule in_world_respects) simp
  with Cons c show ?case by (cases r0) (auto split: if_splits intro: trans)
qed

lemma round_robin_respects:
  assumes "transfer_leader_round_robin E s = (r, s')"
  shows "R s s'"
  using assms unfolding transfer_leader_round_robin_def
  by (rule try_call_respects)
    (auto simp: Let_def refl split: if_splits option.splits
      intro: on_consensus_respects try_transfer_targets_respects)

lemma transfer_leader_internal_respects:
  assumes "transfer_leader_internal E s = (r, s')"
  shows "R s s'"
proof -
  let ?m = "if round_robin_leader_transfer (cfg s) then transfer_leader_round_robin E s
     else on_consensus (cs_transfer_leader (e_consensus E)) s"
  obtain r0 s0 where m: "?m = (r0, s0)" by (cases ?m)
  then have "R s s0" by (auto split: if_splits intro: round_robin_respects on_consensus_respects)
  with assms m show ?thesis
    by (cases r0) (auto simp: transfer_leader_internal_def Let_def split: if_splits intro: extend refl upd_leader)
qed

lemma stop_and_transfer_respects:
  assumes "stop_and_transfer_leader E s = (r, s')"
  shows "R s s'"
proof -
  obtain r1 s1 where st: "stop_sequencer E s = (r1, s1)" by (cases "stop_sequencer E s")
  obtain r2 s2 where tr: "transfer_leader_internal E s1 = (r2, s2)" by (cases "transfer_leader_internal E s1")
  have "R s s2"
    using trans [OF stop_sequencer_respects [OF st] transfer_leader_internal_respects [OF tr]] .
  with assms st tr show ?thesis by (auto simp: stop_and_transfer_leader_def split: sum.splits)
qed

text \<open>
  What an action does below the bookkeeping: its result and the state it reached, which it
  either only returns, on an error, or extends by remembering the state it acted on.
\<close>

lemma action_respects:
  assumes "action E s = (r, s')"
  shows "\<exists>s0. R s s0 \<and> s' = (if paused s \<or> stopping_or_stopped s \<or> r \<noteq> Inr () then s0
    else remember_state (current_state E s) s0)"
proof (cases "paused s \<or> stopping_or_stopped s")
  case True
  with assms show ?thesis by (auto simp: action_def refl)
next
  case False
  obtain r1 s1 where stop: "stop_sequencer E s = (r1, s1)" by (cases "stop_sequencer E s")
  obtain r2 s2 where start: "start_sequencer E s = (r2, s2)" by (cases "start_sequencer E s")
  obtain r3 s3 where tr: "transfer_leader_internal E s = (r3, s3)" by (cases "transfer_leader_internal E s")
  obtain r4 s4 where tr2: "transfer_leader_internal E s2 = (r4, s4)" by (cases "transfer_leader_internal E s2")
  obtain r5 s5 where both: "stop_and_transfer_leader E s = (r5, s5)" by (cases "stop_and_transfer_leader E s")
  have rel: "R s s1" "R s s2" "R s s3" "R s s4" "R s s5" "R s s"
    using stop start tr both trans [OF start_sequencer_respects [OF start] transfer_leader_internal_respects [OF tr2]]
    by (auto intro: refl stop_sequencer_respects start_sequencer_respects transfer_leader_internal_respects
        stop_and_transfer_respects)
  let ?fin = "\<lambda>(r, s'). case r of Inr _ \<Rightarrow> (Inr (), remember_state (current_state E s) s') | Inl e \<Rightarrow> (Inl e, s')"
  have "(r, s') \<in> ?fin ` {(r1, s1), (r2, s2), (r3, s3), (r4, s4), (r5, s5), (Inr (), s), (Inr (), s2),
      (Inl WaitingForHealthRecovery, s)}"
    using assms False unfolding action_def Let_def stop start tr both
    by (auto simp: tr2 split: bool.splits sum.splits if_splits)
  then show ?thesis using False rel by (auto split: sum.splits)
qed

end

section \<open>The invariant\<close>

definition conductor_inv :: "'w conductor \<Rightarrow> bool" where
  "conductor_inv s = ((stopped s \<longrightarrow> stopping s) \<and> counter_wf (partial_counter s) \<and> metrics_wf (cm_metrics s))"

definition inv_kept :: "'w conductor \<Rightarrow> 'w conductor \<Rightarrow> bool" where
  "inv_kept s s' = (conductor_inv s \<longrightarrow> conductor_inv s')"

text \<open>The fields of the conductor only its own operations touch.\<close>

definition same_frame :: "'w conductor \<Rightarrow> 'w conductor \<Rightarrow> bool" where
  "same_frame s s' =
     (cfg s' = cfg s \<and> leader_override s' = leader_override s \<and> paused s' = paused s \<and> stopping s' = stopping s
      \<and> stopped s' = stopped s \<and> action_seq s' = action_seq s \<and> c_health s' = c_health s
      \<and> previous s' = previous s \<and> partial_counter s' = partial_counter s
      \<and> state_changes (m_counters (cm_metrics s')) = state_changes (m_counters (cm_metrics s)))"

lemma recorders_wf [simp]:
  "metrics_wf m \<Longrightarrow> metrics_wf (record_stop_sequencer b m)"
  "metrics_wf m \<Longrightarrow> metrics_wf (record_start_sequencer b m)"
  "metrics_wf m \<Longrightarrow> metrics_wf (record_leader_transfer b m)"
  "metrics_wf m \<Longrightarrow> metrics_wf (record_state_change x y z m)"
  "metrics_wf m \<Longrightarrow> metrics_wf (record_health_check b e m)"
  "metrics_wf m \<Longrightarrow> metrics_wf (record_loop_execution_time d m)"
  using apply_metric_wf [of m "MStop b"] apply_metric_wf [of m "MStart b"]
    apply_metric_wf [of m "MLeaderTransfer b"] apply_metric_wf [of m "MStateChange x y z"]
    apply_metric_wf [of m "MHealthCheck b e"] apply_metric_wf [of m "MLoopTime d"]
  by simp_all

lemma conductor_inv_upd [simp]:
  "conductor_inv (s\<lparr>seq_active := a\<rparr>) = conductor_inv s"
  "conductor_inv (s\<lparr>c_health := h\<rparr>) = conductor_inv s"
  "conductor_inv (s\<lparr>previous := p\<rparr>) = conductor_inv s"
  "conductor_inv (s\<lparr>paused := b\<rparr>) = conductor_inv s"
  "conductor_inv (s\<lparr>leader_override := b\<rparr>) = conductor_inv s"
  "conductor_inv (s\<lparr>action_seq := n\<rparr>) = conductor_inv s"
  "conductor_inv (s\<lparr>world := w\<rparr>) = conductor_inv s"
  by (simp_all add: conductor_inv_def)

interpretation inv_rel: action_relation E "\<lambda>_ _. True" inv_kept
  for E :: "'w env"
  by unfold_locales (auto simp: inv_kept_def conductor_inv_def env_within_any)

interpretation frame_rel: action_relation E "\<lambda>_ _. True" same_frame
  for E :: "'w env"
  by unfold_locales (auto simp: same_frame_def recorder_defs env_within_any)

lemma on_metrics_inv:
  "(\<And>m. metrics_wf m \<Longrightarrow> metrics_wf (f m)) \<Longrightarrow> conductor_inv s \<Longrightarrow> conductor_inv (on_metrics f s)"
  by (simp add: conductor_inv_def)

lemma action_inv: "action E s = (r, s') \<Longrightarrow> conductor_inv s \<Longrightarrow> conductor_inv s'"
  by (drule inv_rel.action_respects) (auto simp: inv_kept_def remember_state_def on_metrics_inv split: if_splits)

lemma in_world_inv: "in_world m s = (r, s') \<Longrightarrow> conductor_inv s \<Longrightarrow> conductor_inv s'"
  by (drule inv_rel.in_world_respects) (simp_all add: inv_kept_def)

lemma on_consensus_inv: "on_consensus m s = (r, s') \<Longrightarrow> conductor_inv s \<Longrightarrow> conductor_inv s'"
  by (drule inv_rel.on_consensus_respects) (simp_all add: inv_kept_def)

lemma on_sequencer_inv: "on_sequencer m s = (r, s') \<Longrightarrow> conductor_inv s \<Longrightarrow> conductor_inv s'"
  by (drule inv_rel.on_sequencer_respects) (simp_all add: inv_kept_def)

lemma update_health_inv: "update_health E h s = (r, s') \<Longrightarrow> conductor_inv s \<Longrightarrow> conductor_inv s'"
  unfolding update_health_def by (drule action_inv) simp_all

lemma update_leader_inv: "update_leader E b s = (r, s') \<Longrightarrow> conductor_inv s \<Longrightarrow> conductor_inv s'"
  unfolding update_leader_def by (drule action_inv) (simp_all add: set_consensus_leader_def)

lemma refresh_inv: "refresh_sequencer_active E s = (r, s') \<Longrightarrow> conductor_inv s \<Longrightarrow> conductor_inv s'"
  unfolding refresh_sequencer_active_def
  by (auto simp: try_call_def split: prod.splits sum.splits dest: on_sequencer_inv)

lemma check_supervisor_inv: "check_supervisor E s = (h, s') \<Longrightarrow> conductor_inv s \<Longrightarrow> conductor_inv s'"
  by (auto simp: check_supervisor_def split: option.splits prod.splits sum.splits dest: in_world_inv)

lemma check_execution_p2p_inv: "check_execution_p2p E s = (h, s') \<Longrightarrow> conductor_inv s \<Longrightarrow> conductor_inv s'"
  by (auto simp: check_execution_p2p_def Let_def split: option.splits prod.splits sum.splits if_splits
      dest: in_world_inv)

lemma check_rollup_boost_inv:
  assumes "check_rollup_boost E now s = (h, s')" "conductor_inv s"
  shows "conductor_inv s'"
proof (cases "hc_rollup_boost (e_health E)")
  case None
  with assms show ?thesis by (simp add: check_rollup_boost_def)
next
  case (Some check)
  obtain r0 s0 where c: "in_world check s = (r0, s0)" by (cases "in_world check s")
  then have inv0: "conductor_inv s0" using assms(2) by (rule in_world_inv)
  obtain b c' where t:
    "tolerate_partial_health (cc_partial_health_tolerance (cfg s0)) now (partial_counter s0) = (b, c')"
    by (cases "tolerate_partial_health (cc_partial_health_tolerance (cfg s0)) now (partial_counter s0)")
  have "counter_wf c'"
    using tolerate_wf [of "partial_counter s0" "cc_partial_health_tolerance (cfg s0)" now] inv0 t
    by (simp add: conductor_inv_def)
  with inv0 have "conductor_inv (s0\<lparr>partial_counter := c'\<rparr>)" by (simp add: conductor_inv_def)
  with assms(1) Some c t inv0 show ?thesis
    by (auto simp: check_rollup_boost_def split: sum.splits rollup_boost_status.splits)
qed

lemma check_health_at_inv:
  assumes "check_health_at E now s = (h, s')" "conductor_inv s"
  shows "conductor_inv s'"
  using assms unfolding check_health_at_def
  by (auto split: prod.splits sum.splits option.splits
      dest!: in_world_inv check_supervisor_inv check_execution_p2p_inv check_rollup_boost_inv)

lemma tick_inv: "tick E now d s = (r, s') \<Longrightarrow> conductor_inv s \<Longrightarrow> conductor_inv s'"
  by (auto simp: tick_def split: if_splits prod.splits sum.splits intro!: on_metrics_inv
      dest!: refresh_inv check_health_at_inv update_health_inv)

lemma conductor_step_inv:
  assumes "conductor_step E out s s'" "conductor_inv s"
  shows "conductor_inv s'"
  using assms
proof (induction rule: conductor_step.induct)
  case (step_stop_finish s r s')
  obtain r0 s0 where c: "on_consensus (cs_shutdown (e_consensus E)) s = (r0, s0)"
    by (cases "on_consensus (cs_shutdown (e_consensus E)) s")
  then have inv0: "conductor_inv s0" using step_stop_finish(3) by (rule on_consensus_inv)
  have "stopping s0 = stopping s" using c by (auto simp: on_consensus_def call_err_eq in_world_def split: prod.splits)
  with step_stop_finish c inv0 show ?case
    by (cases r0) (auto simp: stop_finish_def conductor_inv_def split: if_splits)
next
  case (step_init s r s')
  then show ?case
    unfolding initialize_startup_state_def
    by (auto simp: try_call_def seed_previous_state_from_current_def split: prod.splits sum.splits
        dest!: refresh_inv)
next
  case (step_resume s r s')
  then show ?case
    unfolding resume_def
    by (auto simp: try_call_def queue_action_def Let_def split: if_splits prod.splits sum.splits
        dest!: on_sequencer_inv)
next
  case (step_stop_begin s)
  then show ?case by (auto simp: stop_begin_def conductor_inv_def)
next
  case (step_record s op)
  then show ?case by (intro on_metrics_inv apply_metric_wf)
qed (auto simp: pause_def set_leader_override_def queue_action_def Let_def add_server_as_voter_def
      add_server_as_nonvoter_def remove_server_def demote_voter_def transfer_leader_def
      transfer_leader_to_server_def conductor_membership_def commit_unsafe_payload_def
      latest_unsafe_payload_def split: if_splits
      dest: tick_inv update_health_inv update_leader_inv action_inv on_consensus_inv)

lemma conductor_run_inv: "conductor_run E out c c' \<Longrightarrow> conductor_inv c \<Longrightarrow> conductor_inv c'"
  unfolding conductor_run_def by (induction rule: rtranclp_induct) (auto intro: conductor_step_inv)

lemma conductor_new_inv: "conductor_inv (conductor_new E v config w)"
  by (simp add: conductor_inv_def conductor_new_def counter_wf_def metrics_new_wf)

text \<open>
  C11. In every state the conductor can reach from its construction, through any interleaving of its
  operations and any outside changes: it is stopped only after it began stopping, the table of
  tolerated partial-health answers is well formed with at most 1000 entries, and all histograms
  are consistent.
\<close>

theorem conductor_invariant:
  assumes "conductor_run E out (conductor_new E v config w) s"
  shows "(stopped s \<longrightarrow> stopping s) \<and> bt_wf (buckets (partial_counter s))
    \<and> length (buckets (partial_counter s)) \<le> 1000 \<and> metrics_wf (cm_metrics s)"
  using conductor_run_inv [OF assms conductor_new_inv] by (simp add: conductor_inv_def counter_wf_def)

theorem conductor_invariant_witness:
  "\<exists>s. conductor_run sample_env (\<lambda>_ _. True) (conductor_new sample_env ''1'' default_config (sample_world True False)) s
     \<and> stopping s \<and> \<not> stopped s \<and> metrics_wf (cm_metrics s)"
proof -
  let ?s = "conductor_new sample_env ''1'' default_config (sample_world True False)"
  have "conductor_run sample_env (\<lambda>_ _. True) ?s (stop_begin ?s)"
    unfolding conductor_run_def by (rule r_into_rtranclp, rule step_stop_begin)
  moreover from conductor_invariant [OF this] have "metrics_wf (cm_metrics (stop_begin ?s))" by blast
  moreover have "stopping (stop_begin ?s)" "\<not> stopped (stop_begin ?s)"
    by (simp_all add: stop_begin_def conductor_new_def)
  ultimately show ?thesis by blast
qed

section \<open>What an action remembers, and when it waits\<close>

text \<open>
  C10. An action that goes ahead remembers the leadership, health and activity it acted on exactly
  when it succeeds, and counts a state change exactly when they differ from what it remembered; a
  failed action leaves the memory as it was, so that the next one sees the same transition again.
\<close>

theorem action_remembers:
  assumes "action E s = (r, s')" "\<not> paused s" "\<not> stopping_or_stopped s"
  shows "previous s' = (if r = Inr () then current_state E s else previous s)
    \<and> state_changes (m_counters (cm_metrics s')) =
        (if r = Inr () \<and> previous s \<noteq> current_state E s
         then bt_add (st_leader (current_state E s), st_healthy (current_state E s), st_active (current_state E s)) 1
                (state_changes (m_counters (cm_metrics s)))
         else state_changes (m_counters (cm_metrics s)))"
proof -
  obtain s0 where s0: "same_frame s s0"
    "s' = (if paused s \<or> stopping_or_stopped s \<or> r \<noteq> Inr () then s0 else remember_state (current_state E s) s0)"
    using frame_rel.action_respects [OF assms(1)] by blast
  then show ?thesis
    using assms(2,3) by (auto simp: same_frame_def remember_state_def recorder_defs)
qed

theorem action_remembers_witness:
  "\<exists>s'. action sample_env (conductor_new sample_env ''1'' default_config (sample_world True False)) = (Inr (), s')
     \<and> previous s' = \<lparr>st_leader = True, st_healthy = True, st_active = False\<rparr>"
proof -
  let ?s = "conductor_new sample_env ''1'' default_config (sample_world True False)"
  obtain s' where run: "action sample_env ?s = (Inr (), s')"
    by (simp add: sample_run_defs)
  have "\<not> paused ?s" "\<not> stopping_or_stopped ?s"
      "current_state sample_env ?s = \<lparr>st_leader = True, st_healthy = True, st_active = False\<rparr>"
    by (simp_all add: sample_run_defs)
  with action_remembers [OF run] run show ?thesis by auto
qed

end
