(* ===== verification/Conductor_Leadership.thy ===== *)
theory Conductor_Leadership
  imports Conductor_Behaviour
begin

text \<open>
  How leadership moves on and when: the order in which round-robin transfer asks the other voters,
  what an unhealthy leader does, when it waits instead, what counts as healthy, and how \<open>stop\<close>
  ends.
\<close>

section \<open>Round-robin transfer\<close>

lemma round_robin_targets_rotate:
  assumes "cur < length vs"
  shows "round_robin_targets vs cur = drop (Suc cur) vs @ take cur vs"
proof (rule nth_equalityI)
  show "length (round_robin_targets vs cur) = length (drop (Suc cur) vs @ take cur vs)"
    using assms by (simp add: round_robin_targets_def)
next
  fix i assume "i < length (round_robin_targets vs cur)"
  then have i: "Suc i < length vs" by (simp add: round_robin_targets_def)
  have nth: "round_robin_targets vs cur ! i = vs ! ((cur + Suc i) mod length vs)"
    using i by (simp add: round_robin_targets_def)
  show "round_robin_targets vs cur ! i = (drop (Suc cur) vs @ take cur vs) ! i"
  proof (cases "cur + Suc i < length vs")
    case True
    then show ?thesis using nth by (simp add: nth_append)
  next
    case False
    then have "(cur + Suc i) mod length vs = cur + Suc i - length vs"
      using assms i by (simp add: mod_if)
    then show ?thesis using nth False assms i by (simp add: nth_append add.commute)
  qed
qed

lemma position_Some:
  assumes "cur < length vs" "P (vs ! cur)" "\<forall>j < cur. \<not> P (vs ! j)"
  shows "position P vs = Some cur"
  using assms
proof (induction vs arbitrary: cur)
  case Nil
  then show ?case by simp
next
  case (Cons v vs)
  show ?case
  proof (cases cur)
    case 0
    with Cons.prems show ?thesis by simp
  next
    case (Suc k)
    with Cons.prems have "\<not> P v" by force
    moreover have "position P vs = Some k"
      using Cons.IH [of k] Cons.prems Suc by fastforce
    ultimately show ?thesis using Suc by simp
  qed
qed

lemma position_distinct:
  assumes "distinct (map f vs)" "cur < length vs"
  shows "position (\<lambda>v. f v = f (vs ! cur)) vs = Some cur"
proof (rule position_Some [OF assms(2)])
  show "\<forall>j < cur. f (vs ! j) \<noteq> f (vs ! cur)"
    using assms by (auto simp: distinct_conv_nth)
qed simp

definition asked :: "server_info \<Rightarrow> event" where
  "asked t = EvTransferTo (si_id t) (si_addr t)"

lemma try_transfer_targets_log:
  assumes "try_transfer_targets (log_env E) ts le s = (r, s')" "ts \<noteq> [] \<or> le \<noteq> None"
  shows "\<exists>k tail. log_of s' = log_of s @ map asked (take k ts) @ tail \<and> k \<le> length ts \<and> (ts \<noteq> [] \<longrightarrow> 0 < k)
    \<and> (tail = [] \<and> r = Inr () \<and> 0 < k \<or> tail = [EvTransfer] \<and> k = length ts)"
  using assms
proof (induction ts arbitrary: le s)
  case Nil
  then have "on_consensus (logged [EvTransfer] (\<lambda>_. []) (cs_transfer_leader (e_consensus E))) s = (r, s')" by simp
  from does_on_consensus_logged [OF this] have "log_of s' = log_of s @ [EvTransfer]"
    by (cases r) (auto simp: does_def)
  then show ?case by simp
next
  case (Cons t ts)
  let ?m = "logged [EvTransferTo (si_id t) (si_addr t)] (\<lambda>_. []) (cs_transfer_leader_to (e_consensus E) (si_id t) (si_addr t))"
  obtain r1 s1 where call: "in_world ?m s = (r1, s1)" by (cases "in_world ?m s")
  from does_logged [OF call] have log1: "log_of s1 = log_of s @ [asked t]"
    by (cases r1) (auto simp: does_def asked_def)
  show ?case
  proof (cases "\<exists>e. r1 = Inl e \<and> \<not> is_leadership_transfer_in_progress e")
    case True
    then obtain e where e: "r1 = Inl e" "\<not> is_leadership_transfer_in_progress e" by blast
    with Cons.prems call have rest: "try_transfer_targets (log_env E) ts (Some e) s1 = (r, s')" by simp
    from Cons.IH [OF rest] obtain k tail where k: "log_of s' = log_of s1 @ map asked (take k ts) @ tail" "k \<le> length ts"
      "tail = [] \<and> r = Inr () \<and> 0 < k \<or> tail = [EvTransfer] \<and> k = length ts"
      by auto
    then show ?thesis
      using log1 by (intro exI [of _ "Suc k"] exI [of _ tail]) auto
  next
    case False
    with Cons.prems call have "r = Inr ()" "s' = s1" by (cases r1; simp)+
    with log1 show ?thesis by (intro exI [of _ 1] exI [of _ "[]"]) simp
  qed
qed



section \<open>The unhealthy leader\<close>

text \<open>Calls that cannot fail with the error that stands for waiting.\<close>

definition never_waits :: "('w conductor, conductor_error, 'a) call \<Rightarrow> bool" where
  "never_waits m = (\<forall>s s'. m s \<noteq> (Inl WaitingForHealthRecovery, s'))"

named_theorems waits_intros \<open>calls that never wait\<close>

lemma on_consensus_waits [waits_intros]: "never_waits (on_consensus m)"
proof -
  have "map_err CConsensus r \<noteq> Inl WaitingForHealthRecovery" for r :: "consensus_error + 'b"
    by (cases r) simp_all
  then show ?thesis by (simp add: never_waits_def on_consensus_def call_err_eq) metis
qed

lemma on_sequencer_waits [waits_intros]: "never_waits (on_sequencer m)"
proof -
  have "map_err CSequencer r \<noteq> Inl WaitingForHealthRecovery" for r :: "sequencer_error + 'b"
    by (cases r) simp_all
  then show ?thesis by (simp add: never_waits_def on_sequencer_def call_err_eq) metis
qed

lemma try_call_waits [waits_intros]:
  assumes "never_waits m" "\<And>a. never_waits (f a)"
  shows "never_waits (try_call m f)"
  unfolding never_waits_def
proof (intro allI)
  fix s s'
  obtain r0 s0 where m: "m s = (r0, s0)" by (cases "m s")
  then show "try_call m f s \<noteq> (Inl WaitingForHealthRecovery, s')"
    using assms by (cases r0) (auto simp: never_waits_def)
qed

lemma call_ok_waits [waits_intros]:
  "never_waits (call_ok a)" "e \<noteq> WaitingForHealthRecovery \<Longrightarrow> never_waits (call_fail e)"
  by (simp_all add: never_waits_def call_ok_def call_fail_def)

lemma stop_sequencer_waits [waits_intros]: "never_waits (stop_sequencer E)"
  by (simp add: never_waits_def stop_sequencer_def split: prod.split sum.split)

lemma start_at_waits [waits_intros]: "never_waits (start_at E h)"
  by (simp add: never_waits_def start_at_def split: prod.split sum.split)

lemma choose_start_hash_waits [waits_intros]: "never_waits (choose_start_hash E p ch cn b)"
proof -
  let ?post = "try_call (on_sequencer (sq_post_unsafe_payload (e_sequencer E) p)) (\<lambda>_. call_ok ch)"
  let ?anc = "try_call (on_sequencer (sq_block_by_number (e_sequencer E) cn)) (\<lambda>ancestor.
                if bi_hash ancestor \<noteq> ch then call_fail UnsafeHeadMismatch else call_ok (bi_hash b))"
  have "never_waits (if bi_hash a \<noteq> ch then call_fail UnsafeHeadMismatch else call_ok (bi_hash b))" for a
    by (simp add: waits_intros)
  then have "never_waits ?post" "never_waits ?anc" by (intro waits_intros; assumption)+
  then show ?thesis by (simp add: never_waits_def choose_start_hash_def)
qed

lemma start_sequencer_waits [waits_intros]: "never_waits (start_sequencer E)"
proof -
  have "never_waits (start_attempt E)"
    unfolding start_attempt_def
    by (auto intro!: waits_intros split: option.split sum.split)
  then show ?thesis
    by (auto simp: never_waits_def start_sequencer_def split: prod.split sum.split)
qed

lemma try_transfer_targets_waits [waits_intros]: "never_waits (try_transfer_targets E ts le)"
proof (induction ts arbitrary: le)
  case Nil
  then show ?case using on_consensus_waits [of "cs_transfer_leader (e_consensus E)"] by (simp add: never_waits_def)
next
  case (Cons t ts)
  then show ?case by (simp add: never_waits_def split: prod.split sum.split)
qed

lemma round_robin_waits [waits_intros]: "never_waits (transfer_leader_round_robin E)"
  unfolding transfer_leader_round_robin_def
proof (intro waits_intros)
  fix m
  show "never_waits (\<lambda>s. let voters = filter (\<lambda>server. si_suffrage server = Voter) (servers m) in
       if length voters \<le> 1 then (Inr (), s)
       else
         (let sorted_voters = sort_key si_id voters; me = cs_server_id (e_consensus E) (world s) in
          case position (\<lambda>server. si_id server = me) sorted_voters of
            None \<Rightarrow> (Inl (CConsensus (ServerNotFound me)), s)
          | Some current \<Rightarrow> try_transfer_targets E (round_robin_targets sorted_voters current) None s))"
    using try_transfer_targets_waits [of E] by (simp add: never_waits_def Let_def split: option.split)
qed

lemma transfer_leader_internal_waits [waits_intros]: "never_waits (transfer_leader_internal E)"
  using round_robin_waits [of E] on_consensus_waits [of "cs_transfer_leader (e_consensus E)"]
  by (auto simp: never_waits_def transfer_leader_internal_def Let_def split: prod.split sum.split)

lemma stop_and_transfer_waits [waits_intros]: "never_waits (stop_and_transfer_leader E)"
  using stop_sequencer_waits [of E] transfer_leader_internal_waits [of E]
  by (auto simp: never_waits_def stop_and_transfer_leader_def split: prod.split sum.split)

text \<open>
  C6. An action ends with the error \<open>WaitingForHealthRecovery\<close>, and then without touching anything,
  in exactly one situation: this node leads, is unhealthy and active, and the last state it
  remembered was a leader that was already unhealthy but not yet active, that is, it took over
  while unhealthy and has just started; unless the sequencer cannot be reached or rollup-boost is
  only partially healthy.
\<close>

theorem waits_for_recovery_iff:
  "action E s = (Inl WaitingForHealthRecovery, s') \<longleftrightarrow>
     s' = s \<and> \<not> paused s \<and> \<not> stopping s \<and> \<not> stopped s
     \<and> current_state E s = \<lparr>st_leader = True, st_healthy = False, st_active = True\<rparr>
     \<and> previous s = \<lparr>st_leader = True, st_healthy = False, st_active = False\<rparr>
     \<and> \<not> prevents_health_recovery_wait (c_health s)"
proof -
  note nw = stop_sequencer_waits [of E] start_sequencer_waits [of E] transfer_leader_internal_waits [of E]
    stop_and_transfer_waits [of E]
  note nw' = nw [unfolded never_waits_def, rule_format]
  let ?fin = "\<lambda>(r, s'). case r of Inr _ \<Rightarrow> (Inr (), remember_state (current_state E s) s') | Inl e \<Rightarrow> (Inl e, s')"
  have fin: "?fin p \<noteq> (Inl WaitingForHealthRecovery, s')" if "fst p \<noteq> Inl WaitingForHealthRecovery" for p
    using that by (auto split: prod.splits sum.splits)
  have ok: "fst (stop_sequencer E s) \<noteq> Inl WaitingForHealthRecovery"
    "fst (start_sequencer E s) \<noteq> Inl WaitingForHealthRecovery"
    "fst (stop_and_transfer_leader E s) \<noteq> Inl WaitingForHealthRecovery"
    "\<And>s. fst (transfer_leader_internal E s) \<noteq> Inl WaitingForHealthRecovery"
    using nw' by (metis prod.collapse)+
  have take_over: "fst (let prev = previous s in
     if \<not> st_leader prev \<and> \<not> st_active prev \<and> \<not> prevents_new_leader_start (c_health s)
     then (case start_sequencer E s of
             (Inr _, s') \<Rightarrow> (Inr (), s')
           | (Inl _, s') \<Rightarrow> transfer_leader_internal E s')
     else transfer_leader_internal E s) \<noteq> Inl WaitingForHealthRecovery"
    using ok(4) by (simp add: Let_def split: prod.split sum.split)
  let ?prev = "previous s = \<lparr>st_leader = True, st_healthy = False, st_active = False\<rparr>"
  have prev: "st_leader (previous s) \<and> \<not> st_healthy (previous s) \<and> \<not> st_active (previous s) \<longleftrightarrow> ?prev"
    by (cases "previous s") auto
  have cur: "current_state E s = \<lparr>st_leader = True, st_healthy = False, st_active = True\<rparr> \<longleftrightarrow>
      st_leader (current_state E s) \<and> \<not> st_healthy (current_state E s) \<and> st_active (current_state E s)"
    by (cases "current_state E s") auto
  show ?thesis
  proof (cases "paused s \<or> stopping_or_stopped s")
    case True
    then show ?thesis by (auto simp: action_def stopping_or_stopped_def)
  next
    case False
    then have run: "\<not> paused s" "\<not> stopping s" "\<not> stopped s" by (auto simp: stopping_or_stopped_def)
    obtain l h a where st: "(st_leader (current_state E s), st_healthy (current_state E s), st_active (current_state E s)) = (l, h, a)"
      by simp
    show ?thesis
      using False run st prev cur fin [OF ok(1)] fin [OF ok(2)] fin [OF ok(3)] fin [OF take_over]
      unfolding action_def Let_def should_wait_for_health_recovery_def
      by (cases l; cases h; cases a) auto
  qed
qed



section \<open>A healthy leader gets its sequencer running\<close>

lemma in_world_ok:
  assumes "\<And>w. fst (m w) = Inr a"
  shows "\<exists>s1. in_world m s = (Inr a, s1) \<and> cfg s1 = cfg s"
  using assms [of "world s"] by (cases "m (world s)") (simp add: in_world_def)

lemma on_sequencer_ok:
  assumes "\<And>w. fst (m w) = Inr a"
  shows "\<exists>s1. on_sequencer m s = (Inr a, s1) \<and> cfg s1 = cfg s"
  using in_world_ok [of m a s] assms by (auto simp: on_sequencer_def call_err_def)

lemma on_consensus_ok:
  assumes "\<And>w. fst (m w) = Inr a"
  shows "\<exists>s1. on_consensus m s = (Inr a, s1) \<and> cfg s1 = cfg s"
  using in_world_ok [of m a s] assms by (auto simp: on_consensus_def call_err_def)

lemma choose_start_hash_ok:
  assumes "bi_hash b = ch
     \<or> bi_number b < cn \<and> cn - bi_number b \<le> unsafe_repair_depth (cfg s)
         \<and> (\<forall>w. fst (sq_post_unsafe_payload (e_sequencer E) p w) = Inr ())
     \<or> cn < bi_number b \<and> bi_hash a = ch \<and> (\<forall>w. fst (sq_block_by_number (e_sequencer E) cn w) = Inr a)"
  shows "\<exists>h s1. choose_start_hash E p ch cn b s = (Inr h, s1)"
proof (cases "bi_hash b = ch")
  case True
  then show ?thesis by (simp add: choose_start_hash_def)
next
  case False
  with assms consider
      "bi_number b < cn" "cn - bi_number b \<le> unsafe_repair_depth (cfg s)"
      "\<And>w. fst (sq_post_unsafe_payload (e_sequencer E) p w) = Inr ()"
    | "cn < bi_number b" "bi_hash a = ch" "\<And>w. fst (sq_block_by_number (e_sequencer E) cn w) = Inr a"
    by blast
  then show ?thesis
  proof cases
    case 1
    obtain s1 where "on_sequencer (sq_post_unsafe_payload (e_sequencer E) p) s = (Inr (), s1)"
      using on_sequencer_ok [of "sq_post_unsafe_payload (e_sequencer E) p", OF 1(3)] by blast
    with 1 False show ?thesis by (simp add: choose_start_hash_def call_ok_def)
  next
    case 2
    obtain s1 where "on_sequencer (sq_block_by_number (e_sequencer E) cn) s = (Inr a, s1)"
      using on_sequencer_ok [of "sq_block_by_number (e_sequencer E) cn", OF 2(3)] by blast
    moreover have "\<not> bi_number b < cn" using 2(1) by simp
    ultimately show ?thesis using 2 False by (simp add: choose_start_hash_def call_ok_def)
  qed
qed



section \<open>What healthy means\<close>

lemma check_supervisor_ok:
  assumes "check_supervisor E s = (None, s')"
  shows "cfg s' = cfg s \<and> partial_counter s' = partial_counter s
    \<and> (\<forall>check. hc_supervisor (e_health E) = Some check \<longrightarrow> (\<exists>w w'. check w = (Inr (), w')))"
  using assms
  by (auto simp: check_supervisor_def in_world_def split: option.splits prod.splits sum.splits)

lemma check_execution_p2p_ok:
  assumes "check_execution_p2p E s = (None, s')"
  shows "cfg s' = cfg s \<and> partial_counter s' = partial_counter s
    \<and> (\<forall>check. hc_execution_p2p (e_health E) = Some check \<longrightarrow>
        (\<exists>w n w'. check w = (Inr n, w')
           \<and> unwrap_or (map_option p2p_min_peer_count (cc_execution_p2p_health (cfg s))) 0 \<le> n))"
  using assms
  by (auto simp: check_execution_p2p_def in_world_def Let_def split: option.splits prod.splits sum.splits if_splits)
    (meson linorder_not_less)+

lemma check_rollup_boost_ok:
  assumes "check_rollup_boost E now s = (None, s')"
  shows "\<forall>check. hc_rollup_boost (e_health E) = Some check \<longrightarrow>
      (\<exists>w w'. check w = (Inr RbHealthy, w')
         \<or> check w = (Inr RbPartial, w')
           \<and> fst (tolerate_partial_health (cc_partial_health_tolerance (cfg s)) now (partial_counter s)))"
  using assms
  by (auto simp: check_rollup_boost_def in_world_def
      split: option.splits prod.splits sum.splits rollup_boost_status.splits if_splits)
    blast

lemma reports_not_healthy:
  "check_supervisor E s \<noteq> (Some Healthy, s')" "check_sync_status config now status \<noteq> Some Healthy"
  "check_peer_stats config stats \<noteq> Some Healthy" "check_execution_p2p E s \<noteq> (Some Healthy, s')"
  "check_rollup_boost E now s \<noteq> (Some Healthy, s')"
  by (auto simp: check_supervisor_def check_sync_status_def check_peer_stats_def check_execution_p2p_def
      check_rollup_boost_def Let_def
      split: option.splits prod.splits sum.splits rollup_boost_status.splits if_splits)

text \<open>The stages of a check that ends healthy.\<close>

lemma check_health_stages:
  assumes "check_health_at E now s = (Healthy, s')"
  obtains status s1 s2 stats s3 s4 where
    "in_world (sq_sync_status (e_sequencer E)) s = (Inr status, s1)"
    "check_supervisor E s1 = (None, s2)" "check_sync_status (cfg s2) now status = None"
    "in_world (sq_peer_stats (e_sequencer E)) s2 = (Inr stats, s3)" "check_peer_stats (cfg s3) stats = None"
    "check_execution_p2p E s3 = (None, s4)" "check_rollup_boost E now s4 = (None, s')"
  using assms unfolding check_health_at_def
  by (auto simp: reports_not_healthy split: prod.splits sum.splits option.splits)

lemma in_world_frame: "in_world m s = (r, s') \<Longrightarrow> cfg s' = cfg s \<and> partial_counter s' = partial_counter s"
  by (auto simp: in_world_def split: prod.splits)



section \<open>How stopping ends\<close>

text \<open>
  A \<open>stop\<close> whose consensus shutdown fails leaves the conductor stopping for good: it is not stopped,
  reports itself active unless paused, and no later action does anything.
\<close>

theorem failed_stop_stays_stopping:
  assumes "\<not> stopped s" "fst (cs_shutdown (e_consensus E) (world s)) = Inl e"
  shows "\<exists>s'. stop E s = (Inl (CConsensus e), s') \<and> stopping s' \<and> \<not> stopped s' \<and> active s' = (\<not> paused s)
    \<and> action E s' = (Inr (), s')"
  using assms
  by (cases "cs_shutdown (e_consensus E) (world s)")
    (simp add: stop_def stop_begin_def stop_finish_def try_call_def on_consensus_def call_err_def in_world_def
      active_def action_def stopping_or_stopped_def)

text \<open>
  A send on a watch channel without receivers does not change its value, as its documentation says.
  If nobody waits when \<open>stop\<close> succeeds, a later \<open>wait_stopped\<close> therefore still sees the old value
  and blocks, although the conductor is stopped.
\<close>

theorem stop_signal_lost:
  assumes "\<And>w. sg_send_stopped (e_signals E) True w = w" "\<And>w. \<not> sg_stopped_value (e_signals E) w"
    and "stop E s = (Inr (), s')"
  shows "stopped s' \<and> \<not> wait_stopped (sg_stopped_value (e_signals E) (world s')) []"
  using assms
  by (auto simp: stop_def stop_begin_def stop_finish_def try_call_def split: if_splits prod.splits sum.splits)

end
