(* ===== verification/Raft_Store.thy ===== *)
theory Raft_Store
  imports Payload_Store
begin

text \<open>
  \<open>MemoryRaftStore\<close> of \<open>src/raft_consensus.rs\<close>: the log, the vote and the state machine of a Raft
  replica, kept in memory and in one JSON file. What \<open>openraft\<close> defines (the identity of a leader,
  a membership, a vote) are the type variables \<open>'l\<close>, \<open>'m\<close> and \<open>'v\<close>; the JSON codecs are the argument
  \<open>K\<close>. Operations run on the pair of the store and the file system.
\<close>

section \<open>Log entries and state\<close>

record 'l log_id =
  lid_leader :: 'l
  lid_index :: u64

datatype raft_command = CommitUnsafePayload payload_envelope

definition show_raft_command :: "lib \<Rightarrow> raft_command \<Rightarrow> string" where
  "show_raft_command L c =
     (case c of CommitUnsafePayload payload \<Rightarrow>
        (case (block_number L payload, block_hash L payload) of
           (Inr n, Inr h) \<Rightarrow> ''CommitUnsafePayload('' @ show_u64 n @ '', '' @ show_hash L h @ '')''
         | _ \<Rightarrow> ''CommitUnsafePayload(<invalid>)''))"

record raft_command_response =
  resp_previous :: "payload_envelope option"

definition default_response :: raft_command_response where
  "default_response = \<lparr>resp_previous = None\<rparr>"

datatype 'm entry_payload = Blank | Normal raft_command | Membership 'm

record ('l, 'm) entry =
  en_log_id :: "'l log_id"
  en_payload :: "'m entry_payload"

record ('l, 'm) stored_membership =
  sm_log_id :: "'l log_id option"
  sm_membership :: 'm

record ('l, 'm) state_machine =
  last_applied_log :: "'l log_id option"
  last_membership :: "('l, 'm) stored_membership"
  latest_unsafe :: "payload_envelope option"

record ('l, 'm) snapshot_meta =
  meta_last_log_id :: "'l log_id option"
  meta_last_membership :: "('l, 'm) stored_membership"
  meta_snapshot_id :: string

record ('l, 'm) snapshot =
  snap_meta :: "('l, 'm) snapshot_meta"
  snap_data :: string

text \<open>The fields of \<open>PersistedRaftStore\<close>, and the store, which adds the path.\<close>

record ('l, 'm, 'v) persisted_store =
  last_purged_log_id :: "'l log_id option"
  committed :: "'l log_id option"
  log :: "(u64, string) btree"
  vote :: "'v option"
  sm :: "('l, 'm) state_machine"
  current_snapshot :: "('l, 'm) snapshot option"
  snapshot_idx :: u64

record ('l, 'm, 'v) raft_store = "('l, 'm, 'v) persisted_store" +
  rs_path :: "path option"

record ('l, 'm, 'v) raft_codec =
  encode_entry :: "('l, 'm) entry \<Rightarrow> string + string"
  decode_entry :: "string \<Rightarrow> string + ('l, 'm) entry"
  encode_store :: "('l, 'm, 'v) persisted_store \<Rightarrow> string + string"
  decode_store :: "string \<Rightarrow> string + ('l, 'm, 'v) persisted_store"
  encode_sm :: "('l, 'm) state_machine \<Rightarrow> string + string"
  decode_sm :: "string \<Rightarrow> string + ('l, 'm) state_machine"

definition io_invalid :: "string \<Rightarrow> io_error" where
  "io_invalid msg = \<lparr>io_kind = InvalidData, io_msg = msg\<rparr>"

text \<open>\<open>encode_json\<close> and \<open>decode_json\<close>: the codec with its error as an I/O error.\<close>

definition encode_json :: "('a \<Rightarrow> string + string) \<Rightarrow> 'a \<Rightarrow> io_error + string" where
  "encode_json enc v = map_err io_invalid (enc v)"

definition decode_json :: "(string \<Rightarrow> string + 'a) \<Rightarrow> string \<Rightarrow> io_error + 'a" where
  "decode_json dec s = map_err io_invalid (dec s)"

text \<open>The defaults; \<open>m0\<close> is the default membership of \<open>openraft\<close>.\<close>

definition default_sm :: "'m \<Rightarrow> ('l, 'm) state_machine" where
  "default_sm m0 =
     \<lparr>last_applied_log = None, last_membership = \<lparr>sm_log_id = None, sm_membership = m0\<rparr>, latest_unsafe = None\<rparr>"

definition default_persisted :: "'m \<Rightarrow> ('l, 'm, 'v) persisted_store" where
  "default_persisted m0 =
     \<lparr>last_purged_log_id = None, committed = None, log = [], vote = None, sm = default_sm m0,
      current_snapshot = None, snapshot_idx = 0\<rparr>"

definition store_of :: "path option \<Rightarrow> ('l, 'm, 'v) persisted_store \<Rightarrow> ('l, 'm, 'v) raft_store" where
  "store_of p st =
     \<lparr>last_purged_log_id = last_purged_log_id st, committed = committed st, log = log st, vote = vote st,
      sm = sm st, current_snapshot = current_snapshot st, snapshot_idx = snapshot_idx st, rs_path = p\<rparr>"

definition persisted_of :: "('l, 'm, 'v) raft_store \<Rightarrow> ('l, 'm, 'v) persisted_store" where
  "persisted_of st =
     \<lparr>last_purged_log_id = last_purged_log_id st, committed = committed st, log = log st, vote = vote st,
      sm = sm st, current_snapshot = current_snapshot st, snapshot_idx = snapshot_idx st\<rparr>"

definition raft_store_new :: "'m \<Rightarrow> ('l, 'm, 'v) raft_store" where
  "raft_store_new m0 = store_of None (default_persisted m0)"

section \<open>Persistence\<close>

definition persist_to_disk :: "('l, 'm, 'v) raft_codec \<Rightarrow> ('l, 'm, 'v) raft_store \<Rightarrow> (fsys, io_error, unit) call" where
  "persist_to_disk K st fs =
     (case rs_path st of
        None \<Rightarrow> (Inr (), fs)
      | Some p \<Rightarrow>
          (case encode_json (encode_store K) (persisted_of st) of
             Inl e \<Rightarrow> (Inl e, fs)
           | Inr data \<Rightarrow>
               try_call (create_parent p) (\<lambda>_. replace_file (with_extension p ''json.tmp'') p data) fs))"

definition raft_store_open ::
  "('l, 'm, 'v) raft_codec \<Rightarrow> 'm \<Rightarrow> path \<Rightarrow> (fsys, io_error, ('l, 'm, 'v) raft_store) call" where
  "raft_store_open K m0 p fs =
     (case (case fs_read p fs of
              (Inr data, fs') \<Rightarrow>
                if data \<noteq> [] then (decode_json (decode_store K) data, fs') else (Inr (default_persisted m0), fs')
            | (Inl err, fs') \<Rightarrow>
                if io_kind err = NotFound then (Inr (default_persisted m0), fs') else (Inl err, fs')) of
        (Inl e, fs') \<Rightarrow> (Inl e, fs')
      | (Inr persisted, fs') \<Rightarrow>
          (let st = store_of (Some p) persisted in try_call (persist_to_disk K st) (\<lambda>_. call_ok st) fs'))"

text \<open>An update of the store followed by writing it out: what most operations do.\<close>

type_synonym ('l, 'm, 'v, 'a) store_call = "(('l, 'm, 'v) raft_store \<times> fsys, io_error, 'a) call"

definition update_and_persist ::
  "('l, 'm, 'v) raft_codec \<Rightarrow> (('l, 'm, 'v) raft_store \<Rightarrow> ('l, 'm, 'v) raft_store) \<Rightarrow>
   ('l, 'm, 'v, unit) store_call" where
  "update_and_persist K f sf =
     (case sf of (st, fs) \<Rightarrow> (case persist_to_disk K (f st) fs of (r, fs') \<Rightarrow> (r, f st, fs')))"

definition latest_payload :: "('l, 'm, 'v) raft_store \<Rightarrow> payload_envelope option" where
  "latest_payload st = latest_unsafe (sm st)"

definition should_snapshot :: "u64 \<Rightarrow> ('l, 'm, 'v) raft_store \<Rightarrow> bool" where
  "should_snapshot threshold st =
     (if threshold = 0 then False
      else
        (case bt_last (log st) of
           None \<Rightarrow> False
         | Some (last_log_index, _) \<Rightarrow>
             (let snapshot_log_index =
                    Option.bind (current_snapshot st) (\<lambda>s. map_option lid_index (meta_last_log_id (snap_meta s)));
                  logs_since_snapshot =
                    (case snapshot_log_index of
                       Some i \<Rightarrow> saturating_sub last_log_index i
                     | None \<Rightarrow> saturating_add last_log_index 1)
              in logs_since_snapshot \<ge> threshold)))"

section \<open>The log\<close>

datatype bound = Included u64 | Excluded u64 | Unbounded

fun above :: "bound \<Rightarrow> u64 \<Rightarrow> bool" where
  "above (Included b) i = (b \<le> i)"
| "above (Excluded b) i = (b < i)"
| "above Unbounded i = True"

fun below :: "bound \<Rightarrow> u64 \<Rightarrow> bool" where
  "below (Included b) i = (i \<le> b)"
| "below (Excluded b) i = (i < b)"
| "below Unbounded i = True"

text \<open>
  \<open>BTreeMap::range\<close>. It panics on a range whose start lies after its end, which no caller in this
  program builds.
\<close>

definition bt_range :: "bound \<Rightarrow> bound \<Rightarrow> (u64, 'a) btree \<Rightarrow> (u64, 'a) btree" where
  "bt_range lo hi m = filter (\<lambda>(i, _). above lo i \<and> below hi i) m"

definition try_get_log_entries ::
  "('l, 'm, 'v) raft_codec \<Rightarrow> bound \<Rightarrow> bound \<Rightarrow> ('l, 'm, 'v) raft_store \<Rightarrow> io_error + ('l, 'm) entry list" where
  "try_get_log_entries K lo hi st =
     try_map (\<lambda>(_, serialized). decode_json (decode_entry K) serialized) (bt_range lo hi (log st))"

definition read_vote :: "('l, 'm, 'v) raft_store \<Rightarrow> 'v option" where
  "read_vote st = vote st"

record 'l log_state =
  ls_last_purged :: "'l log_id option"
  ls_last_log_id :: "'l log_id option"

definition get_log_state :: "('l, 'm, 'v) raft_codec \<Rightarrow> ('l, 'm, 'v) raft_store \<Rightarrow> io_error + 'l log_state" where
  "get_log_state K st =
     and_then
       (case bt_last (log st) of
          None \<Rightarrow> Inr None
        | Some (_, serialized) \<Rightarrow> map_ok (\<lambda>e. Some (en_log_id e)) (decode_json (decode_entry K) serialized))
       (\<lambda>last. Inr \<lparr>ls_last_purged = last_purged_log_id st, ls_last_log_id = opt_or last (last_purged_log_id st)\<rparr>)"

definition save_vote :: "('l, 'm, 'v) raft_codec \<Rightarrow> 'v \<Rightarrow> ('l, 'm, 'v, unit) store_call" where
  "save_vote K v = update_and_persist K (\<lambda>st. st\<lparr>vote := Some v\<rparr>)"

definition save_committed :: "('l, 'm, 'v) raft_codec \<Rightarrow> 'l log_id option \<Rightarrow> ('l, 'm, 'v, unit) store_call" where
  "save_committed K c = update_and_persist K (\<lambda>st. st\<lparr>committed := c\<rparr>)"

definition read_committed :: "('l, 'm, 'v) raft_store \<Rightarrow> 'l log_id option" where
  "read_committed st = committed st"

text \<open>Inserting the encoded entries; an entry that cannot be encoded ends the loop.\<close>

fun append_entries ::
  "('l, 'm, 'v) raft_codec \<Rightarrow> ('l, 'm) entry list \<Rightarrow> (u64, string) btree \<Rightarrow>
   (io_error + unit) \<times> (u64, string) btree" where
  "append_entries K [] lg = (Inr (), lg)"
| "append_entries K (e # es) lg =
     (case encode_json (encode_entry K) e of
        Inl err \<Rightarrow> (Inl err, lg)
      | Inr s \<Rightarrow> append_entries K es (bt_insert (lid_index (en_log_id e)) s lg))"

text \<open>The result carries what the completion callback was called with, if it was called.\<close>

definition append_log ::
  "('l, 'm, 'v) raft_codec \<Rightarrow> ('l, 'm) entry list \<Rightarrow> ('l, 'm, 'v) raft_store \<times> fsys \<Rightarrow>
   (io_error + unit) \<times> (io_error + unit) option \<times> ('l, 'm, 'v) raft_store \<times> fsys" where
  "append_log K entries sf =
     (case sf of (st, fs) \<Rightarrow>
        (case append_entries K entries (log st) of
           (Inl err, lg) \<Rightarrow> (Inl err, None, st\<lparr>log := lg\<rparr>, fs)
         | (Inr _, lg) \<Rightarrow>
             (let st' = st\<lparr>log := lg\<rparr> in
              case persist_to_disk K st' fs of
                (Inl err, fs') \<Rightarrow> (Inl err, Some (Inl err), st', fs')
              | (Inr _, fs') \<Rightarrow> (Inr (), Some (Inr ()), st', fs'))))"

definition truncate_after ::
  "('l, 'm, 'v) raft_codec \<Rightarrow> 'l log_id option \<Rightarrow> ('l, 'm, 'v, unit) store_call" where
  "truncate_after K last_log_id =
     (let start = (case last_log_id of Some l \<Rightarrow> lid_index l + 1 | None \<Rightarrow> 0) in
      update_and_persist K (\<lambda>st.
        st\<lparr>log := fold bt_remove (bt_keys (bt_range (Included start) Unbounded (log st))) (log st)\<rparr>))"

definition purge :: "('l, 'm, 'v) raft_codec \<Rightarrow> 'l log_id \<Rightarrow> ('l, 'm, 'v, unit) store_call" where
  "purge K l =
     update_and_persist K (\<lambda>st.
       st\<lparr>last_purged_log_id := Some l,
          log := fold bt_remove (bt_keys (bt_range Unbounded (Included (lid_index l)) (log st))) (log st)\<rparr>)"

section \<open>Snapshots\<close>

text \<open>\<open>leader_text\<close> is the text of a leader identity.\<close>

definition build_snapshot ::
  "('l, 'm, 'v) raft_codec \<Rightarrow> ('l \<Rightarrow> string) \<Rightarrow> ('l, 'm, 'v, ('l, 'm) snapshot) store_call" where
  "build_snapshot K leader_text sf =
     (case sf of (st, fs) \<Rightarrow>
        (case encode_json (encode_sm K) (sm st) of
           Inl e \<Rightarrow> (Inl e, st, fs)
         | Inr data \<Rightarrow>
             (let idx = snapshot_idx st + 1;
                  snapshot_id =
                    (case last_applied_log (sm st) of
                       Some l \<Rightarrow> leader_text (lid_leader l) @ ''-'' @ show_u64 (lid_index l) @ ''-'' @ show_u64 idx
                     | None \<Rightarrow> ''empty-'' @ show_u64 idx);
                  snap = \<lparr>snap_meta = \<lparr>meta_last_log_id = last_applied_log (sm st),
                            meta_last_membership = last_membership (sm st), meta_snapshot_id = snapshot_id\<rparr>,
                          snap_data = data\<rparr>;
                  st' = st\<lparr>snapshot_idx := idx, current_snapshot := Some snap\<rparr>
              in case persist_to_disk K st' fs of
                   (Inl e, fs') \<Rightarrow> (Inl e, st', fs')
                 | (Inr _, fs') \<Rightarrow> (Inr snap, st', fs'))))"

definition install_snapshot ::
  "('l, 'm, 'v) raft_codec \<Rightarrow> ('l, 'm) snapshot_meta \<Rightarrow> string \<Rightarrow> ('l, 'm, 'v, unit) store_call" where
  "install_snapshot K meta data sf =
     (case sf of (st, fs) \<Rightarrow>
        (case decode_json (decode_sm K) data of
           Inl e \<Rightarrow> (Inl e, st, fs)
         | Inr m \<Rightarrow>
             update_and_persist K
               (\<lambda>st. st\<lparr>sm := m, current_snapshot := Some \<lparr>snap_meta = meta, snap_data = data\<rparr>\<rparr>) (st, fs)))"

definition get_current_snapshot :: "('l, 'm, 'v) raft_store \<Rightarrow> ('l, 'm) snapshot option" where
  "get_current_snapshot st = current_snapshot st"

definition applied_state :: "('l, 'm, 'v) raft_store \<Rightarrow> 'l log_id option \<times> ('l, 'm) stored_membership" where
  "applied_state st = (last_applied_log (sm st), last_membership (sm st))"

section \<open>Applying entries\<close>

definition should_update :: "lib \<Rightarrow> payload_envelope option \<Rightarrow> payload_envelope \<Rightarrow> bool" where
  "should_update L prev payload =
     (case Option.bind prev (\<lambda>p. ok (block_number L p)) of
        None \<Rightarrow> True
      | Some previous_number \<Rightarrow>
          (case block_number L payload of Inr n \<Rightarrow> n > previous_number | Inl _ \<Rightarrow> False))"

text \<open>One entry, with the response to its proposer.\<close>

definition apply_entry ::
  "lib \<Rightarrow> ('l, 'm) entry \<Rightarrow> (('l, 'm) state_machine, io_error, raft_command_response) call" where
  "apply_entry L e m =
     (let m1 = m\<lparr>last_applied_log := Some (en_log_id e)\<rparr> in
      case en_payload e of
        Blank \<Rightarrow> (Inr default_response, m1)
      | Normal (CommitUnsafePayload payload) \<Rightarrow>
          (case block_number L payload of
             Inl err \<Rightarrow> (Inl (io_invalid (show_type_error err)), m1)
           | Inr _ \<Rightarrow>
          (case block_hash L payload of
             Inl err \<Rightarrow> (Inl (io_invalid (show_type_error err)), m1)
           | Inr _ \<Rightarrow>
               (let prev = latest_unsafe m1 in
                (Inr \<lparr>resp_previous = prev\<rparr>,
                 if should_update L prev payload then m1\<lparr>latest_unsafe := Some payload\<rparr> else m1))))
      | Membership mem \<Rightarrow>
          (Inr default_response,
           m1\<lparr>last_membership := \<lparr>sm_log_id = Some (en_log_id e), sm_membership = mem\<rparr>\<rparr>))"

text \<open>
  The loop over the stream, whose items may be read errors; each entry comes with its responder,
  if it has one. The responses are collected.
\<close>

fun apply_loop ::
  "lib \<Rightarrow> (io_error + ('l, 'm) entry \<times> 'r option) list \<Rightarrow> ('r option \<times> raft_command_response) list \<Rightarrow>
   (('l, 'm) state_machine, io_error, ('r option \<times> raft_command_response) list) call" where
  "apply_loop L [] responses m = (Inr responses, m)"
| "apply_loop L (Inl err # items) responses m = (Inl err, m)"
| "apply_loop L (Inr (e, responder) # items) responses m =
     (case apply_entry L e m of
        (Inl err, m') \<Rightarrow> (Inl err, m')
      | (Inr response, m') \<Rightarrow> apply_loop L items (responses @ [(responder, response)]) m')"

text \<open>The result of \<open>apply\<close> is the list of responses sent, which happens only after writing out.\<close>

definition apply_entries ::
  "('l, 'm, 'v) raft_codec \<Rightarrow> lib \<Rightarrow> (io_error + ('l, 'm) entry \<times> 'r option) list \<Rightarrow>
   ('l, 'm, 'v, ('r \<times> raft_command_response) list) store_call" where
  "apply_entries K L items sf =
     (case sf of (st, fs) \<Rightarrow>
        (case apply_loop L items [] (sm st) of
           (Inl err, m) \<Rightarrow> (Inl err, st\<lparr>sm := m\<rparr>, fs)
         | (Inr responses, m) \<Rightarrow>
             (case persist_to_disk K (st\<lparr>sm := m\<rparr>) fs of
                (Inl err, fs') \<Rightarrow> (Inl err, st\<lparr>sm := m\<rparr>, fs')
              | (Inr _, fs') \<Rightarrow>
                  (Inr (List.map_filter (\<lambda>(responder, response). map_option (\<lambda>r. (r, response)) responder) responses),
                   st\<lparr>sm := m\<rparr>, fs'))))"

end
