(* ===== verification/Raft_Replica.thy ===== *)
theory Raft_Replica
  imports Raft_Store
begin

text \<open>
  What the Raft store promises: applied entries move the unsafe head forward and all replicas that
  apply the same entries agree; the stored log behaves as the log of entries \<open>openraft\<close> sees.
\<close>

section \<open>The replicated head\<close>

definition sm_inv :: "lib \<Rightarrow> ('l, 'm) state_machine \<Rightarrow> bool" where
  "sm_inv L m = (\<forall>p. latest_unsafe m = Some p \<longrightarrow> payload_valid L p)"

definition commit_entry :: "'l log_id \<Rightarrow> payload_envelope \<Rightarrow> ('l, 'm) entry" where
  "commit_entry l p = \<lparr>en_log_id = l, en_payload = Normal (CommitUnsafePayload p)\<rparr>"

lemma apply_commit_entry:
  assumes "sm_inv L m" "payload_valid L p"
  shows "apply_entry L (commit_entry l p) m =
    (Inr \<lparr>resp_previous = latest_unsafe m\<rparr>,
     m\<lparr>last_applied_log := Some l, latest_unsafe := newer_head (payload_num L) p (latest_unsafe m)\<rparr>)"
proof -
  obtain h where p: "block_number L p = Inr (payload_num L p)" "block_hash L p = Inr h"
    using assms(2) by (auto simp: payload_valid_def payload_num_def is_ok_iff)
  show ?thesis
  proof (cases "latest_unsafe m")
    case None
    with p show ?thesis by (simp add: apply_entry_def commit_entry_def should_update_def)
  next
    case (Some q)
    with assms(1) have "block_number L q = Inr (payload_num L q)"
      by (simp add: sm_inv_def payload_valid_number)
    with Some p show ?thesis by (simp add: apply_entry_def commit_entry_def should_update_def)
  qed
qed

interpretation raft_head: head_store "payload_num L" "payload_valid L"
  "\<lambda>p m. snd (apply_entry L (commit_entry l p) m)" latest_unsafe "sm_inv L"
  for L and l :: "'l log_id"
proof (unfold_locales, goal_cases)
  case (1 m p)
  then show ?case by (simp add: apply_commit_entry)
next
  case (2 m p)
  then show ?case
    by (cases "latest_unsafe m") (auto simp: apply_commit_entry sm_inv_def split: if_splits)
qed

text \<open>An entry a leader may have written: its payload, if any, has a number and a hash.\<close>

definition entry_valid :: "lib \<Rightarrow> ('l, 'm) entry \<Rightarrow> bool" where
  "entry_valid L e = (case en_payload e of Normal (CommitUnsafePayload p) \<Rightarrow> payload_valid L p | _ \<Rightarrow> True)"

fun committed_payloads :: "('l, 'm) entry list \<Rightarrow> payload_envelope list" where
  "committed_payloads [] = []"
| "committed_payloads (e # es) =
     (case en_payload e of Normal (CommitUnsafePayload p) \<Rightarrow> [p] | _ \<Rightarrow> []) @ committed_payloads es"

lemma apply_entry_ok:
  assumes "sm_inv L m" "entry_valid L e"
  shows "\<exists>resp. apply_entry L e m = (Inr resp, snd (apply_entry L e m))
    \<and> sm_inv L (snd (apply_entry L e m))
    \<and> latest_unsafe (snd (apply_entry L e m)) = fold (newer_head (payload_num L)) (committed_payloads [e]) (latest_unsafe m)
    \<and> last_applied_log (snd (apply_entry L e m)) = Some (en_log_id e)"
proof (cases "en_payload e")
  case (Normal c)
  then obtain p where e: "e = commit_entry (en_log_id e) p"
    by (cases c; cases e) (simp add: commit_entry_def)
  with assms(2) have p: "payload_valid L p" by (metis entry_valid_def commit_entry_def entry.select_convs(2)
      entry_payload.case(2) raft_command.case)
  have "committed_payloads [e] = [p]" by (subst e) (simp add: commit_entry_def)
  with raft_head.invar_commit [OF assms(1) p, of "en_log_id e"] apply_commit_entry [OF assms(1) p, of "en_log_id e"]
  show ?thesis using e by simp
qed (use assms in \<open>simp_all add: apply_entry_def sm_inv_def Let_def\<close>)

section \<open>Batches\<close>

lemma apply_loop_append:
  "apply_loop L (xs @ ys) acc m =
     (case apply_loop L xs acc m of (Inl e, m') \<Rightarrow> (Inl e, m') | (Inr acc', m') \<Rightarrow> apply_loop L ys acc' m')"
  by (induction L xs acc m rule: apply_loop.induct) (auto split: prod.splits sum.splits)

text \<open>Applying entries in the batches in which they are delivered.\<close>

definition deliver :: "('l, 'm) entry list \<Rightarrow> (io_error + ('l, 'm) entry \<times> 'r option) list" where
  "deliver es = map (\<lambda>e. Inr (e, None)) es"

definition apply_batches :: "lib \<Rightarrow> ('l, 'm) entry list list \<Rightarrow> ('l, 'm) state_machine \<Rightarrow> ('l, 'm) state_machine" where
  "apply_batches L batches m =
     fold (\<lambda>b m. snd (apply_loop L (deliver b :: (io_error + ('l, 'm) entry \<times> unit option) list) [] m)) batches m"

lemma apply_loop_valid:
  assumes "sm_inv L m" "\<forall>e \<in> set es. entry_valid L e"
  shows "\<exists>acc'. apply_loop L (deliver es) acc m = (Inr acc', fold (\<lambda>e m. snd (apply_entry L e m)) es m)
    \<and> sm_inv L (fold (\<lambda>e m. snd (apply_entry L e m)) es m)
    \<and> latest_unsafe (fold (\<lambda>e m. snd (apply_entry L e m)) es m)
        = fold (newer_head (payload_num L)) (committed_payloads es) (latest_unsafe m)"
  using assms
proof (induction es arbitrary: acc m)
  case Nil
  then show ?case by (simp add: deliver_def)
next
  case (Cons e es)
  then obtain resp where e: "apply_entry L e m = (Inr resp, snd (apply_entry L e m))"
    "sm_inv L (snd (apply_entry L e m))"
    "latest_unsafe (snd (apply_entry L e m)) = fold (newer_head (payload_num L)) (committed_payloads [e]) (latest_unsafe m)"
    using apply_entry_ok [of L m e] by auto
  from Cons.IH [OF e(2), of "acc @ [(None, resp)]"] Cons.prems obtain acc' where
    "apply_loop L (deliver es) (acc @ [(None, resp)]) (snd (apply_entry L e m))
       = (Inr acc', fold (\<lambda>e m. snd (apply_entry L e m)) es (snd (apply_entry L e m)))"
    "sm_inv L (fold (\<lambda>e m. snd (apply_entry L e m)) es (snd (apply_entry L e m)))"
    "latest_unsafe (fold (\<lambda>e m. snd (apply_entry L e m)) es (snd (apply_entry L e m)))
       = fold (newer_head (payload_num L)) (committed_payloads es) (latest_unsafe (snd (apply_entry L e m)))"
    by auto
  moreover have "apply_loop L (deliver (e # es)) acc m
      = apply_loop L (deliver es) (acc @ [(None, resp)]) (snd (apply_entry L e m))"
    by (simp add: deliver_def) (subst e(1), simp)
  ultimately show ?case using e(3) by simp
qed

lemma apply_batches_fold:
  assumes "sm_inv L m" "\<forall>e \<in> set (concat bs). entry_valid L e"
  shows "apply_batches L bs m = fold (\<lambda>e m. snd (apply_entry L e m)) (concat bs) m"
  using assms
proof (induction bs arbitrary: m)
  case Nil
  then show ?case by (simp add: apply_batches_def)
next
  case (Cons b bs)
  then have b: "\<forall>e \<in> set b. entry_valid L e" by simp
  from apply_loop_valid [OF Cons.prems(1) b, where 'c = unit and acc = "[]"] obtain acc' where
    "apply_loop L (deliver b :: (io_error + ('a, 'b) entry \<times> unit option) list) [] m
       = (Inr acc', fold (\<lambda>e m. snd (apply_entry L e m)) b m)"
    "sm_inv L (fold (\<lambda>e m. snd (apply_entry L e m)) b m)"
    by auto
  with Cons.IH [of "fold (\<lambda>e m. snd (apply_entry L e m)) b m"] Cons.prems show ?case
    by (simp add: apply_batches_def)
qed

lemma replica_head:
  assumes "sm_inv L m" "\<forall>e \<in> set es. entry_valid L e"
  shows "latest_unsafe (apply_batches L [es] m)
    = fold (newer_head (payload_num L)) (committed_payloads es) (latest_unsafe m)"
  using apply_batches_fold [of L m "[es]"] apply_loop_valid [OF assms, where 'c = unit and acc = "[]"] assms by auto

text \<open>
  C20. Replicas that apply the same log agree, however the log is cut into batches for each of them,
  and no valid entry ever makes an application fail; the head they agree on is the payload with the
  highest block number committed so far, the earliest of them in the log if several share it.
\<close>

theorem replicas_agree:
  assumes "sm_inv L m" "\<forall>e \<in> set (concat bs). entry_valid L e" "concat bs' = concat bs"
  shows "apply_batches L bs' m = apply_batches L bs m
    \<and> latest_unsafe (apply_batches L bs m)
        = fold (newer_head (payload_num L)) (committed_payloads (concat bs)) (latest_unsafe m)
    \<and> (\<exists>responses. fst (apply_loop L (deliver (concat bs) :: (io_error + ('l, 'm) entry \<times> 'r option) list) [] m) = Inr responses)"
proof -
  have "apply_batches L bs m = fold (\<lambda>e m. snd (apply_entry L e m)) (concat bs) m"
      "apply_batches L bs' m = fold (\<lambda>e m. snd (apply_entry L e m)) (concat bs) m"
    using apply_batches_fold [OF assms(1,2)] apply_batches_fold [OF assms(1), of bs'] assms(2,3) by simp_all
  with apply_loop_valid [OF assms(1,2), where 'c = 'r and acc = "[]"] show ?thesis by auto
qed

definition sample_entries :: "(nat, unit) entry list" where
  "sample_entries =
     [\<lparr>en_log_id = \<lparr>lid_leader = 1, lid_index = 1\<rparr>, en_payload = Membership ()\<rparr>,
      commit_entry \<lparr>lid_leader = 1, lid_index = 2\<rparr> (sample_payload 11 2),
      commit_entry \<lparr>lid_leader = 1, lid_index = 3\<rparr> (sample_payload 10 1)]"

lemma sample_payload_valid: "payload_valid sample_lib (sample_payload n b)"
  by (simp add: payload_valid_def sample_payload_simps)

theorem replicas_agree_witness:
  "apply_batches sample_lib [sample_entries] (default_sm ())
     = apply_batches sample_lib (map (\<lambda>e. [e]) sample_entries) (default_sm ())
   \<and> latest_unsafe (apply_batches sample_lib (map (\<lambda>e. [e]) sample_entries) (default_sm ())) = Some (sample_payload 11 2)"
proof -
  have valid: "\<forall>e \<in> set (concat (map (\<lambda>e. [e]) sample_entries)). entry_valid sample_lib e"
    by (simp add: sample_entries_def entry_valid_def commit_entry_def sample_payload_valid)
  have inv: "sm_inv sample_lib (default_sm ())" by (simp add: sm_inv_def default_sm_def)
  have cc: "concat (map (\<lambda>e. [e]) sample_entries) = sample_entries" by simp
  have "fold (newer_head (payload_num sample_lib)) (committed_payloads sample_entries)
      (latest_unsafe (default_sm () :: (nat, unit) state_machine))
      = Some (sample_payload 11 2)"
    by (simp add: sample_entries_def commit_entry_def default_sm_def payload_num_def sample_payload_simps)
  with replicas_agree [OF inv valid, of "[sample_entries]", where 'r = unit] show ?thesis unfolding cc by auto
qed

section \<open>The log\<close>

text \<open>What the code relies on in the codec: an encoded value decodes to itself.\<close>

definition raft_codec_ok :: "('l, 'm, 'v) raft_codec \<Rightarrow> bool" where
  "raft_codec_ok K =
     ((\<forall>x s. encode_entry K x = Inr s \<longrightarrow> decode_entry K s = Inr x)
      \<and> (\<forall>x s. encode_store K x = Inr s \<longrightarrow> s \<noteq> [] \<and> decode_store K s = Inr x)
      \<and> (\<forall>x s. encode_sm K x = Inr s \<longrightarrow> decode_sm K s = Inr x))"

text \<open>The abstract log: the entry at each index.\<close>

definition log_entries :: "('l, 'm, 'v) raft_codec \<Rightarrow> (u64, string) btree \<Rightarrow> u64 \<Rightarrow> ('l, 'm) entry option" where
  "log_entries K lg i = Option.bind (bt_get lg i) (\<lambda>s. ok (decode_entry K s))"

definition log_wf :: "('l, 'm, 'v) raft_codec \<Rightarrow> (u64, string) btree \<Rightarrow> bool" where
  "log_wf K lg =
     (bt_wf lg \<and> (\<forall>i s. bt_get lg i = Some s \<longrightarrow> (\<exists>e. decode_entry K s = Inr e \<and> lid_index (en_log_id e) = i)))"

lemma append_entries_log:
  assumes "raft_codec_ok K" "log_wf K lg" "append_entries K es lg = (Inr (), lg')"
  shows "log_wf K lg'
    \<and> log_entries K lg' = fold (\<lambda>e m. m(lid_index (en_log_id e) \<mapsto> e)) es (log_entries K lg)"
  using assms(2,3)
proof (induction es arbitrary: lg)
  case Nil
  then show ?case by simp
next
  case (Cons e es)
  then obtain s where s: "encode_entry K e = Inr s"
      "append_entries K es (bt_insert (lid_index (en_log_id e)) s lg) = (Inr (), lg')"
    by (auto simp: encode_json_def split: sum.splits) (metis map_err_ok_iff)
  then have dec: "decode_entry K s = Inr e" using assms(1) by (simp add: raft_codec_ok_def)
  have "log_wf K (bt_insert (lid_index (en_log_id e)) s lg)"
    using Cons.prems(1) dec by (auto simp: log_wf_def bt_wf_insert btree_simps)
  moreover have "log_entries K (bt_insert (lid_index (en_log_id e)) s lg)
      = (log_entries K lg)(lid_index (en_log_id e) \<mapsto> e)"
    by (auto simp: log_entries_def btree_simps dec fun_eq_iff)
  ultimately show ?case using Cons.IH s(2) by simp
qed

lemma bt_range_keys: "set (bt_keys (bt_range lo hi m)) = {i \<in> set (bt_keys m). above lo i \<and> below hi i}"
  by (auto simp: bt_keys_def bt_range_def)

lemma bt_get_remove_range:
  "bt_get (fold bt_remove (bt_keys (bt_range lo hi m)) m) i
     = (if above lo i \<and> below hi i then None else bt_get m i)"
proof (cases "bt_get m i")
  case None
  then show ?thesis by (simp add: bt.get_fold_remove)
next
  case (Some v)
  then have "i \<in> set (bt_keys m)" by (simp add: set_bt_keys)
  then show ?thesis by (simp add: bt.get_fold_remove bt_range_keys)
qed

lemma log_wf_remove_range:
  "log_wf K lg \<Longrightarrow> log_wf K (fold bt_remove (bt_keys (bt_range lo hi lg)) lg)"
  by (simp add: log_wf_def bt.invar_fold_remove bt_get_remove_range)

lemma log_entries_remove_range:
  "log_entries K (fold bt_remove (bt_keys (bt_range lo hi lg)) lg)
     = log_entries K lg |` {i. \<not> (above lo i \<and> below hi i)}"
  by (auto simp: log_entries_def bt_get_remove_range restrict_map_def)

lemma fst_snd_update_and_persist: "fst (snd (update_and_persist K f (st, fs))) = f st"
  by (simp add: update_and_persist_def split: prod.split)

text \<open>
  C22. The stored log is the log \<open>openraft\<close> sees: appending sets the given indexes to the given
  entries (a later entry at an index replacing an earlier one) and keeps all others, truncating
  after an entry keeps exactly the indexes up to it, purging up to an entry keeps exactly those
  beyond it, and the stored log stays well formed throughout.
\<close>

theorem log_operations_refine:
  assumes "raft_codec_ok K" "log_wf K (log st)"
  shows "(\<forall>cb st' fs'. append_log K es (st, fs) = (Inr (), cb, st', fs') \<longrightarrow>
        log_wf K (log st')
        \<and> log_entries K (log st') = fold (\<lambda>e m. m(lid_index (en_log_id e) \<mapsto> e)) es (log_entries K (log st)))
    \<and> (lid_index l \<noteq> u64_max \<longrightarrow>
        log_wf K (log (fst (snd (truncate_after K (Some l) (st, fs)))))
        \<and> log_entries K (log (fst (snd (truncate_after K (Some l) (st, fs)))))
            = log_entries K (log st) |` {i. i \<le> lid_index l})
    \<and> log_wf K (log (fst (snd (purge K l (st, fs)))))
    \<and> log_entries K (log (fst (snd (purge K l (st, fs))))) = log_entries K (log st) |` {i. lid_index l < i}"
proof -
  have "log_wf K (log st') \<and> log_entries K (log st')
      = fold (\<lambda>e m. m(lid_index (en_log_id e) \<mapsto> e)) es (log_entries K (log st))"
    if app: "append_log K es (st, fs) = (Inr (), cb, st', fs')" for cb st' fs'
  proof -
    obtain lg where "append_entries K es (log st) = (Inr (), lg)" "log st' = lg"
      using app by (auto simp: append_log_def Let_def split: prod.splits sum.splits)
    with append_entries_log [OF assms] show ?thesis by simp
  qed
  moreover have "above (Included (lid_index l + 1)) i \<longleftrightarrow> \<not> i \<le> lid_index l" if "lid_index l \<noteq> u64_max" for i
  proof -
    have "lid_index l < u64_max" using that by (simp add: u64_max_def word_order.not_eq_extremum)
    then have "unat (lid_index l + 1) = unat (lid_index l) + 1" by (rule unat_plus1_less)
    then show ?thesis by (simp add: word_le_nat_alt not_le Suc_le_eq)
  qed
  ultimately show ?thesis
    using assms(2)
    by (simp add: truncate_after_def purge_def fst_snd_update_and_persist log_wf_remove_range
        log_entries_remove_range not_le not_less)
qed

text \<open>A codec for two entries and the stores with at most one of them, for the instances below.\<close>

definition sample_entry :: "u64 \<Rightarrow> (nat, unit) entry" where
  "sample_entry i = \<lparr>en_log_id = \<lparr>lid_leader = 1, lid_index = i\<rparr>, en_payload = Blank\<rparr>"

definition sample_raft_path :: path where
  "sample_raft_path = [''data'', ''raft-store.json'']"

definition sample_raft_store :: "(u64, string) btree \<Rightarrow> (nat, unit, unit) raft_store" where
  "sample_raft_store lg = store_of (Some sample_raft_path) ((default_persisted ())\<lparr>log := lg\<rparr>)"

definition sample_raft_codec :: "(nat, unit, unit) raft_codec" where
  "sample_raft_codec =
     \<lparr>encode_entry = (\<lambda>e. if e = sample_entry 1 then Inr ''one'' else if e = sample_entry 2 then Inr ''two'' else Inl ''entry''),
      decode_entry = (\<lambda>s. if s = ''one'' then Inr (sample_entry 1) else if s = ''two'' then Inr (sample_entry 2) else Inl ''entry''),
      encode_store = (\<lambda>x. if x = persisted_of (sample_raft_store []) then Inr ''empty''
        else if x = persisted_of (sample_raft_store [(1, ''one'')]) then Inr ''full'' else Inl ''store''),
      decode_store = (\<lambda>s. if s = ''empty'' then Inr (persisted_of (sample_raft_store []))
        else if s = ''full'' then Inr (persisted_of (sample_raft_store [(1, ''one'')])) else Inl ''store''),
      encode_sm = (\<lambda>x. if x = default_sm () then Inr ''sm'' else Inl ''sm''),
      decode_sm = (\<lambda>s. if s = ''sm'' then Inr (default_sm ()) else Inl ''sm'')\<rparr>"

lemma sample_raft_codec_ok: "raft_codec_ok sample_raft_codec"
  by (simp add: raft_codec_ok_def sample_raft_codec_def)

lemma sample_log_wf: "log_wf sample_raft_codec (log (sample_raft_store []))"
  by (simp add: log_wf_def sample_raft_store_def store_of_def)

lemma sample_raft_tmp: "with_extension sample_raft_path ''json.tmp'' \<noteq> sample_raft_path"
  by (simp add: with_extension_def sample_raft_path_def file_stem_def)

lemma sample_append:
  "\<exists>fs'. append_log sample_raft_codec [sample_entry 1] (sample_raft_store [], empty_disk []) =
     (Inr (), Some (Inr ()), sample_raft_store [(1, ''one'')], fs')"
proof -
  have enc: "encode_entry sample_raft_codec (sample_entry 1) = Inr ''one''"
      "encode_store sample_raft_codec (persisted_of (sample_raft_store [(1, ''one'')])) = Inr ''full''"
    by (simp_all add: sample_raft_codec_def sample_raft_store_def persisted_of_def store_of_def)
  have "\<exists>fs'. replace_file (with_extension sample_raft_path ''json.tmp'') sample_raft_path ''full'' (empty_disk [])
      = (Inr (), fs')"
    using replace_file_no_faults [of "empty_disk []" "with_extension sample_raft_path ''json.tmp''" sample_raft_path "''full''"]
    by (auto simp: empty_disk_def)
  moreover have "create_parent sample_raft_path (empty_disk []) = (Inr (), empty_disk [])"
    by (rule create_parent_no_faults) (simp add: empty_disk_def)
  moreover have "rs_path (sample_raft_store [(1, ''one'')]) = Some sample_raft_path"
    by (simp add: sample_raft_store_def store_of_def)
  ultimately have "\<exists>fs'. persist_to_disk sample_raft_codec (sample_raft_store [(1, ''one'')]) (empty_disk []) = (Inr (), fs')"
    using enc(2) by (simp add: persist_to_disk_def encode_json_def)
  then obtain fs' where per:
    "persist_to_disk sample_raft_codec (sample_raft_store [(1, ''one'')]) (empty_disk []) = (Inr (), fs')" ..
  have "append_entries sample_raft_codec [sample_entry 1] (log (sample_raft_store [])) = (Inr (), [(1, ''one'')])"
    using enc(1) by (simp add: encode_json_def sample_raft_store_def store_of_def sample_entry_def)
  moreover have "(sample_raft_store [])\<lparr>log := [(1, ''one'')]\<rparr> = sample_raft_store [(1, ''one'')]"
    by (simp add: sample_raft_store_def store_of_def)
  ultimately show ?thesis
    using per by (simp add: append_log_def)
qed

theorem log_operations_refine_witness:
  "log_entries sample_raft_codec (log (sample_raft_store [(1, ''one'')])) = [1 \<mapsto> sample_entry 1]"
proof -
  obtain fs' where app: "append_log sample_raft_codec [sample_entry 1] (sample_raft_store [], empty_disk []) =
     (Inr (), Some (Inr ()), sample_raft_store [(1, ''one'')], fs')"
    using sample_append by blast
  have "log_entries sample_raft_codec (log (sample_raft_store [])) = Map.empty"
    by (simp add: log_entries_def sample_raft_store_def store_of_def fun_eq_iff)
  with log_operations_refine [OF sample_raft_codec_ok sample_log_wf, of "[sample_entry 1]" "empty_disk []"] app
  show ?thesis by (simp add: sample_entry_def)
qed

end
