(* ===== verification/Raft_Durability.thy ===== *)
theory Raft_Durability
  imports Raft_Replica
begin

text \<open>
  What the Raft store keeps on disk: an operation that succeeded is on disk and one that failed left
  the disk alone, so a replica that restarts comes back in the state after its last successful
  operation. A snapshot carries the state machine to another replica.
\<close>

section \<open>Durability\<close>

lemma persist_to_disk_cases:
  assumes "persist_to_disk K st fs = (r, fs')" "rs_path st = Some p" "with_extension p ''json.tmp'' \<noteq> p"
  shows "(\<exists>e. r = Inl e) \<and> files fs' p = files fs p
    \<or> r = Inr () \<and> (\<exists>d. encode_store K (persisted_of st) = Inr d \<and> files fs' p = Some \<lparr>content = d, synced = True\<rparr>)"
proof (cases "encode_store K (persisted_of st)")
  case (Inl e)
  with assms show ?thesis by (auto simp: persist_to_disk_def encode_json_def)
next
  case (Inr d)
  let ?tmp = "with_extension p ''json.tmp''"
  obtain r1 fs1 where cp: "create_parent p fs = (r1, fs1)" by (cases "create_parent p fs")
  then have fs1: "files fs1 = files fs" using files_create_parent [of p fs] by simp
  show ?thesis
  proof (cases r1)
    case Inl
    with assms Inr cp fs1 show ?thesis
      by (auto simp: persist_to_disk_def encode_json_def)
  next
    case (Inr u)
    with assms(1,2) \<open>encode_store K (persisted_of st) = Inr d\<close> cp
    have "replace_file ?tmp p d fs1 = (r, fs')"
      by (simp add: persist_to_disk_def encode_json_def)
    from replace_file_cases [OF this assms(3)] fs1 \<open>encode_store K (persisted_of st) = Inr d\<close> show ?thesis
      using assms(3) by (auto simp: same_but_def)
  qed
qed

text \<open>The operations that write, as one datatype.\<close>

datatype ('l, 'm, 'v, 'r) store_op =
    OpSaveVote 'v
  | OpSaveCommitted "'l log_id option"
  | OpAppend "('l, 'm) entry list"
  | OpTruncate "'l log_id option"
  | OpPurge "'l log_id"
  | OpBuildSnapshot
  | OpInstallSnapshot "('l, 'm) snapshot_meta" string
  | OpApply "(io_error + ('l, 'm) entry \<times> 'r option) list"

text \<open>Whether the operation succeeded, and the state after it.\<close>

fun run_store_op ::
  "('l, 'm, 'v) raft_codec \<Rightarrow> lib \<Rightarrow> ('l \<Rightarrow> string) \<Rightarrow> ('l, 'm, 'v, 'r) store_op \<Rightarrow>
   ('l, 'm, 'v) raft_store \<times> fsys \<Rightarrow> bool \<times> ('l, 'm, 'v) raft_store \<times> fsys" where
  "run_store_op K L lt (OpSaveVote v) sf = (case save_vote K v sf of (r, sf') \<Rightarrow> (is_ok r, sf'))"
| "run_store_op K L lt (OpSaveCommitted c) sf = (case save_committed K c sf of (r, sf') \<Rightarrow> (is_ok r, sf'))"
| "run_store_op K L lt (OpAppend es) sf = (case append_log K es sf of (r, _, sf') \<Rightarrow> (is_ok r, sf'))"
| "run_store_op K L lt (OpTruncate l) sf = (case truncate_after K l sf of (r, sf') \<Rightarrow> (is_ok r, sf'))"
| "run_store_op K L lt (OpPurge l) sf = (case purge K l sf of (r, sf') \<Rightarrow> (is_ok r, sf'))"
| "run_store_op K L lt OpBuildSnapshot sf = (case build_snapshot K lt sf of (r, sf') \<Rightarrow> (is_ok r, sf'))"
| "run_store_op K L lt (OpInstallSnapshot meta data) sf =
     (case install_snapshot K meta data sf of (r, sf') \<Rightarrow> (is_ok r, sf'))"
| "run_store_op K L lt (OpApply items) sf = (case apply_entries K L items sf of (r, sf') \<Rightarrow> (is_ok r, sf'))"

text \<open>The disk holds the state \<open>x\<close>.\<close>

definition on_disk :: "('l, 'm, 'v) raft_codec \<Rightarrow> path \<Rightarrow> ('l, 'm, 'v) persisted_store \<Rightarrow> fsys \<Rightarrow> bool" where
  "on_disk K p x fs = (\<exists>f. files fs p = Some f \<and> synced f \<and> encode_store K x = Inr (content f))"

definition durable_step ::
  "('l, 'm, 'v) raft_codec \<Rightarrow> path \<Rightarrow> fsys \<Rightarrow> bool \<times> ('l, 'm, 'v) raft_store \<times> fsys \<Rightarrow> bool" where
  "durable_step K p fs out =
     (case out of (b, st', fs') \<Rightarrow>
        rs_path st' = Some p
        \<and> (if b then on_disk K p (persisted_of st') fs' else files fs' p = files fs p))"

lemma persist_durable:
  assumes "rs_path st = Some p" "with_extension p ''json.tmp'' \<noteq> p" "persist_to_disk K st fs = (r, fs')"
  shows "durable_step K p fs (is_ok r, st, fs')"
  using persist_to_disk_cases [OF assms(3,1,2)] assms(1)
  by (auto simp: durable_step_def on_disk_def)

lemma update_durable:
  assumes "rs_path (f st) = Some p" "with_extension p ''json.tmp'' \<noteq> p"
  shows "durable_step K p fs (case update_and_persist K f (st, fs) of (r, sf') \<Rightarrow> (is_ok r, sf'))"
proof -
  obtain r fs' where per: "persist_to_disk K (f st) fs = (r, fs')" by (cases "persist_to_disk K (f st) fs")
  from persist_durable [OF assms per] per show ?thesis by (simp add: update_and_persist_def)
qed

lemma failed_durable: "rs_path st = Some p \<Longrightarrow> durable_step K p fs (False, st, fs)"
  by (simp add: durable_step_def)

lemma run_store_op_durable:
  assumes "rs_path st = Some p" "with_extension p ''json.tmp'' \<noteq> p"
  shows "durable_step K p fs (run_store_op K L lt op (st, fs))"
proof (cases op)
  case (OpAppend es)
  obtain r lg where app: "append_entries K es (log st) = (r, lg)" by (cases "append_entries K es (log st)")
  obtain r' fs' where per: "persist_to_disk K (st\<lparr>log := lg\<rparr>) fs = (r', fs')"
    by (cases "persist_to_disk K (st\<lparr>log := lg\<rparr>) fs")
  have "durable_step K p fs (is_ok r', st\<lparr>log := lg\<rparr>, fs')"
    using persist_durable [OF _ assms(2) per] assms(1) by simp
  with OpAppend app per assms(1) show ?thesis
    by (cases r; cases r') (auto simp: append_log_def Let_def failed_durable)
next
  case OpBuildSnapshot
  show ?thesis
  proof (cases "encode_sm K (sm st)")
    case (Inl e)
    with OpBuildSnapshot assms(1) show ?thesis by (simp add: build_snapshot_def encode_json_def failed_durable)
  next
    case (Inr d)
    obtain st' where st': "rs_path st' = rs_path st" and run:
      "build_snapshot K lt (st, fs) = (case persist_to_disk K st' fs of
         (Inl e, fs') \<Rightarrow> (Inl e, st', fs') | (Inr _, fs') \<Rightarrow> (Inr (the (current_snapshot st')), st', fs'))"
      by (rule that [of "st\<lparr>snapshot_idx := snapshot_idx st + 1,
           current_snapshot := current_snapshot (fst (snd (build_snapshot K lt (st, fs))))\<rparr>"])
        (auto simp: build_snapshot_def encode_json_def Inr Let_def split: prod.split sum.split)
    obtain r' fs' where per: "persist_to_disk K st' fs = (r', fs')" by (cases "persist_to_disk K st' fs")
    have "durable_step K p fs (is_ok r', st', fs')"
      using persist_durable [OF _ assms(2) per] assms(1) st' by simp
    with OpBuildSnapshot run per show ?thesis by (cases r') auto
  qed
next
  case (OpInstallSnapshot meta data)
  then show ?thesis
    using assms(1) update_durable [of _ st p K fs, OF _ assms(2)]
    by (simp add: install_snapshot_def failed_durable split: sum.split)
next
  case (OpApply items)
  obtain r m where app: "apply_loop L items [] (sm st) = (r, m)" by (cases "apply_loop L items [] (sm st)")
  obtain r' fs' where per: "persist_to_disk K (st\<lparr>sm := m\<rparr>) fs = (r', fs')"
    by (cases "persist_to_disk K (st\<lparr>sm := m\<rparr>) fs")
  have "durable_step K p fs (is_ok r', st\<lparr>sm := m\<rparr>, fs')"
    using persist_durable [OF _ assms(2) per] assms(1) by simp
  with OpApply app per assms(1) show ?thesis
    by (cases r; cases r') (auto simp: apply_entries_def failed_durable)
qed (use assms(1) update_durable [of _ st p K fs, OF _ assms(2)] in
    \<open>simp_all add: save_vote_def save_committed_def truncate_after_def purge_def\<close>)

text \<open>
  A run of operations, some of which may fail, with the state after the last one that succeeded
  (at first \<open>x\<close>).
\<close>

fun run_store_ops ::
  "('l, 'm, 'v) raft_codec \<Rightarrow> lib \<Rightarrow> ('l \<Rightarrow> string) \<Rightarrow> ('l, 'm, 'v, 'r) store_op list \<Rightarrow>
   ('l, 'm, 'v) persisted_store \<times> ('l, 'm, 'v) raft_store \<times> fsys \<Rightarrow>
   ('l, 'm, 'v) persisted_store \<times> ('l, 'm, 'v) raft_store \<times> fsys" where
  "run_store_ops K L lt [] (x, st, fs) = (x, st, fs)"
| "run_store_ops K L lt (op # ops) (x, st, fs) =
     (case run_store_op K L lt op (st, fs) of
        (b, st', fs') \<Rightarrow> run_store_ops K L lt ops (if b then persisted_of st' else x, st', fs'))"

lemma run_store_ops_durable:
  assumes "with_extension p ''json.tmp'' \<noteq> p"
  shows "rs_path st = Some p \<Longrightarrow> on_disk K p x fs \<Longrightarrow> run_store_ops K L lt ops (x, st, fs) = (x', st', fs') \<Longrightarrow>
    on_disk K p x' fs'"
proof (induction ops arbitrary: x st fs)
  case Nil
  then show ?case by simp
next
  case (Cons op ops)
  obtain b st1 fs1 where one: "run_store_op K L lt op (st, fs) = (b, st1, fs1)"
    by (cases "run_store_op K L lt op (st, fs)")
  with run_store_op_durable [OF Cons.prems(1) assms, of K fs L lt op] Cons.prems(2)
  have "rs_path st1 = Some p" "on_disk K p (if b then persisted_of st1 else x) fs1"
    by (auto simp: durable_step_def on_disk_def split: if_splits)
  then show ?case using Cons.IH Cons.prems(3) one by simp
qed

lemma on_disk_faults [simp]: "on_disk K p x (fs\<lparr>faults := fl\<rparr>) = on_disk K p x fs"
  by (simp add: on_disk_def)

lemma persisted_store_of [simp]: "persisted_of (store_of p x) = x"
  by (simp add: persisted_of_def store_of_def)

lemma rs_path_store_of [simp]: "rs_path (store_of p x) = p"
  by (simp add: store_of_def)

lemma persist_no_faults:
  assumes "faults fs = []" "encode_store K (persisted_of st) = Inr d"
  shows "\<exists>fs'. persist_to_disk K st fs = (Inr (), fs')"
proof (cases "rs_path st")
  case None
  then show ?thesis by (simp add: persist_to_disk_def)
next
  case (Some p)
  then show ?thesis
    using assms replace_file_no_faults [of fs "with_extension p ''json.tmp''" p d]
    by (auto simp: persist_to_disk_def encode_json_def create_parent_no_faults)
qed

lemma open_on_disk:
  assumes "raft_codec_ok K" "on_disk K p x fs" "faults fs = []"
  shows "\<exists>fs'. raft_store_open K m0 p fs = (Inr (store_of (Some p) x), fs')"
proof -
  obtain f where f: "files fs p = Some f" "encode_store K x = Inr (content f)"
    using assms(2) by (auto simp: on_disk_def)
  then have dec: "content f \<noteq> []" "decode_store K (content f) = Inr x"
    using assms(1) by (auto simp: raft_codec_ok_def)
  have "fs_read p fs = (Inr (content f), fs)"
    using f(1) assms(3) by (simp add: fs_read_def no_faults)
  moreover obtain fs' where "persist_to_disk K (store_of (Some p) x) fs = (Inr (), fs')"
    using persist_no_faults [OF assms(3), of K "store_of (Some p) x" "content f"] f(2) by auto
  ultimately show ?thesis
    using dec by (simp add: raft_store_open_def decode_json_def call_ok_def)
qed

text \<open>
  C21. A replica recovers what it acknowledged: after any run of vote, log, snapshot and apply
  operations, some of which may fail anywhere in their disk accesses, reopening the file gives
  exactly the state after the last operation that succeeded.
\<close>

theorem crash_recovery:
  assumes "raft_codec_ok K" "with_extension p ''json.tmp'' \<noteq> p" "rs_path st = Some p" "on_disk K p x fs"
    and "run_store_ops K L lt ops (x, st, fs) = (x', st', fs')"
  shows "\<exists>fs''. raft_store_open K m0 p (fs'\<lparr>faults := []\<rparr>) = (Inr (store_of (Some p) x'), fs'')"
  using open_on_disk [OF assms(1), of p x' "fs'\<lparr>faults := []\<rparr>"] run_store_ops_durable [OF assms(2-5)] by simp

lemma sample_store_path [simp]: "rs_path (sample_raft_store lg) = Some sample_raft_path"
  by (simp add: sample_raft_store_def)

lemma sample_vote_fails:
  "save_vote sample_raft_codec () (sample_raft_store [(1, ''one'')], fs)
     = (Inl (io_invalid ''store''), (sample_raft_store [(1, ''one'')])\<lparr>vote := Some ()\<rparr>, fs)"
proof -
  have "encode_store sample_raft_codec (persisted_of ((sample_raft_store [(1, ''one'')])\<lparr>vote := Some ()\<rparr>)) = Inl ''store''"
    by (simp add: sample_raft_codec_def sample_raft_store_def persisted_of_def store_of_def default_persisted_def)
  then show ?thesis
    by (simp add: save_vote_def update_and_persist_def persist_to_disk_def encode_json_def)
qed

theorem crash_recovery_witness:
  "\<exists>x' st' fs' fs''.
     run_store_ops sample_raft_codec sample_lib (\<lambda>_. ''1'') [OpAppend [sample_entry 1], OpSaveVote ()]
       (persisted_of (sample_raft_store []), sample_raft_store [],
        (empty_disk [])\<lparr>files := [sample_raft_path \<mapsto> \<lparr>content = ''empty'', synced = True\<rparr>]\<rparr>) = (x', st', fs')
     \<and> vote st' = Some ()
     \<and> raft_store_open sample_raft_codec () sample_raft_path (fs'\<lparr>faults := []\<rparr>)
         = (Inr (sample_raft_store [(1, ''one'')]), fs'')"
proof -
  let ?fs = "(empty_disk [])\<lparr>files := [sample_raft_path \<mapsto> \<lparr>content = ''empty'', synced = True\<rparr>]\<rparr>"
  let ?full = "sample_raft_store [(1, ''one'')]"
  have enc: "encode_store sample_raft_codec (persisted_of (sample_raft_store [])) = Inr ''empty''"
      "encode_store sample_raft_codec (persisted_of ?full) = Inr ''full''"
    by (simp_all add: sample_raft_codec_def sample_raft_store_def default_persisted_def)
  have "faults ?fs = []" by (simp add: empty_disk_def)
  then obtain fs1 where per: "persist_to_disk sample_raft_codec ?full ?fs = (Inr (), fs1)"
    using persist_no_faults enc(2) by blast
  have "append_entries sample_raft_codec [sample_entry 1] (log (sample_raft_store [])) = (Inr (), [(1, ''one'')])"
    by (simp add: encode_json_def sample_raft_store_def store_of_def sample_entry_def sample_raft_codec_def)
  moreover have "(sample_raft_store [])\<lparr>log := [(1, ''one'')]\<rparr> = ?full"
    by (simp add: sample_raft_store_def store_of_def)
  ultimately have "append_log sample_raft_codec [sample_entry 1] (sample_raft_store [], ?fs)
      = (Inr (), Some (Inr ()), ?full, fs1)"
    using per by (simp add: append_log_def)
  then have run: "run_store_ops sample_raft_codec sample_lib (\<lambda>_. ''1'')
      [OpAppend [sample_entry 1], OpSaveVote ()] (persisted_of (sample_raft_store []), sample_raft_store [], ?fs)
      = (persisted_of ?full, ?full\<lparr>vote := Some ()\<rparr>, fs1)"
    by (simp add: sample_vote_fails)
  have disk: "on_disk sample_raft_codec sample_raft_path (persisted_of (sample_raft_store [])) ?fs"
    using enc(1) by (simp add: on_disk_def)
  have "store_of (Some sample_raft_path) (persisted_of ?full) = ?full"
    by (simp add: sample_raft_store_def)
  with crash_recovery [OF sample_raft_codec_ok sample_raft_tmp sample_store_path disk run, of "()"]
  obtain fs2 where "raft_store_open sample_raft_codec () sample_raft_path (fs1\<lparr>faults := []\<rparr>) = (Inr ?full, fs2)"
    by auto
  with run show ?thesis by simp
qed

section \<open>Snapshots and reads\<close>

text \<open>
  C24. A snapshot carries the replicated state: installing what \<open>build_snapshot\<close> returned on another
  replica gives that replica the state machine of the first, under the log position and membership
  the snapshot announces, and leaves its log and vote alone; the first replica keeps its state.
\<close>

theorem snapshot_transfers_state:
  assumes "raft_codec_ok K" "build_snapshot K lt (stA, fsA) = (Inr snap, stA', fsA')"
    and "install_snapshot K (snap_meta snap) (snap_data snap) (stB, fsB) = (r, stB', fsB')"
  shows "sm stB' = sm stA \<and> applied_state stB' = (meta_last_log_id (snap_meta snap), meta_last_membership (snap_meta snap))
    \<and> get_current_snapshot stB' = Some snap \<and> get_current_snapshot stA' = Some snap
    \<and> log stB' = log stB \<and> vote stB' = vote stB \<and> sm stA' = sm stA \<and> log stA' = log stA"
proof (cases "encode_sm K (sm stA)")
  case (Inl e)
  with assms(2) show ?thesis by (simp add: build_snapshot_def encode_json_def)
next
  case (Inr d)
  then have A: "snap_data snap = d" "meta_last_log_id (snap_meta snap) = last_applied_log (sm stA)"
      "meta_last_membership (snap_meta snap) = last_membership (sm stA)"
      "current_snapshot stA' = Some snap" "sm stA' = sm stA" "log stA' = log stA"
    using assms(2) by (auto simp: build_snapshot_def encode_json_def Let_def split: prod.splits sum.splits)
  have "decode_sm K d = Inr (sm stA)" using Inr assms(1) by (simp add: raft_codec_ok_def)
  with A(1) have "stB' = stB\<lparr>sm := sm stA, current_snapshot := Some \<lparr>snap_meta = snap_meta snap, snap_data = snap_data snap\<rparr>\<rparr>"
    using assms(3) by (auto simp: install_snapshot_def decode_json_def update_and_persist_def split: prod.splits)
  with A show ?thesis by (simp add: applied_state_def get_current_snapshot_def)
qed

theorem snapshot_transfers_state_witness:
  "\<exists>snap stA' fsA' r stB' fsB'.
     build_snapshot sample_raft_codec (\<lambda>_. ''1'') (raft_store_new (), empty_disk []) = (Inr snap, stA', fsA')
     \<and> install_snapshot sample_raft_codec (snap_meta snap) (snap_data snap)
         ((raft_store_new ())\<lparr>sm := (default_sm ())\<lparr>latest_unsafe := Some (sample_payload 10 1)\<rparr>\<rparr>, empty_disk [])
         = (r, stB', fsB')
     \<and> sm stB' = default_sm ()"
proof -
  let ?B = "(raft_store_new ())\<lparr>sm := (default_sm ())\<lparr>latest_unsafe := Some (sample_payload 10 1)\<rparr>\<rparr>"
  have sm: "sm (raft_store_new () :: (nat, unit, unit) raft_store) = default_sm ()"
    by (simp add: raft_store_new_def store_of_def default_persisted_def)
  have "rs_path (raft_store_new () :: (nat, unit, unit) raft_store) = None" by (simp add: raft_store_new_def)
  with sm obtain snap stA' fsA' where A:
      "build_snapshot sample_raft_codec (\<lambda>_. ''1'') (raft_store_new (), empty_disk []) = (Inr snap, stA', fsA')"
    by (simp add: build_snapshot_def encode_json_def sample_raft_codec_def persist_to_disk_def Let_def)
  obtain r stB' fsB' where B:
      "install_snapshot sample_raft_codec (snap_meta snap) (snap_data snap) (?B, empty_disk []) = (r, stB', fsB')"
    by (cases "install_snapshot sample_raft_codec (snap_meta snap) (snap_data snap) (?B, empty_disk [])")
  from snapshot_transfers_state [OF sample_raft_codec_ok A B] sm A B show ?thesis by auto
qed

lemma log_wf_decode:
  assumes "log_wf K lg" "(i, s) \<in> set lg"
  obtains e where "decode_entry K s = Inr e" "lid_index (en_log_id e) = i" "log_entries K lg i = Some e"
proof -
  have "bt_get lg i = Some s"
    using assms by (simp add: log_wf_def bt_get_def map_of_is_SomeI bt_wf_distinct)
  with assms(1) obtain e where "decode_entry K s = Inr e" "lid_index (en_log_id e) = i"
    by (auto simp: log_wf_def)
  with \<open>bt_get lg i = Some s\<close> show ?thesis by (auto intro: that simp: log_entries_def)
qed

lemma log_entries_Some:
  "log_entries K lg i = Some e \<longleftrightarrow> (\<exists>s. bt_get lg i = Some s \<and> decode_entry K s = Inr e)"
proof -
  have "ok (decode_entry K s) = Some e \<longleftrightarrow> decode_entry K s = Inr e" for s by (cases "decode_entry K s") auto
  then show ?thesis by (cases "bt_get lg i") (simp_all add: log_entries_def)
qed

lemma bt_last_greatest:
  assumes "bt_wf m" "bt_last m = Some (k, v)"
  shows "bt_get m k = Some v \<and> (\<forall>k'. bt_get m k' \<noteq> None \<longrightarrow> k' \<le> k)"
proof -
  from assms(2) have ne: "m \<noteq> []" "last m = (k, v)" by (auto simp: bt_last_def split: if_splits)
  then obtain m0 where m: "m = m0 @ [(k, v)]" using append_butlast_last_id by metis
  then have "(k, v) \<in> set m" by simp
  then have get: "bt_get m k = Some v" using bt_wf_distinct [OF assms(1)] by (simp add: bt_get_def)
  have "sorted_wrt (<) (map fst m0 @ [k])" using assms(1) by (simp add: bt_wf_def m)
  then have le: "\<forall>kv \<in> set m. fst kv \<le> k"
    by (auto simp: m sorted_wrt_append intro: less_imp_le)
  have "k' \<le> k" if "bt_get m k' \<noteq> None" for k'
    using that le by (force simp: bt_get_def dest: map_of_SomeD)
  with get show ?thesis by blast
qed

definition stored_entry :: "('l, 'm, 'v) raft_codec \<Rightarrow> string \<Rightarrow> ('l, 'm) entry" where
  "stored_entry K s = the (ok (decode_entry K s))"

lemma stored_entry_wf:
  assumes "log_wf K lg" "(i, s) \<in> set lg"
  shows "decode_entry K s = Inr (stored_entry K s) \<and> lid_index (en_log_id (stored_entry K s)) = i
    \<and> log_entries K lg i = Some (stored_entry K s)"
proof -
  obtain e where "decode_entry K s = Inr e" "lid_index (en_log_id e) = i" "log_entries K lg i = Some e"
    using log_wf_decode [OF assms] .
  then show ?thesis by (simp add: stored_entry_def)
qed

lemma set_range_entries:
  assumes "log_wf K lg"
  shows "set (map (\<lambda>kv. stored_entry K (snd kv)) (bt_range lo hi lg))
    = {e. \<exists>i. above lo i \<and> below hi i \<and> log_entries K lg i = Some e}" (is "?A = ?B")
proof (intro set_eqI iffI)
  fix e assume "e \<in> ?A"
  then obtain i s where "(i, s) \<in> set lg" "above lo i" "below hi i" "e = stored_entry K s"
    by (auto simp: bt_range_def)
  with stored_entry_wf [OF assms, of i s] show "e \<in> ?B" by auto
next
  fix e assume "e \<in> ?B"
  then obtain i s where i: "above lo i" "below hi i" "bt_get lg i = Some s" "log_entries K lg i = Some e"
    by (auto simp: log_entries_Some)
  then have mem: "(i, s) \<in> set lg" by (simp add: bt_get_def map_of_SomeD)
  with stored_entry_wf [OF assms mem] i(4) have "e = stored_entry K s" by simp
  moreover have "(i, s) \<in> set (bt_range lo hi lg)" using mem i(1,2) by (simp add: bt_range_def)
  ultimately show "e \<in> ?A" by (auto intro: image_eqI [of _ _ "(i, s)"])
qed

lemma get_log_state_last:
  assumes "log_wf K (log st)"
  shows "\<exists>ls. get_log_state K st = Inr ls \<and> ls_last_purged ls = last_purged_log_id st
      \<and> (if log st = [] then ls_last_log_id ls = last_purged_log_id st
         else \<exists>i e. ls_last_log_id ls = Some (en_log_id e) \<and> log_entries K (log st) i = Some e
           \<and> (\<forall>j. log_entries K (log st) j \<noteq> None \<longrightarrow> j \<le> i))"
proof (cases "bt_last (log st)")
  case None
  then have "log st = []" by (simp add: bt_last_def split: if_splits)
  with None show ?thesis by (simp add: get_log_state_def)
next
  case (Some kv)
  obtain i s where kv: "kv = (i, s)" by (cases kv)
  with Some have ne: "log st \<noteq> []" and "last (log st) = (i, s)"
    by (simp_all add: bt_last_def split: if_splits)
  then have "(i, s) \<in> set (log st)" by (metis last_in_set)
  from log_wf_decode [OF assms this] obtain e
    where e: "decode_entry K s = Inr e" "log_entries K (log st) i = Some e" .
  have "bt_wf (log st)" using assms by (simp add: log_wf_def)
  from bt_last_greatest [OF this] Some kv
  have "\<forall>j. log_entries K (log st) j \<noteq> None \<longrightarrow> j \<le> i" by (auto simp: log_entries_Some)
  with e ne Some kv show ?thesis
    by (auto simp: get_log_state_def decode_json_def)
qed

text \<open>
  C23. Reading the log returns the entries whose index lies in the requested range, each once and in
  the order of their indexes, and never fails on a well-formed log; the reported log state ends at
  the entry with the greatest index, or at the last purged entry when the log is empty.
\<close>

theorem log_reads_in_order:
  assumes "log_wf K (log st)"
  shows "(\<exists>es. try_get_log_entries K lo hi st = Inr es
      \<and> sorted_wrt (<) (map (\<lambda>e. lid_index (en_log_id e)) es)
      \<and> set es = {e. \<exists>i. above lo i \<and> below hi i \<and> log_entries K (log st) i = Some e})
    \<and> (\<exists>ls. get_log_state K st = Inr ls \<and> ls_last_purged ls = last_purged_log_id st
      \<and> (if log st = [] then ls_last_log_id ls = last_purged_log_id st
         else \<exists>i e. ls_last_log_id ls = Some (en_log_id e) \<and> log_entries K (log st) i = Some e
           \<and> (\<forall>j. log_entries K (log st) j \<noteq> None \<longrightarrow> j \<le> i)))"
proof
  let ?lg = "log st" and ?idx = "\<lambda>e. lid_index (en_log_id e)"
  let ?r = "bt_range lo hi ?lg" and ?dec = "\<lambda>kv. stored_entry K (snd kv)"
  have elem: "decode_entry K (snd kv) = Inr (?dec kv) \<and> ?idx (?dec kv) = fst kv
      \<and> log_entries K ?lg (fst kv) = Some (?dec kv)" if "kv \<in> set ?r" for kv
    using stored_entry_wf [OF assms, of "fst kv" "snd kv"] that by (simp add: bt_range_def)
  have "try_get_log_entries K lo hi st = Inr (map ?dec ?r)"
    unfolding try_get_log_entries_def
    by (rule try_map_cong_ok) (use elem in \<open>simp add: decode_json_def case_prod_beta\<close>)
  moreover have "sorted_wrt (<) (map ?idx (map ?dec ?r))"
  proof -
    have "sorted_wrt (<) (map fst ?r)"
      using assms by (simp add: bt_range_def log_wf_def bt_wf_def sorted_wrt_map sorted_wrt_filter)
    moreover have "map ?idx (map ?dec ?r) = map fst ?r" using elem by simp
    ultimately show ?thesis by (simp only:)
  qed
  moreover have "set (map ?dec ?r) = {e. \<exists>i. above lo i \<and> below hi i \<and> log_entries K ?lg i = Some e}"
    by (rule set_range_entries [OF assms])
  ultimately show "\<exists>es. try_get_log_entries K lo hi st = Inr es
      \<and> sorted_wrt (<) (map ?idx es)
      \<and> set es = {e. \<exists>i. above lo i \<and> below hi i \<and> log_entries K ?lg i = Some e}"
    by blast
qed (rule get_log_state_last [OF assms])

theorem log_reads_in_order_witness:
  "\<exists>es. try_get_log_entries sample_raft_codec (Included 1) (Excluded 3)
       (sample_raft_store [(1, ''one''), (2, ''two'')]) = Inr es
     \<and> sorted_wrt (<) (map (\<lambda>e. lid_index (en_log_id e)) es) \<and> sample_entry 2 \<in> set es"
proof -
  let ?st = "sample_raft_store [(1, ''one''), (2, ''two'')]"
  have log: "log ?st = [(1, ''one''), (2, ''two'')]" by (simp add: sample_raft_store_def store_of_def)
  then have "log_wf sample_raft_codec (log ?st)"
    by (simp add: log_wf_def bt_wf_def bt_get_def sample_raft_codec_def sample_entry_def)
  from conjunct1 [OF log_reads_in_order [OF this, of "Included 1" "Excluded 3"]] obtain es
    where es: "try_get_log_entries sample_raft_codec (Included 1) (Excluded 3) ?st = Inr es"
      "sorted_wrt (<) (map (\<lambda>e. lid_index (en_log_id e)) es)"
      "set es = {e. \<exists>i. above (Included 1) i \<and> below (Excluded 3) i \<and> log_entries sample_raft_codec (log ?st) i = Some e}"
    by blast
  have "log_entries sample_raft_codec (log ?st) 2 = Some (sample_entry 2)"
    by (simp add: log log_entries_def bt_get_def sample_raft_codec_def)
  then have "sample_entry 2 \<in> set es" unfolding es(3) by (intro CollectI exI [of _ 2]) simp
  with es(1,2) show ?thesis by blast
qed

end
