(* ===== verification/Raft_Transport.thy ===== *)
theory Raft_Transport
  imports Raft_Durability Rpc_Client
begin

text \<open>
  The networks of \<open>src/raft_consensus.rs\<close>: the registry of in-process peers, and the HTTP transport
  with its client, its response envelope and its server. What \<open>openraft\<close> sends (requests \<open>'q\<close>,
  responses \<open>'r\<close>) and what it does with a request are arguments, and so are the HTTP stack and the
  answers of the web framework to requests that do not reach a handler.
\<close>

datatype raft_rpc_error = Unreachable string | Network string

record raft_node =
  node_addr :: string

section \<open>In-process peers\<close>

type_synonym 'p in_memory_network = "(string, 'p) btree"

definition network_new :: "'p in_memory_network" where
  "network_new = []"

definition network_register :: "string \<Rightarrow> 'p \<Rightarrow> 'p in_memory_network \<Rightarrow> 'p in_memory_network" where
  "network_register i raft peers = bt_insert i raft peers"

definition target_raft :: "string \<Rightarrow> 'p in_memory_network \<Rightarrow> raft_rpc_error + 'p" where
  "target_raft target peers = ok_or (bt_get peers target) (Unreachable (''missing raft peer '' @ target))"

text \<open>What a peer does with a request; the error is its text.\<close>

record ('l, 'm, 'v, 'q, 'r, 'w) raft_peer =
  rp_append_entries :: "'q \<Rightarrow> ('w, string, 'r) call"
  rp_vote :: "'q \<Rightarrow> ('w, string, 'r) call"
  rp_install_full_snapshot :: "'v \<Rightarrow> ('l, 'm) snapshot \<Rightarrow> ('w, string, 'r) call"
  rp_handle_transfer_leader :: "'q \<Rightarrow> ('w, string, unit) call"

text \<open>A request of the in-process client: find the peer, hand the request over.\<close>

definition in_memory_send ::
  "string \<Rightarrow> 'p in_memory_network \<Rightarrow> ('p \<Rightarrow> ('w, string, 'a) call) \<Rightarrow> ('w, raft_rpc_error, 'a) call" where
  "in_memory_send target peers m w =
     (case target_raft target peers of
        Inl e \<Rightarrow> (Inl e, w)
      | Inr raft \<Rightarrow> call_err Network (m raft) w)"

definition in_memory_append_entries where
  "in_memory_append_entries target peers rpc = in_memory_send target peers (\<lambda>raft. rp_append_entries raft rpc)"

definition in_memory_vote where
  "in_memory_vote target peers rpc = in_memory_send target peers (\<lambda>raft. rp_vote raft rpc)"

definition in_memory_full_snapshot where
  "in_memory_full_snapshot target peers v snap =
     in_memory_send target peers (\<lambda>raft. rp_install_full_snapshot raft v snap)"

definition in_memory_transfer_leader where
  "in_memory_transfer_leader target peers req =
     in_memory_send target peers (\<lambda>raft. rp_handle_transfer_leader raft req)"

section \<open>The response envelope\<close>

record 'a raft_http_response =
  rh_result :: "'a option"
  rh_error :: "string option"

definition response_ok :: "'a \<Rightarrow> 'a raft_http_response" where
  "response_ok result = \<lparr>rh_result = Some result, rh_error = None\<rparr>"

definition response_err :: "string \<Rightarrow> 'a raft_http_response" where
  "response_err error = \<lparr>rh_result = None, rh_error = Some error\<rparr>"

definition into_result :: "'a raft_http_response \<Rightarrow> string + 'a" where
  "into_result r =
     (case (rh_result r, rh_error r) of
        (Some result, None) \<Rightarrow> Inr result
      | (_, Some error) \<Rightarrow> Inl error
      | _ \<Rightarrow> Inl ''raft peer returned empty response'')"

text \<open>The derived JSON form: an absent option is \<open>null\<close>, and \<open>null\<close> or a missing member reads as absent.\<close>

definition serialize_raft_response :: "('a \<Rightarrow> json) \<Rightarrow> 'a raft_http_response \<Rightarrow> json" where
  "serialize_raft_response enc r =
     json_object
       [(''result'', case rh_result r of None \<Rightarrow> JNull | Some a \<Rightarrow> enc a),
        (''error'', case rh_error r of None \<Rightarrow> JNull | Some e \<Rightarrow> JString e)]"

definition deserialize_opt :: "(json \<Rightarrow> de_error + 'a) \<Rightarrow> json \<Rightarrow> de_error + 'a option" where
  "deserialize_opt dec v = (if v = JNull then Inr None else map_ok Some (dec v))"

definition deserialize_string :: "json \<Rightarrow> de_error + string" where
  "deserialize_string v = ok_or (json_as_str v) (DeInvalidType v ''a string'')"

definition short_array :: "json \<Rightarrow> nat \<Rightarrow> bool" where
  "short_array v n = (case v of JArray vs \<Rightarrow> length vs < n | _ \<Rightarrow> False)"

definition deserialize_raft_response :: "(json \<Rightarrow> de_error + 'a) \<Rightarrow> json \<Rightarrow> de_error + 'a raft_http_response" where
  "deserialize_raft_response dec v =
     and_then
       (struct_fields ''struct RaftHttpResponse'' [(''result'', []), (''error'', [])]
         (\<lambda>name w. if name = ''result'' then map_ok (\<lambda>_. ()) (deserialize_opt dec w)
                   else map_ok (\<lambda>_. ()) (deserialize_opt deserialize_string w)) v)
       (\<lambda>fs.
         if short_array v 2 then Inl (DeInvalidLength (length fs) ''struct RaftHttpResponse with 2 elements'')
         else
           and_then (case map_of fs ''result'' of None \<Rightarrow> Inr None | Some w \<Rightarrow> deserialize_opt dec w) (\<lambda>r.
           and_then (case map_of fs ''error'' of None \<Rightarrow> Inr None | Some w \<Rightarrow> deserialize_opt deserialize_string w) (\<lambda>e.
             Inr \<lparr>rh_result = r, rh_error = e\<rparr>)))"

section \<open>The client\<close>

definition raft_url :: "string \<Rightarrow> string \<Rightarrow> string" where
  "raft_url addr meth =
     (let base =
            (if starts_with addr ''http://'' \<or> starts_with addr ''https://''
             then trim_end_matches CHR ''/'' addr
             else ''http://'' @ trim_end_matches CHR ''/'' addr)
      in base @ ''/raft/'' @ meth)"

record http_reply =
  reply_status :: nat
  reply_status_text :: string
  reply_body :: "string + json"

text \<open>
  The HTTP stack: sending a request, and the text of its error for a body that does not have the
  expected form.
\<close>

record 'w raft_http =
  rt_post :: "string \<Rightarrow> json \<Rightarrow> ('w, string, http_reply) call"
  rt_decode_error :: "de_error \<Rightarrow> string"

record http_raft_client =
  hc_target :: string
  hc_addr :: string

definition new_client :: "string \<Rightarrow> raft_node \<Rightarrow> http_raft_client" where
  "new_client target node = \<lparr>hc_target = target, hc_addr = node_addr node\<rparr>"

definition is_success :: "nat \<Rightarrow> bool" where
  "is_success status = (200 \<le> status \<and> status < 300)"

definition raft_post ::
  "'w raft_http \<Rightarrow> (json \<Rightarrow> de_error + 'a) \<Rightarrow> http_raft_client \<Rightarrow> string \<Rightarrow> json \<Rightarrow> ('w, raft_rpc_error, 'a) call" where
  "raft_post X dec c meth request w =
     (case rt_post X (raft_url (hc_addr c) meth) request w of
        (Inl e, w') \<Rightarrow> (Inl (Network e), w')
      | (Inr reply, w') \<Rightarrow>
          if \<not> is_success (reply_status reply)
          then (Inl (Network (''raft peer '' @ hc_target c @ '' returned HTTP '' @ reply_status_text reply)), w')
          else
            (case reply_body reply of
               Inl e \<Rightarrow> (Inl (Network e), w')
             | Inr v \<Rightarrow>
                 (case deserialize_raft_response dec v of
                    Inl e \<Rightarrow> (Inl (Network (rt_decode_error X e)), w')
                  | Inr r \<Rightarrow>
                      (map_err (\<lambda>m. Network (''raft peer '' @ hc_target c @ '': '' @ m)) (into_result r), w'))))"

record ('l, 'm, 'v) full_snapshot_request =
  fs_vote :: 'v
  fs_meta :: "('l, 'm) snapshot_meta"
  fs_data :: string

record ('l, 'm, 'v, 'q, 'r) message_codec =
  enc_request :: "'q \<Rightarrow> json"
  dec_request :: "json \<Rightarrow> de_error + 'q"
  enc_response :: "'r \<Rightarrow> json"
  dec_response :: "json \<Rightarrow> de_error + 'r"
  enc_full_snapshot :: "('l, 'm, 'v) full_snapshot_request \<Rightarrow> json"
  dec_full_snapshot :: "json \<Rightarrow> de_error + ('l, 'm, 'v) full_snapshot_request"

definition http_client_append_entries where
  "http_client_append_entries X M c rpc = raft_post X (dec_response M) c ''append_entries'' (enc_request M rpc)"

definition http_client_vote where
  "http_client_vote X M c rpc = raft_post X (dec_response M) c ''vote'' (enc_request M rpc)"

definition http_client_full_snapshot where
  "http_client_full_snapshot X M c v snap =
     raft_post X (dec_response M) c ''full_snapshot''
       (enc_full_snapshot M \<lparr>fs_vote = v, fs_meta = snap_meta snap, fs_data = snap_data snap\<rparr>)"

definition http_client_transfer_leader where
  "http_client_transfer_leader X M c req =
     raft_post X deserialize_unit c ''transfer_leader'' (enc_request M req)"

section \<open>The server\<close>

definition raft_reply :: "('w, string, 'a) call \<Rightarrow> 'w \<Rightarrow> 'a raft_http_response \<times> 'w" where
  "raft_reply m w = (case m w of (Inr response, w') \<Rightarrow> (response_ok response, w') | (Inl err, w') \<Rightarrow> (response_err err, w'))"

definition http_append_entries where
  "http_append_entries P request = raft_reply (rp_append_entries P request)"

definition http_vote where
  "http_vote P request = raft_reply (rp_vote P request)"

definition http_full_snapshot where
  "http_full_snapshot P request =
     raft_reply (rp_install_full_snapshot P (fs_vote request)
       \<lparr>snap_meta = fs_meta request, snap_data = fs_data request\<rparr>)"

definition http_transfer_leader where
  "http_transfer_leader P request = raft_reply (rp_handle_transfer_leader P request)"

text \<open>The replies of the web framework to a path without a route and to a body that does not decode.\<close>

record web_framework =
  no_route :: http_reply
  reject_body :: "de_error \<Rightarrow> http_reply"

definition json_reply :: "json \<Rightarrow> http_reply" where
  "json_reply v = \<lparr>reply_status = 200, reply_status_text = ''200 OK'', reply_body = Inr v\<rparr>"

definition serve_handler ::
  "web_framework \<Rightarrow> (json \<Rightarrow> de_error + 'a) \<Rightarrow> ('a \<Rightarrow> 'w \<Rightarrow> 'b raft_http_response \<times> 'w) \<Rightarrow> ('b \<Rightarrow> json) \<Rightarrow>
   json \<Rightarrow> 'w \<Rightarrow> http_reply \<times> 'w" where
  "serve_handler F dec handler enc body w =
     (case dec body of
        Inl e \<Rightarrow> (reject_body F e, w)
      | Inr request \<Rightarrow> (case handler request w of (r, w') \<Rightarrow> (json_reply (serialize_raft_response enc r), w')))"

definition serialize_unit :: "unit \<Rightarrow> json" where
  "serialize_unit u = JNull"

definition serve_raft_transport where
  "serve_raft_transport F M P meth body =
     (if meth = ''append_entries'' then serve_handler F (dec_request M) (http_append_entries P) (enc_response M) body
      else if meth = ''vote'' then serve_handler F (dec_request M) (http_vote P) (enc_response M) body
      else if meth = ''full_snapshot''
        then serve_handler F (dec_full_snapshot M) (http_full_snapshot P) (enc_response M) body
      else if meth = ''transfer_leader''
        then serve_handler F (dec_request M) (http_transfer_leader P) serialize_unit body
      else (\<lambda>w. (no_route F, w)))"

section \<open>Client and server together\<close>

lemma response_object:
  "json_object [(''result'', a), (''error'', b)] = JObject [(''error'', b), (''result'', a)]"
  by (simp add: json_object_def)

text \<open>What the client makes of the envelope the server sent.\<close>

lemma deserialize_response_ok:
  assumes "dec (enc a) = Inr a" "enc a \<noteq> JNull"
  shows "deserialize_raft_response dec (serialize_raft_response enc (response_ok a)) = Inr (response_ok a)"
  using assms
  by (simp add: deserialize_raft_response_def serialize_raft_response_def response_object response_ok_def
      struct_fields_def deserialize_opt_def deserialize_string_def short_array_def)

lemma deserialize_response_null:
  assumes "enc a = JNull"
  shows "deserialize_raft_response dec (serialize_raft_response enc (response_ok a))
    = Inr \<lparr>rh_result = None, rh_error = None\<rparr>"
  using assms
  by (simp add: deserialize_raft_response_def serialize_raft_response_def response_object response_ok_def
      struct_fields_def deserialize_opt_def deserialize_string_def short_array_def)

lemma deserialize_response_err:
  "deserialize_raft_response dec (serialize_raft_response enc (response_err e)) = Inr (response_err e)"
  by (simp add: deserialize_raft_response_def serialize_raft_response_def response_object response_err_def
      struct_fields_def deserialize_opt_def deserialize_string_def short_array_def)

lemma into_result_simps [simp]:
  "into_result (response_ok a) = Inr a" "into_result (response_err e) = Inl e"
  "into_result \<lparr>rh_result = None, rh_error = None\<rparr> = Inl ''raft peer returned empty response''"
  by (simp_all add: into_result_def response_ok_def response_err_def)

text \<open>The messages decode to what was encoded, and a response is never \<open>null\<close>: it is a structure.\<close>

definition message_codec_ok :: "('l, 'm, 'v, 'q, 'r) message_codec \<Rightarrow> bool" where
  "message_codec_ok M =
     ((\<forall>q. dec_request M (enc_request M q) = Inr q)
      \<and> (\<forall>r. dec_response M (enc_response M r) = Inr r \<and> enc_response M r \<noteq> JNull)
      \<and> (\<forall>f. dec_full_snapshot M (enc_full_snapshot M f) = Inr f))"

text \<open>The network delivers what is posted to the address to the transport of the peer there.\<close>

definition delivers ::
  "'w raft_http \<Rightarrow> web_framework \<Rightarrow> ('l, 'm, 'v, 'q, 'r) message_codec \<Rightarrow> ('l, 'm, 'v, 'q, 'r, 'w) raft_peer \<Rightarrow>
   string \<Rightarrow> bool" where
  "delivers X F M P addr =
     (\<forall>meth body w. rt_post X (raft_url addr meth) body w =
        (case serve_raft_transport F M P meth body w of (reply, w') \<Rightarrow> (Inr reply, w')))"

lemma post_served:
  assumes "\<And>w. rt_post X (raft_url (hc_addr c) meth) body w =
      (case serve_handler F dq (\<lambda>q. raft_reply (op q)) enc body w of (reply, w') \<Rightarrow> (Inr reply, w'))"
    and "dq body = Inr q"
  shows "raft_post X dec c meth body w =
    (case op q w of
       (Inl e, w') \<Rightarrow> (Inl (Network (''raft peer '' @ hc_target c @ '': '' @ e)), w')
     | (Inr a, w') \<Rightarrow>
         (case deserialize_raft_response dec (serialize_raft_response enc (response_ok a)) of
            Inl e \<Rightarrow> (Inl (Network (rt_decode_error X e)), w')
          | Inr r \<Rightarrow> (map_err (\<lambda>m. Network (''raft peer '' @ hc_target c @ '': '' @ m)) (into_result r), w')))"
proof -
  obtain r w' where op: "op q w = (r, w')" by (cases "op q w")
  show ?thesis
    by (cases r) (simp_all add: raft_post_def assms serve_handler_def raft_reply_def op json_reply_def is_success_def
        deserialize_response_err)
qed

text \<open>The outcome of a request as its sender sees it.\<close>

definition peer_outcome ::
  "http_raft_client \<Rightarrow> (string + 'a) \<times> 'w \<Rightarrow> (raft_rpc_error + 'a) \<times> 'w" where
  "peer_outcome c out = (case out of (r, w') \<Rightarrow> (map_err (\<lambda>e. Network (''raft peer '' @ hc_target c @ '': '' @ e)) r, w'))"

lemma post_roundtrip:
  assumes "\<And>w. rt_post X (raft_url (hc_addr c) meth) body w =
      (case serve_handler F dq (\<lambda>q. raft_reply (op q)) enc body w of (reply, w') \<Rightarrow> (Inr reply, w'))"
    and "dq body = Inr q"
    and "\<And>a. deserialize_raft_response dec (serialize_raft_response enc (response_ok a)) = Inr (response_ok a)"
  shows "raft_post X dec c meth body w = peer_outcome c (op q w)"
proof -
  obtain r w' where op: "op q w = (r, w')" by (cases "op q w")
  have "raft_post X dec c meth body w =
    (case op q w of
       (Inl e, w') \<Rightarrow> (Inl (Network (''raft peer '' @ hc_target c @ '': '' @ e)), w')
     | (Inr a, w') \<Rightarrow>
         (case deserialize_raft_response dec (serialize_raft_response enc (response_ok a)) of
            Inl e \<Rightarrow> (Inl (Network (rt_decode_error X e)), w')
          | Inr r \<Rightarrow> (map_err (\<lambda>m. Network (''raft peer '' @ hc_target c @ '': '' @ m)) (into_result r), w')))"
    by (rule post_served [where F = F and dq = dq]) (fact assms)+
  then show ?thesis by (cases r) (simp_all add: op assms(3) peer_outcome_def)
qed


text \<open>An instance: text messages, an echoing peer at the address \<open>a\<close>.\<close>

definition sample_enc_id :: "unit log_id option \<Rightarrow> json" where
  "sample_enc_id l = (case l of None \<Rightarrow> JNull | Some i \<Rightarrow> JNumber (PosInt (lid_index i)))"

definition sample_dec_id :: "json \<Rightarrow> unit log_id option" where
  "sample_dec_id v = (case v of JNumber (PosInt i) \<Rightarrow> Some \<lparr>lid_leader = (), lid_index = i\<rparr> | _ \<Rightarrow> None)"

definition sample_messages :: "(unit, unit, unit, string, string) message_codec" where
  "sample_messages =
     \<lparr>enc_request = JString, dec_request = deserialize_string, enc_response = JString,
      dec_response = deserialize_string,
      enc_full_snapshot = (\<lambda>f. JArray [sample_enc_id (meta_last_log_id (fs_meta f)),
        sample_enc_id (sm_log_id (meta_last_membership (fs_meta f))), JString (meta_snapshot_id (fs_meta f)),
        JString (fs_data f)]),
      dec_full_snapshot = (\<lambda>v. case v of
          JArray [a, b, JString i, JString d] \<Rightarrow>
            Inr \<lparr>fs_vote = (), fs_meta = \<lparr>meta_last_log_id = sample_dec_id a,
              meta_last_membership = \<lparr>sm_log_id = sample_dec_id b, sm_membership = ()\<rparr>, meta_snapshot_id = i\<rparr>, fs_data = d\<rparr>
        | _ \<Rightarrow> Inl (DeInvalidType v ''struct FullSnapshotHttpRequest''))\<rparr>"

definition sample_peer :: "(unit, unit, unit, string, string, string list) raft_peer" where
  "sample_peer =
     \<lparr>rp_append_entries = (\<lambda>q w. (Inr q, w @ [q])), rp_vote = (\<lambda>q w. (Inl ''no'', w @ [q])),
      rp_install_full_snapshot = (\<lambda>_ s w. (Inr (snap_data s), w @ [snap_data s])),
      rp_handle_transfer_leader = (\<lambda>q w. (Inr (), w @ [q]))\<rparr>"

definition sample_web :: web_framework where
  "sample_web =
     \<lparr>no_route = \<lparr>reply_status = 404, reply_status_text = ''404 Not Found'', reply_body = Inl ''empty''\<rparr>,
      reject_body = (\<lambda>_. \<lparr>reply_status = 422, reply_status_text = ''422'', reply_body = Inl ''rejected''\<rparr>)\<rparr>"

definition sample_raft_http :: "string list raft_http" where
  "sample_raft_http =
     \<lparr>rt_post = (\<lambda>url body w.
        if take 14 url = ''http://a/raft/''
        then (case serve_raft_transport sample_web sample_messages sample_peer (drop 14 url) body w of
                (reply, w') \<Rightarrow> (Inr reply, w'))
        else (Inl ''no such host'', w)),
      rt_decode_error = (\<lambda>_. ''error decoding response body'')\<rparr>"

lemma sample_ids [simp]: "sample_dec_id (sample_enc_id l) = l"
  by (cases l) (simp_all add: sample_dec_id_def sample_enc_id_def)

lemma sample_messages_ok: "message_codec_ok sample_messages"
  by (simp add: message_codec_ok_def sample_messages_def deserialize_string_def)

lemma sample_delivers: "delivers sample_raft_http sample_web sample_messages sample_peer ''a''"
  by (simp add: delivers_def sample_raft_http_def raft_url_def starts_with_def trim_end_matches_def)


text \<open>
  The unit response of a leadership transfer is the exception: it serialises to \<open>null\<close>, which the
  client reads as an absent result. The sender sees an error although the peer accepted the transfer.
\<close>

theorem transfer_leader_reply_lost:
  assumes "message_codec_ok M" "delivers X F M P (hc_addr c)" "rp_handle_transfer_leader P q w = (Inr (), w')"
  shows "http_client_transfer_leader X M c q w
    = (Inl (Network (''raft peer '' @ hc_target c @ '': raft peer returned empty response'')), w')"
proof -
  have codec: "dec_request M (enc_request M q) = Inr q" using assms(1) by (simp add: message_codec_ok_def)
  have null: "deserialize_raft_response deserialize_unit (serialize_raft_response serialize_unit (response_ok ()))
      = Inr \<lparr>rh_result = None, rh_error = None\<rparr>"
    by (rule deserialize_response_null) (simp add: serialize_unit_def)
  have "raft_post X deserialize_unit c ''transfer_leader'' (enc_request M q) w =
    (case rp_handle_transfer_leader P q w of
       (Inl e, w') \<Rightarrow> (Inl (Network (''raft peer '' @ hc_target c @ '': '' @ e)), w')
     | (Inr a, w') \<Rightarrow>
         (case deserialize_raft_response deserialize_unit (serialize_raft_response serialize_unit (response_ok a)) of
            Inl e \<Rightarrow> (Inl (Network (rt_decode_error X e)), w')
          | Inr r \<Rightarrow> (map_err (\<lambda>m. Network (''raft peer '' @ hc_target c @ '': '' @ m)) (into_result r), w')))"
    by (rule post_served [where F = F and dq = "dec_request M"])
      (simp_all add: assms(2) [unfolded delivers_def, rule_format] serve_raft_transport_def
        http_transfer_leader_def [abs_def] codec)
  then show ?thesis by (simp add: http_client_transfer_leader_def assms(3) null)
qed

text \<open>Of a registered peer the in-process network finds the last registration, and only that.\<close>

lemma target_raft_registered:
  "target_raft t (network_register i p peers) = (if t = i then Inr p else target_raft t peers)"
  "target_raft t network_new = Inl (Unreachable (''missing raft peer '' @ t))"
  by (simp_all add: target_raft_def network_register_def network_new_def btree_simps)

end
