(* ===== verification/Raft_Node.thy ===== *)
theory Raft_Node
  imports Raft_Transport Consensus_Local
begin

text \<open>
  \<open>RaftConsensus\<close> of \<open>src/raft_consensus.rs\<close>: its configuration and construction, membership changes,
  leadership transfer, commits and reads, as an instance of the consensus interface. \<open>openraft\<close> is the
  argument \<open>R\<close>: what its handle reports and does on an outside state \<open>'w\<close>, which also holds the store
  and the clock.
\<close>

section \<open>What openraft provides\<close>

datatype server_state = Learner | Follower | Candidate | Leader | Shutdown

record raft_membership =
  voter_ids :: "string list"
  nodes :: "(string, raft_node) btree"

record 'l raft_metrics =
  mt_state :: server_state
  mt_current_leader :: "string option"
  mt_membership_log_id :: "'l log_id option"
  mt_membership :: raft_membership
  mt_replication :: "(string, 'l log_id option) btree option"

datatype change_members =
    AddVoters "(string, raft_node) btree"
  | AddNodes "(string, raft_node) btree"
  | RemoveVoters "string list"
  | RemoveNodes "string list"
  | Batch "change_members list"

datatype raft_write_error = ForwardToLeader | OtherWriteError string

record openraft_settings =
  cluster_name :: string
  heartbeat_interval :: u64
  election_timeout_min :: u64
  election_timeout_max :: u64
  snapshot_never :: bool
  max_in_snapshot_log_to_keep :: u64

datatype connect_error = ConnectTimedOut | ConnectFailed string

record ('l, 'm, 'v, 'w) openraft =
  or_metrics :: "'w \<Rightarrow> 'l raft_metrics"
  or_store :: "'w \<Rightarrow> ('l, 'm, 'v) raft_store"
  or_client_write :: "raft_command \<Rightarrow> ('w, raft_write_error, raft_command_response) call"
  or_change_membership :: "change_members \<Rightarrow> bool \<Rightarrow> ('w, raft_write_error, unit) call"
  or_ensure_linearizable :: "('w, string, unit) call"
  or_transfer_leader :: "string \<Rightarrow> ('w, string, unit) call"
  or_trigger_snapshot :: "('w, string, unit) call"
  or_is_initialized :: "('w, string, bool) call"
  or_initialize :: "(string, raft_node) btree \<Rightarrow> ('w, string, unit) call"
  or_shutdown :: "('w, string, unit) call"
  or_validate :: "openraft_settings \<Rightarrow> string + openraft_settings"
  or_new :: "string \<Rightarrow> openraft_settings \<Rightarrow> ('l, 'm, 'v) raft_store \<Rightarrow> ('w, string, unit) call"
  or_metrics_changed :: "('w, string, unit) call"
  or_connect :: "string \<Rightarrow> ('w, connect_error, unit) call"
  or_now :: "'w \<Rightarrow> nat"
  or_sleep :: "duration \<Rightarrow> 'w \<Rightarrow> 'w"

definition raft_err :: "string \<Rightarrow> consensus_error" where
  "raft_err err = Raft err"

fun map_client_write_error :: "raft_write_error \<Rightarrow> consensus_error" where
  "map_client_write_error ForwardToLeader = NotLeader"
| "map_client_write_error (OtherWriteError e) = Raft e"

section \<open>Configuration\<close>

record raft_consensus_config =
  cf_server_id :: string
  cf_advertised_addr :: string
  cf_storage_dir :: path
  cf_bootstrap :: bool
  cf_snapshot_interval :: duration
  cf_heartbeat_interval :: duration
  cf_election_timeout_min :: duration
  cf_election_timeout_max :: duration
  cf_snapshot_threshold :: u64
  cf_trailing_logs :: u64

definition default_raft_config :: raft_consensus_config where
  "default_raft_config =
     \<lparr>cf_server_id = '''', cf_advertised_addr = '''', cf_storage_dir = [''.''], cf_bootstrap = False,
      cf_snapshot_interval = from_secs 120, cf_heartbeat_interval = from_millis 50,
      cf_election_timeout_min = from_millis 150, cf_election_timeout_max = from_millis 300,
      cf_snapshot_threshold = 8192, cf_trailing_logs = 10240\<rparr>"

definition millis :: "duration \<Rightarrow> u64" where
  "millis d = (let ms = d div 1000000 in if ms \<le> unat u64_max then of_nat ms else u64_max)"

definition openraft_config ::
  "('l, 'm, 'v, 'w) openraft \<Rightarrow> raft_consensus_config \<Rightarrow> consensus_error + openraft_settings" where
  "openraft_config R cf =
     map_err raft_err (or_validate R
       \<lparr>cluster_name = ''op-conductor'',
        heartbeat_interval = millis (cf_heartbeat_interval cf),
        election_timeout_min = millis (cf_election_timeout_min cf),
        election_timeout_max = millis (cf_election_timeout_max cf),
        snapshot_never = True,
        max_in_snapshot_log_to_keep = cf_trailing_logs cf\<rparr>)"

section \<open>The default target of a transfer\<close>

text \<open>The loop over the servers with the pick and its progress so far.\<close>

fun pick_target ::
  "string \<Rightarrow> (string, u64 option) btree \<Rightarrow> server_info list \<Rightarrow> server_info option \<Rightarrow> u64 \<Rightarrow> server_info option" where
  "pick_target local_id matched_indexes [] pick current = pick"
| "pick_target local_id matched_indexes (server # rest) pick current =
     (if si_id server = local_id \<or> si_suffrage server \<noteq> Voter
      then pick_target local_id matched_indexes rest pick current
      else
        (case bt_get matched_indexes (si_id server) of
           None \<Rightarrow> pick_target local_id matched_indexes rest pick current
         | Some matched_index \<Rightarrow>
             (let next_index = unwrap_or (map_option (\<lambda>i. saturating_add i 1) matched_index) 0 in
              if next_index > current
              then pick_target local_id matched_indexes rest (Some server) next_index
              else pick_target local_id matched_indexes rest pick current)))"

definition default_transfer_target ::
  "cluster_membership \<Rightarrow> string \<Rightarrow> (string, u64 option) btree \<Rightarrow> consensus_error + server_info" where
  "default_transfer_target membership local_id matched_indexes =
     ok_or (pick_target local_id matched_indexes (servers membership) None 0) (Raft ''cannot find peer'')"

section \<open>The node\<close>

record 'w raft_consensus =
  rc_id :: string
  rc_addr :: string
  rc_bootstrapped :: bool
  rc_snapshot_task :: bool
  rc_world :: 'w

definition in_raft :: "('w, 'e, 'a) call \<Rightarrow> ('w raft_consensus, 'e, 'a) call" where
  "in_raft m c = (case m (rc_world c) of (r, w) \<Rightarrow> (r, c\<lparr>rc_world := w\<rparr>))"

definition raft_leader :: "('l, 'm, 'v, 'w) openraft \<Rightarrow> 'w raft_consensus \<Rightarrow> bool" where
  "raft_leader R c = (mt_state (or_metrics R (rc_world c)) = Leader)"

definition membership_snapshot :: "('l, 'm, 'v, 'w) openraft \<Rightarrow> 'w raft_consensus \<Rightarrow> cluster_membership" where
  "membership_snapshot R c =
     (let metrics = or_metrics R (rc_world c);
          voters = set (voter_ids (mt_membership metrics))
      in \<lparr>servers = sort_key si_id
            (map (\<lambda>(i, node). \<lparr>si_id = i, si_addr = node_addr node,
                    si_suffrage = (if i \<in> voters then Voter else Nonvoter)\<rparr>) (nodes (mt_membership metrics))),
          version = unwrap_or (map_option lid_index (mt_membership_log_id metrics)) 0\<rparr>)"

definition raft_check_version ::
  "('l, 'm, 'v, 'w) openraft \<Rightarrow> u64 \<Rightarrow> ('w raft_consensus, consensus_error, unit) call" where
  "raft_check_version R expected c =
     (if expected = 0 then (Inr (), c)
      else
        (let actual = version (membership_snapshot R c) in
         if actual \<noteq> expected then (Inl (VersionMismatch expected actual), c) else (Inr (), c)))"

definition raft_check_leader :: "('l, 'm, 'v, 'w) openraft \<Rightarrow> ('w raft_consensus, consensus_error, unit) call" where
  "raft_check_leader R c = (if raft_leader R c then (Inr (), c) else (Inl NotLeader, c))"

definition connect_error_text :: "string \<Rightarrow> connect_error \<Rightarrow> consensus_error" where
  "connect_error_text addr e =
     (case e of
        ConnectTimedOut \<Rightarrow> Raft (''connection test to '' @ addr @ '' timed out'')
      | ConnectFailed err \<Rightarrow> Raft (''connection test to '' @ addr @ '' failed: '' @ err))"

definition check_member_addr_open ::
  "('l, 'm, 'v, 'w) openraft \<Rightarrow> string \<Rightarrow> ('w raft_consensus, consensus_error, unit) call" where
  "check_member_addr_open R addr = call_err (connect_error_text addr) (in_raft (or_connect R addr))"

definition raft_change_membership ::
  "('l, 'm, 'v, 'w) openraft \<Rightarrow> change_members \<Rightarrow> bool \<Rightarrow> ('w raft_consensus, consensus_error, unit) call" where
  "raft_change_membership R change retain =
     call_err map_client_write_error (in_raft (or_change_membership R change retain))"

definition raft_leader_with_id :: "('l, 'm, 'v, 'w) openraft \<Rightarrow> 'w raft_consensus \<Rightarrow> server_info" where
  "raft_leader_with_id R c =
     (let metrics = or_metrics R (rc_world c) in
      case mt_current_leader metrics of
        None \<Rightarrow> \<lparr>si_id = '''', si_addr = '''', si_suffrage = Voter\<rparr>
      | Some i \<Rightarrow>
          \<lparr>si_id = i, si_addr = unwrap_or (map_option node_addr (bt_get (nodes (mt_membership metrics)) i)) '''',
           si_suffrage = Voter\<rparr>)"

section \<open>Membership changes\<close>

definition raft_add_voter ::
  "('l, 'm, 'v, 'w) openraft \<Rightarrow> string \<Rightarrow> string \<Rightarrow> u64 \<Rightarrow> ('w raft_consensus, consensus_error, unit) call" where
  "raft_add_voter R i addr ver =
     try_call (raft_check_leader R) (\<lambda>_.
     try_call (check_member_addr_open R addr) (\<lambda>_.
     try_call (raft_check_version R ver) (\<lambda>_.
       raft_change_membership R (AddVoters [(i, \<lparr>node_addr = addr\<rparr>)]) True)))"

definition raft_add_non_voter ::
  "('l, 'm, 'v, 'w) openraft \<Rightarrow> string \<Rightarrow> string \<Rightarrow> u64 \<Rightarrow> ('w raft_consensus, consensus_error, unit) call" where
  "raft_add_non_voter R i addr ver =
     try_call (raft_check_leader R) (\<lambda>_.
     try_call (check_member_addr_open R addr) (\<lambda>_.
     try_call (raft_check_version R ver) (\<lambda>_.
       raft_change_membership R (AddNodes [(i, \<lparr>node_addr = addr\<rparr>)]) True)))"

definition raft_demote_voter ::
  "('l, 'm, 'v, 'w) openraft \<Rightarrow> string \<Rightarrow> u64 \<Rightarrow> ('w raft_consensus, consensus_error, unit) call" where
  "raft_demote_voter R i ver =
     try_call (raft_check_leader R) (\<lambda>_.
     try_call (raft_check_version R ver) (\<lambda>_.
       raft_change_membership R (RemoveVoters [i]) True))"

definition removal_change :: "string \<Rightarrow> cluster_membership \<Rightarrow> change_members" where
  "removal_change i membership =
     (case map_option si_suffrage (find (\<lambda>server. si_id server = i) (servers membership)) of
        Some Nonvoter \<Rightarrow> RemoveNodes [i]
      | _ \<Rightarrow> Batch [RemoveVoters [i], RemoveNodes [i]])"

definition raft_remove_server ::
  "('l, 'm, 'v, 'w) openraft \<Rightarrow> string \<Rightarrow> u64 \<Rightarrow> ('w raft_consensus, consensus_error, unit) call" where
  "raft_remove_server R i ver =
     try_call (raft_check_leader R) (\<lambda>_.
     try_call (raft_check_version R ver) (\<lambda>_ c.
       raft_change_membership R (removal_change i (membership_snapshot R c)) False c))"

definition raft_membership_call ::
  "('l, 'm, 'v, 'w) openraft \<Rightarrow> ('w raft_consensus, consensus_error, cluster_membership) call" where
  "raft_membership_call R c = (Inr (membership_snapshot R c), c)"

section \<open>Transfers, commits and reads\<close>

definition raft_transfer_leader_to ::
  "('l, 'm, 'v, 'w) openraft \<Rightarrow> string \<Rightarrow> string \<Rightarrow> ('w raft_consensus, consensus_error, unit) call" where
  "raft_transfer_leader_to R i addr c =
     (case find (\<lambda>server. si_id server = i) (servers (membership_snapshot R c)) of
        None \<Rightarrow> (Inl (ServerNotFound i), c)
      | Some target \<Rightarrow>
          if si_addr target \<noteq> addr then (Inl (ServerAddrMismatch i addr (si_addr target)), c)
          else call_err raft_err (in_raft (or_transfer_leader R i)) c)"

definition matched_indexes :: "('l, 'm, 'v, 'w) openraft \<Rightarrow> 'w raft_consensus \<Rightarrow> (string, u64 option) btree" where
  "matched_indexes R c =
     fold (\<lambda>(i, l). bt_insert i (map_option lid_index l))
       (unwrap_or (mt_replication (or_metrics R (rc_world c))) []) []"

definition raft_transfer_leader ::
  "('l, 'm, 'v, 'w) openraft \<Rightarrow> ('w raft_consensus, consensus_error, unit) call" where
  "raft_transfer_leader R c =
     (if \<not> raft_leader R c then (Inr (), c)
      else
        (case default_transfer_target (membership_snapshot R c) (rc_id c) (matched_indexes R c) of
           Inl e \<Rightarrow> (Inl e, c)
         | Inr target \<Rightarrow> raft_transfer_leader_to R (si_id target) (si_addr target) c))"

definition raft_commit_unsafe_payload ::
  "lib \<Rightarrow> ('l, 'm, 'v, 'w) openraft \<Rightarrow> payload_envelope \<Rightarrow> ('w raft_consensus, consensus_error, unit) call" where
  "raft_commit_unsafe_payload L R payload c =
     (case block_number L payload of
        Inl err \<Rightarrow> (Inl (InvalidPayload (show_type_error err)), c)
      | Inr _ \<Rightarrow>
     (case block_hash L payload of
        Inl err \<Rightarrow> (Inl (InvalidPayload (show_type_error err)), c)
      | Inr _ \<Rightarrow>
          (case call_err map_client_write_error (in_raft (or_client_write R (CommitUnsafePayload payload))) c of
             (r, c') \<Rightarrow> (map_ok (\<lambda>_. ()) r, c'))))"

definition raft_latest_unsafe_payload ::
  "('l, 'm, 'v, 'w) openraft \<Rightarrow> ('w raft_consensus, consensus_error, payload_envelope option) call" where
  "raft_latest_unsafe_payload R c =
     try_call
       (if raft_leader R c then call_err raft_err (in_raft (or_ensure_linearizable R)) else call_ok ())
       (\<lambda>_ c'. (Inr (latest_payload (or_store R (rc_world c'))), c')) c"

definition raft_shutdown :: "('l, 'm, 'v, 'w) openraft \<Rightarrow> ('w raft_consensus, consensus_error, unit) call" where
  "raft_shutdown R c = call_err raft_err (in_raft (or_shutdown R)) (c\<lparr>rc_snapshot_task := False\<rparr>)"

definition raft_consensus_ops ::
  "lib \<Rightarrow> ('l, 'm, 'v, 'w) openraft \<Rightarrow> ('w raft_consensus) consensus" where
  "raft_consensus_ops L R =
     \<lparr>cs_addr = rc_addr,
      cs_server_id = rc_id,
      cs_leader = raft_leader R,
      cs_set_leader_for_tests = (\<lambda>_ c. c),
      cs_leader_with_id = raft_leader_with_id R,
      cs_add_voter = raft_add_voter R,
      cs_add_non_voter = raft_add_non_voter R,
      cs_demote_voter = raft_demote_voter R,
      cs_remove_server = raft_remove_server R,
      cs_membership = raft_membership_call R,
      cs_transfer_leader = raft_transfer_leader R,
      cs_transfer_leader_to = raft_transfer_leader_to R,
      cs_commit_unsafe_payload = raft_commit_unsafe_payload L R,
      cs_latest_unsafe_payload = raft_latest_unsafe_payload R,
      cs_shutdown = raft_shutdown R\<rparr>"

section \<open>Construction and waiting\<close>

definition raft_initialize ::
  "('l, 'm, 'v, 'w) openraft \<Rightarrow> (string \<times> string) list \<Rightarrow> ('w raft_consensus, consensus_error, unit) call" where
  "raft_initialize R members =
     call_err raft_err (in_raft (or_initialize R (fold (\<lambda>(i, addr). bt_insert i \<lparr>node_addr = addr\<rparr>) members [])))"

definition new_with_network ::
  "('l, 'm, 'v, 'w) openraft \<Rightarrow> string \<Rightarrow> string \<Rightarrow> ('l, 'm, 'v) raft_store \<Rightarrow> openraft_settings \<Rightarrow> 'w \<Rightarrow>
   (consensus_error + 'w raft_consensus) \<times> 'w" where
  "new_with_network R i addr store config w =
     (case call_err raft_err (or_new R i config store) w of
        (Inl e, w') \<Rightarrow> (Inl e, w')
      | (Inr _, w') \<Rightarrow>
          (Inr \<lparr>rc_id = i, rc_addr = addr, rc_bootstrapped = False, rc_snapshot_task = False, rc_world = w'\<rparr>, w'))"

text \<open>
  The constructor for nodes of one process: the defaults of \<open>openraft\<close>, an empty store in memory, and
  its handle entered among the peers.
\<close>

definition new_in_memory ::
  "('l, 'm, 'v, 'w) openraft \<Rightarrow> 'm \<Rightarrow> openraft_settings \<Rightarrow> 'p \<Rightarrow> string \<Rightarrow> string \<Rightarrow>
   ('p in_memory_network \<times> 'w, consensus_error, 'w raft_consensus) call" where
  "new_in_memory R m0 default_settings raft i addr nw =
     (case nw of (network, w) \<Rightarrow>
        (case map_err raft_err (or_validate R default_settings) of
           Inl e \<Rightarrow> (Inl e, network, w)
         | Inr config \<Rightarrow>
             (case new_with_network R i addr (raft_store_new m0) config w of
                (Inl e, w') \<Rightarrow> (Inl e, network, w')
              | (Inr c, w') \<Rightarrow> (Inr c, network_register i raft network, w'))))"

definition start_snapshot_loop :: "duration \<Rightarrow> u64 \<Rightarrow> 'w raft_consensus \<Rightarrow> 'w raft_consensus" where
  "start_snapshot_loop interval threshold c =
     (if interval = 0 \<or> threshold = 0 then c else c\<lparr>rc_snapshot_task := True\<rparr>)"

text \<open>One round of the snapshot task: whether it goes on.\<close>

definition snapshot_round :: "('l, 'm, 'v, 'w) openraft \<Rightarrow> duration \<Rightarrow> u64 \<Rightarrow> 'w \<Rightarrow> bool \<times> 'w" where
  "snapshot_round R interval threshold w =
     (let w1 = or_sleep R interval w in
      if should_snapshot threshold (or_store R w1)
      then (case or_trigger_snapshot R w1 of (r, w2) \<Rightarrow> (is_ok r, w2))
      else (True, w1))"

text \<open>
  Opening the store touches the file system, the rest the outside state; the bootstrapping part
  runs on the new node.
\<close>

definition bootstrap_node ::
  "('l, 'm, 'v, 'w) openraft \<Rightarrow> raft_consensus_config \<Rightarrow> ('w raft_consensus, consensus_error, unit) call" where
  "bootstrap_node R cf =
     (if \<not> cf_bootstrap cf then call_ok ()
      else
        try_call (call_err raft_err (in_raft (or_is_initialized R))) (\<lambda>initialized.
          if initialized then call_ok ()
          else
            try_call (raft_initialize R [(cf_server_id cf, cf_advertised_addr cf)]) (\<lambda>_ c.
              (Inr (), c\<lparr>rc_bootstrapped := True\<rparr>))))"

definition new_http ::
  "('l, 'm, 'v) raft_codec \<Rightarrow> 'm \<Rightarrow> ('l, 'm, 'v, 'w) openraft \<Rightarrow> raft_consensus_config \<Rightarrow>
   ('w \<times> fsys, consensus_error, 'w raft_consensus) call" where
  "new_http K m0 R cf wfs =
     (case wfs of (w, fs) \<Rightarrow>
        if cf_server_id cf = [] then (Inl (Raft ''missing raft server id''), wfs)
        else if cf_advertised_addr cf = [] then (Inl (Raft ''missing raft advertised address''), wfs)
        else
          (case raft_store_open K m0 (cf_storage_dir cf @ [cf_server_id cf, ''raft-store.json'']) fs of
             (Inl err, fs') \<Rightarrow> (Inl (Raft (io_msg err)), w, fs')
           | (Inr store, fs') \<Rightarrow>
          (case openraft_config R cf of
             Inl e \<Rightarrow> (Inl e, w, fs')
           | Inr config \<Rightarrow>
          (case new_with_network R (cf_server_id cf) (cf_advertised_addr cf) store config w of
             (Inl e, w') \<Rightarrow> (Inl e, w', fs')
           | (Inr c, _) \<Rightarrow>
          (case bootstrap_node R cf c of
             (Inl e, c') \<Rightarrow> (Inl e, rc_world c', fs')
           | (Inr _, c') \<Rightarrow>
               (let c'' = start_snapshot_loop (cf_snapshot_interval cf) (cf_snapshot_threshold cf) c' in
                (Inr c'', rc_world c'', fs')))))))"

text \<open>The waiting loops; \<open>None\<close> is waiting for ever.\<close>

partial_function (option) wait_for_leader_until ::
  "('l, 'm, 'v, 'w) openraft \<Rightarrow> nat \<Rightarrow> 'w raft_consensus \<Rightarrow> ((consensus_error + server_info) \<times> 'w raft_consensus) option" where
  "wait_for_leader_until R deadline c =
     (let info = raft_leader_with_id R c in
      if si_id info \<noteq> [] then Some (Inr info, c)
      else if or_now R (rc_world c) \<ge> deadline then Some (Inl (Raft ''timed out waiting for leader''), c)
      else wait_for_leader_until R deadline (c\<lparr>rc_world := or_sleep R (from_millis 20) (rc_world c)\<rparr>))"

definition wait_for_leader ::
  "('l, 'm, 'v, 'w) openraft \<Rightarrow> duration \<Rightarrow> 'w raft_consensus \<Rightarrow> ((consensus_error + server_info) \<times> 'w raft_consensus) option" where
  "wait_for_leader R timeout c = wait_for_leader_until R (or_now R (rc_world c) + timeout) c"

partial_function (option) wait_for_leader_status_change ::
  "('l, 'm, 'v, 'w) openraft \<Rightarrow> bool \<Rightarrow> 'w raft_consensus \<Rightarrow> ((consensus_error + bool) \<times> 'w raft_consensus) option" where
  "wait_for_leader_status_change R prev c =
     (case in_raft (or_metrics_changed R) c of
        (Inl err, c') \<Rightarrow> Some (Inl (Raft (''raft metrics watch closed: '' @ err)), c')
      | (Inr _, c') \<Rightarrow>
          (let leader = raft_leader R c' in
           if leader \<noteq> prev then Some (Inr leader, c') else wait_for_leader_status_change R prev c'))"

end
