(* ===== verification/Raft_Node_Props.thy ===== *)
theory Raft_Node_Props
  imports Raft_Node
begin

text \<open>
  What \<open>RaftConsensus\<close> promises: the default transfer target is the voter that replicated most,
  membership is reported as a sorted map, changes are guarded by leadership and version, only
  payloads every replica can apply are written, and waiting for a leader ends at its deadline.
\<close>

section \<open>The transfer target\<close>

definition eligible :: "string \<Rightarrow> (string, u64 option) btree \<Rightarrow> server_info \<Rightarrow> bool" where
  "eligible local_id matched s =
     (si_id s \<noteq> local_id \<and> si_suffrage s = Voter \<and> (\<exists>i. bt_get matched (si_id s) = Some (Some i)))"

text \<open>The entries replicated to a server, counted as the code does.\<close>

definition progress :: "(string, u64 option) btree \<Rightarrow> server_info \<Rightarrow> u64" where
  "progress matched s =
     (case bt_get matched (si_id s) of Some (Some i) \<Rightarrow> saturating_add i 1 | _ \<Rightarrow> 0)"

lemma saturating_add_pos: "0 < saturating_add i 1"
proof (cases "unat i + 1 < 2 ^ 64")
  case True
  then have "unat (i + 1) = unat i + 1" using unat_add_lem [of i 1] by simp
  with True show ?thesis by (simp add: saturating_add_def word_less_nat_alt)
next
  case False
  then show ?thesis by (simp add: saturating_add_def u64_max_def word_gt_0)
qed

lemma eligible_progress: "eligible l m s \<Longrightarrow> 0 < progress m s"
  by (auto simp: eligible_def progress_def saturating_add_pos)

text \<open>The loop as a search for the first server of greatest progress.\<close>

lemma pick_target_step:
  "pick_target l m (s # rest) pick current =
     (if eligible l m s \<and> current < progress m s
      then pick_target l m rest (Some s) (progress m s) else pick_target l m rest pick current)"
  by (auto simp: eligible_def progress_def split: option.splits)


lemma pick_target_none:
  "\<forall>s \<in> set ss. eligible l m s \<longrightarrow> progress m s \<le> current \<Longrightarrow> pick_target l m ss pick current = pick"
  by (induction ss) (auto simp: pick_target_step simp del: pick_target.simps(2))

text \<open>The first of the eligible servers with the greatest progress.\<close>

definition best_target ::
  "string \<Rightarrow> (string, u64 option) btree \<Rightarrow> server_info list \<Rightarrow> server_info \<Rightarrow> bool" where
  "best_target l m ss t =
     (eligible l m t
      \<and> (\<exists>pre post. ss = pre @ t # post
           \<and> (\<forall>s \<in> set pre. eligible l m s \<longrightarrow> progress m s < progress m t)
           \<and> (\<forall>s \<in> set post. eligible l m s \<longrightarrow> progress m s \<le> progress m t)))"

lemma best_target_Cons:
  "best_target l m ss t \<Longrightarrow> (eligible l m s \<longrightarrow> progress m s < progress m t) \<Longrightarrow> best_target l m (s # ss) t"
  unfolding best_target_def by (metis append_Cons set_ConsD)

lemma pick_target_best:
  "\<exists>s \<in> set ss. eligible l m s \<and> current < progress m s \<Longrightarrow>
   \<exists>t. pick_target l m ss pick current = Some t \<and> current < progress m t \<and> best_target l m ss t"
proof (induction ss arbitrary: pick current)
  case Nil
  then show ?case by simp
next
  case (Cons s ss)
  show ?case
  proof (cases "eligible l m s \<and> current < progress m s")
    case better: True
    then have step: "pick_target l m (s # ss) pick current = pick_target l m ss (Some s) (progress m s)"
      by (simp add: pick_target_step del: pick_target.simps)
    show ?thesis
    proof (cases "\<exists>s' \<in> set ss. eligible l m s' \<and> progress m s < progress m s'")
      case True
      from Cons.IH [OF this, of "Some s"] obtain t where
        t: "pick_target l m ss (Some s) (progress m s) = Some t" "progress m s < progress m t" "best_target l m ss t"
        by blast
      then have "best_target l m (s # ss) t" by (simp add: best_target_Cons)
      with t step better show ?thesis by auto
    next
      case False
      then have rest: "\<forall>s' \<in> set ss. eligible l m s' \<longrightarrow> progress m s' \<le> progress m s" by (auto simp: not_less)
      then have "pick_target l m ss (Some s) (progress m s) = Some s" by (rule pick_target_none)
      moreover have "best_target l m (s # ss) s"
        unfolding best_target_def using better rest by (intro conjI exI [of _ "[]"] exI [of _ ss]) auto
      ultimately show ?thesis using step better by auto
    qed
  next
    case False
    then have "pick_target l m (s # ss) pick current = pick_target l m ss pick current"
      by (auto simp: pick_target_step simp del: pick_target.simps)
    moreover have "\<exists>s' \<in> set ss. eligible l m s' \<and> current < progress m s'" using False Cons.prems by auto
    from Cons.IH [OF this, of pick] obtain t where
      "pick_target l m ss pick current = Some t" "current < progress m t" "best_target l m ss t" by blast
    moreover from this False have "best_target l m (s # ss) t" by (auto intro!: best_target_Cons)
    ultimately show ?thesis by auto
  qed
qed

text \<open>
  C26. The default target of a leadership transfer is the first of the other voters to which most
  of the log is known to be replicated, and the transfer fails exactly when no other voter is known
  to hold any entry.
\<close>

theorem transfer_target_most_replicated:
  "case default_transfer_target ms l m of
     Inr t \<Rightarrow> best_target l m (servers ms) t
   | Inl e \<Rightarrow> e = Raft ''cannot find peer'' \<and> filter (eligible l m) (servers ms) = []"
proof (cases "\<exists>s \<in> set (servers ms). eligible l m s")
  case True
  then have "\<exists>s \<in> set (servers ms). eligible l m s \<and> 0 < progress m s" using eligible_progress by blast
  from pick_target_best [OF this, of None] show ?thesis by (auto simp: default_transfer_target_def)
next
  case False
  then have "pick_target l m (servers ms) None 0 = None" by (intro pick_target_none) simp
  with False show ?thesis by (simp add: default_transfer_target_def filter_empty_conv)
qed

section \<open>Membership\<close>

text \<open>
  Membership is reported as a map: one entry per node of the configuration, sorted by
  identity without repetition, a voter exactly when its identity is among the voters, under the
  index of the entry that set the configuration.
\<close>

theorem membership_snapshot_map:
  assumes "bt_wf (nodes (mt_membership (or_metrics R (rc_world c))))"
  shows "sorted_wrt (<) (map si_id (servers (membership_snapshot R c)))
    \<and> (\<forall>s. s \<in> set (servers (membership_snapshot R c)) \<longleftrightarrow>
          map_option node_addr (bt_get (nodes (mt_membership (or_metrics R (rc_world c)))) (si_id s)) = Some (si_addr s)
          \<and> si_suffrage s = (if si_id s \<in> set (voter_ids (mt_membership (or_metrics R (rc_world c)))) then Voter else Nonvoter))"
proof -
  let ?ns = "nodes (mt_membership (or_metrics R (rc_world c)))"
  let ?vs = "set (voter_ids (mt_membership (or_metrics R (rc_world c))))"
  let ?f = "\<lambda>(i, node). \<lparr>si_id = i, si_addr = node_addr node, si_suffrage = (if i \<in> ?vs then Voter else Nonvoter)\<rparr>"
  have ids: "map si_id (map ?f ?ns) = map fst ?ns" by (simp add: case_prod_beta)
  have sorted: "sorted_wrt (<) (map fst ?ns)" using assms by (simp add: bt_wf_def)
  then have "sort_key si_id (map ?f ?ns) = map ?f ?ns"
    by (intro sort_key_id_if_sorted) (simp only: ids strict_sorted_iff)
  then have srv: "servers (membership_snapshot R c) = map ?f ?ns" by (simp add: membership_snapshot_def Let_def)
  have mem: "s \<in> set (map ?f ?ns) \<longleftrightarrow> map_option node_addr (bt_get ?ns (si_id s)) = Some (si_addr s)
      \<and> si_suffrage s = (if si_id s \<in> ?vs then Voter else Nonvoter)" (is "?l \<longleftrightarrow> ?r") for s
  proof
    assume ?l
    then obtain i node where "(i, node) \<in> set ?ns" "s = ?f (i, node)" by auto
    with bt_wf_distinct [OF assms] show ?r by (simp add: bt_get_def)
  next
    assume r: ?r
    then obtain node where "bt_get ?ns (si_id s) = Some node" "node_addr node = si_addr s" by auto
    then have "(si_id s, node) \<in> set ?ns" "s = ?f (si_id s, node)"
      using r by (simp_all add: bt_get_def map_of_SomeD)
    then show ?l unfolding set_map by (rule rev_image_eqI)
  qed
  show ?thesis unfolding srv ids by (intro conjI allI sorted mem)
qed

text \<open>An instance: a leader \<open>a\<close> with the voter \<open>b\<close> and the learner \<open>c\<close>; the outside state is a clock.\<close>

definition sample_metrics :: "nat raft_metrics" where
  "sample_metrics =
     \<lparr>mt_state = Leader, mt_current_leader = Some ''a'',
      mt_membership_log_id = Some \<lparr>lid_leader = 1, lid_index = 4\<rparr>,
      mt_membership = \<lparr>voter_ids = [''a'', ''b''],
        nodes = [(''a'', \<lparr>node_addr = ''h1''\<rparr>), (''b'', \<lparr>node_addr = ''h2''\<rparr>), (''c'', \<lparr>node_addr = ''h3''\<rparr>)]\<rparr>,
      mt_replication = Some [(''b'', Some \<lparr>lid_leader = 1, lid_index = 7\<rparr>)]\<rparr>"

definition sample_openraft :: "(nat, unit, unit, nat) openraft" where
  "sample_openraft =
     \<lparr>or_metrics = (\<lambda>w. if w < 100 then sample_metrics\<lparr>mt_current_leader := None\<rparr> else sample_metrics),
      or_store = (\<lambda>_. raft_store_new ()),
      or_client_write = (\<lambda>_ w. (Inr default_response, w + 1)),
      or_change_membership = (\<lambda>_ _ w. (Inr (), w + 1)),
      or_ensure_linearizable = call_ok (), or_transfer_leader = (\<lambda>_. call_ok ()),
      or_trigger_snapshot = call_ok (), or_is_initialized = call_ok True, or_initialize = (\<lambda>_. call_ok ()),
      or_shutdown = call_ok (), or_validate = Inr, or_new = (\<lambda>_ _ _. call_ok ()),
      or_metrics_changed = call_ok (), or_connect = (\<lambda>_. call_ok ()), or_now = (\<lambda>w. w),
      or_sleep = (\<lambda>d w. w + d)\<rparr>"

definition sample_raft_node :: "nat raft_consensus" where
  "sample_raft_node =
     \<lparr>rc_id = ''a'', rc_addr = ''h1'', rc_bootstrapped = False, rc_snapshot_task = False, rc_world = 0\<rparr>"

theorem membership_snapshot_map_witness:
  "sorted_wrt (<) (map si_id (servers (membership_snapshot sample_openraft sample_raft_node)))
   \<and> \<lparr>si_id = ''c'', si_addr = ''h3'', si_suffrage = Nonvoter\<rparr>
       \<in> set (servers (membership_snapshot sample_openraft sample_raft_node))"
proof -
  have ns: "nodes (mt_membership (or_metrics sample_openraft (rc_world sample_raft_node)))
      = [(''a'', \<lparr>node_addr = ''h1''\<rparr>), (''b'', \<lparr>node_addr = ''h2''\<rparr>), (''c'', \<lparr>node_addr = ''h3''\<rparr>)]"
    "voter_ids (mt_membership (or_metrics sample_openraft (rc_world sample_raft_node))) = [''a'', ''b'']"
    by (simp_all add: sample_openraft_def sample_raft_node_def sample_metrics_def)
  have "bt_wf (nodes (mt_membership (or_metrics sample_openraft (rc_world sample_raft_node))))"
    by (simp add: ns bt_wf_def)
  from membership_snapshot_map [OF this] show ?thesis by (simp add: ns bt_get_def)
qed

section \<open>Membership changes\<close>

datatype member_change =
    AddVoter string string
  | AddNonVoter string string
  | DemoteVoter string
  | RemoveServer string

fun raft_change ::
  "('l, 'm, 'v, 'w) openraft \<Rightarrow> member_change \<Rightarrow> u64 \<Rightarrow> ('w raft_consensus, consensus_error, unit) call" where
  "raft_change R (AddVoter i addr) v = raft_add_voter R i addr v"
| "raft_change R (AddNonVoter i addr) v = raft_add_non_voter R i addr v"
| "raft_change R (DemoteVoter i) v = raft_demote_voter R i v"
| "raft_change R (RemoveServer i) v = raft_remove_server R i v"

text \<open>The connection a new member has to accept first.\<close>

fun change_probe :: "('l, 'm, 'v, 'w) openraft \<Rightarrow> member_change \<Rightarrow> ('w raft_consensus, consensus_error, unit) call" where
  "change_probe R (AddVoter i addr) = check_member_addr_open R addr"
| "change_probe R (AddNonVoter i addr) = check_member_addr_open R addr"
| "change_probe R _ = call_ok ()"

text \<open>What is asked of \<open>openraft\<close>, given the current membership.\<close>

fun requested_change :: "member_change \<Rightarrow> cluster_membership \<Rightarrow> change_members \<times> bool" where
  "requested_change (AddVoter i addr) ms = (AddVoters [(i, \<lparr>node_addr = addr\<rparr>)], True)"
| "requested_change (AddNonVoter i addr) ms = (AddNodes [(i, \<lparr>node_addr = addr\<rparr>)], True)"
| "requested_change (DemoteVoter i) ms = (RemoveVoters [i], True)"
| "requested_change (RemoveServer i) ms =
     ((if \<exists>s \<in> set (servers ms). si_id s = i \<and> si_suffrage s = Nonvoter then RemoveNodes [i]
       else Batch [RemoveVoters [i], RemoveNodes [i]]), False)"

lemma find_distinct:
  assumes "distinct (map si_id ss)"
  shows "map_option si_suffrage (find (\<lambda>s. si_id s = i) ss) = Some Nonvoter
    \<longleftrightarrow> (\<exists>s \<in> set ss. si_id s = i \<and> si_suffrage s = Nonvoter)"
  using assms by (induction ss) (auto simp: image_iff)

lemma distinct_servers:
  assumes "distinct (map fst (nodes (mt_membership (or_metrics R (rc_world c)))))"
  shows "distinct (map si_id (servers (membership_snapshot R c)))"
proof -
  let ?f = "\<lambda>(i, node). \<lparr>si_id = i, si_addr = node_addr node,
     si_suffrage = (if i \<in> set (voter_ids (mt_membership (or_metrics R (rc_world c)))) then Voter else Nonvoter)\<rparr>"
  let ?ss = "map ?f (nodes (mt_membership (or_metrics R (rc_world c))))"
  have "map si_id ?ss = map fst (nodes (mt_membership (or_metrics R (rc_world c))))" by (simp add: case_prod_beta)
  then have "distinct (map si_id ?ss)" using assms by (simp only:)
  then have "distinct (map si_id (sort_key si_id ?ss))" by (simp only: distinct_map distinct_sort set_sort)
  then show ?thesis by (simp only: membership_snapshot_def Let_def cluster_membership.simps)
qed

lemma removal_change_distinct:
  assumes "distinct (map si_id (servers ms))"
  shows "removal_change i ms = fst (requested_change (RemoveServer i) ms)"
proof -
  have sel: "(case x of Some Nonvoter \<Rightarrow> a | _ \<Rightarrow> b) = (if x = Some Nonvoter then a else b)"
    for x :: "suffrage option" and a b :: change_members by (auto split: option.split suffrage.split)
  show ?thesis by (simp only: removal_change_def sel find_distinct [OF assms] requested_change.simps fst_conv)
qed

lemma version_checked:
  "try_call (raft_check_version R v) (\<lambda>_. m) c =
     (if v \<noteq> 0 \<and> version (membership_snapshot R c) \<noteq> v
      then (Inl (VersionMismatch v (version (membership_snapshot R c))), c) else m c)"
  by (simp add: try_call_def raft_check_version_def Let_def)

lemma leader_checked:
  "try_call (raft_check_leader R) (\<lambda>_. m) c = (if raft_leader R c then m c else (Inl NotLeader, c))"
  by (simp add: try_call_def raft_check_leader_def)

text \<open>
  C27. A membership change is refused by a node that is not the leader without any effect, and by
  the leader when the caller's configuration version is stale; otherwise the node asks for exactly
  the change the caller meant, once a new member accepted a connection, and a server is removed
  from the voters unless it is none.
\<close>

theorem membership_changes_guarded:
  assumes "\<And>w. distinct (map fst (nodes (mt_membership (or_metrics R w))))"
  shows "(\<not> raft_leader R c \<longrightarrow> raft_change R ch v c = (Inl NotLeader, c))
    \<and> (raft_leader R c \<longrightarrow> (\<forall>e c'. change_probe R ch c = (Inl e, c') \<longrightarrow> raft_change R ch v c = (Inl e, c')))
    \<and> (raft_leader R c \<longrightarrow> (\<forall>c'. change_probe R ch c = (Inr (), c') \<longrightarrow>
         raft_change R ch v c =
           (if v \<noteq> 0 \<and> version (membership_snapshot R c') \<noteq> v
            then (Inl (VersionMismatch v (version (membership_snapshot R c'))), c')
            else case_prod (raft_change_membership R) (requested_change ch (membership_snapshot R c')) c')))"
proof -
  have "distinct (map si_id (servers (membership_snapshot R c)))" for c
    by (rule distinct_servers [OF assms])
  then show ?thesis
    by (cases ch) (simp_all add: raft_add_voter_def raft_add_non_voter_def raft_demote_voter_def raft_remove_server_def
        leader_checked version_checked call_ok_def removal_change_distinct)
qed

lemma sample_metrics_state [simp]: "mt_state (or_metrics sample_openraft w) = Leader"
  by (simp add: sample_openraft_def sample_metrics_def)

lemma sample_nodes_distinct: "distinct (map fst (nodes (mt_membership (or_metrics sample_openraft w))))"
  by (simp add: sample_openraft_def sample_metrics_def)

lemma sample_version: "version (membership_snapshot sample_openraft c) = 4"
  by (simp add: membership_snapshot_def Let_def sample_openraft_def sample_metrics_def)

theorem membership_changes_guarded_witness:
  "raft_change sample_openraft (AddVoter ''d'' ''h4'') 3 sample_raft_node = (Inl (VersionMismatch 3 4), sample_raft_node)"
proof -
  have "change_probe sample_openraft (AddVoter ''d'' ''h4'') sample_raft_node = (Inr (), sample_raft_node)"
    by (simp add: check_member_addr_open_def call_err_def in_raft_def sample_openraft_def call_ok_def)
  then show ?thesis
    using membership_changes_guarded [OF sample_nodes_distinct, of sample_raft_node "AddVoter ''d'' ''h4''" 3]
    by (simp add: raft_leader_def sample_version)
qed

section \<open>Commits\<close>

lemma apply_valid_ok: "payload_valid L p \<Longrightarrow> is_ok (fst (apply_entry L (commit_entry l p) m))"
  by (auto simp: payload_valid_def is_ok_iff apply_entry_def commit_entry_def Let_def)

text \<open>
  C25. A commit sends its payload to the log exactly when every replica can apply it: a payload
  without a readable number and hash is refused with no effect, and the entry of an accepted one
  is applied without error in every state of every replica.
\<close>

theorem committed_entries_apply:
  "if payload_valid L p
   then raft_commit_unsafe_payload L R p c
          = (case or_client_write R (CommitUnsafePayload p) (rc_world c) of
               (r, w) \<Rightarrow> (map_err map_client_write_error (map_ok (\<lambda>_. ()) r), c\<lparr>rc_world := w\<rparr>))
        \<and> (\<forall>l m. is_ok (fst (apply_entry L (commit_entry l p) m)))
   else \<exists>msg. raft_commit_unsafe_payload L R p c = (Inl (InvalidPayload msg), c)"
proof (cases "payload_valid L p")
  case True
  then obtain n h where "block_number L p = Inr n" "block_hash L p = Inr h"
    by (auto simp: payload_valid_def is_ok_iff)
  moreover obtain r w where "or_client_write R (CommitUnsafePayload p) (rc_world c) = (r, w)"
    by (cases "or_client_write R (CommitUnsafePayload p) (rc_world c)")
  moreover have "\<forall>l m. is_ok (fst (apply_entry L (commit_entry l p) m))" using apply_valid_ok [OF True] by blast
  ultimately show ?thesis
    using True
    by (cases r) (simp_all add: raft_commit_unsafe_payload_def call_err_def in_raft_def)
next
  case False
  then show ?thesis
    by (cases "block_number L p"; cases "block_hash L p")
      (auto simp: payload_valid_def raft_commit_unsafe_payload_def)
qed

section \<open>Waiting\<close>

lemma wait_until_returns:
  assumes tick: "\<And>d w. or_now R w + d \<le> or_now R (or_sleep R d w)"
  shows "\<exists>r c'. wait_for_leader_until R deadline c = Some (r, c')
    \<and> (case r of
         Inr info \<Rightarrow> si_id info \<noteq> [] \<and> info = raft_leader_with_id R c'
       | Inl e \<Rightarrow> e = Raft ''timed out waiting for leader'' \<and> deadline \<le> or_now R (rc_world c'))"
proof (induction "deadline - or_now R (rc_world c)" arbitrary: c rule: less_induct)
  case less
  let ?next = "c\<lparr>rc_world := or_sleep R (from_millis 20) (rc_world c)\<rparr>"
  show ?case
  proof (cases "si_id (raft_leader_with_id R c) = [] \<and> or_now R (rc_world c) < deadline")
    case True
    have "or_now R (rc_world c) + from_millis 20 \<le> or_now R (rc_world ?next)" using tick by simp
    moreover have "0 < from_millis 20" by (simp add: from_millis_def)
    ultimately have "deadline - or_now R (rc_world ?next) < deadline - or_now R (rc_world c)" using True by linarith
    from less [OF this] True show ?thesis by (simp add: wait_for_leader_until.simps [of R deadline c] Let_def)
  next
    case False
    then show ?thesis by (auto simp: wait_for_leader_until.simps [of R deadline c] Let_def)
  qed
qed



end
