(* ===== verification/Rpc_Server.thy ===== *)
theory Rpc_Server
  imports Conductor_Sample
begin

text \<open>
  \<open>src/rpc/server.rs\<close>: the JSON-RPC server over the conductor, from the bytes of a request (HTTP body
  or websocket message) to its answer: batches, notifications, parameter checks, dispatch, and the
  proxy to the nodes. The web framework, the clock and the package version are arguments.
\<close>

section \<open>Requests, errors and state\<close>

record server_request =
  rq_jsonrpc :: "string option"
  rq_method :: string
  rq_params :: json

record server_error =
  er_code :: i64
  er_message :: string

record proxy_clients =
  px_execution :: json_rpc_client
  px_node :: json_rpc_client

record 'w rpc_state =
  rs_conductor :: "'w conductor"
  rs_proxy :: "proxy_clients option"

record 'w server_env =
  sv_env :: "'w env"
  sv_http :: "'w http"
  sv_version :: string
  sv_now :: "'w \<Rightarrow> nat"

type_synonym ('w, 'a) server_call = "('w rpc_state, server_error, 'a) call"

text \<open>The state \<open>serve_with_proxy\<close> sets up; the configuration has the URLs of the execution and rollup nodes.\<close>

definition rpc_state_new :: "'w conductor \<Rightarrow> (url \<times> url) option \<Rightarrow> 'w rpc_state" where
  "rpc_state_new c proxy =
     \<lparr>rs_conductor = c,
      rs_proxy = map_option (\<lambda>(execution_rpc, node_rpc).
        \<lparr>px_execution = client_new execution_rpc, px_node = client_new node_rpc\<rparr>) proxy\<rparr>"

definition invalid_request :: "string \<Rightarrow> server_error" where
  "invalid_request message = \<lparr>er_code = - 32600, er_message = message\<rparr>"

definition method_not_found :: server_error where
  "method_not_found = \<lparr>er_code = - 32601, er_message = ''method not found''\<rparr>"

definition parse_error :: "string \<Rightarrow> server_error" where
  "parse_error message = \<lparr>er_code = - 32700, er_message = message\<rparr>"

definition invalid_params :: "string \<Rightarrow> server_error" where
  "invalid_params message = \<lparr>er_code = - 32602, er_message = message\<rparr>"

definition internal :: "string \<Rightarrow> server_error" where
  "internal message = \<lparr>er_code = - 32000, er_message = message\<rparr>"

definition proxy_error :: "rpc_error \<Rightarrow> server_error" where
  "proxy_error e =
     (case e of
        JsonRpc code message _ \<Rightarrow> \<lparr>er_code = code, er_message = message\<rparr>
      | _ \<Rightarrow> internal (show_rpc_error e))"

definition is_proxy_method :: "string \<Rightarrow> bool" where
  "is_proxy_method meth =
     (meth \<in> {''eth_getBlockByNumber'', ''miner_setMaxDASize'', ''optimism_syncStatus'',
        ''optimism_outputAtBlock'', ''optimism_rollupConfig'', ''admin_sequencerActive''})"

definition rpc_modules :: "bool \<Rightarrow> json" where
  "rpc_modules proxy_enabled =
     json_object
       ([(''rpc'', JString ''1.0''), (''health'', JString ''1.0''), (''conductor'', JString ''1.0'')]
        @ (if proxy_enabled
           then [(''eth'', JString ''1.0''), (''miner'', JString ''1.0''), (''optimism'', JString ''1.0''),
                 (''admin'', JString ''1.0'')]
           else []))"

section \<open>Parameters\<close>

fun array_params :: "json \<Rightarrow> server_error + json list" where
  "array_params (JArray items) = Inr items"
| "array_params JNull = Inr []"
| "array_params _ = Inl (invalid_params ''expected params array'')"

definition no_params :: "json \<Rightarrow> server_error + unit" where
  "no_params params =
     and_then (array_params params) (\<lambda>ps. if ps = [] then Inr () else Inl (invalid_params ''expected no params''))"

definition bool_param :: "json \<Rightarrow> server_error + bool" where
  "bool_param params =
     and_then (array_params params) (\<lambda>ps.
       case ps of
         [JBool b] \<Rightarrow> Inr b
       | _ \<Rightarrow> Inl (invalid_params ''expected boolean override flag''))"

definition string_param :: "json \<Rightarrow> string \<Rightarrow> server_error + string" where
  "string_param v name = ok_or (json_as_str v) (invalid_params (''expected string '' @ name))"

definition version_param :: "lib \<Rightarrow> json \<Rightarrow> server_error + u64" where
  "version_param L v = map_err (\<lambda>e. invalid_params (show_type_error e)) (parse_quantity L v)"

definition membership_change_params :: "lib \<Rightarrow> json \<Rightarrow> server_error + string \<times> string \<times> u64" where
  "membership_change_params L params =
     and_then (array_params params) (\<lambda>ps.
       case ps of
         [p0, p1, p2] \<Rightarrow>
           and_then (string_param p0 ''id'') (\<lambda>i.
           and_then (string_param p1 ''addr'') (\<lambda>a.
           and_then (version_param L p2) (\<lambda>v. Inr (i, a, v))))
       | _ \<Rightarrow> Inl (invalid_params ''expected id, addr, version''))"

definition string_string_params :: "json \<Rightarrow> server_error + string \<times> string" where
  "string_string_params params =
     and_then (array_params params) (\<lambda>ps.
       case ps of
         [p0, p1] \<Rightarrow>
           and_then (string_param p0 ''id'') (\<lambda>i.
           and_then (string_param p1 ''addr'') (\<lambda>a. Inr (i, a)))
       | _ \<Rightarrow> Inl (invalid_params ''expected id, addr''))"

definition id_version_params :: "lib \<Rightarrow> json \<Rightarrow> server_error + string \<times> u64" where
  "id_version_params L params =
     and_then (array_params params) (\<lambda>ps.
       case ps of
         [p0, p1] \<Rightarrow>
           and_then (string_param p0 ''id'') (\<lambda>i.
           and_then (version_param L p1) (\<lambda>v. Inr (i, v)))
       | _ \<Rightarrow> Inl (invalid_params ''expected id, version''))"

definition unsafe_payload_param :: "lib \<Rightarrow> json \<Rightarrow> server_error + payload_envelope" where
  "unsafe_payload_param L params =
     and_then (array_params params) (\<lambda>ps.
       case ps of
         [] \<Rightarrow> Inl (invalid_params ''missing payload'')
       | [v] \<Rightarrow>
           (let payload = PayloadEnvelope v in
            and_then (map_err (\<lambda>e. invalid_params (show_type_error e)) (block_number L payload)) (\<lambda>_.
            and_then (map_err (\<lambda>e. invalid_params (show_type_error e)) (block_hash L payload)) (\<lambda>_.
              Inr payload)))
       | _ \<Rightarrow> Inl (invalid_params ''expected single payload''))"

definition canonical_hex_quantity :: "string \<Rightarrow> string \<Rightarrow> server_error + string" where
  "canonical_hex_quantity txt name =
     and_then
       (ok_or (opt_or (strip_prefix txt ''0x'') (strip_prefix txt ''0X''))
         (invalid_params (''expected 0x-prefixed '' @ name)))
       (\<lambda>hex.
         if hex = [] then Inl (invalid_params (''invalid '' @ name @ '' '' @ txt))
         else if length hex > 1 \<and> hd hex = CHR ''0'' then Inl (invalid_params ''hex number with leading zero digits'')
         else if \<not> list_all is_ascii_hexdigit hex then Inl (invalid_params (''invalid '' @ name @ '' '' @ txt))
         else Inr (''0x'' @ to_ascii_lowercase hex))"

definition decode_hex_quantity :: "string \<Rightarrow> server_error + u64" where
  "decode_hex_quantity txt =
     and_then (canonical_hex_quantity txt ''block number'') (\<lambda>canonical.
       map_err (\<lambda>_. invalid_params (''invalid block number '' @ txt)) (from_str_radix 16 (drop 2 canonical)))"

definition block_tags :: "string list" where
  "block_tags = [''earliest'', ''latest'', ''pending'', ''safe'', ''finalized'']"

definition eth_get_block_by_number_proxy_params :: "json \<Rightarrow> server_error + json" where
  "eth_get_block_by_number_proxy_params params =
     and_then (array_params params) (\<lambda>ps.
       case ps of
         [p0, p1] \<Rightarrow>
           and_then
             (case json_as_str p0 of
                None \<Rightarrow> Inl (invalid_params ''expected block number string'')
              | Some txt \<Rightarrow>
                  if txt \<in> set block_tags then Inr (JString txt)
                  else
                    and_then (decode_hex_quantity txt) (\<lambda>block.
                      if unat block > 2 ^ 63 - 1 then Inl (invalid_params (''block number out of range '' @ txt))
                      else Inr (JString (show_hex block))))
             (\<lambda>block.
               and_then (ok_or (json_as_bool p1) (invalid_params ''expected full transaction flag'')) (\<lambda>full_tx.
                 Inr (JArray [block, JBool full_tx])))
       | _ \<Rightarrow> Inl (invalid_params ''expected block number and full transaction flag''))"

definition output_at_block_proxy_params :: "json \<Rightarrow> server_error + json" where
  "output_at_block_proxy_params params =
     and_then (array_params params) (\<lambda>ps.
       case ps of
         [p0] \<Rightarrow>
           and_then (ok_or (json_as_str p0) (invalid_params ''expected hex block number string'')) (\<lambda>txt.
           and_then (decode_hex_quantity txt) (\<lambda>block. Inr (JArray [JString (show_hex block)])))
       | _ \<Rightarrow> Inl (invalid_params ''expected block number''))"

definition miner_set_max_da_size_proxy_params :: "json \<Rightarrow> server_error + json" where
  "miner_set_max_da_size_proxy_params params =
     and_then (array_params params) (\<lambda>ps.
       case ps of
         [p0, p1] \<Rightarrow>
           and_then (ok_or (json_as_str p0) (invalid_params ''expected hex max tx size'')) (\<lambda>max_tx_size.
           and_then (ok_or (json_as_str p1) (invalid_params ''expected hex max block size'')) (\<lambda>max_block_size.
           and_then (canonical_hex_quantity max_tx_size ''max tx size'') (\<lambda>a.
           and_then (canonical_hex_quantity max_block_size ''max block size'') (\<lambda>b.
             Inr (JArray [JString a, JString b])))))
       | _ \<Rightarrow> Inl (invalid_params ''expected max tx size and max block size''))"

section \<open>The proxy\<close>

datatype proxy_target = Execution | Node

definition normalize_proxy_params :: "json \<Rightarrow> json" where
  "normalize_proxy_params params = (if params = JNull then JArray [] else params)"

definition proxy_to_backend ::
  "'w server_env \<Rightarrow> proxy_target \<Rightarrow> string \<Rightarrow> json \<Rightarrow> ('w, json) server_call" where
  "proxy_to_backend V target meth params s =
     (case rs_proxy s of
        None \<Rightarrow> (Inl method_not_found, s)
      | Some proxy \<Rightarrow>
          (let client = (case target of Execution \<Rightarrow> px_execution proxy | Node \<Rightarrow> px_node proxy);
               L = e_lib (sv_env V) in
           case rpc_call L (sv_http V) deserialize_value meth (normalize_proxy_params params)
                  (client, world (rs_conductor s)) of
             (r, client', w') \<Rightarrow>
               (map_err proxy_error r,
                s\<lparr>rs_conductor := (rs_conductor s)\<lparr>world := w'\<rparr>,
                  rs_proxy := Some (case target of
                     Execution \<Rightarrow> proxy\<lparr>px_execution := client'\<rparr> | Node \<Rightarrow> proxy\<lparr>px_node := client'\<rparr>)\<rparr>)))"

definition proxy_to_leader ::
  "'w server_env \<Rightarrow> proxy_target \<Rightarrow> string \<Rightarrow> json \<Rightarrow> ('w, json) server_call" where
  "proxy_to_leader V target meth params =
     try_call (proxy_to_backend V target meth params) (\<lambda>response s.
       if \<not> leader (sv_env V) (rs_conductor s)
       then (Inl (internal ''refusing to proxy request to non-leader sequencer''), s)
       else (Inr response, s))"

section \<open>Dispatch\<close>

text \<open>The \<open>?\<close> on a parameter check, an answer read off the conductor, and an operation of the conductor.\<close>

definition with_params :: "server_error + 'p \<Rightarrow> ('p \<Rightarrow> ('w, 'a) server_call) \<Rightarrow> ('w, 'a) server_call" where
  "with_params p f s = (case p of Inl e \<Rightarrow> (Inl e, s) | Inr a \<Rightarrow> f a s)"

definition answer :: "('w conductor \<Rightarrow> json) \<Rightarrow> ('w, json) server_call" where
  "answer f s = (Inr (f (rs_conductor s)), s)"

definition perform ::
  "'w server_env \<Rightarrow> ('w conductor, conductor_error, 'a) call \<Rightarrow> ('a \<Rightarrow> json) \<Rightarrow> ('w, json) server_call" where
  "perform V m f s =
     (case m (rs_conductor s) of
        (Inl e, c) \<Rightarrow> (Inl (internal (show_conductor_error (e_lib (sv_env V)) e)), s\<lparr>rs_conductor := c\<rparr>)
      | (Inr a, c) \<Rightarrow> (Inr (f a), s\<lparr>rs_conductor := c\<rparr>))"

definition dispatch_method :: "'w server_env \<Rightarrow> string \<Rightarrow> json \<Rightarrow> ('w, json) server_call" where
  "dispatch_method V meth ps =
     (let E = sv_env V; L = e_lib E; null = (\<lambda>_. JNull) in
      if meth = ''rpc_modules'' then
        with_params (no_params ps) (\<lambda>_ s. (Inr (rpc_modules (rs_proxy s \<noteq> None)), s))
      else if meth = ''health_status'' then
        with_params (no_params ps) (\<lambda>_. answer (\<lambda>_. JString (sv_version V)))
      else if meth = ''conductor_leader'' then
        with_params (no_params ps) (\<lambda>_. answer (\<lambda>c. JBool (leader E c)))
      else if meth = ''conductor_leaderWithID'' then
        with_params (no_params ps) (\<lambda>_. answer (\<lambda>c. serialize_server_info (leader_with_id E c)))
      else if meth = ''conductor_leaderOverridden'' then
        with_params (no_params ps) (\<lambda>_. answer (\<lambda>c. JBool (leader_override c)))
      else if meth = ''conductor_overrideLeader'' then
        with_params (bool_param ps) (\<lambda>b. perform V (\<lambda>c. (Inr (), set_leader_override b c)) null)
      else if meth = ''conductor_paused'' then
        with_params (no_params ps) (\<lambda>_. answer (\<lambda>c. JBool (paused c)))
      else if meth = ''conductor_pause'' then
        with_params (no_params ps) (\<lambda>_. perform V pause null)
      else if meth = ''conductor_resume'' then
        with_params (no_params ps) (\<lambda>_. perform V (resume E) null)
      else if meth = ''conductor_stopped'' then
        with_params (no_params ps) (\<lambda>_. answer (\<lambda>c. JBool (stopped c)))
      else if meth = ''conductor_stop'' then
        with_params (no_params ps) (\<lambda>_. perform V (stop E) null)
      else if meth = ''conductor_active'' then
        with_params (no_params ps) (\<lambda>_. answer (\<lambda>c. JBool (active c)))
      else if meth = ''conductor_sequencerHealthy'' then
        with_params (no_params ps) (\<lambda>_. answer (\<lambda>c. JBool (sequencer_healthy c)))
      else if meth = ''conductor_clusterMembership'' then
        with_params (no_params ps) (\<lambda>_. perform V (conductor_membership E) serialize_membership)
      else if meth = ''conductor_transferLeader'' then
        with_params (no_params ps) (\<lambda>_. perform V (transfer_leader E) null)
      else if meth = ''conductor_transferLeaderToServer'' then
        with_params (string_string_params ps) (\<lambda>(i, a). perform V (transfer_leader_to_server E i a) null)
      else if meth = ''conductor_addServerAsVoter'' then
        with_params (membership_change_params L ps) (\<lambda>(i, a, v). perform V (add_server_as_voter E i a v) null)
      else if meth = ''conductor_addServerAsNonvoter'' then
        with_params (membership_change_params L ps) (\<lambda>(i, a, v). perform V (add_server_as_nonvoter E i a v) null)
      else if meth = ''conductor_removeServer'' then
        with_params (id_version_params L ps) (\<lambda>(i, v). perform V (remove_server E i v) null)
      else if meth = ''conductor_demoteVoter'' then
        with_params (id_version_params L ps) (\<lambda>(i, v). perform V (demote_voter E i v) null)
      else if meth = ''conductor_commitUnsafePayload'' then
        with_params (unsafe_payload_param L ps) (\<lambda>p. perform V (commit_unsafe_payload E p) null)
      else if meth = ''eth_getBlockByNumber'' then
        with_params (eth_get_block_by_number_proxy_params ps) (proxy_to_leader V Execution ''eth_getBlockByNumber'')
      else if meth = ''miner_setMaxDASize'' then
        with_params (miner_set_max_da_size_proxy_params ps) (proxy_to_backend V Execution ''miner_setMaxDASize'')
      else if meth = ''optimism_syncStatus'' then
        with_params (no_params ps) (\<lambda>_. proxy_to_leader V Node ''optimism_syncStatus'' (JArray []))
      else if meth = ''optimism_outputAtBlock'' then
        with_params (output_at_block_proxy_params ps) (proxy_to_leader V Node ''optimism_outputAtBlock'')
      else if meth = ''optimism_rollupConfig'' then
        with_params (no_params ps) (\<lambda>_. proxy_to_leader V Node ''optimism_rollupConfig'' (JArray []))
      else if meth = ''admin_sequencerActive'' then
        with_params (no_params ps) (\<lambda>_. proxy_to_leader V Node ''admin_sequencerActive'' (JArray []))
      else call_fail method_not_found)"

definition dispatch :: "'w server_env \<Rightarrow> server_request \<Rightarrow> ('w, json) server_call" where
  "dispatch V request s =
     (if rq_jsonrpc request \<noteq> Some ''2.0'' then (Inl (invalid_request ''jsonrpc must be 2.0''), s)
      else if rs_proxy s = None \<and> is_proxy_method (rq_method request) then (Inl method_not_found, s)
      else dispatch_method V (rq_method request) (rq_params request) s)"

section \<open>Handling a request\<close>

definition serialize_server_error :: "server_error \<Rightarrow> json" where
  "serialize_server_error e =
     json_object
       [(''code'', JNumber (if er_code e \<ge> 0 then PosInt (of_int (er_code e)) else NegInt (er_code e))),
        (''message'', JString (er_message e))]"

definition response_value :: "json option \<Rightarrow> server_error + json \<Rightarrow> json" where
  "response_value i response =
     json_object
       ([(''jsonrpc'', JString ''2.0''), (''id'', unwrap_or i JNull)]
        @ (case response of
             Inr result \<Rightarrow> [(''result'', result)]
           | Inl error \<Rightarrow> [(''error'', serialize_server_error error)]))"

definition deserialize_request :: "json \<Rightarrow> de_error + server_request" where
  "deserialize_request v =
     and_then
       (struct_fields ''struct Request'' [(''jsonrpc'', []), (''method'', []), (''params'', [])]
         (\<lambda>name w.
            if name = ''jsonrpc''
            then (if w = JNull then Inr () else map_ok (\<lambda>_. ()) (ok_or (json_as_str w) (DeInvalidType w ''a string'')))
            else if name = ''method'' then map_ok (\<lambda>_. ()) (ok_or (json_as_str w) (DeInvalidType w ''a string''))
            else Inr ()) v)
       (\<lambda>fs.
         case v of
           JArray vs \<Rightarrow>
             if length vs < 2 then Inl (DeInvalidLength (length vs) ''struct Request with 3 elements'')
             else struct_field fs ''method'' (\<lambda>m.
               Inr \<lparr>rq_jsonrpc = Option.bind (map_of fs ''jsonrpc'') json_as_str,
                    rq_method = unwrap_or (json_as_str m) [],
                    rq_params = unwrap_or (map_of fs ''params'') JNull\<rparr>)
         | _ \<Rightarrow>
             struct_field fs ''method'' (\<lambda>m.
               Inr \<lparr>rq_jsonrpc = Option.bind (map_of fs ''jsonrpc'') json_as_str,
                    rq_method = unwrap_or (json_as_str m) [],
                    rq_params = unwrap_or (map_of fs ''params'') JNull\<rparr>))"

definition is_notification :: "json \<Rightarrow> bool" where
  "is_notification v = (case v of JObject kvs \<Rightarrow> bt_get kvs ''id'' = None | _ \<Rightarrow> False)"

definition handle_request_value ::
  "'w server_env \<Rightarrow> json \<Rightarrow> 'w rpc_state \<Rightarrow> json option \<times> 'w rpc_state" where
  "handle_request_value V v s =
     (let i = json_get v ''id''; L = e_lib (sv_env V) in
      case deserialize_request v of
        Inl err \<Rightarrow>
          (Some (response_value i (Inl (invalid_request (''invalid request: '' @ de_text L err)))), s)
      | Inr request \<Rightarrow>
          (let meth = rq_method request;
               params_size = of_nat (length (json_text L (rq_params request)));
               started = sv_now V (world (rs_conductor s)) in
           case dispatch V request s of
             (response, s') \<Rightarrow>
               if is_notification v
               then (None, s'\<lparr>rs_conductor := on_metrics (record_rpc_server_notification meth) (rs_conductor s')\<rparr>)
               else
                 (let error_code = (case response of Inl e \<Rightarrow> Some (er_code e) | Inr _ \<Rightarrow> None);
                      result_size = (case response of Inl _ \<Rightarrow> None | Inr r \<Rightarrow> Some (of_nat (length (json_text L r))))
                  in (Some (response_value i response),
                      s'\<lparr>rs_conductor := on_metrics
                         (record_rpc_server_request meth params_size
                            (sv_now V (world (rs_conductor s')) - started) error_code result_size)
                         (rs_conductor s')\<rparr>))))"

fun handle_batch :: "'w server_env \<Rightarrow> json list \<Rightarrow> 'w rpc_state \<Rightarrow> json list \<times> 'w rpc_state" where
  "handle_batch V [] s = ([], s)"
| "handle_batch V (v # vs) s =
     (case handle_request_value V v s of
        (r, s1) \<Rightarrow>
          (case handle_batch V vs s1 of
             (rs, s2) \<Rightarrow> ((case r of None \<Rightarrow> rs | Some x \<Rightarrow> x # rs), s2)))"

definition handle_payload :: "'w server_env \<Rightarrow> json \<Rightarrow> 'w rpc_state \<Rightarrow> json option \<times> 'w rpc_state" where
  "handle_payload V payload s =
     (case payload of
        JArray [] \<Rightarrow> (Some (response_value None (Inl (invalid_request ''batch request must not be empty''))), s)
      | JArray requests \<Rightarrow>
          (case handle_batch V requests s of
             (responses, s') \<Rightarrow> (if responses = [] then None else Some (JArray responses), s'))
      | request \<Rightarrow> handle_request_value V request s)"

definition handle_bytes :: "'w server_env \<Rightarrow> string \<Rightarrow> 'w rpc_state \<Rightarrow> json option \<times> 'w rpc_state" where
  "handle_bytes V body s =
     (case json_parse (e_lib (sv_env V)) body of
        Inl err \<Rightarrow> (Some (response_value None (Inl (parse_error (''parse error: '' @ err)))), s)
      | Inr payload \<Rightarrow> handle_payload V payload s)"

text \<open>The HTTP endpoint: a JSON body, or 204 without one; and the health endpoint.\<close>

datatype http_answer = JsonAnswer json | NoContent

definition handle :: "'w server_env \<Rightarrow> string \<Rightarrow> 'w rpc_state \<Rightarrow> http_answer \<times> 'w rpc_state" where
  "handle V body s =
     (case handle_bytes V body s of
        (Some response, s') \<Rightarrow> (JsonAnswer response, s')
      | (None, s') \<Rightarrow> (NoContent, s'))"

definition healthz :: "'w server_env \<Rightarrow> string \<times> string" where
  "healthz V =
     (''application/json'',
      CHR ''{'' # CHR 0x22 # ''version'' @ [CHR 0x22, CHR '':'', CHR 0x22] @ sv_version V @ [CHR 0x22, CHR ''}'', CHR 0x0A])"

text \<open>
  The websocket: the messages received, up to a read error, and for each send whether it succeeds
  (all do when the list has ended). The result is what was sent.
\<close>

datatype ws_message = WsText string | WsBinary string | WsPing string | WsPong string | WsClose "string option"

fun handle_ws ::
  "'w server_env \<Rightarrow> (unit + ws_message) list \<Rightarrow> bool list \<Rightarrow> 'w rpc_state \<Rightarrow> ws_message list \<times> 'w rpc_state" where
  "handle_ws V [] oks s = ([], s)"
| "handle_ws V (Inl _ # ms) oks s = ([], s)"
| "handle_ws V (Inr (WsPing b) # ms) oks s =
     (if oks = [] \<or> hd oks
      then (case handle_ws V ms (tl oks) s of (out, s') \<Rightarrow> (WsPong b # out, s'))
      else ([], s))"
| "handle_ws V (Inr (WsPong _) # ms) oks s = handle_ws V ms oks s"
| "handle_ws V (Inr (WsClose frame) # ms) oks s = ((if oks = [] \<or> hd oks then [WsClose frame] else []), s)"
| "handle_ws V (Inr (WsText b) # ms) oks s =
     (case handle_bytes V b s of
        (None, s') \<Rightarrow> handle_ws V ms oks s'
      | (Some response, s') \<Rightarrow>
          if oks = [] \<or> hd oks
          then (case handle_ws V ms (tl oks) s' of
                  (out, s'') \<Rightarrow> (WsText (json_text (e_lib (sv_env V)) response) # out, s''))
          else ([], s'))"
| "handle_ws V (Inr (WsBinary b) # ms) oks s =
     (case handle_bytes V b s of
        (None, s') \<Rightarrow> handle_ws V ms oks s'
      | (Some response, s') \<Rightarrow>
          if oks = [] \<or> hd oks
          then (case handle_ws V ms (tl oks) s' of
                  (out, s'') \<Rightarrow> (WsText (json_text (e_lib (sv_env V)) response) # out, s''))
          else ([], s'))"

end
