(* ===== verification/Rpc_Server_Props.thy ===== *)
theory Rpc_Server_Props
  imports Rpc_Server
begin

text \<open>
  What the JSON-RPC server promises: each request gets one answer under its identity and a
  notification none, a refused request has no effect, and only the leader's nodes are proxied.
\<close>

section \<open>Answers\<close>

text \<open>A request is answered unless it is a notification that could be read.\<close>

definition answered :: "json \<Rightarrow> bool" where
  "answered v = (\<not> (is_notification v \<and> is_ok (deserialize_request v)))"

text \<open>Version 2.0, and either a result or an error.\<close>

definition response_wf :: "json \<Rightarrow> bool" where
  "response_wf r =
     (json_get r ''jsonrpc'' = Some (JString ''2.0'')
      \<and> (json_get r ''result'' = None) \<noteq> (json_get r ''error'' = None))"

text \<open>The responses answer the requests that want an answer, in their order, each under its identity.\<close>

definition responses_match :: "json list \<Rightarrow> json list \<Rightarrow> bool" where
  "responses_match vs rs =
     (map (\<lambda>r. json_get r ''id'') rs = map (\<lambda>v. Some (unwrap_or (json_get v ''id'') JNull)) (filter answered vs)
      \<and> list_all response_wf rs)"

lemma response_value_id: "json_get (response_value i r) ''id'' = Some (unwrap_or i JNull)"
  by (cases r) (simp_all add: response_value_def)

lemma response_value_wf: "response_wf (response_value i r)"
  by (cases r) (simp_all add: response_value_def response_wf_def)

lemma handle_request_cases:
  "(\<not> answered v \<and> fst (handle_request_value V v s) = None)
   \<or> (answered v \<and> (\<exists>r. fst (handle_request_value V v s) = Some (response_value (json_get v ''id'') r)))"
proof (cases "deserialize_request v")
  case (Inl e)
  then show ?thesis by (auto simp: handle_request_value_def answered_def Let_def)
next
  case (Inr rq)
  obtain r s' where "dispatch V rq s = (r, s')" by (cases "dispatch V rq s")
  with Inr show ?thesis
    by (cases "is_notification v") (auto simp: handle_request_value_def answered_def Let_def)
qed

lemma responses_match_Nil [simp]: "responses_match [] []"
  by (simp add: responses_match_def)

lemma responses_match_Cons:
  "responses_match vs rs \<Longrightarrow>
   responses_match (v # vs) (case fst (handle_request_value V v s) of None \<Rightarrow> rs | Some r \<Rightarrow> r # rs)"
  using handle_request_cases [of v V s]
  by (auto simp: responses_match_def response_value_id response_value_wf)

lemma handle_batch_match: "responses_match vs (fst (handle_batch V vs s))"
proof (induction vs arbitrary: s)
  case (Cons v vs)
  obtain r s1 where one: "handle_request_value V v s = (r, s1)" by (cases "handle_request_value V v s")
  obtain rs s2 where rest: "handle_batch V vs s1 = (rs, s2)" by (cases "handle_batch V vs s1")
  have "responses_match vs rs" using Cons.IH [of s1] rest by simp
  from responses_match_Cons [OF this, of v V s] one rest show ?case by simp
qed simp

text \<open>
  C30. Every request is answered once: the answer to a batch holds, in order, one response for each
  request that is not a readable notification, under the identity of that request and with either
  a result or an error; a batch of notifications is not answered at all, and a single request
  follows the same rule.
\<close>

theorem every_request_answered_once:
  "(\<exists>rs. fst (handle_payload V (JArray (v # vs)) s) = (if rs = [] then None else Some (JArray rs))
      \<and> responses_match (v # vs) rs)
   \<and> ((\<nexists>ws. v = JArray ws) \<longrightarrow>
      (\<exists>rs. fst (handle_payload V v s) = (case rs of [] \<Rightarrow> None | r # _ \<Rightarrow> Some r) \<and> responses_match [v] rs))"
proof (intro conjI impI)
  obtain rs s' where run: "handle_batch V (v # vs) s = (rs, s')" by (cases "handle_batch V (v # vs) s")
  then have "responses_match (v # vs) rs" using handle_batch_match [of "v # vs" V s] by (simp only: fst_conv)
  moreover have "fst (handle_payload V (JArray (v # vs)) s) = (if rs = [] then None else Some (JArray rs))"
    using run by (simp add: handle_payload_def del: handle_batch.simps)
  ultimately show "\<exists>rs. fst (handle_payload V (JArray (v # vs)) s) = (if rs = [] then None else Some (JArray rs))
      \<and> responses_match (v # vs) rs" by blast
next
  assume "\<nexists>ws. v = JArray ws"
  then have single: "handle_payload V v s = handle_request_value V v s"
    by (cases v) (simp_all add: handle_payload_def)
  show "\<exists>rs. fst (handle_payload V v s) = (case rs of [] \<Rightarrow> None | r # _ \<Rightarrow> Some r) \<and> responses_match [v] rs"
  proof (cases "fst (handle_request_value V v s)")
    case None
    with responses_match_Cons [OF responses_match_Nil, of v V s] show ?thesis
      unfolding single by (intro exI [of _ "[]"]) simp
  next
    case (Some r)
    with responses_match_Cons [OF responses_match_Nil, of v V s] show ?thesis
      unfolding single by (intro exI [of _ "[r]"]) simp
  qed
qed

section \<open>Refused requests\<close>

definition param_errors :: "server_error + 'a \<Rightarrow> bool" where
  "param_errors p = (\<forall>e. p = Inl e \<longrightarrow> er_code e = - 32602)"

lemma param_errors_simps [simp]:
  "param_errors (Inr a)" "param_errors (Inl (invalid_params m))" "param_errors (ok_or x (invalid_params m))"
  "param_errors (map_err (\<lambda>e. invalid_params (f e)) r)"
  by (auto simp: param_errors_def invalid_params_def result_simps) (cases r; auto)

lemma param_errors_and_then:
  "param_errors p \<Longrightarrow> (\<And>a. param_errors (f a)) \<Longrightarrow> param_errors (and_then p f)"
  by (auto simp: param_errors_def result_simps)

lemma param_errors_array [simp]: "param_errors (array_params ps)"
  by (cases ps) simp_all

lemma param_errors_string [simp]: "param_errors (string_param v n)" "param_errors (version_param L v)"
  by (simp_all add: string_param_def version_param_def)

lemma param_errors_canonical [simp]: "param_errors (canonical_hex_quantity t n)"
  by (auto simp: canonical_hex_quantity_def intro!: param_errors_and_then)

lemma param_errors_decode [simp]: "param_errors (decode_hex_quantity t)"
  by (auto simp: decode_hex_quantity_def intro!: param_errors_and_then)

lemma param_errors_no_params: "param_errors (no_params ps)"
  by (auto simp: no_params_def intro!: param_errors_and_then)

lemma param_errors_bool: "param_errors (bool_param ps)"
  unfolding bool_param_def
  by (rule param_errors_and_then) (simp_all split: list.split json.split)

lemma param_errors_membership: "param_errors (membership_change_params L ps)"
  unfolding membership_change_params_def
  by (rule param_errors_and_then) (auto intro!: param_errors_and_then split: list.split)

lemma param_errors_string_string: "param_errors (string_string_params ps)"
  unfolding string_string_params_def
  by (rule param_errors_and_then) (auto intro!: param_errors_and_then split: list.split)

lemma param_errors_id_version: "param_errors (id_version_params L ps)"
  unfolding id_version_params_def
  by (rule param_errors_and_then) (auto intro!: param_errors_and_then split: list.split)

lemma param_errors_payload: "param_errors (unsafe_payload_param L ps)"
  unfolding unsafe_payload_param_def Let_def
  by (rule param_errors_and_then) (auto intro!: param_errors_and_then split: list.split)

lemmas param_errors_checks = param_errors_no_params param_errors_bool param_errors_membership
  param_errors_string_string param_errors_id_version param_errors_payload

text \<open>An error either leaves the state alone, or is the one of an operation that was carried out.\<close>

definition clean :: "('w, 'a) server_call \<Rightarrow> bool" where
  "clean m = (\<forall>s e s'. m s = (Inl e, s') \<longrightarrow>
     er_code e = - 32000 \<or> s' = s \<and> er_code e \<in> {- 32600, - 32601, - 32602})"

lemma clean_rules:
  "param_errors p \<Longrightarrow> (\<And>a. clean (f a)) \<Longrightarrow> clean (with_params p f)"
  "clean (answer g)" "clean (perform V m h)" "clean (call_fail method_not_found)"
  "clean (\<lambda>s. (Inr (k s), s))"
  by (auto simp: clean_def with_params_def param_errors_def answer_def perform_def internal_def call_fail_def
      method_not_found_def split: sum.splits prod.splits)

lemma clean_if: "(b \<Longrightarrow> clean m) \<Longrightarrow> clean m' \<Longrightarrow> clean (if b then m else m')"
  by simp

lemma clean_prod: "(\<And>x y. clean (f x y)) \<Longrightarrow> clean (case_prod f p)"
  by (cases p) simp

lemma clean_dispatch_method:
  assumes "\<not> is_proxy_method meth"
  shows "clean (dispatch_method V meth ps)"
  unfolding dispatch_method_def Let_def
  by (intro clean_if clean_rules clean_prod param_errors_checks; use assms in \<open>simp add: is_proxy_method_def\<close>)

text \<open>
  C31. A refused request has no effect: when a method of the conductor answers with any error other
  than the failure of the operation itself, the error is one of the three of the protocol
  (invalid request, unknown method, invalid parameters) and the state is unchanged.
\<close>

theorem refused_requests_have_no_effect:
  assumes "\<not> is_proxy_method (rq_method rq)" "dispatch V rq s = (Inl e, s')" "er_code e \<noteq> - 32000"
  shows "s' = s \<and> er_code e \<in> {- 32600, - 32601, - 32602}"
  using assms clean_dispatch_method [OF assms(1), of V "rq_params rq"]
  by (auto simp: dispatch_def clean_def invalid_request_def method_not_found_def split: if_splits)

section \<open>The proxy\<close>

lemma proxy_to_backend_proxy: "rs_proxy s \<noteq> None \<Longrightarrow> rs_proxy (snd (proxy_to_backend V t meth ps s)) \<noteq> None"
  by (auto simp: proxy_to_backend_def Let_def split: prod.split)

lemma proxy_to_leader_ok:
  assumes "proxy_to_leader V t meth ps s = (Inr v, s')"
  shows "leader (sv_env V) (rs_conductor s')"
proof -
  obtain r s1 where "proxy_to_backend V t meth ps s = (r, s1)" by (cases "proxy_to_backend V t meth ps s")
  with assms show ?thesis by (cases r) (auto simp: proxy_to_leader_def split: if_splits)
qed

lemma with_params_ok: "with_params p f s = (Inr v, s') \<Longrightarrow> \<exists>a. p = Inr a \<and> f a s = (Inr v, s')"
  by (cases p) (simp_all add: with_params_def)

definition leader_methods :: "string list" where
  "leader_methods =
     [''eth_getBlockByNumber'', ''optimism_syncStatus'', ''optimism_outputAtBlock'', ''optimism_rollupConfig'',
      ''admin_sequencerActive'']"

lemma leader_dispatch:
  "dispatch_method V ''eth_getBlockByNumber'' ps =
     with_params (eth_get_block_by_number_proxy_params ps) (proxy_to_leader V Execution ''eth_getBlockByNumber'')"
  "dispatch_method V ''optimism_syncStatus'' ps =
     with_params (no_params ps) (\<lambda>_. proxy_to_leader V Node ''optimism_syncStatus'' (JArray []))"
  "dispatch_method V ''optimism_outputAtBlock'' ps =
     with_params (output_at_block_proxy_params ps) (proxy_to_leader V Node ''optimism_outputAtBlock'')"
  "dispatch_method V ''optimism_rollupConfig'' ps =
     with_params (no_params ps) (\<lambda>_. proxy_to_leader V Node ''optimism_rollupConfig'' (JArray []))"
  "dispatch_method V ''admin_sequencerActive'' ps =
     with_params (no_params ps) (\<lambda>_. proxy_to_leader V Node ''admin_sequencerActive'' (JArray []))"
  by (simp_all add: dispatch_method_def)

lemma checked_proxy_ok:
  "with_params p (proxy_to_leader V t m) s = (Inr v, s') \<Longrightarrow> leader (sv_env V) (rs_conductor s')"
  "with_params q (\<lambda>_. proxy_to_leader V t m ps) s = (Inr v, s') \<Longrightarrow> leader (sv_env V) (rs_conductor s')"
  by (auto dest!: with_params_ok intro: proxy_to_leader_ok)

lemma leader_dispatch_ok:
  "list_all (\<lambda>meth. dispatch_method V meth ps s = (Inr v, s') \<longrightarrow> leader (sv_env V) (rs_conductor s')) leader_methods"
  unfolding leader_methods_def list.pred_inject leader_dispatch
  by (intro conjI impI; (erule checked_proxy_ok | simp))

text \<open>
  C32. What the server proxies comes from the leader: a method that reads a node's state is answered
  with a result only when proxying is configured and this conductor leads at the time of the
  answer, and without the configuration every proxied method is unknown and no request is sent.
\<close>

theorem proxied_answers_from_leader:
  assumes "rq_method rq \<in> set leader_methods" "dispatch V rq s = (r, s')"
  shows "(rs_proxy s = None \<longrightarrow> \<not> is_ok r \<and> s' = s)
    \<and> (is_ok r \<longrightarrow> leader (sv_env V) (rs_conductor s'))"
proof -
  have proxy: "is_proxy_method (rq_method rq)"
    using assms(1) by (auto simp: leader_methods_def is_proxy_method_def)
  have "leader (sv_env V) (rs_conductor s')" if ok: "is_ok r"
  proof -
    obtain v where v: "r = Inr v" using ok by (auto simp: is_ok_iff)
    with assms(2) have run: "dispatch_method V (rq_method rq) (rq_params rq) s = (Inr v, s')"
      by (auto simp: dispatch_def split: if_splits)
    show ?thesis by (rule leader_dispatch_ok [unfolded list_all_iff, THEN bspec, OF assms(1), THEN mp, OF run])
  qed
  moreover have "s' = s \<and> \<not> is_ok r" if "rs_proxy s = None"
    using that proxy assms(2) by (auto simp: dispatch_def split: if_splits)
  ultimately show ?thesis by blast
qed

section \<open>Instances\<close>

definition sample_server_env :: "sample_world server_env" where
  "sample_server_env =
     \<lparr>sv_env = sample_env, sv_http = (\<lambda>_ _ _ w. (Inl ''unreachable'', w)), sv_version = ''0.1.0'', sv_now = (\<lambda>_. 0)\<rparr>"

definition sample_rpc_state :: "sample_world rpc_state" where
  "sample_rpc_state = rpc_state_new (conductor_new sample_env ''0.1.0'' default_config (sample_world True True)) None"

definition sample_request :: "json option \<Rightarrow> string \<Rightarrow> json" where
  "sample_request i meth =
     JObject ((case i of None \<Rightarrow> [] | Some v \<Rightarrow> [(''id'', v)]) @ [(''jsonrpc'', JString ''2.0''), (''method'', JString meth)])"


lemma sample_requests:
  "deserialize_request (sample_request None ''conductor_stop'')
     = Inr \<lparr>rq_jsonrpc = Some ''2.0'', rq_method = ''conductor_stop'', rq_params = JNull\<rparr>"
  "is_notification (sample_request None ''conductor_stop'')"
  "json_get (sample_request (Some v) ''conductor_leader'') ''id'' = Some v"
  "\<not> is_notification (sample_request (Some v) ''conductor_leader'')"
  by (simp_all add: sample_request_def deserialize_request_def struct_fields_def struct_field_def is_notification_def
      bt_get_def)

theorem every_request_answered_once_witness:
  "\<exists>rs. fst (handle_payload sample_server_env
         (JArray [sample_request (Some (JString ''a'')) ''conductor_leader'', sample_request None ''conductor_stop'', JNull])
         sample_rpc_state) = Some (JArray rs)
     \<and> map (\<lambda>r. json_get r ''id'') rs = [Some (JString ''a''), Some JNull]"
proof -
  let ?a = "sample_request (Some (JString ''a'')) ''conductor_leader''" and ?n = "sample_request None ''conductor_stop''"
  have "answered ?a" "\<not> answered ?n" by (simp_all add: answered_def sample_requests)
  moreover have "answered JNull" by (simp add: answered_def is_notification_def)
  moreover obtain rs where "fst (handle_payload sample_server_env (JArray [?a, ?n, JNull]) sample_rpc_state)
      = (if rs = [] then None else Some (JArray rs))" "responses_match [?a, ?n, JNull] rs"
    using conjunct1 [OF every_request_answered_once [of sample_server_env ?a "[?n, JNull]" sample_rpc_state]] by blast
  ultimately show ?thesis by (auto simp: responses_match_def sample_requests)
qed

theorem refused_requests_have_no_effect_witness:
  "dispatch sample_server_env \<lparr>rq_jsonrpc = Some ''2.0'', rq_method = ''conductor_stop'', rq_params = JArray [JNull]\<rparr>
     sample_rpc_state = (Inl (invalid_params ''expected no params''), sample_rpc_state)"
proof -
  let ?rq = "\<lparr>rq_jsonrpc = Some ''2.0'', rq_method = ''conductor_stop'', rq_params = JArray [JNull]\<rparr>"
  obtain s' where run: "dispatch sample_server_env ?rq sample_rpc_state = (Inl (invalid_params ''expected no params''), s')"
    by (simp add: dispatch_def dispatch_method_def is_proxy_method_def with_params_def no_params_def)
  have "\<not> is_proxy_method (rq_method ?rq)" by (simp add: is_proxy_method_def)
  from refused_requests_have_no_effect [OF this run] run show ?thesis by (simp add: invalid_params_def)
qed

theorem proxied_answers_from_leader_witness:
  "snd (dispatch sample_server_env \<lparr>rq_jsonrpc = Some ''2.0'', rq_method = ''optimism_syncStatus'', rq_params = JNull\<rparr>
     sample_rpc_state) = sample_rpc_state"
proof -
  let ?rq = "\<lparr>rq_jsonrpc = Some ''2.0'', rq_method = ''optimism_syncStatus'', rq_params = JNull\<rparr>"
  have m: "rq_method ?rq \<in> set leader_methods" by (simp add: leader_methods_def)
  obtain r s' where run: "dispatch sample_server_env ?rq sample_rpc_state = (r, s')"
    by (cases "dispatch sample_server_env ?rq sample_rpc_state")
  have "rs_proxy sample_rpc_state = None" by (simp add: sample_rpc_state_def rpc_state_new_def)
  with proxied_answers_from_leader [OF m run] run show ?thesis by simp
qed

text \<open>
  A batch element that is itself an array is read by position as version, method and parameters,
  and carried out, although the protocol asks for an object; its answer has no identity.
\<close>

theorem array_request_is_executed:
  "\<exists>s'. dispatch V \<lparr>rq_jsonrpc = Some ''2.0'', rq_method = ''conductor_pause'', rq_params = JNull\<rparr> s = (Inr JNull, s')
     \<and> paused (rs_conductor s')
     \<and> fst (handle_payload V (JArray [JArray [JString ''2.0'', JString ''conductor_pause'']]) s)
         = Some (JArray [response_value None (Inr JNull)])"
  if "\<not> stopped (rs_conductor s)"
proof -
  let ?rq = "\<lparr>rq_jsonrpc = Some ''2.0'', rq_method = ''conductor_pause'', rq_params = JNull\<rparr>"
  let ?v = "JArray [JString ''2.0'', JString ''conductor_pause'']"
  have run: "dispatch V ?rq s = (Inr JNull, s\<lparr>rs_conductor := (rs_conductor s)\<lparr>paused := True\<rparr>\<rparr>)"
    using that by (simp add: dispatch_def dispatch_method_def is_proxy_method_def with_params_def no_params_def
        perform_def pause_def)
  have "deserialize_request ?v = Inr ?rq"
    by (simp add: deserialize_request_def struct_fields_def struct_field_def)
  with run have "fst (handle_request_value V ?v s) = Some (response_value None (Inr JNull))"
    by (simp add: handle_request_value_def Let_def is_notification_def)
  then have "fst (handle_payload V (JArray [?v]) s) = Some (JArray [response_value None (Inr JNull)])"
    by (cases "handle_request_value V ?v s") (simp add: handle_payload_def)
  with run show ?thesis by simp
qed

end
