(* ===== verification/Rpc_Quantities.thy ===== *)
theory Rpc_Quantities
  imports Rpc_Server
begin

text \<open>
  The hexadecimal quantities the server forwards: what it accepts as a block number it forwards as
  the canonical text of that number.
\<close>

lemma parse_digits_snocD:
  "parse_digits r acc (cs @ [c]) = Inr m \<Longrightarrow>
   \<exists>m' d. parse_digits r acc cs = Inr m' \<and> to_digit r c = Some d \<and> m = m' * r + d"
  by (induction cs arbitrary: acc) (auto split: option.splits if_splits)

lemma parse_digits_mono: "0 < r \<Longrightarrow> parse_digits r acc cs = Inr m \<Longrightarrow> acc \<le> m"
proof (induction cs arbitrary: acc)
  case (Cons c cs)
  then obtain d where "parse_digits r (acc * r + d) cs = Inr m" by (auto split: option.splits if_splits)
  with Cons have "acc * r + d \<le> m" by blast
  moreover have "acc \<le> acc * r" using Cons.prems(1) by simp
  ultimately show ?case by linarith
qed simp

lemma parse_digits_pos:
  assumes "parse_digits 16 0 cs = Inr m" "cs \<noteq> []" "\<forall>c \<in> set cs. \<exists>d < 16. c = digit_char d" "hd cs \<noteq> digit_char 0"
  shows "0 < m"
proof -
  obtain c cs' where cs: "cs = c # cs'" using assms(2) by (cases cs) auto
  then obtain d where d: "c = digit_char d" "d < 16" using assms(3) by auto
  with assms(4) cs have "0 < d" by (cases d) auto
  moreover have "parse_digits 16 d cs' = Inr m" using assms(1) cs d by (auto split: if_splits)
  then have "d \<le> m" by (rule parse_digits_mono [rotated]) simp
  ultimately show ?thesis by simp
qed

text \<open>Digits without a leading zero are the text of the number they denote.\<close>

lemma show_parse_digits:
  "parse_digits 16 0 cs = Inr m \<Longrightarrow> cs \<noteq> [] \<Longrightarrow> \<forall>c \<in> set cs. \<exists>d < 16. c = digit_char d \<Longrightarrow>
   length cs = 1 \<or> hd cs \<noteq> digit_char 0 \<Longrightarrow> show_radix 16 m = cs"
proof (induction cs arbitrary: m rule: rev_induct)
  case (snoc c cs)
  then obtain d where d: "c = digit_char d" "d < 16" by auto
  from parse_digits_snocD [OF snoc.prems(1)] d
  obtain m' where m': "parse_digits 16 0 cs = Inr m'" "m = m' * 16 + d" by auto
  show ?case
  proof (cases "cs = []")
    case True
    with m' d show ?thesis by (subst show_radix.simps) simp
  next
    case False
    with snoc.prems(4) have hd: "hd cs \<noteq> digit_char 0" by simp
    have digits: "\<forall>c \<in> set cs. \<exists>d < 16. c = digit_char d" using snoc.prems(3) by simp
    have "show_radix 16 m' = cs" using snoc.IH [OF m'(1) False digits] hd by simp
    moreover have "0 < m'" using parse_digits_pos [OF m'(1) False digits hd] .
    ultimately show ?thesis using m'(2) d by (subst show_radix.simps) simp
  qed
qed simp

lemma lower_hexdigit_code:
  "48 \<le> char_code c \<Longrightarrow> char_code c \<le> 57 \<Longrightarrow> ascii_lower c = digit_char (char_code c - 48)"
  "65 \<le> char_code c \<Longrightarrow> char_code c \<le> 70 \<Longrightarrow> ascii_lower c = digit_char (char_code c - 55)"
  "97 \<le> char_code c \<Longrightarrow> char_code c \<le> 102 \<Longrightarrow> ascii_lower c = digit_char (char_code c - 87)"
  unfolding ascii_lower_def digit_char_def by auto

lemma lower_hexdigit: "is_ascii_hexdigit c \<Longrightarrow> \<exists>d < 16. ascii_lower c = digit_char d"
proof -
  assume "is_ascii_hexdigit c"
  then consider "48 \<le> char_code c" "char_code c \<le> 57" | "65 \<le> char_code c" "char_code c \<le> 70"
    | "97 \<le> char_code c" "char_code c \<le> 102"
    unfolding is_ascii_hexdigit_def is_ascii_digit_def by blast
  then show ?thesis
  proof cases
    case 1
    then have "char_code c - 48 < 16" by simp
    with lower_hexdigit_code(1) [OF 1] show ?thesis by blast
  next
    case 2
    then have "char_code c - 55 < 16" by simp
    with lower_hexdigit_code(2) [OF 2] show ?thesis by blast
  next
    case 3
    then have "char_code c - 87 < 16" by simp
    with lower_hexdigit_code(3) [OF 3] show ?thesis by blast
  qed
qed

lemma lower_zero: "ascii_lower c = digit_char 0 \<Longrightarrow> c = CHR ''0''"
proof -
  assume lower: "ascii_lower c = digit_char 0"
  then have "char_code (ascii_lower c) = 48" by (simp add: digit_char_def)
  then have "char_code c = 48"
    by (cases "65 \<le> char_code c \<and> char_code c \<le> 90") (simp_all add: ascii_lower_def)
  then show ?thesis using char_code_inject [of c "CHR ''0''"] by (simp add: char_code_def)
qed




end
