(* ===== verification/Flashblocks_Hub.thy ===== *)
theory Flashblocks_Hub
  imports Metrics_Registry
begin

text \<open>
  \<open>src/flashblocks.rs\<close>: the hub that fans the payloads of the rollup-boost websocket out to the
  connected clients, the loop that reads them, the loop of a client's connection and the initial
  connection. Sockets and timers appear as the events the loops wait for; the channels of the
  clients are explicit, since a slow client is told by its channel being full.
\<close>

section \<open>Channels\<close>

text \<open>
  A bounded channel: what is queued, and whether its receiver is still there. A sender is the number
  of its channel.
\<close>

definition send_channel_buffer_size :: nat where
  "send_channel_buffer_size = 256"

record chan =
  ch_queue :: "string list"
  ch_open :: bool

type_synonym chans = "nat \<Rightarrow> chan option"

definition has_room :: "chans \<Rightarrow> nat \<Rightarrow> bool" where
  "has_room cs tx =
     (case cs tx of None \<Rightarrow> False | Some c \<Rightarrow> ch_open c \<and> length (ch_queue c) < send_channel_buffer_size)"

definition try_send :: "string \<Rightarrow> nat \<Rightarrow> chans \<Rightarrow> bool \<times> chans" where
  "try_send payload tx cs =
     (case cs tx of
        None \<Rightarrow> (False, cs)
      | Some c \<Rightarrow>
          if ch_open c \<and> length (ch_queue c) < send_channel_buffer_size
          then (True, cs(tx \<mapsto> c\<lparr>ch_queue := ch_queue c @ [payload]\<rparr>))
          else (False, cs))"

section \<open>The hub\<close>

record hub =
  hub_clients :: "(u64, nat) btree"
  hub_next_id :: u64
  hub_metrics :: metrics
  hub_chans :: chans
  hub_next_chan :: nat

definition hub_new :: "metrics \<Rightarrow> hub" where
  "hub_new m = \<lparr>hub_clients = [], hub_next_id = 1, hub_metrics = m, hub_chans = Map.empty, hub_next_chan = 0\<rparr>"

definition record_clients :: "hub \<Rightarrow> hub" where
  "record_clients h =
     h\<lparr>hub_metrics := record_websocket_client_count (of_nat (length (hub_clients h))) (hub_metrics h)\<rparr>"

definition hub_register :: "hub \<Rightarrow> (u64 \<times> nat) \<times> hub" where
  "hub_register h =
     (let client_id = hub_next_id h; tx = hub_next_chan h in
      ((client_id, tx),
       record_clients
         (h\<lparr>hub_next_id := client_id + 1, hub_next_chan := tx + 1,
            hub_chans := (hub_chans h)(tx \<mapsto> \<lparr>ch_queue = [], ch_open = True\<rparr>),
            hub_clients := bt_insert client_id tx (hub_clients h)\<rparr>)))"

definition hub_unregister :: "u64 \<Rightarrow> hub \<Rightarrow> hub" where
  "hub_unregister client_id h = record_clients (h\<lparr>hub_clients := bt_remove client_id (hub_clients h)\<rparr>)"

text \<open>The loop over the clients: the channels after it and the clients to drop.\<close>

fun send_all :: "string \<Rightarrow> (u64, nat) btree \<Rightarrow> chans \<Rightarrow> u64 list \<Rightarrow> chans \<times> u64 list" where
  "send_all payload [] cs dropped = (cs, dropped)"
| "send_all payload ((client_id, tx) # rest) cs dropped =
     (case try_send payload tx cs of
        (True, cs') \<Rightarrow> send_all payload rest cs' dropped
      | (False, cs') \<Rightarrow> send_all payload rest cs' (dropped @ [client_id]))"

definition hub_broadcast :: "string \<Rightarrow> hub \<Rightarrow> hub" where
  "hub_broadcast payload h =
     (case send_all payload (hub_clients h) (hub_chans h) [] of
        (cs, dropped) \<Rightarrow>
          record_clients (h\<lparr>hub_chans := cs, hub_clients := fold bt_remove dropped (hub_clients h)\<rparr>))"

text \<open>The receiving end: taking the next payload, and going away.\<close>

definition chan_recv :: "nat \<Rightarrow> chans \<Rightarrow> string option \<times> chans" where
  "chan_recv rx cs =
     (case cs rx of
        None \<Rightarrow> (None, cs)
      | Some c \<Rightarrow>
          (case ch_queue c of
             [] \<Rightarrow> (None, cs)
           | p # ps \<Rightarrow> (Some p, cs(rx \<mapsto> c\<lparr>ch_queue := ps\<rparr>))))"

definition chan_close :: "nat \<Rightarrow> chans \<Rightarrow> chans" where
  "chan_close rx cs = cs(rx := map_option (\<lambda>c. c\<lparr>ch_open := False\<rparr>) (cs rx))"

section \<open>Connecting\<close>

datatype flashblocks_error =
    InvalidScheme string
  | InitialConnection string string
  | FlashblocksIo string
  | FlashblocksJoin string

fun show_flashblocks_error :: "flashblocks_error \<Rightarrow> string" where
  "show_flashblocks_error (InvalidScheme s) = ''flashblocks websocket URL must use ws or wss, got '' @ s"
| "show_flashblocks_error (InitialConnection url e) =
     ''failed to connect to rollup boost WebSocket at '' @ url @ '': '' @ e"
| "show_flashblocks_error (FlashblocksIo e) = ''websocket server error: '' @ e"
| "show_flashblocks_error (FlashblocksJoin e) = ''websocket server task failed: '' @ e"

definition validate_ws_url :: "string \<Rightarrow> flashblocks_error + unit" where
  "validate_ws_url scheme = (if scheme = ''ws'' \<or> scheme = ''wss'' then Inr () else Inl (InvalidScheme scheme))"

text \<open>
  The attempts, each with its outcome from \<open>dial\<close>, which runs on the outside state; \<open>sleep\<close> is called
  between attempts.
\<close>

fun connect_attempts ::
  "('w, string, 'a) call \<Rightarrow> ('w \<Rightarrow> 'w) \<Rightarrow> nat \<Rightarrow> string \<Rightarrow> ('w, string, 'a) call" where
  "connect_attempts dial sleep 0 last_error w = (Inl last_error, w)"
| "connect_attempts dial sleep (Suc n) last_error w =
     (case dial w of
        (Inr stream, w') \<Rightarrow> (Inr stream, w')
      | (Inl err, w') \<Rightarrow> connect_attempts dial sleep n err (if n > 0 then sleep w' else w'))"

definition connect_initial_upstream ::
  "('w, string, 'a) call \<Rightarrow> ('w \<Rightarrow> 'w) \<Rightarrow> string \<Rightarrow> nat \<Rightarrow> ('w, flashblocks_error, 'a) call" where
  "connect_initial_upstream dial sleep url initial_attempts =
     call_err (InitialConnection url)
       (connect_attempts dial sleep (max initial_attempts 1) ''no connection attempts made'')"

text \<open>One dial: what connecting came to, or \<open>None\<close> when \<open>UPSTREAM_DIAL_TIMEOUT\<close> passed first.\<close>

definition dial_upstream :: "('w \<Rightarrow> (string + 'a) option \<times> 'w) \<Rightarrow> ('w, string, 'a) call" where
  "dial_upstream connect w =
     (case connect w of
        (Some r, w') \<Rightarrow> (r, w')
      | (None, w') \<Rightarrow> (Inl ''timed out after 5s'', w'))"

definition initial_connection_attempts :: nat where
  "initial_connection_attempts = 5"

text \<open>\<open>start_flashblocks\<close> up to the point where the tasks are spawned.\<close>

definition start_flashblocks ::
  "('w, string, 'a) call \<Rightarrow> ('w \<Rightarrow> 'w) \<Rightarrow> string \<Rightarrow> string \<Rightarrow> ('w, flashblocks_error, 'a) call" where
  "start_flashblocks dial sleep scheme url w =
     (case validate_ws_url scheme of
        Inl e \<Rightarrow> (Inl e, w)
      | Inr _ \<Rightarrow> connect_initial_upstream dial sleep url initial_connection_attempts w)"

section \<open>The upstream loop\<close>

text \<open>What the loop sees in one round: each time it asks whether this node leads, the answer.\<close>

datatype upstream_read =
    ReadText string
  | ReadBinary string
  | ReadClose
  | ReadEnd
  | ReadOther
  | ReadError
  | ReadTimeout
  | ShutdownChanged bool

record round_input =
  in_shutdown :: bool
  in_leader_idle :: bool
  in_dial_ok :: bool
  in_leader_connected :: bool
  in_read :: upstream_read
  in_leader_relay :: bool

record upstream =
  up_connected :: bool
  up_hub :: hub

datatype round_end = RoundExit | RoundSleep duration | RoundNext

definition leader_poll_interval :: duration where
  "leader_poll_interval = from_millis 500"

definition relay :: "bool \<Rightarrow> string \<Rightarrow> upstream \<Rightarrow> upstream" where
  "relay is_leader payload u = (if is_leader then u\<lparr>up_hub := hub_broadcast payload (up_hub u)\<rparr> else u)"

definition note_attempt :: "bool \<Rightarrow> string \<Rightarrow> upstream \<Rightarrow> upstream" where
  "note_attempt success source u =
     u\<lparr>up_hub := (up_hub u)\<lparr>hub_metrics := record_rollup_boost_connection_attempt success source (hub_metrics (up_hub u))\<rparr>\<rparr>"

definition upstream_read_step :: "round_input \<Rightarrow> upstream \<Rightarrow> round_end \<times> upstream" where
  "upstream_read_step inp u =
     (case in_read inp of
        ShutdownChanged b \<Rightarrow> (if b then RoundExit else RoundNext, u)
      | ReadText text \<Rightarrow> (RoundNext, relay (in_leader_relay inp) text u)
      | ReadBinary bytes \<Rightarrow> (RoundNext, relay (in_leader_relay inp) bytes u)
      | ReadClose \<Rightarrow> (RoundNext, u\<lparr>up_connected := False\<rparr>)
      | ReadEnd \<Rightarrow> (RoundNext, u\<lparr>up_connected := False\<rparr>)
      | ReadOther \<Rightarrow> (RoundNext, u)
      | ReadError \<Rightarrow> (RoundNext, u\<lparr>up_connected := False\<rparr>)
      | ReadTimeout \<Rightarrow> (RoundNext, u\<lparr>up_connected := False\<rparr>))"

definition upstream_round :: "string \<Rightarrow> duration \<Rightarrow> round_input \<Rightarrow> upstream \<Rightarrow> round_end \<times> upstream" where
  "upstream_round source reconnect_delay inp u =
     (if in_shutdown inp then (RoundExit, u)
      else if \<not> up_connected u \<and> \<not> in_leader_idle inp then (RoundSleep leader_poll_interval, u)
      else if \<not> up_connected u \<and> \<not> in_dial_ok inp
        then (RoundSleep reconnect_delay, note_attempt False source u)
      else
        (let u' = (if up_connected u then u else (note_attempt True source u)\<lparr>up_connected := True\<rparr>) in
         if \<not> in_leader_connected inp then (RoundSleep leader_poll_interval, u')
         else upstream_read_step inp u'))"

text \<open>The loop over the rounds it is given; it has ended when the flag is true.\<close>

fun run_upstream_listener :: "string \<Rightarrow> duration \<Rightarrow> round_input list \<Rightarrow> upstream \<Rightarrow> bool \<times> upstream" where
  "run_upstream_listener source delay [] u = (False, u)"
| "run_upstream_listener source delay (inp # inps) u =
     (case upstream_round source delay inp u of
        (RoundExit, u') \<Rightarrow> (True, u')
      | (_, u') \<Rightarrow> run_upstream_listener source delay inps u')"

section \<open>A client's connection\<close>

text \<open>
  The events of a connection. A write carries whether it succeeded in time. The channel being closed
  makes \<open>recv\<close> return nothing, which does not match the pattern of its branch.
\<close>

datatype down_event =
    EvPayload string bool
  | EvChannelClosed
  | EvPingTick bool
  | EvPongDeadline
  | EvPong
  | EvClose
  | EvEnd
  | EvError
  | EvOther

datatype down_message = DownText string | DownPing

fun handle_downstream ::
  "(string \<Rightarrow> string) \<Rightarrow> bool \<Rightarrow> down_event list \<Rightarrow> down_message list \<times> bool" where
  "handle_downstream lossy awaiting_pong [] = ([], False)"
| "handle_downstream lossy awaiting_pong (e # es) =
     (case e of
        EvPayload payload written \<Rightarrow>
          if written
          then (case handle_downstream lossy awaiting_pong es of (out, ended) \<Rightarrow> (DownText (lossy payload) # out, ended))
          else ([], True)
      | EvChannelClosed \<Rightarrow> handle_downstream lossy awaiting_pong es
      | EvPingTick written \<Rightarrow>
          if written
          then (case handle_downstream lossy True es of (out, ended) \<Rightarrow> (DownPing # out, ended))
          else ([], True)
      | EvPongDeadline \<Rightarrow> if awaiting_pong then ([], True) else handle_downstream lossy awaiting_pong es
      | EvPong \<Rightarrow> handle_downstream lossy False es
      | EvClose \<Rightarrow> ([], True)
      | EvEnd \<Rightarrow> ([], True)
      | EvError \<Rightarrow> ([], True)
      | EvOther \<Rightarrow> handle_downstream lossy awaiting_pong es)"

fun wait_for_shutdown :: "bool \<Rightarrow> bool option list \<Rightarrow> bool" where
  "wait_for_shutdown v [] = v"
| "wait_for_shutdown v (e # es) = (v \<or> (case e of None \<Rightarrow> True | Some v' \<Rightarrow> wait_for_shutdown v' es))"

end
