(* ===== verification/Flashblocks_Delivery.thy ===== *)
theory Flashblocks_Delivery
  imports Flashblocks_Hub
begin

text \<open>
  What the flashblocks hub promises: a client receives what was broadcast since it connected, in
  order and without gaps, until it is dropped for being slow, and only a leader's payloads are
  relayed. The run of the hub is a step relation over its operations, interleaved in any order,
  with the history of what was broadcast and received.
\<close>

section \<open>Broadcasting\<close>

lemma send_all_result:
  "distinct (map snd cl) \<Longrightarrow>
   send_all p cl cs d =
     ((\<lambda>tx. if tx \<in> snd ` set cl \<and> has_room cs tx
            then map_option (\<lambda>c. c\<lparr>ch_queue := ch_queue c @ [p]\<rparr>) (cs tx) else cs tx),
      d @ map fst (filter (\<lambda>it. \<not> has_room cs (snd it)) cl))"
proof (induction cl arbitrary: cs d)
  case Nil
  then show ?case by simp
next
  case (Cons it cl)
  obtain i tx where it: "it = (i, tx)" by (cases it)
  then have fresh: "tx \<notin> snd ` set cl" and dist: "distinct (map snd cl)" using Cons.prems by auto
  show ?case
  proof (cases "has_room cs tx")
    case True
    then obtain c where c: "cs tx = Some c" "ch_open c" "length (ch_queue c) < send_channel_buffer_size"
      by (auto simp: has_room_def split: option.splits)
    let ?cs = "cs(tx \<mapsto> c\<lparr>ch_queue := ch_queue c @ [p]\<rparr>)"
    have other: "has_room ?cs tx' = has_room cs tx'" "?cs tx' = cs tx'" if "tx' \<noteq> tx" for tx'
      using that by (simp_all add: has_room_def)
    have "send_all p (it # cl) cs d = send_all p cl ?cs d" using c by (simp add: it try_send_def)
    also have "\<dots> = ((\<lambda>tx. if tx \<in> snd ` set cl \<and> has_room ?cs tx
            then map_option (\<lambda>c. c\<lparr>ch_queue := ch_queue c @ [p]\<rparr>) (?cs tx) else ?cs tx),
        d @ map fst (filter (\<lambda>it. \<not> has_room ?cs (snd it)) cl))" (is "_ = (?F, _)")
      by (rule Cons.IH [OF dist])
    also have "?F = (\<lambda>tx. if tx \<in> snd ` set (it # cl) \<and> has_room cs tx
            then map_option (\<lambda>c. c\<lparr>ch_queue := ch_queue c @ [p]\<rparr>) (cs tx) else cs tx)"
    proof (rule ext)
      fix tx'
      show "?F tx' = (if tx' \<in> snd ` set (it # cl) \<and> has_room cs tx'
            then map_option (\<lambda>c. c\<lparr>ch_queue := ch_queue c @ [p]\<rparr>) (cs tx') else cs tx')"
        using True c fresh it other by (cases "tx' = tx") simp_all
    qed
    also have "filter (\<lambda>it. \<not> has_room ?cs (snd it)) cl = filter (\<lambda>it. \<not> has_room cs (snd it)) (it # cl)"
    proof -
      have "filter (\<lambda>it. \<not> has_room ?cs (snd it)) cl = filter (\<lambda>it. \<not> has_room cs (snd it)) cl"
        by (rule filter_cong) (use fresh other(1) in \<open>metis image_eqI\<close>)+
      then show ?thesis using True it by simp
    qed
    finally show ?thesis .
  next
    case False
    then have "try_send p tx cs = (False, cs)" by (auto simp: try_send_def has_room_def split: option.splits)
    with it False fresh Cons.IH [OF dist, of cs "d @ [i]"] show ?thesis by (auto simp: fun_eq_iff)
  qed
qed

lemma fold_bt_remove_filter: "fold bt_remove ks m = filter (\<lambda>kv. fst kv \<notin> set ks) m"
  by (induction ks arbitrary: m) (simp_all add: bt_remove_def conj_commute)

lemma filter_dropped:
  assumes "distinct (map fst cl)"
  shows "filter (\<lambda>kv. fst kv \<notin> set (map fst (filter (\<lambda>it. \<not> P (snd it)) cl))) cl = filter (\<lambda>it. P (snd it)) cl"
proof (rule filter_cong)
  fix kv assume kv: "kv \<in> set cl"
  have "it = kv" if "it \<in> set cl" "fst it = fst kv" for it
    using that kv assms by (simp add: distinct_map inj_on_def)
  with kv show "(fst kv \<notin> set (map fst (filter (\<lambda>it. \<not> P (snd it)) cl))) = P (snd kv)" by fastforce
qed simp

lemma hub_broadcast_result:
  assumes "bt_wf (hub_clients h)" "distinct (map snd (hub_clients h))"
  shows "hub_clients (hub_broadcast p h) = filter (\<lambda>it. has_room (hub_chans h) (snd it)) (hub_clients h)"
    and "hub_chans (hub_broadcast p h) =
      (\<lambda>tx. if tx \<in> snd ` set (hub_clients h) \<and> has_room (hub_chans h) tx
            then map_option (\<lambda>c. c\<lparr>ch_queue := ch_queue c @ [p]\<rparr>) (hub_chans h tx) else hub_chans h tx)"
    and "hub_next_chan (hub_broadcast p h) = hub_next_chan h"
    and "websocket_clients (hub_metrics (hub_broadcast p h)) = of_nat (length (hub_clients (hub_broadcast p h)))"
  using send_all_result [OF assms(2), of p "hub_chans h" "[]"] filter_dropped [OF bt_wf_distinct [OF assms(1)]]
  by (simp_all add: hub_broadcast_def record_clients_def record_websocket_client_count_def fold_bt_remove_filter)

section \<open>The invariant of the hub\<close>

definition hub_inv :: "hub \<Rightarrow> bool" where
  "hub_inv h =
     (bt_wf (hub_clients h) \<and> distinct (map snd (hub_clients h))
      \<and> (\<forall>tx \<in> snd ` set (hub_clients h). hub_chans h tx \<noteq> None)
      \<and> (\<forall>tx c. hub_chans h tx = Some c \<longrightarrow> tx < hub_next_chan h \<and> length (ch_queue c) \<le> send_channel_buffer_size)
      \<and> websocket_clients (hub_metrics h) = of_nat (length (hub_clients h)))"

lemma hub_inv_new: "websocket_clients m = 0 \<Longrightarrow> hub_inv (hub_new m)"
  by (simp add: hub_inv_def hub_new_def)

lemma set_snd_insert: "snd ` set (bt_insert k v m) \<subseteq> insert v (snd ` set m)"
  by (induction k v m rule: bt_insert.induct) auto

lemma distinct_snd_insert:
  "v \<notin> snd ` set m \<Longrightarrow> distinct (map snd m) \<Longrightarrow> distinct (map snd (bt_insert k v m))"
proof (induction k v m rule: bt_insert.induct)
  case (2 k v k' v' m)
  then show ?case using set_snd_insert [of k v m] by (auto split: if_splits)
qed simp

lemma hub_inv_register: "hub_inv h \<Longrightarrow> hub_inv (snd (hub_register h))"
proof -
  assume inv: "hub_inv h"
  let ?tx = "hub_next_chan h" and ?cl = "bt_insert (hub_next_id h) (hub_next_chan h) (hub_clients h)"
  have fresh: "?tx \<notin> snd ` set (hub_clients h)" using inv by (force simp: hub_inv_def)
  let ?cs = "(hub_chans h)(?tx \<mapsto> \<lparr>ch_queue = [], ch_open = True\<rparr>)"
  have sel: "hub_clients (snd (hub_register h)) = ?cl" "hub_chans (snd (hub_register h)) = ?cs"
      "hub_next_chan (snd (hub_register h)) = Suc ?tx"
      "websocket_clients (hub_metrics (snd (hub_register h))) = of_nat (length ?cl)"
    by (simp_all add: hub_register_def record_clients_def record_websocket_client_count_def Let_def)
  have "bt_wf ?cl" "distinct (map snd ?cl)"
    using inv fresh by (simp_all add: hub_inv_def bt_wf_insert distinct_snd_insert)
  moreover have "\<forall>tx \<in> snd ` set ?cl. tx = ?tx \<or> hub_chans h tx \<noteq> None"
    using inv set_snd_insert [of "hub_next_id h" ?tx "hub_clients h"] unfolding hub_inv_def by blast
  then have "\<forall>tx \<in> snd ` set ?cl. ?cs tx \<noteq> None" by auto
  moreover have "\<forall>tx c. ?cs tx = Some c \<longrightarrow> tx < Suc ?tx \<and> length (ch_queue c) \<le> send_channel_buffer_size"
    using inv unfolding hub_inv_def by (auto intro: less_SucI)
  ultimately show ?thesis unfolding hub_inv_def sel by blast
qed

lemma distinct_snd_remove: "distinct (map snd m) \<Longrightarrow> distinct (map snd (bt_remove k m))"
  by (simp add: bt_remove_def distinct_map_filter)

lemma hub_inv_unregister: "hub_inv h \<Longrightarrow> hub_inv (hub_unregister i h)"
  by (auto simp: hub_inv_def hub_unregister_def record_clients_def record_websocket_client_count_def bt_wf_remove
      distinct_snd_remove) (auto simp: bt_remove_def)

lemma hub_inv_broadcast: "hub_inv h \<Longrightarrow> hub_inv (hub_broadcast p h)"
proof -
  assume inv: "hub_inv h"
  then have wf: "bt_wf (hub_clients h)" "distinct (map snd (hub_clients h))" by (simp_all add: hub_inv_def)
  note res = hub_broadcast_result [OF wf, of p]
  have "bt_wf (hub_clients (hub_broadcast p h))" "distinct (map snd (hub_clients (hub_broadcast p h)))"
    using wf by (simp_all add: res(1) bt_wf_def sorted_wrt_map sorted_wrt_filter distinct_map_filter)
  moreover have "\<forall>tx \<in> snd ` set (hub_clients (hub_broadcast p h)). hub_chans (hub_broadcast p h) tx \<noteq> None"
    using inv by (auto simp: res hub_inv_def)
  moreover have "tx < hub_next_chan h \<and> length (ch_queue c) \<le> send_channel_buffer_size"
    if c: "hub_chans (hub_broadcast p h) tx = Some c" for tx c
  proof (cases "tx \<in> snd ` set (hub_clients h) \<and> has_room (hub_chans h) tx")
    case True
    with c obtain c0 where "hub_chans h tx = Some c0" "c = c0\<lparr>ch_queue := ch_queue c0 @ [p]\<rparr>" by (auto simp: res(2))
    with inv True show ?thesis by (auto simp: hub_inv_def has_room_def)
  next
    case False
    with c have "hub_chans h tx = Some c" by (auto simp: res(2))
    with inv show ?thesis by (auto simp: hub_inv_def)
  qed
  ultimately show ?thesis by (simp add: hub_inv_def res(3,4))
qed

section \<open>Runs\<close>

record flash_world =
  fw_hub :: hub
  fw_log :: "string list"
  fw_start :: "nat \<Rightarrow> nat"
  fw_got :: "nat \<Rightarrow> string list"

definition flash_new :: "metrics \<Rightarrow> flash_world" where
  "flash_new m = \<lparr>fw_hub = hub_new m, fw_log = [], fw_start = (\<lambda>_. 0), fw_got = (\<lambda>_. [])\<rparr>"

inductive flash_step :: "flash_world \<Rightarrow> flash_world \<Rightarrow> bool" where
  register: "hub_register (fw_hub w) = ((i, tx), h) \<Longrightarrow>
    flash_step w (w\<lparr>fw_hub := h, fw_start := (fw_start w)(tx := length (fw_log w)), fw_got := (fw_got w)(tx := [])\<rparr>)"
| unregister: "flash_step w (w\<lparr>fw_hub := hub_unregister i (fw_hub w)\<rparr>)"
| broadcast: "flash_step w (w\<lparr>fw_hub := hub_broadcast p (fw_hub w), fw_log := fw_log w @ [p]\<rparr>)"
| receive: "chan_recv rx (hub_chans (fw_hub w)) = (Some p, cs) \<Longrightarrow>
    flash_step w (w\<lparr>fw_hub := (fw_hub w)\<lparr>hub_chans := cs\<rparr>, fw_got := (fw_got w)(rx := fw_got w rx @ [p])\<rparr>)"
| disconnect: "flash_step w (w\<lparr>fw_hub := (fw_hub w)\<lparr>hub_chans := chan_close rx (hub_chans (fw_hub w))\<rparr>\<rparr>)"

inductive_cases flash_stepE: "flash_step w w'"

text \<open>What the receiver of a channel has and will get: the history since it registered, up to a point.\<close>

definition channel_ok :: "flash_world \<Rightarrow> nat \<Rightarrow> chan \<Rightarrow> bool" where
  "channel_ok w tx c =
     (fw_start w tx \<le> length (fw_log w)
      \<and> (\<exists>rest. drop (fw_start w tx) (fw_log w) = fw_got w tx @ ch_queue c @ rest
           \<and> (tx \<in> snd ` set (hub_clients (fw_hub w)) \<longrightarrow> rest = [])))"

definition flash_inv :: "flash_world \<Rightarrow> bool" where
  "flash_inv w = (hub_inv (fw_hub w) \<and> (\<forall>tx c. hub_chans (fw_hub w) tx = Some c \<longrightarrow> channel_ok w tx c))"

lemma channel_ok_fewer_clients:
  assumes "channel_ok w tx c" "snd ` set (hub_clients h) \<subseteq> snd ` set (hub_clients (fw_hub w))"
  shows "channel_ok (w\<lparr>fw_hub := h\<rparr>) tx c"
proof -
  obtain rest where rest: "fw_start w tx \<le> length (fw_log w)"
      "drop (fw_start w tx) (fw_log w) = fw_got w tx @ ch_queue c @ rest"
      "tx \<in> snd ` set (hub_clients (fw_hub w)) \<longrightarrow> rest = []"
    using assms(1) by (auto simp: channel_ok_def)
  have "tx \<in> snd ` set (hub_clients h) \<longrightarrow> rest = []" using rest(3) assms(2) by blast
  with rest(1,2) show ?thesis by (auto simp: channel_ok_def)
qed

lemma channel_ok_log:
  assumes "channel_ok w tx c" "tx \<notin> snd ` set (hub_clients h)"
  shows "channel_ok (w\<lparr>fw_hub := h, fw_log := fw_log w @ [p]\<rparr>) tx c"
  using assms unfolding channel_ok_def by auto

lemma flash_inv_broadcast:
  assumes "flash_inv w"
  shows "flash_inv (w\<lparr>fw_hub := hub_broadcast p (fw_hub w), fw_log := fw_log w @ [p]\<rparr>)"
proof -
  let ?h = "fw_hub w" and ?w = "w\<lparr>fw_hub := hub_broadcast p (fw_hub w), fw_log := fw_log w @ [p]\<rparr>"
  have inv: "hub_inv ?h" using assms by (simp add: flash_inv_def)
  then have wf: "bt_wf (hub_clients ?h)" "distinct (map snd (hub_clients ?h))" by (simp_all add: hub_inv_def)
  note res = hub_broadcast_result [OF wf, of p]
  have "channel_ok ?w tx c" if c: "hub_chans (hub_broadcast p ?h) tx = Some c" for tx c
  proof (cases "tx \<in> snd ` set (hub_clients ?h) \<and> has_room (hub_chans ?h) tx")
    case True
    with c obtain c0 where c0: "hub_chans ?h tx = Some c0" "c = c0\<lparr>ch_queue := ch_queue c0 @ [p]\<rparr>" by (auto simp: res(2))
    with assms True have "channel_ok w tx c0" by (simp add: flash_inv_def)
    with True c0(2) show ?thesis by (auto simp: channel_ok_def)
  next
    case False
    with c have old: "hub_chans ?h tx = Some c" by (auto simp: res(2))
    have "tx \<notin> snd ` set (hub_clients (hub_broadcast p ?h))" using False by (auto simp: res(1))
    moreover have "channel_ok w tx c" using assms old by (simp add: flash_inv_def)
    ultimately show ?thesis by (intro channel_ok_log)
  qed
  with hub_inv_broadcast [OF inv] show ?thesis by (simp add: flash_inv_def)
qed

lemma flash_inv_register:
  assumes "flash_inv w" "hub_register (fw_hub w) = ((i, tx), h)"
  shows "flash_inv (w\<lparr>fw_hub := h, fw_start := (fw_start w)(tx := length (fw_log w)), fw_got := (fw_got w)(tx := [])\<rparr>)"
proof -
  let ?w = "w\<lparr>fw_hub := h, fw_start := (fw_start w)(tx := length (fw_log w)), fw_got := (fw_got w)(tx := [])\<rparr>"
  have h: "hub_chans h = (hub_chans (fw_hub w))(tx \<mapsto> \<lparr>ch_queue = [], ch_open = True\<rparr>)"
      "hub_clients h = bt_insert i tx (hub_clients (fw_hub w))"
    using assms(2) by (auto simp: hub_register_def record_clients_def Let_def)
  have "hub_inv h" using hub_inv_register [of "fw_hub w"] assms by (simp add: flash_inv_def)
  moreover have "channel_ok ?w tx' c" if c: "hub_chans h tx' = Some c" for tx' c
  proof (cases "tx' = tx")
    case True
    then have "c = \<lparr>ch_queue = [], ch_open = True\<rparr>" using c h(1) by simp
    with True show ?thesis by (simp add: channel_ok_def)
  next
    case False
    then have "channel_ok w tx' c" using c h assms(1) by (simp add: flash_inv_def)
    moreover have "tx' \<in> snd ` set (hub_clients h) \<Longrightarrow> tx' \<in> snd ` set (hub_clients (fw_hub w))"
      using False set_snd_insert [of i tx "hub_clients (fw_hub w)"] unfolding h by blast
    ultimately show ?thesis using False by (auto simp: channel_ok_def)
  qed
  ultimately show ?thesis by (simp add: flash_inv_def)
qed

lemma flash_inv_chans:
  assumes "flash_inv w" "hub_chans (fw_hub w) rx = Some c" "length (ch_queue c') \<le> length (ch_queue c)"
    and "got @ ch_queue c' = fw_got w rx @ ch_queue c"
  shows "flash_inv (w\<lparr>fw_hub := (fw_hub w)\<lparr>hub_chans := (hub_chans (fw_hub w))(rx \<mapsto> c')\<rparr>, fw_got := (fw_got w)(rx := got)\<rparr>)"
proof -
  let ?cs = "(hub_chans (fw_hub w))(rx \<mapsto> c')"
  let ?w = "w\<lparr>fw_hub := (fw_hub w)\<lparr>hub_chans := ?cs\<rparr>, fw_got := (fw_got w)(rx := got)\<rparr>"
  have inv: "hub_inv (fw_hub w)" using assms(1) by (simp add: flash_inv_def)
  then have "rx < hub_next_chan (fw_hub w) \<and> length (ch_queue c) \<le> send_channel_buffer_size"
    using assms(2) by (simp add: hub_inv_def)
  then have "hub_inv ((fw_hub w)\<lparr>hub_chans := ?cs\<rparr>)"
    using inv assms(3) unfolding hub_inv_def by (auto split: if_splits)
  moreover have "channel_ok ?w tx d" if d: "?cs tx = Some d" for tx d
  proof (cases "tx = rx")
    case True
    have "channel_ok w rx c" using assms(1,2) by (simp add: flash_inv_def)
    then obtain rest where rest: "fw_start w rx \<le> length (fw_log w)"
        "drop (fw_start w rx) (fw_log w) = fw_got w rx @ ch_queue c @ rest"
        "rx \<in> snd ` set (hub_clients (fw_hub w)) \<longrightarrow> rest = []"
      by (auto simp: channel_ok_def)
    have "drop (fw_start w rx) (fw_log w) = got @ ch_queue c' @ rest"
      using assms(4) rest(2) by (metis append_assoc)
    with rest(1,3) True d show ?thesis by (auto simp: channel_ok_def)
  next
    case False
    then have "channel_ok w tx d" using assms(1) d by (simp add: flash_inv_def)
    with False show ?thesis by (simp add: channel_ok_def)
  qed
  ultimately show ?thesis by (simp add: flash_inv_def)
qed

lemma flash_step_inv: "flash_step w w' \<Longrightarrow> flash_inv w \<Longrightarrow> flash_inv w'"
proof (induction rule: flash_step.induct)
  case (register w i tx h)
  then show ?case by (intro flash_inv_register)
next
  case (unregister w i)
  have "snd ` set (hub_clients (hub_unregister i (fw_hub w))) \<subseteq> snd ` set (hub_clients (fw_hub w))"
    by (auto simp: hub_unregister_def record_clients_def bt_remove_def)
  moreover have "hub_chans (hub_unregister i (fw_hub w)) = hub_chans (fw_hub w)"
    by (simp add: hub_unregister_def record_clients_def)
  ultimately show ?case
    using unregister hub_inv_unregister [of "fw_hub w" i] by (simp add: flash_inv_def channel_ok_fewer_clients)
next
  case (broadcast w p)
  then show ?case by (rule flash_inv_broadcast)
next
  case (receive rx w p cs)
  then obtain c ps where c: "hub_chans (fw_hub w) rx = Some c" "ch_queue c = p # ps"
      "cs = (hub_chans (fw_hub w))(rx \<mapsto> c\<lparr>ch_queue := ps\<rparr>)"
    by (auto simp: chan_recv_def split: option.splits list.splits)
  show ?case unfolding c(3) by (rule flash_inv_chans [OF receive(2) c(1)]) (simp_all add: c(2))
next
  case (disconnect w rx)
  show ?case
  proof (cases "hub_chans (fw_hub w) rx")
    case None
    then have "chan_close rx (hub_chans (fw_hub w)) = hub_chans (fw_hub w)" by (simp add: chan_close_def fun_upd_idem)
    with disconnect show ?thesis by simp
  next
    case (Some c)
    then have "chan_close rx (hub_chans (fw_hub w)) = (hub_chans (fw_hub w))(rx \<mapsto> c\<lparr>ch_open := False\<rparr>)"
      by (simp add: chan_close_def)
    then show ?thesis
      using flash_inv_chans [OF disconnect Some, of "c\<lparr>ch_open := False\<rparr>" "fw_got w rx"] by simp
  qed
qed

lemma flash_run_inv: "flash_step\<^sup>*\<^sup>* w w' \<Longrightarrow> flash_inv w \<Longrightarrow> flash_inv w'"
  by (induction rule: rtranclp_induct) (auto intro: flash_step_inv)

lemma flash_inv_new: "websocket_clients m = 0 \<Longrightarrow> flash_inv (flash_new m)"
  using hub_inv_new by (simp add: flash_inv_def flash_new_def hub_new_def)

text \<open>
  C34. Clients get the stream without gaps: in every interleaving of connections, disconnections,
  broadcasts and reads, what a client has received followed by what is queued for it is a prefix of
  what was broadcast since it connected, all of it as long as it has not been dropped; no queue
  grows beyond its bound, and the gauge shows the number of clients.
\<close>

theorem clients_receive_gapless_stream:
  assumes "websocket_clients m = 0" "flash_step\<^sup>*\<^sup>* (flash_new m) w" "hub_chans (fw_hub w) tx = Some c"
  shows "(\<exists>rest. drop (fw_start w tx) (fw_log w) = fw_got w tx @ ch_queue c @ rest
        \<and> (tx \<in> snd ` set (hub_clients (fw_hub w)) \<longrightarrow> rest = []))
    \<and> length (ch_queue c) \<le> send_channel_buffer_size
    \<and> websocket_clients (hub_metrics (fw_hub w)) = of_nat (length (hub_clients (fw_hub w)))"
proof -
  have "flash_inv w" using flash_run_inv [OF assms(2) flash_inv_new [OF assms(1)]] .
  with assms(3) show ?thesis unfolding flash_inv_def channel_ok_def hub_inv_def by blast
qed

theorem clients_receive_gapless_stream_witness:
  "\<exists>w c. flash_step\<^sup>*\<^sup>* (flash_new (metrics_new ''1'')) w \<and> hub_chans (fw_hub w) 0 = Some c
     \<and> drop (fw_start w 0) (fw_log w) = [''b1''] \<and> fw_got w 0 @ ch_queue c = [''b1'']"
proof -
  let ?m = "metrics_new ''1''"
  have m: "websocket_clients ?m = 0" by (simp add: metrics_new_def)
  obtain h where reg: "hub_register (fw_hub (flash_new ?m)) = ((1, 0), h)"
    and h: "hub_clients h = [(1, 0)]" "hub_chans h 0 = Some \<lparr>ch_queue = [], ch_open = True\<rparr>"
    by (simp add: hub_register_def flash_new_def hub_new_def record_clients_def Let_def)
  let ?w1 = "(flash_new ?m)\<lparr>fw_hub := h, fw_start := (fw_start (flash_new ?m))(0 := length (fw_log (flash_new ?m))),
      fw_got := (fw_got (flash_new ?m))(0 := [])\<rparr>"
  let ?w2 = "?w1\<lparr>fw_hub := hub_broadcast ''b1'' (fw_hub ?w1), fw_log := fw_log ?w1 @ [''b1'']\<rparr>"
  have "flash_step (flash_new ?m) ?w1" "flash_step ?w1 ?w2"
    using flash_step.register [OF reg] flash_step.broadcast [of ?w1 "''b1''"] by simp_all
  then have run: "flash_step\<^sup>*\<^sup>* (flash_new ?m) ?w2" by (meson rtranclp.rtrancl_into_rtrancl rtranclp.rtrancl_refl)
  have wf: "bt_wf (hub_clients h)" "distinct (map snd (hub_clients h))" by (simp_all add: h)
  have c: "hub_chans (fw_hub ?w2) 0 = Some \<lparr>ch_queue = [''b1''], ch_open = True\<rparr>"
    by (simp add: hub_broadcast_result [OF wf] h has_room_def send_channel_buffer_size_def)
  from clients_receive_gapless_stream [OF m run c]
  have "drop (fw_start ?w2 0) (fw_log ?w2) = [''b1'']" by (simp add: flash_new_def)
  with run c show ?thesis
    by (intro exI [of _ ?w2] exI [of _ "\<lparr>ch_queue = [''b1''], ch_open = True\<rparr>"]) (simp add: flash_new_def)
qed

section \<open>Relaying\<close>

text \<open>While this node does not lead, the loop leaves the clients and their queues alone.\<close>

lemma upstream_round_not_leading:
  assumes "\<not> (in_leader_connected inp \<and> in_leader_relay inp)" "upstream_round src delay inp u = (r, u')"
  shows "hub_clients (up_hub u') = hub_clients (up_hub u) \<and> hub_chans (up_hub u') = hub_chans (up_hub u)"
  using assms
  by (auto simp: upstream_round_def upstream_read_step_def relay_def note_attempt_def Let_def
      split: if_splits upstream_read.splits)

lemma only_leader_relays:
  "\<forall>inp \<in> set inps. \<not> (in_leader_connected inp \<and> in_leader_relay inp) \<Longrightarrow>
   run_upstream_listener src delay inps u = (ended, u') \<Longrightarrow>
   hub_clients (up_hub u') = hub_clients (up_hub u) \<and> hub_chans (up_hub u') = hub_chans (up_hub u)"
proof (induction inps arbitrary: u)
  case (Cons inp inps)
  obtain r u1 where one: "upstream_round src delay inp u = (r, u1)" by (cases "upstream_round src delay inp u")
  with Cons.prems have "hub_clients (up_hub u1) = hub_clients (up_hub u) \<and> hub_chans (up_hub u1) = hub_chans (up_hub u)"
    by (intro upstream_round_not_leading) auto
  with Cons one show ?case by (cases r) auto
qed simp

section \<open>Slow clients\<close>

text \<open>
  A client dropped by \<open>broadcast\<close> keeps its connection: the closed channel is no event of the loop, so
  the connection lives on, pinged and silent, for as long as the client answers.
\<close>

lemma closed_channel_ignored:
  "handle_downstream lossy a (filter (\<lambda>e. e \<noteq> EvChannelClosed) es) = handle_downstream lossy a es"
  by (induction es arbitrary: a) (auto split: down_event.split)

theorem dropped_client_stays_connected:
  "handle_downstream lossy False (EvChannelClosed # concat (replicate n [EvPingTick True, EvPong]))
     = (replicate n DownPing, False)"
  by (induction n) auto

end
