(* ===== verification/Cli_Flags.thy ===== *)
theory Cli_Flags
  imports Sequencer_Control Health_Checks
begin

text \<open>
  The command line of \<open>src/main.rs\<close>: the flags with their environment variables and defaults, the
  struct \<open>Args\<close> they fill, and the report of unknown environment variables. \<open>clap\<close> parses the
  command line; the model starts at its result. Shows that exactly the variables with the prefix that
  belong to no flag are reported, and that a plain number is a duration in seconds.
\<close>

section \<open>Flags\<close>

text \<open>A flag has its long name, its variable, its default and whether it may stand without a value.\<close>

record flag =
  fl_long :: string
  fl_env :: string
  fl_default :: "string option"
  fl_switch :: bool

definition flag :: "string \<Rightarrow> string \<Rightarrow> string option \<Rightarrow> bool \<Rightarrow> flag" where
  "flag l e d s = \<lparr>fl_long = l, fl_env = e, fl_default = d, fl_switch = s\<rparr>"

definition service_flags :: "flag list" where
  "service_flags =
     [flag ''node.rpc'' ''OP_CONDUCTOR_NODE_RPC'' None False,
     flag ''execution.rpc'' ''OP_CONDUCTOR_EXECUTION_RPC'' None False,
     flag ''log.level'' ''OP_CONDUCTOR_LOG_LEVEL'' (Some ''info'') False,
     flag ''log.format'' ''OP_CONDUCTOR_LOG_FORMAT'' (Some ''text'') False,
     flag ''log.color'' ''OP_CONDUCTOR_LOG_COLOR'' (Some ''false'') True,
     flag ''log.pid'' ''OP_CONDUCTOR_LOG_PID'' (Some ''false'') True]"

definition rollup_flags :: "flag list" where
  "rollup_flags =
     [flag ''network'' ''OP_CONDUCTOR_NETWORK'' None False,
     flag ''rollup.config'' ''OP_CONDUCTOR_ROLLUP_CONFIG'' None False,
     flag ''override.canyon'' ''OP_CONDUCTOR_OVERRIDE_CANYON'' None False,
     flag ''override.delta'' ''OP_CONDUCTOR_OVERRIDE_DELTA'' None False,
     flag ''override.ecotone'' ''OP_CONDUCTOR_OVERRIDE_ECOTONE'' None False,
     flag ''override.fjord'' ''OP_CONDUCTOR_OVERRIDE_FJORD'' None False,
     flag ''override.granite'' ''OP_CONDUCTOR_OVERRIDE_GRANITE'' None False,
     flag ''override.holocene'' ''OP_CONDUCTOR_OVERRIDE_HOLOCENE'' None False,
     flag ''override.isthmus'' ''OP_CONDUCTOR_OVERRIDE_ISTHMUS'' None False,
     flag ''override.jovian'' ''OP_CONDUCTOR_OVERRIDE_JOVIAN'' None False,
     flag ''override.karst'' ''OP_CONDUCTOR_OVERRIDE_KARST'' None False,
     flag ''override.interop'' ''OP_CONDUCTOR_OVERRIDE_INTEROP'' None False,
     flag ''override.pectrablobschedule'' ''OP_CONDUCTOR_OVERRIDE_PECTRABLOBSCHEDULE'' None False]"

definition raft_flags :: "flag list" where
  "raft_flags =
     [flag ''supervisor.rpc'' ''OP_CONDUCTOR_SUPERVISOR_RPC'' None False,
     flag ''raft.server.id'' ''OP_CONDUCTOR_RAFT_SERVER_ID'' None False,
     flag ''raft.storage.dir'' ''OP_CONDUCTOR_RAFT_STORAGE_DIR'' None False,
     flag ''raft.bootstrap'' ''OP_CONDUCTOR_RAFT_BOOTSTRAP'' (Some ''false'') True,
     flag ''consensus.addr'' ''OP_CONDUCTOR_CONSENSUS_ADDR'' (Some ''127.0.0.1'') False,
     flag ''consensus.port'' ''OP_CONDUCTOR_CONSENSUS_PORT'' (Some ''50050'') False,
     flag ''consensus.advertised'' ''OP_CONDUCTOR_CONSENSUS_ADVERTISED'' None False,
     flag ''raft.snapshot-interval'' ''OP_CONDUCTOR_RAFT_SNAPSHOT_INTERVAL'' (Some ''120s'') False,
     flag ''raft.snapshot-threshold'' ''OP_CONDUCTOR_RAFT_SNAPSHOT_THRESHOLD'' (Some ''8192'') False,
     flag ''raft.trailing-logs'' ''OP_CONDUCTOR_RAFT_TRAILING_LOGS'' (Some ''10240'') False,
     flag ''raft.heartbeat-timeout'' ''OP_CONDUCTOR_RAFT_HEARTBEAT_TIMEOUT'' (Some ''1000ms'') False,
     flag ''raft.lease-timeout'' ''OP_CONDUCTOR_RAFT_LEASE_TIMEOUT'' (Some ''500ms'') False]"

definition endpoint_flags :: "flag list" where
  "endpoint_flags =
     [flag ''rpc.addr'' ''OP_CONDUCTOR_RPC_ADDR'' (Some ''0.0.0.0'') False,
     flag ''rpc.port'' ''OP_CONDUCTOR_RPC_PORT'' (Some ''8545'') False,
     flag ''rpc.enable-admin'' ''OP_CONDUCTOR_RPC_ENABLE_ADMIN'' (Some ''false'') True,
     flag ''rpc.enable-proxy'' ''OP_CONDUCTOR_RPC_ENABLE_PROXY'' (Some ''true'') True,
     flag ''metrics.enabled'' ''OP_CONDUCTOR_METRICS_ENABLED'' (Some ''false'') True,
     flag ''metrics.addr'' ''OP_CONDUCTOR_METRICS_ADDR'' (Some ''0.0.0.0'') False,
     flag ''metrics.port'' ''OP_CONDUCTOR_METRICS_PORT'' (Some ''7300'') False,
     flag ''pprof.enabled'' ''OP_CONDUCTOR_PPROF_ENABLED'' (Some ''false'') True,
     flag ''pprof.addr'' ''OP_CONDUCTOR_PPROF_ADDR'' (Some ''0.0.0.0'') False,
     flag ''pprof.port'' ''OP_CONDUCTOR_PPROF_PORT'' (Some ''6060'') False,
     flag ''pprof.path'' ''OP_CONDUCTOR_PPROF_PATH'' None False,
     flag ''pprof.type'' ''OP_CONDUCTOR_PPROF_TYPE'' None False,
     flag ''rollupboost.ws-url'' ''OP_CONDUCTOR_ROLLUPBOOST_WS_URL'' None False,
     flag ''websocket.server-port'' ''OP_CONDUCTOR_WEBSOCKET_SERVER_PORT'' (Some ''8546'') False]"

definition sequencer_flags :: "flag list" where
  "sequencer_flags =
     [flag ''paused'' ''OP_CONDUCTOR_PAUSED'' (Some ''false'') True,
     flag ''sequencer.start-mode'' ''OP_CONDUCTOR_SEQUENCER_START_MODE'' (Some ''hash-param'') False,
     flag ''unsafe-repair-depth'' ''OP_CONDUCTOR_UNSAFE_REPAIR_DEPTH'' (Some ''1'') False,
     flag ''raft.round-robin-leader-transfer'' ''OP_CONDUCTOR_RAFT_ROUND_ROBIN_LEADER_TRANSFER'' (Some ''false'') True]"

definition healthcheck_flags :: "flag list" where
  "healthcheck_flags =
     [flag ''healthcheck.interval'' ''OP_CONDUCTOR_HEALTHCHECK_INTERVAL'' None False,
     flag ''healthcheck.unsafe-interval'' ''OP_CONDUCTOR_HEALTHCHECK_UNSAFE_INTERVAL'' None False,
     flag ''healthcheck.safe-enabled'' ''OP_CONDUCTOR_HEALTHCHECK_SAFE_ENABLED'' (Some ''false'') True,
     flag ''healthcheck.safe-interval'' ''OP_CONDUCTOR_HEALTHCHECK_SAFE_INTERVAL'' (Some ''1200s'') False,
     flag ''healthcheck.min-peer-count'' ''OP_CONDUCTOR_HEALTHCHECK_MIN_PEER_COUNT'' None False,
     flag ''healthcheck.execution-p2p-enabled'' ''OP_CONDUCTOR_HEALTHCHECK_EXECUTION_P2P_ENABLED'' (Some ''false'') True,
     flag ''healthcheck.execution-p2p-min-peer-count'' ''OP_CONDUCTOR_HEALTHCHECK_EXECUTION_P2P_MIN_PEER_COUNT'' (Some ''0'') False,
     flag ''healthcheck.execution-p2p-rpc-url'' ''OP_CONDUCTOR_HEALTHCHECK_EXECUTION_P2P_RPC_URL'' None False,
     flag ''healthcheck.execution-p2p-check-api'' ''OP_CONDUCTOR_HEALTHCHECK_EXECUTION_P2P_CHECK_API'' (Some ''net'') False]"

definition rollup_boost_flags :: "flag list" where
  "rollup_boost_flags =
     [flag ''rollup-boost.enabled'' ''OP_CONDUCTOR_ROLLUP_BOOST_ENABLED'' (Some ''false'') True,
     flag ''rollup-boost.healthcheck-timeout'' ''OP_CONDUCTOR_ROLLUP_BOOST_HEALTHCHECK_TIMEOUT'' (Some ''5s'') False,
     flag ''rollup-boost.next-enabled'' ''OP_CONDUCTOR_ROLLUP_BOOST_NEXT_ENABLED'' (Some ''false'') True,
     flag ''rollup-boost.next-healthcheck-url'' ''OP_CONDUCTOR_ROLLUP_BOOST_NEXT_HEALTHCHECK_URL'' None False,
     flag ''healthcheck.rollup-boost-partial-healthiness-tolerance-limit'' ''OP_CONDUCTOR_HEALTHCHECK_ROLLUP_BOOST_PARTIAL_HEALTHINESS_TOLERANCE_LIMIT'' (Some ''0'') False,
     flag ''healthcheck.rollup-boost-partial-healthiness-tolerance-interval-seconds'' ''OP_CONDUCTOR_HEALTHCHECK_ROLLUP_BOOST_PARTIAL_HEALTHINESS_TOLERANCE_INTERVAL_SECONDS'' (Some ''0'') False]"

definition all_flags :: "flag list" where
  "all_flags =
     service_flags @ rollup_flags @ raft_flags @ endpoint_flags @ sequencer_flags @ healthcheck_flags
     @ rollup_boost_flags"

section \<open>Unknown environment variables\<close>

definition env_var_prefix :: string where
  "env_var_prefix = ''OP_CONDUCTOR''"

definition defined_env_vars :: "string list" where
  "defined_env_vars = map fl_env all_flags"

definition unknown_env_vars :: "string \<Rightarrow> (string \<times> string) list \<Rightarrow> string list \<Rightarrow> string list" where
  "unknown_env_vars pre provided known =
     List.map_filter (\<lambda>(key, v).
       if \<not> starts_with key pre \<or> key \<in> set known then None else Some (key @ CHR ''='' # v)) provided"

text \<open>The warnings, for the variables of the process.\<close>

definition warn_unknown_env_vars :: "(string \<times> string) list \<Rightarrow> string list" where
  "warn_unknown_env_vars vars = unknown_env_vars env_var_prefix vars defined_env_vars"

section \<open>Arguments\<close>

datatype log_level = Trace | Debug | Info | Warn | Error | Crit

fun as_filter :: "log_level \<Rightarrow> string" where
  "as_filter Trace = ''trace''"
| "as_filter Debug = ''debug''"
| "as_filter Info = ''info''"
| "as_filter Warn = ''warn''"
| "as_filter Error = ''error''"
| "as_filter Crit = ''error''"

datatype log_format = LogText | Terminal | Logfmt | Logfmtms | LogJson | Jsonms

datatype pprof_profile = Cpu | Heap | Goroutine | Threadcreate | Block | Mutex | Allocs

definition known_rollup_networks :: "string list" where
  "known_rollup_networks =
     [''arena-z-mainnet'', ''arena-z-sepolia'', ''automata-mainnet'',
      ''base-devnet-0-sepolia-dev-0'', ''base-mainnet'', ''base-sepolia'', ''bob-mainnet'',
      ''camp-sepolia'', ''creator-chain-testnet-sepolia'', ''cyber-mainnet'', ''cyber-sepolia'',
      ''ethernity-mainnet'', ''ethernity-sepolia'', ''fraxtal-mainnet'', ''funki-mainnet'',
      ''funki-sepolia'', ''hashkeychain-mainnet'', ''ink-mainnet'', ''ink-sepolia'',
      ''lisk-mainnet'', ''lisk-sepolia'', ''lyra-mainnet'', ''metal-mainnet'', ''metal-sepolia'',
      ''mint-mainnet'', ''mode-mainnet'', ''mode-sepolia'', ''op-mainnet'', ''op-sepolia'',
      ''oplabs-devnet-0-sepolia-dev-0'', ''orderly-mainnet'', ''ozean-sepolia'',
      ''pivotal-sepolia'', ''polynomial-mainnet'', ''race-mainnet'', ''race-sepolia'',
      ''radius_testnet-sepolia'', ''redstone-mainnet'', ''rehearsal-0-bn-0-rehearsal-0-bn'',
      ''rehearsal-0-bn-1-rehearsal-0-bn'', ''settlus-mainnet-mainnet'',
      ''settlus-sepolia-sepolia'', ''shape-mainnet'', ''shape-sepolia'',
      ''silent-data-mainnet-mainnet'', ''snax-mainnet'', ''soneium-mainnet'',
      ''soneium-minato-sepolia'', ''sseed-mainnet'', ''swan-mainnet'', ''swell-mainnet'',
      ''tbn-mainnet'', ''tbn-sepolia'', ''unichain-mainnet'', ''unichain-sepolia'',
      ''worldchain-mainnet'', ''worldchain-sepolia'', ''xterio-eth-mainnet'', ''zora-mainnet'',
      ''zora-sepolia'']"

record args =
  a_node_rpc :: http_url
  a_execution_rpc :: http_url
  a_log_level :: log_level
  a_log_format :: log_format
  a_log_color :: bool
  a_log_pid :: bool
  a_network :: "string option"
  a_rollup_config :: "string option"
  a_override_canyon :: "u64 option"
  a_override_delta :: "u64 option"
  a_override_ecotone :: "u64 option"
  a_override_fjord :: "u64 option"
  a_override_granite :: "u64 option"
  a_override_holocene :: "u64 option"
  a_override_isthmus :: "u64 option"
  a_override_jovian :: "u64 option"
  a_override_karst :: "u64 option"
  a_override_interop :: "u64 option"
  a_override_pectrablobschedule :: "u64 option"
  a_supervisor_rpc :: "string option"
  a_server_id :: string
  a_storage_dir :: string
  a_raft_bootstrap :: bool
  a_consensus_addr :: string
  a_consensus_port :: i64
  a_consensus_advertised :: "string option"
  a_raft_snapshot_interval :: duration
  a_raft_snapshot_threshold :: u64
  a_raft_trailing_logs :: u64
  a_raft_heartbeat_timeout :: duration
  a_raft_lease_timeout :: duration
  a_rpc_addr :: string
  a_rpc_port :: i64
  a_rpc_enable_admin :: bool
  a_rpc_enable_proxy :: bool
  a_metrics_enabled :: bool
  a_metrics_addr :: string
  a_metrics_port :: i64
  a_pprof_enabled :: bool
  a_pprof_addr :: string
  a_pprof_port :: i64
  a_pprof_path :: "string option"
  a_pprof_type :: "pprof_profile option"
  a_rollupboost_ws_url :: "string option"
  a_websocket_server_port :: i64
  a_paused :: bool
  a_start_mode :: start_mode
  a_unsafe_repair_depth :: u64
  a_raft_round_robin_leader_transfer :: bool
  a_healthcheck_interval :: "duration option"
  a_healthcheck_unsafe_interval :: "duration option"
  a_healthcheck_safe_enabled :: bool
  a_healthcheck_safe_interval :: duration
  a_healthcheck_min_peer_count :: "u64 option"
  a_healthcheck_execution_p2p_enabled :: bool
  a_healthcheck_execution_p2p_min_peer_count :: u64
  a_healthcheck_execution_p2p_rpc_url :: "string option"
  a_healthcheck_execution_p2p_check_api :: string
  a_rollup_boost_enabled :: bool
  a_rollup_boost_healthcheck_timeout :: duration
  a_rollup_boost_next_enabled :: bool
  a_rollup_boost_next_healthcheck_url :: "string option"
  a_rollup_boost_partial_healthiness_tolerance_limit :: u64
  a_rollup_boost_partial_healthiness_tolerance_interval_seconds :: u64

text \<open>The arguments of a command line with the required values only.\<close>

definition args_with_defaults :: "http_url \<Rightarrow> http_url \<Rightarrow> string \<Rightarrow> string \<Rightarrow> args" where
  "args_with_defaults node_rpc execution_rpc server_id storage_dir =
     \<lparr>a_node_rpc = node_rpc,
      a_execution_rpc = execution_rpc,
      a_log_level = Info,
      a_log_format = LogText,
      a_log_color = False,
      a_log_pid = False,
      a_network = None,
      a_rollup_config = None,
      a_override_canyon = None,
      a_override_delta = None,
      a_override_ecotone = None,
      a_override_fjord = None,
      a_override_granite = None,
      a_override_holocene = None,
      a_override_isthmus = None,
      a_override_jovian = None,
      a_override_karst = None,
      a_override_interop = None,
      a_override_pectrablobschedule = None,
      a_supervisor_rpc = None,
      a_server_id = server_id,
      a_storage_dir = storage_dir,
      a_raft_bootstrap = False,
      a_consensus_addr = ''127.0.0.1'',
      a_consensus_port = 50050,
      a_consensus_advertised = None,
      a_raft_snapshot_interval = (from_secs 120),
      a_raft_snapshot_threshold = 8192,
      a_raft_trailing_logs = 10240,
      a_raft_heartbeat_timeout = (from_millis 1000),
      a_raft_lease_timeout = (from_millis 500),
      a_rpc_addr = ''0.0.0.0'',
      a_rpc_port = 8545,
      a_rpc_enable_admin = False,
      a_rpc_enable_proxy = True,
      a_metrics_enabled = False,
      a_metrics_addr = ''0.0.0.0'',
      a_metrics_port = 7300,
      a_pprof_enabled = False,
      a_pprof_addr = ''0.0.0.0'',
      a_pprof_port = 6060,
      a_pprof_path = None,
      a_pprof_type = None,
      a_rollupboost_ws_url = None,
      a_websocket_server_port = 8546,
      a_paused = False,
      a_start_mode = HashParam,
      a_unsafe_repair_depth = 1,
      a_raft_round_robin_leader_transfer = False,
      a_healthcheck_interval = None,
      a_healthcheck_unsafe_interval = None,
      a_healthcheck_safe_enabled = False,
      a_healthcheck_safe_interval = (from_secs 1200),
      a_healthcheck_min_peer_count = None,
      a_healthcheck_execution_p2p_enabled = False,
      a_healthcheck_execution_p2p_min_peer_count = 0,
      a_healthcheck_execution_p2p_rpc_url = None,
      a_healthcheck_execution_p2p_check_api = ''net'',
      a_rollup_boost_enabled = False,
      a_rollup_boost_healthcheck_timeout = (from_secs 5),
      a_rollup_boost_next_enabled = False,
      a_rollup_boost_next_healthcheck_url = None,
      a_rollup_boost_partial_healthiness_tolerance_limit = 0,
      a_rollup_boost_partial_healthiness_tolerance_interval_seconds = 0\<rparr>"

section \<open>Value parsers\<close>

definition parse_log_level :: "string \<Rightarrow> string + log_level" where
  "parse_log_level txt =
     (let l = to_ascii_lowercase txt in
      if l = ''trace'' \<or> l = ''trce'' then Inr Trace
      else if l = ''debug'' \<or> l = ''dbug'' then Inr Debug
      else if l = ''info'' then Inr Info
      else if l = ''warn'' then Inr Warn
      else if l = ''error'' \<or> l = ''eror'' then Inr Error
      else if l = ''crit'' then Inr Crit
      else Inl (''unknown level: '' @ txt))"

text \<open>\<open>humantime\<close> reads what is not a number of seconds.\<close>

definition parse_duration_arg :: "(string \<Rightarrow> string + duration) \<Rightarrow> string \<Rightarrow> string + duration" where
  "parse_duration_arg humantime txt =
     (let trimmed = str_trim txt in
      if trimmed \<noteq> [] \<and> list_all is_ascii_digit trimmed
      then map_ok from_secs (map_err show_int_error (parse_u64 trimmed))
      else humantime trimmed)"

text \<open>How the log is set up: its filter, whether it is JSON, whether it has colours and whether the process id is logged.\<close>

record tracing_setup =
  ts_filter :: string
  ts_json :: bool
  ts_ansi :: bool
  ts_pid :: bool

definition init_tracing :: "args \<Rightarrow> tracing_setup" where
  "init_tracing args =
     (let layer_json = (case a_log_format args of LogJson \<Rightarrow> True | Jsonms \<Rightarrow> True | _ \<Rightarrow> False) in
      \<lparr>ts_filter = as_filter (a_log_level args), ts_json = layer_json, ts_ansi = a_log_color args,
       ts_pid = a_log_pid args\<rparr>)"

section \<open>Lemmas\<close>

text \<open>Exactly the variables with the prefix that belong to no flag are reported.\<close>

lemma unknown_env_vars_set:
  "set (unknown_env_vars pre provided known) =
     {key @ CHR ''='' # v | key v. (key, v) \<in> set provided \<and> starts_with key pre \<and> key \<notin> set known}"
proof (induction provided)
  case (Cons kv provided)
  obtain k v where "kv = (k, v)" by (cases kv)
  with Cons show ?case by (cases "starts_with k pre \<and> k \<notin> set known") (auto simp: unknown_env_vars_def)
qed (simp add: unknown_env_vars_def)

definition plain_char :: "char \<Rightarrow> bool" where
  "plain_char c = (33 \<le> char_code c \<and> char_code c \<le> 126)"

lemma whitespace_not_plain: "w \<in> set whitespace_encodings \<Longrightarrow> list_all (\<lambda>c. \<not> plain_char c) w"
  by (auto simp: whitespace_encodings_def plain_char_def)

lemma trim_plain:
  assumes "list_all plain_char s"
  shows "str_trim s = s"
proof -
  have no: "\<not> (w \<noteq> [] \<and> set w \<subseteq> set s)" if "w \<in> set whitespace_encodings" for w
    using assms whitespace_not_plain [OF that] by (cases w) (auto simp: list_all_iff)
  then have "find (\<lambda>w. w \<noteq> [] \<and> starts_with s w) whitespace_encodings = None"
    by (auto simp: find_None_iff starts_with_def dest: in_set_takeD)
      (metis set_take_subset)
  moreover from no have "find (\<lambda>w. w \<noteq> [] \<and> ends_with s w) whitespace_encodings = None"
    by (auto simp: find_None_iff ends_with_def) (metis set_drop_subset)
  ultimately show ?thesis by (simp add: str_trim_def trim_start.simps [of s] trim_end.simps [of s])
qed

text \<open>A duration written as a plain number is that many seconds, whatever \<open>humantime\<close> would make of it.\<close>

lemma parse_duration_seconds: "parse_duration_arg humantime (show_u64 n) = Inr (from_secs n)"
proof -
  have digits: "list_all is_ascii_digit (show_u64 n)"
    using show_radix_digits [of 10 "unat n"]
    by (auto simp: list_all_iff show_u64_def show_nat_def digit_char_def is_ascii_digit_def)
  then have plain: "list_all plain_char (show_u64 n)"
    by (auto simp: list_all_iff is_ascii_digit_def plain_char_def)
  have "show_u64 n \<noteq> []" by (simp add: show_u64_def show_nat_def)
  moreover have "parse_u64 (show_u64 n) = Inr n"
    by (simp add: parse_u64_def show_u64_def show_nat_def from_str_radix_show)
  ultimately show ?thesis using digits by (simp add: parse_duration_arg_def trim_plain [OF plain])
qed

end
