(* ===== verification/Profiling.thy ===== *)
theory Profiling
  imports File_System
begin

text \<open>
  \<open>src/pprof.rs\<close>: CPU profiles, on demand over HTTP and into a file for the whole run. The profiler
  (\<open>pprof\<close>), the sleeping thread and the test for a directory are the record \<open>profiler_lib\<close>. Shows
  that a requested profile is bounded in time and that a profile file is never a directory the
  user named.
\<close>

section \<open>Errors with context\<close>

text \<open>An \<open>anyhow::Error\<close>: the messages of its chain, the outermost first.\<close>

type_synonym anyhow = "string list"

definition context_err :: "string \<Rightarrow> string + 'a \<Rightarrow> anyhow + 'a" where
  "context_err msg r = map_err (\<lambda>e. [msg, e]) r"

definition add_context :: "string \<Rightarrow> anyhow + 'a \<Rightarrow> anyhow + 'a" where
  "add_context msg r = map_err (\<lambda>e. msg # e) r"

text \<open>The formats \<open>{err}\<close> and \<open>{err:#}\<close>.\<close>

fun show_anyhow :: "anyhow \<Rightarrow> string" where
  "show_anyhow [] = []"
| "show_anyhow (m # ms) = m"

fun show_anyhow_chain :: "anyhow \<Rightarrow> string" where
  "show_anyhow_chain [] = []"
| "show_anyhow_chain [m] = m"
| "show_anyhow_chain (m # ms) = m @ '': '' @ show_anyhow_chain ms"

section \<open>The profiler\<close>

record ('g, 'r, 'p, 'w) profiler_lib =
  pl_build :: "nat \<Rightarrow> string list \<Rightarrow> ('w, string, 'g) call"
  pl_report :: "'g \<Rightarrow> 'w \<Rightarrow> string + 'r"
  pl_pprof :: "'r \<Rightarrow> string + 'p"
  pl_encode :: "'p \<Rightarrow> string + string"
  pl_sleep :: "duration \<Rightarrow> 'w \<Rightarrow> 'w"
  pl_is_dir :: "string \<Rightarrow> bool"

definition default_profile_seconds :: u64 where
  "default_profile_seconds = 30"

definition max_profile_seconds :: u64 where
  "max_profile_seconds = 300"

definition default_sample_frequency :: nat where
  "default_sample_frequency = 100"

definition cpu_profile_filename :: string where
  "cpu_profile_filename = ''cpu.prof''"

definition start_profiler :: "('g, 'r, 'p, 'w) profiler_lib \<Rightarrow> ('w, anyhow, 'g) call" where
  "start_profiler F =
     call_err (\<lambda>e. [''failed to start CPU profiler'', e])
       (pl_build F default_sample_frequency [''libc'', ''libgcc'', ''pthread'', ''vdso''])"

definition build_profile_body :: "('g, 'r, 'p, 'w) profiler_lib \<Rightarrow> 'g \<Rightarrow> 'w \<Rightarrow> anyhow + string" where
  "build_profile_body F guard w =
     and_then (context_err ''failed to build CPU profile report'' (pl_report F guard w)) (\<lambda>report.
     and_then (context_err ''failed to encode CPU profile report'' (pl_pprof F report)) (\<lambda>profile.
       context_err ''failed to serialize CPU profile report'' (pl_encode F profile)))"

definition profile_seconds :: "u64 option \<Rightarrow> u64" where
  "profile_seconds seconds = min (unwrap_or seconds default_profile_seconds) max_profile_seconds"

definition collect_cpu_profile ::
  "('g, 'r, 'p, 'w) profiler_lib \<Rightarrow> u64 option \<Rightarrow> ('w, string, string) call" where
  "collect_cpu_profile F seconds =
     try_call (call_err (\<lambda>err. ''failed to start CPU profiler: '' @ show_anyhow err @ [CHR 0x0A]) (start_profiler F))
       (\<lambda>guard w.
         let w' = pl_sleep F (from_secs (profile_seconds seconds)) w in
         (map_err (\<lambda>err. show_anyhow_chain err @ [CHR 0x0A]) (build_profile_body F guard w'), w'))"

section \<open>The HTTP endpoints\<close>

record pprof_response =
  pr_status :: nat
  pr_content_type :: string
  pr_body :: string

definition text_type :: string where
  "text_type = ''text/plain; charset=utf-8''"

definition profile_proto :: string where
  "profile_proto = ''application/octet-stream''"

text \<open>The task that collects a profile may itself fail, with the message \<open>panic\<close>.\<close>

definition cpu_profile ::
  "('g, 'r, 'p, 'w) profiler_lib \<Rightarrow> string option \<Rightarrow> u64 option \<Rightarrow> 'w \<Rightarrow> pprof_response \<times> 'w" where
  "cpu_profile F panic seconds w =
     (case panic of
        Some err \<Rightarrow>
          (\<lparr>pr_status = 500, pr_content_type = text_type,
            pr_body = ''profile collection task failed: '' @ err @ [CHR 0x0A]\<rparr>, w)
      | None \<Rightarrow>
          (case collect_cpu_profile F seconds w of
             (Inr body, w') \<Rightarrow> (\<lparr>pr_status = 200, pr_content_type = profile_proto, pr_body = body\<rparr>, w')
           | (Inl err, w') \<Rightarrow> (\<lparr>pr_status = 500, pr_content_type = text_type, pr_body = err\<rparr>, w')))"

definition unsupported :: "string \<Rightarrow> pprof_response" where
  "unsupported message = \<lparr>pr_status = 501, pr_content_type = text_type, pr_body = message @ [CHR 0x0A]\<rparr>"

fun join_lines :: "string list \<Rightarrow> string" where
  "join_lines [] = []"
| "join_lines [l] = l"
| "join_lines (l # ls) = l @ CHR 0x0A # join_lines ls"

definition index_entry :: "string \<Rightarrow> string" where
  "index_entry name =
     ''<li><a href='' @ [CHR 0x22] @ ''/debug/pprof/'' @ name @ [CHR 0x22] @ ''>'' @ name @ ''</a></li>''"

definition pprof_index :: pprof_response where
  "pprof_index =
     \<lparr>pr_status = 200, pr_content_type = ''text/html; charset=utf-8'',
      pr_body = join_lines
        ([''<!doctype html>'', ''<html>'', ''<head><title>/debug/pprof/</title></head>'', ''<body>'',
          ''<h1>/debug/pprof/</h1>'', ''<ul>'']
         @ map index_entry [''profile'', ''trace'', ''symbol'', ''allocs'', ''block'', ''goroutine'', ''heap'',
             ''mutex'', ''threadcreate'']
         @ [''</ul>'', ''</body>'', ''</html>''])\<rparr>"

definition pprof_trace :: pprof_response where
  "pprof_trace = unsupported ''trace collection is not available in conductor-rs''"

definition runtime_profile :: pprof_response where
  "runtime_profile = unsupported ''this Go runtime pprof profile is not available in conductor-rs''"

definition pprof_symbol :: pprof_response where
  "pprof_symbol = \<lparr>pr_status = 200, pr_content_type = text_type, pr_body = ''num_symbols: 0'' @ [CHR 0x0A]\<rparr>"

fun join_nul :: "string list \<Rightarrow> string" where
  "join_nul [] = []"
| "join_nul [a] = a"
| "join_nul (a # args) = a @ CHR 0x00 # join_nul args"

definition cmdline :: "string list \<Rightarrow> pprof_response" where
  "cmdline args = \<lparr>pr_status = 200, pr_content_type = text_type, pr_body = join_nul args @ [CHR 0x0A]\<rparr>"

datatype pprof_handler = PprofIndex | CpuProfile | SymbolHandler | TraceHandler | RuntimeProfile | Cmdline

datatype http_method = GET | POST

definition pprof_router :: "(string \<times> http_method list \<times> pprof_handler) list" where
  "pprof_router =
     [(''/debug/pprof'', [GET], PprofIndex),
      (''/debug/pprof/'', [GET], PprofIndex),
      (''/debug/pprof/profile'', [GET], CpuProfile),
      (''/debug/pprof/symbol'', [GET, POST], SymbolHandler),
      (''/debug/pprof/trace'', [GET], TraceHandler),
      (''/debug/pprof/allocs'', [GET], RuntimeProfile),
      (''/debug/pprof/block'', [GET], RuntimeProfile),
      (''/debug/pprof/cmdline'', [GET], Cmdline),
      (''/debug/pprof/goroutine'', [GET], RuntimeProfile),
      (''/debug/pprof/heap'', [GET], RuntimeProfile),
      (''/debug/pprof/mutex'', [GET], RuntimeProfile),
      (''/debug/pprof/threadcreate'', [GET], RuntimeProfile)]"

section \<open>A profile of the whole run\<close>

text \<open>\<open>Path::join\<close> with a relative name, on the text of a path.\<close>

definition path_join :: "string \<Rightarrow> string \<Rightarrow> string" where
  "path_join p name = (if p = [] \<or> ends_with p ''/'' then p @ name else p @ CHR ''/'' # name)"

definition is_profile_dir_path :: "('g, 'r, 'p, 'w) profiler_lib \<Rightarrow> string \<Rightarrow> bool" where
  "is_profile_dir_path F p = (pl_is_dir F p \<or> ends_with p ''/'')"

definition profile_target_path :: "('g, 'r, 'p, 'w) profiler_lib \<Rightarrow> string option \<Rightarrow> string \<Rightarrow> string" where
  "profile_target_path F p default_filename =
     (case p of
        Some p \<Rightarrow> if is_profile_dir_path F p then path_join p default_filename else p
      | None \<Rightarrow> default_filename)"

record 'g cpu_file_profiler =
  fp_target :: string
  fp_guard :: "'g option"

definition start_cpu_file_profiler ::
  "('g, 'r, 'p, 'w) profiler_lib \<Rightarrow> string option \<Rightarrow> ('w, anyhow, 'g cpu_file_profiler) call" where
  "start_cpu_file_profiler F p =
     try_call (start_profiler F) (\<lambda>guard w.
       (Inr \<lparr>fp_target = profile_target_path F p cpu_profile_filename, fp_guard = Some guard\<rparr>, w))"

text \<open>Writing the file is \<open>std::fs::write\<close> at the path the text names.\<close>

definition profiler_finish ::
  "('g, 'r, 'p, 'w) profiler_lib \<Rightarrow> (string \<Rightarrow> path) \<Rightarrow> 'g cpu_file_profiler \<Rightarrow>
   ('w \<times> fsys, anyhow, string) call" where
  "profiler_finish F path_of fp s =
     (case s of (w, fs) \<Rightarrow>
        (case fp_guard fp of
           None \<Rightarrow> (Inl [''CPU file profiler already finished''], s)
         | Some guard \<Rightarrow>
             (case build_profile_body F guard w of
                Inl e \<Rightarrow> (Inl e, s)
              | Inr body \<Rightarrow>
                  (case fs_write (path_of (fp_target fp)) body fs of
                     (Inl err, fs') \<Rightarrow>
                       (Inl [''failed to write CPU profile '' @ fp_target fp, io_msg err], w, fs')
                   | (Inr _, fs') \<Rightarrow> (Inr (fp_target fp), w, fs')))))"

section \<open>Lemmas\<close>

lemma profile_seconds_bounded: "profile_seconds seconds \<le> 300"
  by (simp add: profile_seconds_def max_profile_seconds_def)

text \<open>A profile is collected by one sleep of at most five minutes, between starting and reading it.\<close>

lemma collect_cpu_profile_time:
  assumes "collect_cpu_profile F seconds w = (r, w')"
  shows "(\<exists>guard w1. start_profiler F w = (Inr guard, w1)
            \<and> w' = pl_sleep F (from_secs (profile_seconds seconds)) w1)
         \<or> snd (start_profiler F w) = w' \<and> \<not> is_ok r"
proof -
  obtain g w1 where start: "start_profiler F w = (g, w1)" by (cases "start_profiler F w")
  with assms show ?thesis by (cases g) (auto simp: collect_cpu_profile_def try_call_def call_err_def Let_def)
qed

lemma ends_with_char: "ends_with s [c] \<longleftrightarrow> s \<noteq> [] \<and> last s = c"
  by (cases s rule: rev_cases) (simp_all add: ends_with_def)

text \<open>The profile goes to a file, never onto a path that is marked as a directory.\<close>

lemma profile_target_not_marked_dir:
  assumes "default_filename \<noteq> []" "\<not> ends_with default_filename ''/''"
  shows "\<not> ends_with (profile_target_path F p default_filename) ''/''"
  using assms
  by (auto simp: profile_target_path_def is_profile_dir_path_def path_join_def ends_with_char
      split: option.split)

text \<open>A successful profile is finished once: it has written the body it built to its target.\<close>

lemma profiler_finish_writes:
  assumes "profiler_finish F path_of fp (w, fs) = (Inr target, s')"
  shows "target = fp_target fp \<and> (\<exists>guard body. fp_guard fp = Some guard \<and> build_profile_body F guard w = Inr body
    \<and> files (snd s') (path_of target) = Some \<lparr>content = body, synced = False\<rparr>)"
  using assms
  by (auto simp: profiler_finish_def fs_write_def split: option.splits sum.splits prod.splits)

text \<open>Every path of the router is distinct, so a request has one handler.\<close>

lemma pprof_router_distinct: "distinct (map fst pprof_router)"
  by (simp add: pprof_router_def)

end
