(* ===== verification/Cli_Config.thy ===== *)
theory Cli_Config
  imports Cli_Flags Profiling Raft_Node Conductor_State
begin

text \<open>
  The configuration of \<open>src/main.rs\<close>: validation of the arguments and of the rollup configuration
  file, and the settings of the parts of the program computed from them. Parsing URLs and socket
  addresses and resolving host names are arguments. Shows that validated arguments leave only
  unreadable URLs and an overflowing election timeout to fail, and that what they configure is usable.
\<close>

section \<open>Small parsers\<close>

definition bail_if :: "bool \<Rightarrow> string \<Rightarrow> anyhow + unit" where
  "bail_if c msg = (if c then Inl [msg] else Inr ())"

definition opt_context :: "string \<Rightarrow> 'a option \<Rightarrow> anyhow + 'a" where
  "opt_context msg v = ok_or v [msg]"

definition optional_string :: "string option \<Rightarrow> string option" where
  "optional_string txt = (case txt of Some v \<Rightarrow> if v = [] then None else Some v | None \<Rightarrow> None)"

definition parse_optional_url ::
  "lib \<Rightarrow> (string \<Rightarrow> string + http_url) \<Rightarrow> string option \<Rightarrow> string \<Rightarrow> anyhow + http_url option" where
  "parse_optional_url L parse_url txt name =
     (case optional_string txt of
        None \<Rightarrow> Inr None
      | Some v \<Rightarrow> map_ok Some (context_err (''invalid '' @ name @ '': '' @ debug_text L v) (parse_url v)))"

definition port_in_range :: "i64 \<Rightarrow> bool" where
  "port_in_range port = (0 \<le> port \<and> port \<le> 65535)"

definition rpc_port :: "i64 \<Rightarrow> anyhow + u16" where
  "rpc_port port = (if \<not> port_in_range port then Inl [''invalid RPC port''] else Inr (of_int port))"

definition observability_port :: "i64 \<Rightarrow> string \<Rightarrow> anyhow + u16" where
  "observability_port port name =
     (if \<not> port_in_range port then Inl [''invalid '' @ name @ '' port''] else Inr (of_int port))"

definition websocket_server_port :: "i64 \<Rightarrow> anyhow + u16" where
  "websocket_server_port port =
     (if \<not> port_in_range port then Inl [''WebSocket server port invalid: '' @ show_int port] else Inr (of_int port))"

fun parse_execution_p2p_check_api :: "string \<Rightarrow> anyhow + check_api" where
  "parse_execution_p2p_check_api txt =
     (if txt = ''net'' then Inr Net
      else if txt = ''admin'' then Inr Admin
      else Inl [''invalid execution p2p check api: '' @ txt])"

text \<open>Socket addresses are their texts; a host name may resolve to any number of them. Binding an address gives a listener, which has an address of its own.\<close>

record 'w net_lib =
  nl_parse :: "string \<Rightarrow> string option"
  nl_resolve :: "string \<Rightarrow> u16 \<Rightarrow> string + string list"
  nl_bind :: "string \<Rightarrow> ('w, string, string) call"
  nl_local_addr :: "string \<Rightarrow> string + string"

definition listen_addr :: "'w net_lib \<Rightarrow> string \<Rightarrow> u16 \<Rightarrow> anyhow + string" where
  "listen_addr N host port =
     (case nl_parse N host of
        Some addr \<Rightarrow> Inr addr
      | None \<Rightarrow>
          and_then (context_err ''resolving listen address'' (nl_resolve N host port)) (\<lambda>addrs.
            case addrs of
              [] \<Rightarrow> Inl [''listen address resolved to no socket addresses'']
            | addr # _ \<Rightarrow> Inr addr))"

section \<open>The rollup configuration\<close>

definition numeric_value :: "json option \<Rightarrow> string \<Rightarrow> anyhow + u64" where
  "numeric_value v name =
     (case v of
        Some (JNumber n) \<Rightarrow> opt_context (name @ '' must be a positive integer'') (num_as_u64 n)
      | Some (JString txt) \<Rightarrow>
          context_err (name @ '' must be a positive integer'') (map_err show_int_error (parse_u64 txt))
      | _ \<Rightarrow> Inl [''missing '' @ name])"

definition non_zero_u64 :: "json option \<Rightarrow> string \<Rightarrow> anyhow + u64" where
  "non_zero_u64 v name =
     and_then (numeric_value v name) (\<lambda>n. if n = 0 then Inl [name @ '' must be non-zero''] else Inr n)"

definition hex_body :: "json option \<Rightarrow> string \<Rightarrow> anyhow + string" where
  "hex_body v name =
     and_then (opt_context (''missing '' @ name) (Option.bind v json_as_str)) (\<lambda>txt.
       opt_context (name @ '' must be 0x-prefixed'') (opt_or (strip_prefix txt ''0x'') (strip_prefix txt ''0X'')))"

definition non_empty_hash :: "json option \<Rightarrow> string \<Rightarrow> anyhow + unit" where
  "non_empty_hash v name =
     and_then (hex_body v name) (\<lambda>hex.
       if length hex \<noteq> 64 \<or> \<not> list_all is_ascii_hexdigit hex
       then Inl [name @ '' must be a 32-byte hex value'']
       else if list_all (\<lambda>c. c = CHR ''0'') hex then Inl [name @ '' must be non-zero'']
       else Inr ())"

definition non_zero_address :: "json option \<Rightarrow> string \<Rightarrow> anyhow + unit" where
  "non_zero_address v name =
     and_then (hex_body v name) (\<lambda>hex.
       if length hex \<noteq> 40 \<or> \<not> list_all is_ascii_hexdigit hex
       then Inl [name @ '' must be a 20-byte hex address'']
       else if list_all (\<lambda>c. c = CHR ''0'') hex then Inl [name @ '' must be non-zero'']
       else Inr ())"

definition genesis_l1_hash :: "json \<Rightarrow> json option" where
  "genesis_l1_hash config = json_pointer config [''genesis'', ''l1'', ''hash'']"

definition genesis_l2_hash :: "json \<Rightarrow> json option" where
  "genesis_l2_hash config = json_pointer config [''genesis'', ''l2'', ''hash'']"

definition validate_rollup_config_json :: "json \<Rightarrow> anyhow + unit" where
  "validate_rollup_config_json config =
     and_then (non_empty_hash (genesis_l1_hash config) ''genesis.l1.hash'') (\<lambda>_.
     and_then (non_empty_hash (genesis_l2_hash config) ''genesis.l2.hash'') (\<lambda>_.
     and_then (bail_if (genesis_l1_hash config = genesis_l2_hash config)
       ''genesis L1 and L2 hashes must differ'') (\<lambda>_.
     and_then (non_zero_u64 (json_pointer config [''genesis'', ''l2_time'']) ''genesis.l2_time'') (\<lambda>_.
     and_then (non_zero_address (json_pointer config [''genesis'', ''system_config'', ''batcherAddr''])
       ''genesis.system_config.batcherAddr'') (\<lambda>_.
     and_then (non_empty_hash (json_pointer config [''genesis'', ''system_config'', ''scalar''])
       ''genesis.system_config.scalar'') (\<lambda>_.
     and_then (non_zero_u64 (json_pointer config [''genesis'', ''system_config'', ''gasLimit''])
       ''genesis.system_config.gasLimit'') (\<lambda>_.
     and_then (non_zero_u64 (json_get config ''block_time'') ''block_time'') (\<lambda>_.
     and_then (non_zero_u64 (json_get config ''channel_timeout'') ''channel_timeout'') (\<lambda>_.
     and_then (non_zero_u64 (json_get config ''max_sequencer_drift'') ''max_sequencer_drift'') (\<lambda>_.
     and_then (numeric_value (json_get config ''seq_window_size'') ''seq_window_size'') (\<lambda>seq_window_size.
     and_then (bail_if (seq_window_size < 2) ''seq_window_size must be at least 2'') (\<lambda>_.
     and_then (numeric_value (json_get config ''l1_chain_id'') ''l1_chain_id'') (\<lambda>l1_chain_id.
     and_then (numeric_value (json_get config ''l2_chain_id'') ''l2_chain_id'') (\<lambda>l2_chain_id.
     and_then (bail_if (l1_chain_id = 0 \<or> l2_chain_id = 0) ''chain IDs must be positive'') (\<lambda>_.
     and_then (bail_if (l1_chain_id = l2_chain_id) ''l1_chain_id and l2_chain_id must differ'') (\<lambda>_.
     and_then (non_zero_address (json_get config ''batch_inbox_address'') ''batch_inbox_address'') (\<lambda>_.
       non_zero_address (json_get config ''deposit_contract_address'') ''deposit_contract_address'')))))))))))))))))"

definition validate_network_name :: "lib \<Rightarrow> string \<Rightarrow> anyhow + unit" where
  "validate_network_name L txt =
     (let lower = to_ascii_lowercase (str_trim txt);
          normalized =
            (if lower = ''mainnet'' then ''op-mainnet''
             else if lower = ''sepolia'' then ''op-sepolia''
             else lower)
      in if list_ex (\<lambda>network. eq_ignore_ascii_case network normalized) known_rollup_networks then Inr ()
         else Inl [''invalid network: '' @ debug_text L txt])"

text \<open>
  The path of a file by its text: a root, then the names between separators; empty names and, after
  the first, the name of the current directory do not count.
\<close>

fun split_slash :: "string \<Rightarrow> string list" where
  "split_slash [] = [[]]"
| "split_slash (c # s) =
     (if c = CHR ''/'' then [] # split_slash s
      else (case split_slash s of [] \<Rightarrow> [[c]] | name # names \<Rightarrow> (c # name) # names))"

definition path_from :: "string \<Rightarrow> path" where
  "path_from txt =
     (let names = split_slash txt in
      (if starts_with txt ''/'' then [''/''] else if hd names = ''.'' then [''.''] else [])
      @ filter (\<lambda>name. name \<noteq> [] \<and> name \<noteq> ''.'') names)"

definition pure_call :: "'e + 'a \<Rightarrow> ('s, 'e, 'a) call" where
  "pure_call r s = (r, s)"

definition validate_rollup_config_source :: "lib \<Rightarrow> args \<Rightarrow> (fsys, anyhow, unit) call" where
  "validate_rollup_config_source L args =
     (case (case a_network args of
              Some network \<Rightarrow> if str_trim network = [] then None else Some network
            | None \<Rightarrow> None) of
        Some network \<Rightarrow> pure_call (validate_network_name L network)
      | None \<Rightarrow>
          (case a_rollup_config args of
             None \<Rightarrow> call_fail [''failed to load rollup config: missing network or rollup.config'']
           | Some p \<Rightarrow>
               try_call (call_err (\<lambda>err. [''failed to read rollup config '' @ p, io_msg err]) (fs_read (path_from p)))
                 (\<lambda>text. pure_call
                   (and_then (context_err (''failed to decode rollup config '' @ p) (json_parse L text)) (\<lambda>config.
                     add_context (''invalid rollup config '' @ p) (validate_rollup_config_json config))))))"

section \<open>Validation\<close>

text \<open>The checks of \<open>validate_args\<close> after the rollup configuration, in their order.\<close>

definition validate_endpoints :: "args \<Rightarrow> anyhow + unit" where
  "validate_endpoints args =
     and_then (bail_if (a_consensus_addr args = []) ''missing consensus address'') (\<lambda>_.
     and_then (rpc_port (a_consensus_port args)) (\<lambda>_.
     and_then (rpc_port (a_rpc_port args)) (\<lambda>_.
     and_then (bail_if (a_server_id args = []) ''missing raft server ID'') (\<lambda>_.
       bail_if (a_storage_dir args = []) ''missing raft storage directory''))))"

definition validate_healthchecks :: "args \<Rightarrow> anyhow + unit" where
  "validate_healthchecks args =
     and_then (opt_context ''flag healthcheck.interval is required'' (a_healthcheck_interval args)) (\<lambda>interval.
     and_then (opt_context ''flag healthcheck.unsafe-interval is required'' (a_healthcheck_unsafe_interval args)) (\<lambda>_.
     and_then (opt_context ''flag healthcheck.min-peer-count is required'' (a_healthcheck_min_peer_count args)) (\<lambda>peers.
     and_then (bail_if (interval = 0) ''missing health check interval'') (\<lambda>_.
     and_then (bail_if (a_healthcheck_safe_interval args = 0) ''missing safe interval'') (\<lambda>_.
     and_then (bail_if (peers = 0) ''missing minimum peer count'') (\<lambda>_.
     and_then (bail_if (a_healthcheck_execution_p2p_enabled args \<and> a_healthcheck_execution_p2p_min_peer_count args = 0)
       ''missing minimum el p2p peers'') (\<lambda>_.
     and_then (bail_if (a_healthcheck_execution_p2p_enabled args
         \<and> str_trim (a_healthcheck_execution_p2p_check_api args) = []) ''missing el p2p check api'') (\<lambda>_.
       bail_if (a_healthcheck_execution_p2p_enabled args
         \<and> a_healthcheck_execution_p2p_check_api args \<notin> {''net'', ''admin''}) ''invalid el p2p check api''))))))))"

definition validate_observability :: "args \<Rightarrow> anyhow + unit" where
  "validate_observability args =
     and_then
       (if a_metrics_enabled args then map_ok (\<lambda>_. ()) (observability_port (a_metrics_port args) ''metrics'') else Inr ())
       (\<lambda>_.
     and_then
       (if a_pprof_enabled args then map_ok (\<lambda>_. ()) (observability_port (a_pprof_port args) ''pprof'') else Inr ())
       (\<lambda>_.
     if optional_string (a_rollupboost_ws_url args) \<noteq> None
     then map_ok (\<lambda>_. ()) (websocket_server_port (a_websocket_server_port args)) else Inr ()))"

definition validate_settings :: "args \<Rightarrow> anyhow + unit" where
  "validate_settings args =
     and_then (validate_endpoints args) (\<lambda>_.
     and_then (validate_healthchecks args) (\<lambda>_.
     and_then (bail_if
       (a_rollup_boost_partial_healthiness_tolerance_limit args \<noteq> 0
        \<and> a_rollup_boost_partial_healthiness_tolerance_interval_seconds args = 0
        \<or> a_rollup_boost_partial_healthiness_tolerance_limit args = 0
        \<and> a_rollup_boost_partial_healthiness_tolerance_interval_seconds args \<noteq> 0)
       (''only one of RollupBoostPartialHealthinessToleranceLimit or ''
        @ ''RollupBoostPartialHealthinessToleranceIntervalSeconds found to be defined. ''
        @ ''Either define both of them or none.'')) (\<lambda>_.
       validate_observability args)))"

definition validate_args :: "lib \<Rightarrow> args \<Rightarrow> (fsys, anyhow, unit) call" where
  "validate_args L args =
     try_call (pure_call (bail_if (a_rollup_boost_enabled args \<and> a_rollup_boost_next_enabled args)
       ''only one of rollup-boost or rollup-boost next healthchecks can be enabled'')) (\<lambda>_.
     try_call (pure_call (bail_if (a_rollup_boost_next_enabled args
         \<and> optional_string (a_rollup_boost_next_healthcheck_url args) = None)
       ''missing rollup-boost next healthcheck URL'')) (\<lambda>_.
     try_call (validate_rollup_config_source L args) (\<lambda>_. pure_call (validate_settings args))))"

section \<open>Settings\<close>

definition execution_p2p_health_config ::
  "lib \<Rightarrow> (string \<Rightarrow> string + http_url) \<Rightarrow> args \<Rightarrow> anyhow + execution_p2p_config option" where
  "execution_p2p_health_config L parse_url args =
     (if \<not> a_healthcheck_execution_p2p_enabled args then Inr None
      else
        and_then (parse_optional_url L parse_url (a_healthcheck_execution_p2p_rpc_url args)
            ''healthcheck.execution-p2p-rpc-url'') (\<lambda>rpc.
        and_then (parse_execution_p2p_check_api (a_healthcheck_execution_p2p_check_api args)) (\<lambda>api.
          Inr (Some \<lparr>p2p_rpc = url_text (unwrap_or rpc (a_execution_rpc args)), p2p_check_api = api,
                     p2p_min_peer_count = a_healthcheck_execution_p2p_min_peer_count args\<rparr>))))"

definition rollup_boost_health_config :: "args \<Rightarrow> anyhow + rollup_boost_config option" where
  "rollup_boost_health_config args =
     (if a_rollup_boost_enabled args
      then Inr (Some (StatusCode (a_execution_rpc args) (a_rollup_boost_healthcheck_timeout args)))
      else if a_rollup_boost_next_enabled args
      then
        and_then (opt_context ''missing rollup-boost next healthcheck URL''
            (optional_string (a_rollup_boost_next_healthcheck_url args))) (\<lambda>url.
          Inr (Some (JsonHealth url (a_rollup_boost_healthcheck_timeout args))))
      else Inr None)"

definition partial_health_tolerance :: "args \<Rightarrow> anyhow + partial_tolerance option" where
  "partial_health_tolerance args =
     (let limit = a_rollup_boost_partial_healthiness_tolerance_limit args;
          interval = a_rollup_boost_partial_healthiness_tolerance_interval_seconds args
      in if limit = 0 \<and> interval = 0 then Inr None
         else if limit \<noteq> 0 \<and> interval \<noteq> 0 then Inr (Some \<lparr>pt_limit = limit, pt_interval = from_secs interval\<rparr>)
         else Inl [''rollup-boost partial-health tolerance limit and interval must be set together''])"

text \<open>
  The settings of consensus. The upper election timeout is the sum of two flags, so computing it
  panics when they are too long together.
\<close>

definition raft_config_of :: "args \<Rightarrow> string \<Rightarrow> raft_consensus_config option" where
  "raft_config_of args advertised =
     map_option (\<lambda>timeout_max.
     \<lparr>cf_server_id = a_server_id args, cf_advertised_addr = advertised,
      cf_storage_dir = path_from (a_storage_dir args), cf_bootstrap = a_raft_bootstrap args,
      cf_snapshot_interval = a_raft_snapshot_interval args,
      cf_heartbeat_interval = max (a_raft_heartbeat_timeout args div 3) (from_millis 1),
      cf_election_timeout_min = a_raft_heartbeat_timeout args,
      cf_election_timeout_max = timeout_max,
      cf_snapshot_threshold = a_raft_snapshot_threshold args, cf_trailing_logs = a_raft_trailing_logs args\<rparr>)
     (duration_add (a_raft_heartbeat_timeout args) (a_raft_lease_timeout args))"

text \<open>
  The settings \<open>main\<close> computes before it opens anything: the check interval, the URL of the block
  stream, and the configuration of the conductor, once it is known whether the cluster has just
  been bootstrapped.
\<close>

definition conductor_config_of ::
  "lib \<Rightarrow> (string \<Rightarrow> string + http_url) \<Rightarrow> args \<Rightarrow>
   anyhow + duration \<times> http_url option \<times> (bool \<Rightarrow> conductor_config)" where
  "conductor_config_of L parse_url args =
     and_then (opt_context ''flag healthcheck.interval is required'' (a_healthcheck_interval args)) (\<lambda>interval.
     and_then (opt_context ''flag healthcheck.unsafe-interval is required'' (a_healthcheck_unsafe_interval args)) (\<lambda>unsafe_interval.
     and_then (opt_context ''flag healthcheck.min-peer-count is required'' (a_healthcheck_min_peer_count args)) (\<lambda>peers.
     and_then (partial_health_tolerance args) (\<lambda>tolerance.
     and_then (execution_p2p_health_config L parse_url args) (\<lambda>p2p.
     and_then (parse_optional_url L parse_url (a_supervisor_rpc args) ''supervisor.rpc'') (\<lambda>supervisor.
     and_then (parse_optional_url L parse_url (a_rollupboost_ws_url args) ''rollupboost.ws-url'') (\<lambda>ws_url.
     and_then (rollup_boost_health_config args) (\<lambda>rollup_boost.
       Inr (interval, ws_url, \<lambda>bootstrapped.
         \<lparr>start_paused = a_paused args \<or> bootstrapped, unsafe_repair_depth = a_unsafe_repair_depth args,
          round_robin_leader_transfer = a_raft_round_robin_leader_transfer args,
          healthcheck_unsafe_interval = unsafe_interval,
          healthcheck_safe_enabled = a_healthcheck_safe_enabled args,
          healthcheck_safe_interval = a_healthcheck_safe_interval args,
          healthcheck_min_peer_count = peers, cc_execution_p2p_health = p2p,
          cc_supervisor_health = map_option url_text supervisor, cc_rollup_boost_health = rollup_boost,
          cc_partial_health_tolerance = tolerance\<rparr>)))))))))"

end
