(* ===== verification/Control_Loop.thy ===== *)
theory Control_Loop
  imports Cli_Config Conductor_Actions
begin

text \<open>
  The tasks of \<open>src/main.rs\<close>: starting up, the control loop that runs actions and health checks, the
  watch on leadership, and shutting down. The \<open>select\<close> of the control loop takes whichever branch is
  ready, so its iterations are a list of events; each carries the time it was taken at, how long its
  work took and the random back-off it may draw.
\<close>

section \<open>Retrying actions\<close>

definition max_action_retry_backoff_ms :: u64 where
  "max_action_retry_backoff_ms = 2000"

text \<open>The back-off for a draw of the random generator, which is below the maximum.\<close>

definition action_retry_backoff :: "u64 \<Rightarrow> duration" where
  "action_retry_backoff ms = from_millis ms"

definition run_control_action_once ::
  "'w env \<Rightarrow> duration \<Rightarrow> ('w conductor, conductor_error, unit) call" where
  "run_control_action_once E elapsed s =
     (case action E s of (r, s') \<Rightarrow> (r, on_metrics (record_loop_execution_time elapsed) s'))"

section \<open>The control loop\<close>

record loop_timer =
  action_retry :: nat
  action_pending :: bool

definition loop_timer_start :: "nat \<Rightarrow> loop_timer" where
  "loop_timer_start now = \<lparr>action_retry = now, action_pending = True\<rparr>"

text \<open>
  The branches: a request for an action or the end of its channel; the retry timer; the ticker, with
  the time in seconds the health check reads.
\<close>

datatype loop_event =
    ActionChanged bool (at: nat)
  | RetryElapsed (at: nat) duration u64
  | Ticked u64 (at: nat) duration u64

text \<open>The retry branch is only polled while an action is pending, and ready from its deadline on.\<close>

fun loop_enabled :: "loop_event \<Rightarrow> loop_timer \<Rightarrow> bool" where
  "loop_enabled (RetryElapsed now _ _) t = (action_pending t \<and> action_retry t \<le> now)"
| "loop_enabled _ t = True"

text \<open>One iteration: whether the loop returns, and the timer and the conductor after it.\<close>

fun control_step :: "'w env \<Rightarrow> loop_event \<Rightarrow> loop_timer \<Rightarrow> 'w conductor \<Rightarrow> bool \<times> loop_timer \<times> 'w conductor" where
  "control_step E (ActionChanged is_open now) t c =
     (if \<not> is_open \<or> stopped c then (True, t, c)
      else if \<not> action_pending t then (False, t\<lparr>action_retry := now, action_pending := True\<rparr>, c)
      else (False, t, c))"
| "control_step E (RetryElapsed now elapsed ms) t c =
     (if stopped c then (True, t, c)
      else
        (case run_control_action_once E elapsed c of
           (Inr _, c') \<Rightarrow> (False, t\<lparr>action_pending := False\<rparr>, c')
         | (Inl _, c') \<Rightarrow>
             (False, t\<lparr>action_retry := now + elapsed + action_retry_backoff ms, action_pending := True\<rparr>, c')))"
| "control_step E (Ticked secs now elapsed ms) t c =
     (if stopped c then (True, t, c)
      else
        (case tick E secs elapsed c of
           (Inr _, c') \<Rightarrow> (False, t, c')
         | (Inl _, c') \<Rightarrow>
             (False, t\<lparr>action_retry := now + elapsed + action_retry_backoff ms, action_pending := True\<rparr>, c')))"

section \<open>Watching leadership\<close>

datatype 'a iteration = Continue 'a | Return "anyhow + unit"

text \<open>
  One round of \<open>run_leader_watch\<close>, after \<open>wait_for_leader_status_change\<close> has answered with \<open>r\<close>; other
  tasks run while it waits.
\<close>

definition leader_watch_round ::
  "'w env \<Rightarrow> consensus_error + bool \<Rightarrow> 'w conductor \<Rightarrow> bool iteration \<times> 'w conductor" where
  "leader_watch_round E r s =
     (case r of
        Inl err \<Rightarrow>
          (if stopped s then Return (Inr ())
           else Return (Inl [''watching raft leader status'', show_consensus_error err]), s)
      | Inr l \<Rightarrow>
          if stopped s then (Return (Inr ()), s)
          else (Continue l, queue_action E s))"

section \<open>Starting up\<close>

text \<open>The loop over the attempts; \<open>left\<close> are the attempts after the current one.\<close>

fun enabled_attempts ::
  "lib \<Rightarrow> 'w sequencer \<Rightarrow> (duration \<Rightarrow> 'w \<Rightarrow> 'w) \<Rightarrow> duration \<Rightarrow> nat \<Rightarrow> ('w, anyhow, unit) call" where
  "enabled_attempts L Q sleep delay left w =
     (case sq_conductor_enabled Q w of
        (Inr True, w') \<Rightarrow> (Inr (), w')
      | (Inr False, w') \<Rightarrow> (Inl [''conductor is not enabled on sequencer''], w')
      | (Inl err, w') \<Rightarrow>
          if (case err of SeqRpc e \<Rightarrow> is_method_not_found e | _ \<Rightarrow> False) then (Inr (), w')
          else
            (case left of
               0 \<Rightarrow> (Inl [''checking sequencer conductor mode'', show_sequencer_error L err], w')
             | Suc n \<Rightarrow> enabled_attempts L Q sleep delay n (sleep delay w')))"

definition wait_for_conductor_enabled ::
  "lib \<Rightarrow> 'w sequencer \<Rightarrow> (duration \<Rightarrow> 'w \<Rightarrow> 'w) \<Rightarrow> nat \<Rightarrow> duration \<Rightarrow> ('w, anyhow, unit) call" where
  "wait_for_conductor_enabled L Q sleep attempts delay =
     enabled_attempts L Q sleep delay (max attempts 1 - 1)"

definition start_pprof_file_profiler ::
  "('g, 'r, 'p, 'w) profiler_lib \<Rightarrow> pprof_profile option \<Rightarrow> string option \<Rightarrow>
   ('w, anyhow, 'g cpu_file_profiler option) call" where
  "start_pprof_file_profiler F profile_type p =
     (case profile_type of
        Some Cpu \<Rightarrow> try_call (start_cpu_file_profiler F p) (\<lambda>profiler w. (Inr (Some profiler), w))
      | _ \<Rightarrow> call_ok None)"

definition finish_pprof_file_profile ::
  "('g, 'r, 'p, 'w) profiler_lib \<Rightarrow> 'g cpu_file_profiler option \<Rightarrow> ('w \<times> fsys, anyhow, unit) call" where
  "finish_pprof_file_profile F profiler =
     (case profiler of
        None \<Rightarrow> call_ok ()
      | Some fp \<Rightarrow> try_call (profiler_finish F path_from fp) (\<lambda>_ s. (Inr (), s)))"

text \<open>What \<open>main\<close> hands to its tasks.\<close>

record ('w, 'g) runtime =
  rt_conductor :: "'w conductor"
  rt_interval :: duration
  rt_rpc_addr :: string
  rt_metrics_addr :: "string option"
  rt_pprof_addr :: "string option"
  rt_proxy :: "(url \<times> url) option"
  rt_ws_url :: "http_url option"
  rt_profiler :: "'g cpu_file_profiler option"

definition observability_addr ::
  "'w net_lib \<Rightarrow> bool \<Rightarrow> string \<Rightarrow> i64 \<Rightarrow> string \<Rightarrow> anyhow + string option" where
  "observability_addr N enabled host port name =
     (if enabled
      then and_then (observability_port port name) (\<lambda>p.
        map_ok Some (add_context (''parsing '' @ name @ '' listen address'') (listen_addr N host p)))
      else Inr None)"

text \<open>The conductor and the rest of \<open>main\<close> once consensus is open; \<open>version\<close> is that of the package.\<close>

definition start_conductor ::
  "'w raft_consensus env \<Rightarrow> 'v net_lib \<Rightarrow> ('g, 'r, 'p, 'w raft_consensus) profiler_lib \<Rightarrow>
   (duration \<Rightarrow> 'w \<Rightarrow> 'w) \<Rightarrow> string \<Rightarrow> args \<Rightarrow> duration \<Rightarrow> http_url option \<Rightarrow> (bool \<Rightarrow> conductor_config) \<Rightarrow> string \<Rightarrow>
   'w raft_consensus \<Rightarrow> anyhow + ('w raft_consensus, 'g) runtime" where
  "start_conductor E N F sleep pkg_version args interval ws_url config rpc_addr consensus =
     (case wait_for_conductor_enabled (e_lib E) (e_sequencer E) (\<lambda>d c. c\<lparr>rc_world := sleep d (rc_world c)\<rparr>)
             60 (from_secs 5) consensus of
        (Inl e, _) \<Rightarrow> Inl e
      | (Inr _, consensus') \<Rightarrow>
     (case initialize_startup_state E (conductor_new E pkg_version (config (rc_bootstrapped consensus)) consensus') of
        (Inl err, _) \<Rightarrow> Inl [''failed to initialize sequencer active status'', show_conductor_error (e_lib E) err]
      | (Inr _, c) \<Rightarrow>
     and_then (observability_addr N (a_metrics_enabled args) (a_metrics_addr args) (a_metrics_port args) ''metrics'') (\<lambda>metrics_addr.
     and_then (observability_addr N (a_pprof_enabled args) (a_pprof_addr args) (a_pprof_port args) ''pprof'') (\<lambda>pprof_addr.
     (case start_pprof_file_profiler F (a_pprof_type args) (a_pprof_path args) (world c) of
        (Inl e, _) \<Rightarrow> Inl e
      | (Inr profiler, w) \<Rightarrow>
          Inr \<lparr>rt_conductor = on_metrics record_up (c\<lparr>world := w\<rparr>), rt_interval = interval, rt_rpc_addr = rpc_addr,
               rt_metrics_addr = metrics_addr, rt_pprof_addr = pprof_addr,
               rt_proxy = (if a_rpc_enable_proxy args
                           then Some (url_text (a_execution_rpc args), url_text (a_node_rpc args)) else None),
               rt_ws_url = ws_url, rt_profiler = profiler\<rparr>)))))"

text \<open>
  Starting up fails with an error \<open>main\<close> returns, or by a panic.
\<close>

datatype startup_failure = Failed anyhow | Panicked string

definition main_startup ::
  "('l, 'm, 'v) raft_codec \<Rightarrow> 'm \<Rightarrow> ('l, 'm, 'v, 'w) openraft \<Rightarrow> 'w raft_consensus env \<Rightarrow> 'w net_lib \<Rightarrow>
   ('g, 'r, 'p, 'w raft_consensus) profiler_lib \<Rightarrow> (string \<Rightarrow> string + http_url) \<Rightarrow> string \<Rightarrow> args \<Rightarrow>
   ('w \<times> fsys, startup_failure, ('w raft_consensus, 'g) runtime) call" where
  "main_startup K m0 R E N F parse_url pkg_version args wfs =
     (case wfs of (w, fs) \<Rightarrow>
     (case validate_args (e_lib E) args fs of
        (Inl e, fs1) \<Rightarrow> (Inl (Failed e), w, fs1)
      | (Inr _, fs1) \<Rightarrow>
     (case conductor_config_of (e_lib E) parse_url args of
        Inl e \<Rightarrow> (Inl (Failed e), w, fs1)
      | Inr (interval, ws_url, config) \<Rightarrow>
     (case and_then (rpc_port (a_consensus_port args)) (\<lambda>port.
             add_context ''parsing consensus listen address'' (listen_addr N (a_consensus_addr args) port)) of
        Inl e \<Rightarrow> (Inl (Failed e), w, fs1)
      | Inr consensus_listen_addr \<Rightarrow>
     (case nl_bind N consensus_listen_addr w of
        (Inl err, w1) \<Rightarrow> (Inl (Failed [''binding consensus listen address'', err]), w1, fs1)
      | (Inr listener, w1) \<Rightarrow>
     (case and_then (context_err ''reading consensus bound address'' (nl_local_addr N listener)) (\<lambda>bound.
           and_then (rpc_port (a_rpc_port args)) (\<lambda>port.
           and_then (add_context ''parsing rpc listen address'' (listen_addr N (a_rpc_addr args) port)) (\<lambda>rpc_addr.
             Inr (unwrap_or (optional_string (a_consensus_advertised args)) bound, rpc_addr)))) of
        Inl e \<Rightarrow> (Inl (Failed e), w1, fs1)
      | Inr (advertised, rpc_addr) \<Rightarrow>
     (case raft_config_of args advertised of
        None \<Rightarrow> (Inl (Panicked ''overflow when adding durations''), w1, fs1)
      | Some cf \<Rightarrow>
     (case new_http K m0 R cf (w1, fs1) of
        (Inl err, w2, fs2) \<Rightarrow> (Inl (Failed [''opening raft consensus'', show_consensus_error err]), w2, fs2)
      | (Inr consensus, w2, fs2) \<Rightarrow>
          (map_err Failed (start_conductor E N F (or_sleep R) pkg_version args interval ws_url config rpc_addr consensus),
           w2, fs2)))))))))"

section \<open>Shutting down\<close>

text \<open>
  \<open>finalize_runtime_exit\<close>, on the conductor and the files: the conductor is stopped and the profile
  written whatever ended the program, but a failure of the program wins.
\<close>

definition finalize_runtime_exit ::
  "'w env \<Rightarrow> ('g, 'r, 'p, 'w) profiler_lib \<Rightarrow> anyhow + unit \<Rightarrow> 'g cpu_file_profiler option \<Rightarrow>
   ('w conductor \<times> fsys, anyhow, unit) call" where
  "finalize_runtime_exit E F runtime_result profiler cfs =
     (case cfs of (c, fs) \<Rightarrow>
     (case stop E c of (stopped_result, c1) \<Rightarrow>
      let finish = (\<lambda>_. case finish_pprof_file_profile F profiler (world c1, fs) of
                          (r, w, fs') \<Rightarrow> (r, c1\<lparr>world := w\<rparr>, fs')) in
      case runtime_result of
        Inl runtime_err \<Rightarrow> (case finish () of (_, s') \<Rightarrow> (Inl runtime_err, s'))
      | Inr _ \<Rightarrow>
          (case stopped_result of
             Inl err \<Rightarrow> (Inl [''stopping conductor'', show_conductor_error (e_lib E) err], c1, fs)
           | Inr _ \<Rightarrow> finish ())))"

text \<open>
  The \<open>select\<close> of \<open>main\<close>: the first task to end, or a signal, ends the program. A task that was not
  configured never ends.
\<close>

datatype program_task =
  RpcServer | RaftTransport | MetricsServer | PprofServer | FlashblocksServer | LeaderWatch | ControlTask

datatype program_end = TaskEnded program_task "anyhow + unit" | SignalReceived "anyhow + string"

fun task_context :: "program_task \<Rightarrow> string" where
  "task_context RpcServer = ''rpc server exited''"
| "task_context RaftTransport = ''raft transport exited''"
| "task_context MetricsServer = ''metrics server exited''"
| "task_context PprofServer = ''pprof server exited''"
| "task_context FlashblocksServer = ''flashblocks websocket server exited''"
| "task_context LeaderWatch = ''leader watch exited''"
| "task_context ControlTask = ''control loop exited''"

fun runtime_result :: "program_end \<Rightarrow> anyhow + unit" where
  "runtime_result (TaskEnded task r) = add_context (task_context task) r"
| "runtime_result (SignalReceived r) = map_ok (\<lambda>_. ()) r"

definition main_exit ::
  "'w env \<Rightarrow> ('g, 'r, 'p, 'w) profiler_lib \<Rightarrow> program_end \<Rightarrow> 'g cpu_file_profiler option \<Rightarrow>
   ('w conductor \<times> fsys, anyhow, unit) call" where
  "main_exit E F ended profiler = finalize_runtime_exit E F (runtime_result ended) profiler"

end
