(* ===== verification/Cli_Props.thy ===== *)
theory Cli_Props
  imports Cli_Config Sample_Lib
begin

text \<open>
  What the configuration of \<open>src/main.rs\<close> guarantees: arguments that pass validation configure the
  program, and what they configure is usable by the conductor.
\<close>

section \<open>What each check establishes\<close>

lemma bail_if_Inr_iff: "bail_if c msg = Inr u \<longleftrightarrow> \<not> c"
  by (simp add: bail_if_def)

lemma opt_context_Inr_iff: "opt_context msg v = Inr a \<longleftrightarrow> v = Some a"
  by (cases v) (simp_all add: opt_context_def)

lemma try_pure_Inr: "try_call (pure_call r) f s = (Inr b, s') \<Longrightarrow> \<exists>a. r = Inr a \<and> f a s = (Inr b, s')"
  by (cases r) (simp_all add: try_call_def pure_call_def)

lemma try_call_Inr: "try_call m f s = (Inr b, s') \<Longrightarrow> \<exists>a s1. m s = (Inr a, s1) \<and> f a s1 = (Inr b, s')"
  by (auto simp: try_call_def split: prod.splits sum.splits)

lemma fs_read_files: "fs_read p fs = (r, fs') \<Longrightarrow> files fs' = files fs"
  using files_next_fault [of fs] by (auto simp: fs_read_def split: prod.splits option.splits)

lemma rollup_source_files: "validate_rollup_config_source L args fs = (r, fs') \<Longrightarrow> files fs' = files fs"
  by (auto simp: validate_rollup_config_source_def pure_call_def call_fail_def try_call_def call_err_def
      dest: fs_read_files split: option.splits prod.splits sum.splits if_splits)

lemma rpc_port_Inr_iff: "rpc_port port = Inr p \<longleftrightarrow> port_in_range port \<and> p = of_int port"
  by (auto simp: rpc_port_def)

lemma validate_endpoints_ok:
  "validate_endpoints args = Inr () \<Longrightarrow>
     a_server_id args \<noteq> [] \<and> a_storage_dir args \<noteq> []
     \<and> port_in_range (a_consensus_port args) \<and> port_in_range (a_rpc_port args)"
  by (auto simp: validate_endpoints_def and_then_ok_iff bail_if_Inr_iff rpc_port_Inr_iff)

lemma validate_healthchecks_ok:
  "validate_healthchecks args = Inr () \<Longrightarrow>
     (\<exists>interval unsafe_interval peers. a_healthcheck_interval args = Some interval \<and> interval \<noteq> 0
        \<and> a_healthcheck_unsafe_interval args = Some unsafe_interval
        \<and> a_healthcheck_min_peer_count args = Some peers \<and> peers \<noteq> 0)
     \<and> a_healthcheck_safe_interval args \<noteq> 0
     \<and> (a_healthcheck_execution_p2p_enabled args \<longrightarrow>
          a_healthcheck_execution_p2p_min_peer_count args \<noteq> 0
          \<and> a_healthcheck_execution_p2p_check_api args \<in> {''net'', ''admin''})"
  unfolding validate_healthchecks_def and_then_ok_iff bail_if_Inr_iff opt_context_Inr_iff by auto

lemma validate_args_ok:
  assumes "validate_args L args fs = (Inr (), fs')"
  shows "validate_endpoints args = Inr ()" "validate_healthchecks args = Inr ()"
    "(a_rollup_boost_partial_healthiness_tolerance_limit args = 0) =
       (a_rollup_boost_partial_healthiness_tolerance_interval_seconds args = 0)"
    "a_rollup_boost_next_enabled args \<Longrightarrow> optional_string (a_rollup_boost_next_healthcheck_url args) \<noteq> None"
    "files fs' = files fs"
proof -
  obtain fs1 where src: "validate_rollup_config_source L args fs = (Inr (), fs1)"
    and rest: "validate_settings args = Inr ()"
    and fs: "fs' = fs1"
    and next_url: "\<not> (a_rollup_boost_next_enabled args
         \<and> optional_string (a_rollup_boost_next_healthcheck_url args) = None)"
    using assms unfolding validate_args_def
    by (auto dest!: try_pure_Inr try_call_Inr simp: bail_if_Inr_iff pure_call_def)
  show "files fs' = files fs" using rollup_source_files [OF src] fs by simp
  show "validate_endpoints args = Inr ()" "validate_healthchecks args = Inr ()"
    "(a_rollup_boost_partial_healthiness_tolerance_limit args = 0) =
       (a_rollup_boost_partial_healthiness_tolerance_interval_seconds args = 0)"
    using rest unfolding validate_settings_def and_then_ok_iff bail_if_Inr_iff by auto
  show "a_rollup_boost_next_enabled args \<Longrightarrow> optional_string (a_rollup_boost_next_healthcheck_url args) \<noteq> None"
    using next_url by simp
qed

text \<open>The error of a URL that does not parse, under the flag it stands for.\<close>

definition url_error :: "lib \<Rightarrow> (string \<Rightarrow> string + http_url) \<Rightarrow> anyhow \<Rightarrow> bool" where
  "url_error L parse_url e =
     (\<exists>name v msg. parse_url v = Inl msg \<and> e = [''invalid '' @ name @ '': '' @ debug_text L v, msg])"

lemma parse_optional_url_error:
  assumes "parse_optional_url L parse_url txt name = Inl e"
  shows "url_error L parse_url e"
proof (cases "optional_string txt")
  case None
  with assms show ?thesis by (simp add: parse_optional_url_def)
next
  case (Some v)
  with assms show ?thesis
    by (cases "parse_url v") (auto simp: parse_optional_url_def context_err_def url_error_def)
qed

lemma check_api_ok: "txt \<in> {''net'', ''admin''} \<Longrightarrow> is_ok (parse_execution_p2p_check_api txt)"
  by auto

section \<open>The settings\<close>

definition usable_config :: "conductor_config \<Rightarrow> bool" where
  "usable_config c =
     (healthcheck_min_peer_count c \<noteq> 0 \<and> healthcheck_safe_interval c \<noteq> 0
      \<and> pred_option (\<lambda>p. p2p_min_peer_count p \<noteq> 0) (cc_execution_p2p_health c)
      \<and> pred_option (\<lambda>t. pt_limit t \<noteq> 0 \<and> as_secs (pt_interval t) \<noteq> 0) (cc_partial_health_tolerance c))"

lemma as_secs_from_secs: "as_secs (from_secs n) = n"
  by (simp add: as_secs_def from_secs_def)

lemma partial_health_tolerance_ok:
  assumes "(a_rollup_boost_partial_healthiness_tolerance_limit args = 0) =
    (a_rollup_boost_partial_healthiness_tolerance_interval_seconds args = 0)"
  shows "\<exists>t. partial_health_tolerance args = Inr t
    \<and> pred_option (\<lambda>t. pt_limit t \<noteq> 0 \<and> as_secs (pt_interval t) \<noteq> 0) t"
  using assms by (auto simp: partial_health_tolerance_def Let_def as_secs_from_secs)

lemma rollup_boost_health_config_ok:
  assumes "a_rollup_boost_next_enabled args \<Longrightarrow> optional_string (a_rollup_boost_next_healthcheck_url args) \<noteq> None"
  shows "\<exists>rb. rollup_boost_health_config args = Inr rb"
  using assms by (auto simp: rollup_boost_health_config_def opt_context_def)

lemma execution_p2p_health_config_cases:
  assumes "a_healthcheck_execution_p2p_enabled args \<Longrightarrow>
      a_healthcheck_execution_p2p_min_peer_count args \<noteq> 0
      \<and> a_healthcheck_execution_p2p_check_api args \<in> {''net'', ''admin''}"
  shows "case execution_p2p_health_config L parse_url args of
      Inl e \<Rightarrow> url_error L parse_url e
    | Inr p2p \<Rightarrow> pred_option (\<lambda>p. p2p_min_peer_count p \<noteq> 0) p2p"
proof (cases "a_healthcheck_execution_p2p_enabled args")
  case False
  then show ?thesis by (simp add: execution_p2p_health_config_def)
next
  case True
  let ?url = "parse_optional_url L parse_url (a_healthcheck_execution_p2p_rpc_url args) ''healthcheck.execution-p2p-rpc-url''"
  obtain api where api: "parse_execution_p2p_check_api (a_healthcheck_execution_p2p_check_api args) = Inr api"
    using check_api_ok assms [OF True] by (metis is_ok_iff)
  show ?thesis
  proof (cases ?url)
    case (Inl e)
    then have "execution_p2p_health_config L parse_url args = Inl e"
      using True by (simp add: execution_p2p_health_config_def)
    then show ?thesis using parse_optional_url_error [OF Inl] by simp
  next
    case (Inr rpc)
    then show ?thesis using True assms api
      by (simp add: execution_p2p_health_config_def del: parse_execution_p2p_check_api.simps)
  qed
qed

lemma url_error_cases:
  "case parse_optional_url L parse_url txt name of Inl e \<Rightarrow> url_error L parse_url e | Inr u \<Rightarrow> True"
  using parse_optional_url_error by (auto split: sum.split)

lemma conductor_config_cases:
  assumes "validate_args L args fs = (Inr (), fs')"
  shows "case conductor_config_of L parse_url args of
      Inl e \<Rightarrow> url_error L parse_url e
    | Inr (interval, ws_url, c) \<Rightarrow>
        interval \<noteq> 0 \<and> usable_config (c bootstrapped)
        \<and> start_paused (c bootstrapped) = (a_paused args \<or> bootstrapped)"
proof -
  note ok = validate_args_ok [OF assms]
  obtain interval unsafe_interval peers where h:
    "a_healthcheck_interval args = Some interval" "interval \<noteq> 0"
    "a_healthcheck_unsafe_interval args = Some unsafe_interval"
    "a_healthcheck_min_peer_count args = Some peers" "peers \<noteq> 0" "a_healthcheck_safe_interval args \<noteq> 0"
    using validate_healthchecks_ok [OF ok(2)] by blast
  have p2p: "case execution_p2p_health_config L parse_url args of
      Inl e \<Rightarrow> url_error L parse_url e
    | Inr p2p \<Rightarrow> pred_option (\<lambda>p. p2p_min_peer_count p \<noteq> 0) p2p"
    using validate_healthchecks_ok [OF ok(2)] by (intro execution_p2p_health_config_cases) blast
  obtain t where t: "partial_health_tolerance args = Inr t"
    "pred_option (\<lambda>t. pt_limit t \<noteq> 0 \<and> as_secs (pt_interval t) \<noteq> 0) t"
    using partial_health_tolerance_ok [OF ok(3)] by blast
  obtain rb where rb: "rollup_boost_health_config args = Inr rb"
    using rollup_boost_health_config_ok [OF ok(4)] by blast
  show ?thesis
    using p2p url_error_cases [of L parse_url "a_supervisor_rpc args" "''supervisor.rpc''"]
      url_error_cases [of L parse_url "a_rollupboost_ws_url args" "''rollupboost.ws-url''"] t rb h
    by (auto simp: conductor_config_of_def opt_context_def usable_config_def
        simp del: parse_execution_p2p_check_api.simps split: sum.splits)
qed

lemma config_usable:
  assumes "validate_args L args fs = (Inr (), fs')" "conductor_config_of L parse_url args = Inr (interval, ws_url, c)"
  shows "interval \<noteq> 0 \<and> usable_config (c b) \<and> start_paused (c b) = (a_paused args \<or> b)"
  using conductor_config_cases [OF assms(1), of parse_url b] assms(2) by simp

lemma raft_config_None_iff:
  "raft_config_of args advertised = None \<longleftrightarrow>
     duration_limit \<le> a_raft_heartbeat_timeout args + a_raft_lease_timeout args"
  by (auto simp: raft_config_of_def duration_add_def)


definition sample_args :: args where
  "sample_args =
     (args_with_defaults \<lparr>url_origin = ''http://n'', url_path = ''/'', url_rest = []\<rparr>
        \<lparr>url_origin = ''http://e'', url_path = ''/'', url_rest = []\<rparr> ''seq-a'' ''/data'')
     \<lparr>a_network := Some ''op-mainnet'', a_raft_bootstrap := True, a_healthcheck_interval := Some (from_secs 1),
      a_healthcheck_unsafe_interval := Some (from_secs 60), a_healthcheck_min_peer_count := Some 1\<rparr>"

definition sample_files :: fsys where
  "sample_files = \<lparr>files = (\<lambda>_. None), faults = []\<rparr>"

lemma sample_args_valid: "validate_args sample_lib sample_args sample_files = (Inr (), sample_files)"
proof -
  have trim: "str_trim ''op-mainnet'' = ''op-mainnet''"
    by (rule trim_plain) (simp add: plain_char_def char_code_def)
  have net: "validate_network_name sample_lib ''op-mainnet'' = Inr ()"
    unfolding validate_network_name_def trim known_rollup_networks_def
    by (simp add: to_ascii_lowercase_def ascii_lower_def char_code_def eq_ignore_ascii_case_def)
  have settings: "validate_settings sample_args = Inr ()"
    by (simp add: validate_settings_def validate_endpoints_def validate_healthchecks_def validate_observability_def
        bail_if_def opt_context_def rpc_port_def port_in_range_def optional_string_def sample_args_def
        args_with_defaults_def from_secs_def)
  have "validate_rollup_config_source sample_lib sample_args sample_files = (Inr (), sample_files)"
    by (simp add: validate_rollup_config_source_def sample_args_def trim net pure_call_def)
  with settings show ?thesis
    by (simp add: validate_args_def try_call_def pure_call_def bail_if_def)
      (simp add: sample_args_def args_with_defaults_def)
qed

text \<open>
  Validation does not look at the two timeouts, so it accepts timeouts the flags can hold whose sum
  panics.
\<close>

lemma settings_ignore_raft_timeouts:
  "validate_settings (args\<lparr>a_raft_heartbeat_timeout := h, a_raft_lease_timeout := l\<rparr>) = validate_settings args"
  by (simp add: validate_settings_def validate_endpoints_def validate_healthchecks_def validate_observability_def)

lemma source_ignores_raft_timeouts:
  "validate_rollup_config_source L (args\<lparr>a_raft_heartbeat_timeout := h, a_raft_lease_timeout := l\<rparr>)
     = validate_rollup_config_source L args"
  by (simp add: validate_rollup_config_source_def cong: option.case_cong)

lemma validation_ignores_raft_timeouts:
  "validate_args L (args\<lparr>a_raft_heartbeat_timeout := h, a_raft_lease_timeout := l\<rparr>) = validate_args L args"
  by (simp add: validate_args_def settings_ignore_raft_timeouts source_ignores_raft_timeouts)

lemma validated_args_may_panic:
  "\<exists>args h l. parse_duration_arg humantime (show_u64 u64_max) = Inr h \<and> parse_duration_arg humantime (show_u64 1) = Inr l
     \<and> a_raft_heartbeat_timeout args = h \<and> a_raft_lease_timeout args = l
     \<and> validate_args sample_lib args sample_files = (Inr (), sample_files) \<and> raft_config_of args advertised = None"
proof -
  let ?args = "sample_args\<lparr>a_raft_heartbeat_timeout := from_secs u64_max, a_raft_lease_timeout := from_secs 1\<rparr>"
  have "unat u64_max = 2 ^ 64 - 1" by (simp add: u64_max_def unsigned_minus_1_eq_mask mask_eq_exp_minus_1)
  then have "raft_config_of ?args advertised = None"
    by (simp add: raft_config_None_iff duration_limit_def from_secs_def)
  moreover have "validate_args sample_lib ?args sample_files = (Inr (), sample_files)"
    by (simp only: validation_ignores_raft_timeouts sample_args_valid)
  ultimately show ?thesis
    by (intro exI [of _ ?args]) (simp add: parse_duration_seconds)
qed


end
