(* ===== verification/Control_Props.thy ===== *)
theory Control_Props
  imports Control_Loop Conductor_Behaviour Cli_Props Raft_Node_Props
begin

text \<open>
  What the tasks of \<open>src/main.rs\<close> guarantee: the control loop serves every request for an action and
  retries a failed one within two seconds, starting up gives a usable conductor, and shutting down
  always stops it.
\<close>

section \<open>The control loop\<close>

datatype loop_note = Requested | ActionOk | ActionFailed | TickFailed | Quiet

text \<open>What an iteration amounts to for the pending action.\<close>

fun note_of :: "'w env \<Rightarrow> loop_event \<Rightarrow> 'w conductor \<Rightarrow> loop_note" where
  "note_of E (ActionChanged _ _) c = Requested"
| "note_of E (RetryElapsed _ elapsed _) c = (if is_ok (fst (action E c)) then ActionOk else ActionFailed)"
| "note_of E (Ticked secs _ elapsed _) c = (if is_ok (fst (tick E secs elapsed c)) then Quiet else TickFailed)"

fun done_at :: "loop_event \<Rightarrow> nat" where
  "done_at (ActionChanged _ now) = now"
| "done_at (RetryElapsed now elapsed _) = now + elapsed"
| "done_at (Ticked _ now elapsed _) = now + elapsed"

fun draw_ok :: "loop_event \<Rightarrow> bool" where
  "draw_ok (RetryElapsed _ _ ms) = (ms < max_action_retry_backoff_ms)"
| "draw_ok (Ticked _ _ _ ms) = (ms < max_action_retry_backoff_ms)"
| "draw_ok (ActionChanged _ _) = True"

text \<open>
  The runs of the loop that have not returned, with the time the last iteration ended and what the
  iterations amounted to; between them the other tasks change the conductor.
\<close>

inductive control_run ::
  "'w env \<Rightarrow> ('w conductor \<Rightarrow> 'w conductor \<Rightarrow> bool) \<Rightarrow> nat \<Rightarrow> loop_note list \<Rightarrow> loop_timer \<Rightarrow> 'w conductor \<Rightarrow> bool"
  for E :: "'w env" and others :: "'w conductor \<Rightarrow> 'w conductor \<Rightarrow> bool" where
  run_start: "control_run E others now [] (loop_timer_start now) c"
| run_others: "control_run E others now ns t c \<Longrightarrow> others c c' \<Longrightarrow> control_run E others now ns t c'"
| run_event: "control_run E others now ns t c \<Longrightarrow> loop_enabled ev t \<Longrightarrow> now \<le> at ev \<Longrightarrow> draw_ok ev \<Longrightarrow>
    control_step E ev t c = (False, t', c') \<Longrightarrow>
    control_run E others (done_at ev) (ns @ [note_of E ev c]) t' c'"

text \<open>An action has succeeded and nothing has asked for another since.\<close>

definition settled :: "loop_note list \<Rightarrow> bool" where
  "settled ns = (\<exists>before after. ns = before @ ActionOk # after \<and> set after \<subseteq> {Quiet})"

lemma settled_snoc: "settled (ns @ [n]) \<longleftrightarrow> n = ActionOk \<or> n = Quiet \<and> settled ns"
proof
  assume "settled (ns @ [n])"
  then obtain before after where eq: "ns @ [n] = before @ ActionOk # after" and q: "set after \<subseteq> {Quiet}"
    by (auto simp: settled_def)
  show "n = ActionOk \<or> n = Quiet \<and> settled ns"
  proof (cases after rule: rev_cases)
    case Nil
    with eq show ?thesis by simp
  next
    case (snoc after' x)
    with eq q show ?thesis by (auto simp: settled_def)
  qed
next
  assume "n = ActionOk \<or> n = Quiet \<and> settled ns"
  then show "settled (ns @ [n])"
  proof
    assume "n = ActionOk"
    then show ?thesis unfolding settled_def by (intro exI [of _ ns] exI [of _ "[]"]) simp
  next
    assume "n = Quiet \<and> settled ns"
    then obtain before after where "ns = before @ ActionOk # after" "set after \<subseteq> {Quiet}" "n = Quiet"
      by (auto simp: settled_def)
    then show ?thesis unfolding settled_def by (intro exI [of _ before] exI [of _ "after @ [n]"]) simp
  qed
qed

lemma settled_Nil [simp]: "\<not> settled []"
  by (simp add: settled_def)

lemma backoff_bound:
  assumes "ms < max_action_retry_backoff_ms"
  shows "action_retry_backoff ms < 2000000000"
proof -
  have "unat ms < 2000" using assms unat_mono [OF assms] by (simp add: max_action_retry_backoff_ms_def)
  then show ?thesis by (simp add: action_retry_backoff_def from_millis_def)
qed

text \<open>One iteration keeps track of the notes and keeps the deadline near.\<close>

lemma control_step_timer:
  assumes step: "control_step E ev t c = (False, t', c')" "draw_ok ev"
    and before: "action_pending t \<longleftrightarrow> \<not> settled ns" "action_pending t \<longrightarrow> action_retry t \<le> now + 2000000000"
    and time: "now \<le> at ev"
  shows "(action_pending t' \<longleftrightarrow> \<not> settled (ns @ [note_of E ev c]))
    \<and> (action_pending t' \<longrightarrow> action_retry t' \<le> done_at ev + 2000000000)"
proof (cases ev)
  case (ActionChanged is_open now')
  with step before time show ?thesis by (auto simp: settled_snoc split: if_splits)
next
  case (RetryElapsed now' elapsed ms)
  obtain r c1 where act: "action E c = (r, c1)" by (cases "action E c")
  have "action_retry_backoff ms \<le> 2000000000" using step(2) RetryElapsed backoff_bound [of ms] by simp
  with RetryElapsed step act show ?thesis
    by (cases r) (auto simp: settled_snoc run_control_action_once_def split: if_splits)
next
  case (Ticked secs now' elapsed ms)
  obtain r c1 where tk: "tick E secs elapsed c = (r, c1)" by (cases "tick E secs elapsed c")
  have "action_retry_backoff ms \<le> 2000000000" using step(2) Ticked backoff_bound [of ms] by simp
  with Ticked step tk before time show ?thesis
    by (cases r) (auto simp: settled_snoc split: if_splits)
qed



text \<open>The loop returns exactly when the conductor has stopped or the channel of requests has closed.\<close>

lemma control_step_returns:
  "fst (control_step E ev t c) \<longleftrightarrow> stopped c \<or> (\<exists>now. ev = ActionChanged False now)"
  by (cases ev) (auto split: prod.split sum.split)

section \<open>Starting up\<close>

text \<open>
  Waiting for the node: it ends after at most the given number of questions, and succeeds only when
  the node has conducting enabled or cannot tell.
\<close>

lemma enabled_attempts_ok:
  assumes "enabled_attempts L Q sleep delay left w = (Inr (), w')"
  shows "\<exists>w0. fst (sq_conductor_enabled Q w0) = Inr True
    \<or> (\<exists>e. fst (sq_conductor_enabled Q w0) = Inl (SeqRpc e) \<and> is_method_not_found e)"
  using assms
proof (induction left arbitrary: w)
  case 0
  then show ?case
    by (subst (asm) enabled_attempts.simps)
      (auto split: prod.splits sum.splits bool.splits if_splits sequencer_error.splits intro!: exI [of _ w])
next
  case (Suc n)
  obtain r w1 where q: "sq_conductor_enabled Q w = (r, w1)" by (cases "sq_conductor_enabled Q w")
  show ?case
  proof (cases "\<exists>err. r = Inl err \<and> \<not> (case err of SeqRpc e \<Rightarrow> is_method_not_found e | _ \<Rightarrow> False)")
    case True
    with Suc.prems q have "enabled_attempts L Q sleep delay n (sleep delay w1) = (Inr (), w')" by auto
    then show ?thesis by (rule Suc.IH)
  next
    case False
    with Suc.prems q show ?thesis
      by (auto split: sum.splits bool.splits if_splits sequencer_error.splits intro!: exI [of _ w])
  qed
qed

lemma initialize_startup_keeps:
  assumes "initialize_startup_state E s = (r, s')"
  shows "cfg s' = cfg s \<and> paused s' = paused s \<and> stopping s' = stopping s \<and> stopped s' = stopped s"
  using assms
  by (auto simp: initialize_startup_state_def refresh_sequencer_active_def try_call_def on_sequencer_def
      call_err_def in_world_def seed_previous_state_from_current_def split: prod.splits sum.splits)

lemma start_conductor_ready:
  assumes "start_conductor E N F sleep v args interval ws_url config addr consensus = Inr rt"
  shows "rt_interval rt = interval \<and> cfg (rt_conductor rt) = config (rc_bootstrapped consensus)
    \<and> paused (rt_conductor rt) = start_paused (config (rc_bootstrapped consensus))
    \<and> \<not> stopping (rt_conductor rt) \<and> \<not> stopped (rt_conductor rt) \<and> conductor_inv (rt_conductor rt)"
proof -
  obtain consensus' where "wait_for_conductor_enabled (e_lib E) (e_sequencer E)
      (\<lambda>d c. c\<lparr>rc_world := sleep d (rc_world c)\<rparr>) 60 (from_secs 5) consensus = (Inr (), consensus')"
    using assms by (auto simp: start_conductor_def split: prod.splits sum.splits)
  note wait = this
  let ?new = "conductor_new E v (config (rc_bootstrapped consensus)) consensus'"
  obtain c where init: "initialize_startup_state E ?new = (Inr (), c)"
    using assms wait by (auto simp: start_conductor_def split: prod.splits sum.splits)
  obtain pr w0 where prof: "start_pprof_file_profiler F (a_pprof_type args) (a_pprof_path args) (world c) = (pr, w0)"
    by (cases "start_pprof_file_profiler F (a_pprof_type args) (a_pprof_path args) (world c)")
  obtain w where rt: "rt_conductor rt = on_metrics record_up (c\<lparr>world := w\<rparr>)" "rt_interval rt = interval"
    using assms wait init prof
    by (cases pr) (auto simp: start_conductor_def and_then_ok_iff)
  have "conductor_inv c"
    using init conductor_new_inv by (rule conductor_step_inv [OF step_init])
  then have "conductor_inv (rt_conductor rt)"
    using apply_metric_wf [of _ MUp] unfolding rt by (intro on_metrics_inv) simp_all
  then show ?thesis using rt initialize_startup_keeps [OF init] by (simp add: conductor_new_def)
qed


section \<open>A sample start\<close>

definition sample_raft_env :: "nat raft_consensus env" where
  "sample_raft_env =
     \<lparr>e_lib = sample_lib, e_status_text = show_nat, e_consensus = raft_consensus_ops sample_lib sample_openraft,
      e_sequencer =
        \<lparr>sq_latest_unsafe_block = (\<lambda>w. (Inr \<lparr>bi_hash = sample_hash 7, bi_number = 5\<rparr>, w)),
         sq_block_by_number = (\<lambda>n w. (Inr \<lparr>bi_hash = sample_hash 7, bi_number = n\<rparr>, w)),
         sq_start_sequencer = (\<lambda>_. call_ok ()), sq_stop_sequencer = call_ok (sample_hash 7),
         sq_sequencer_active = call_ok False,
         sq_sync_status = call_ok \<lparr>unsafe_l2 = \<lparr>br_hash = None, br_number = 5, br_time = 100\<rparr>,
                                   safe_l2 = \<lparr>br_hash = None, br_number = 4, br_time = 90\<rparr>\<rparr>,
         sq_peer_stats = call_ok \<lparr>connected = 3\<rparr>, sq_post_unsafe_payload = (\<lambda>_. call_ok ()),
         sq_conductor_enabled = call_ok True\<rparr>,
      e_health = \<lparr>hc_supervisor = None, hc_execution_p2p = None, hc_rollup_boost = None\<rparr>,
      e_signals = \<lparr>sg_send_stopped = (\<lambda>_ w. w), sg_send_action = (\<lambda>_ w. w), sg_stopped_value = (\<lambda>_. False)\<rparr>\<rparr>"

definition sample_net :: "nat net_lib" where
  "sample_net =
     \<lparr>nl_parse = (\<lambda>_. None), nl_resolve = (\<lambda>host port. Inr [host]), nl_bind = call_ok, nl_local_addr = Inr\<rparr>"

definition sample_profiler :: "(unit, unit, unit, nat raft_consensus) profiler_lib" where
  "sample_profiler =
     \<lparr>pl_build = (\<lambda>_ _. call_ok ()), pl_report = (\<lambda>_ _. Inr ()), pl_pprof = Inr, pl_encode = (\<lambda>_. Inr ''profile''),
      pl_sleep = (\<lambda>_ w. w), pl_is_dir = (\<lambda>_. False)\<rparr>"

definition sample_store_path :: path where
  "sample_store_path = [''/'', ''data'', ''seq-a'', ''raft-store.json'']"

lemma sample_store_opens: "\<exists>st fs. raft_store_open sample_raft_codec () sample_store_path sample_files = (Inr st, fs)"
proof -
  have "encode_json (encode_store sample_raft_codec) (persisted_of (store_of (Some sample_store_path) (default_persisted ())))
      = Inr ''empty''"
    by (simp add: encode_json_def sample_raft_codec_def persisted_of_def sample_raft_store_def store_of_def default_persisted_def)
  moreover have "fs_read sample_store_path sample_files = (Inl not_found, sample_files)"
    by (simp add: fs_read_def sample_files_def)
  moreover obtain fs where "replace_file (with_extension sample_store_path ''json.tmp'') sample_store_path ''empty'' sample_files
      = (Inr (), fs)"
    using replace_file_no_faults [of sample_files "with_extension sample_store_path ''json.tmp''" sample_store_path "''empty''"]
    by (auto simp: sample_files_def)
  moreover have "create_parent sample_store_path sample_files = (Inr (), sample_files)"
    by (rule create_parent_no_faults) (simp add: sample_files_def)
  ultimately show ?thesis
    by (simp add: raft_store_open_def not_found_def persist_to_disk_def Let_def try_call_def call_ok_def)
qed

definition sample_new_cluster :: "(nat, unit, unit, nat) openraft" where
  "sample_new_cluster = sample_openraft\<lparr>or_is_initialized := call_ok False\<rparr>"

lemma sample_node_opens:
  "\<exists>cf c fs. raft_config_of sample_args ''127.0.0.1'' = Some cf
     \<and> new_http sample_raft_codec () sample_new_cluster cf (0, sample_files) = (Inr c, rc_world c, fs) \<and> rc_bootstrapped c"
proof -
  obtain st fs where "raft_store_open sample_raft_codec () sample_store_path sample_files = (Inr st, fs)"
    using sample_store_opens by blast
  moreover obtain cf where cf: "raft_config_of sample_args ''127.0.0.1'' = Some cf"
    by (simp add: raft_config_of_def duration_add_def duration_limit_def sample_args_def args_with_defaults_def
        from_millis_def from_secs_def)
  moreover have "cf_storage_dir cf @ [''seq-a'', ''raft-store.json'']
      = sample_store_path"
    using cf by (auto simp: raft_config_of_def path_from_def Let_def starts_with_def sample_store_path_def sample_args_def
        args_with_defaults_def)
  moreover have "cf_server_id cf = ''seq-a''"
    "cf_bootstrap cf"
    "cf_advertised_addr cf = ''127.0.0.1''"
    using cf by (auto simp: raft_config_of_def sample_args_def args_with_defaults_def)
  ultimately show ?thesis
    by (simp add: new_http_def openraft_config_def new_with_network_def bootstrap_node_def raft_initialize_def
        sample_new_cluster_def sample_openraft_def call_err_def call_ok_def try_call_def in_raft_def
        start_snapshot_loop_def Let_def)
qed

lemma sample_config:
  "\<exists>interval config. conductor_config_of sample_lib Inl sample_args = Inr (interval, None, config)"
  by (simp add: conductor_config_of_def opt_context_def partial_health_tolerance_def
      execution_p2p_health_config_def parse_optional_url_def optional_string_def rollup_boost_health_config_def
      sample_args_def args_with_defaults_def)

lemma sample_conductor_starts:
  "is_ok (start_conductor sample_raft_env sample_net sample_profiler sleep ''1'' sample_args interval ws_url config addr c)"
  by (simp add: start_conductor_def wait_for_conductor_enabled_def sample_raft_env_def call_ok_def
      initialize_startup_state_def refresh_sequencer_active_def try_call_def on_sequencer_def call_err_def in_world_def
      observability_addr_def start_pprof_file_profiler_def sample_args_def args_with_defaults_def)

lemma sample_startup:
  "\<exists>rt w fs. main_startup sample_raft_codec () sample_new_cluster sample_raft_env sample_net sample_profiler Inl ''1''
     sample_args (0, sample_files) = (Inr rt, w, fs)"
proof -
  obtain interval config where conf: "conductor_config_of sample_lib Inl sample_args = Inr (interval, None, config)"
    using sample_config by blast
  obtain cf c fs where cf: "raft_config_of sample_args ''127.0.0.1'' = Some cf"
    and node: "new_http sample_raft_codec () sample_new_cluster cf (0, sample_files) = (Inr c, rc_world c, fs)"
    using sample_node_opens by blast
  have args: "a_consensus_port sample_args = 50050" "a_rpc_port sample_args = 8545" "a_consensus_advertised sample_args = None"
    "a_consensus_addr sample_args = ''127.0.0.1''" "a_rpc_addr sample_args = ''0.0.0.0''"
    by (simp_all add: sample_args_def args_with_defaults_def)
  have lib: "e_lib sample_raft_env = sample_lib" by (simp add: sample_raft_env_def)
  obtain rt where "start_conductor sample_raft_env sample_net sample_profiler (or_sleep sample_new_cluster) ''1'' sample_args
      interval None config ''0.0.0.0'' c = Inr rt"
    using sample_conductor_starts by (metis is_ok_iff)
  then show ?thesis
    by (simp add: main_startup_def lib sample_args_valid conf args rpc_port_def port_in_range_def listen_addr_def
        sample_net_def context_err_def add_context_def call_ok_def optional_string_def cf node)
qed


section \<open>Shutting down\<close>

text \<open>
  Shutting down tries to stop the conductor on every path, and an error of the program is what is
  reported, whatever stopping and profiling do.
\<close>

lemma finalize_stops:
  assumes "finalize_runtime_exit E F result profiler (c, fs) = (r, c', fs')"
  shows "stopped c' = stopped (snd (stop E c)) \<and> (\<forall>e. result = Inl e \<longrightarrow> r = Inl e)"
  using assms
  by (auto simp: finalize_runtime_exit_def Let_def split: prod.splits sum.splits)

lemma finalize_success:
  assumes "finalize_runtime_exit E F result profiler (c, fs) = (Inr (), c', fs')"
  shows "stopped c'"
proof -
  have "fst (stop E c) = Inr ()"
    using assms by (auto simp: finalize_runtime_exit_def Let_def split: prod.splits sum.splits)
  then have "stopped (snd (stop E c))"
    by (auto simp: stop_def stop_finish_def stop_begin_def try_call_def split: if_splits prod.splits sum.splits)
  with finalize_stops [OF assms] show ?thesis by simp
qed

text \<open>The program exits without an error only when no task failed, and the conductor has then stopped.\<close>

lemma main_exit_ok:
  assumes "main_exit E F ended profiler (c, fs) = (Inr (), c', fs')"
  shows "stopped c' \<and> runtime_result ended = Inr ()"
  using assms finalize_success [of E F "runtime_result ended" profiler c fs c' fs']
    finalize_stops [of E F "runtime_result ended" profiler c fs "Inr ()" c' fs']
  by (cases "runtime_result ended") (auto simp: main_exit_def)

end
