(* ===== verification/Program.thy ===== *)
theory Program
  imports Control_Props Rpc_Server
begin

text \<open>
  The whole program: the control loop, the JSON-RPC server, the leadership watch and everything else
  that touches the conductor, interleaved in any order. Every step of a task is made of steps of the
  conductor, so what holds in all runs of the conductor holds in all runs of the program.
\<close>

section \<open>Steps of the tasks\<close>

record 'w program =
  pg_timer :: loop_timer
  pg_server :: "'w rpc_state"

abbreviation pg_conductor :: "'w program \<Rightarrow> 'w conductor" where
  "pg_conductor p \<equiv> rs_conductor (pg_server p)"

definition with_conductor :: "'w conductor \<Rightarrow> 'w program \<Rightarrow> 'w program" where
  "with_conductor c p = p\<lparr>pg_server := (pg_server p)\<lparr>rs_conductor := c\<rparr>\<rparr>"

text \<open>
  An iteration of the control loop, an HTTP request or websocket message, a single request of a
  batch when other tasks run between its elements, a round of the leadership watch, and any single
  step of the conductor, which the other tasks (shutting down, the block relay, the outside) make.
\<close>

inductive program_step :: "'w server_env \<Rightarrow> ('w \<Rightarrow> 'w \<Rightarrow> bool) \<Rightarrow> 'w program \<Rightarrow> 'w program \<Rightarrow> bool"
  for V :: "'w server_env" and out :: "'w \<Rightarrow> 'w \<Rightarrow> bool" where
  prog_control: "loop_enabled ev (pg_timer p) \<Longrightarrow>
    control_step (sv_env V) ev (pg_timer p) (pg_conductor p) = (b, t, c) \<Longrightarrow>
    program_step V out p ((with_conductor c p)\<lparr>pg_timer := t\<rparr>)"
| prog_request: "handle_bytes V body (pg_server p) = (reply, s) \<Longrightarrow> program_step V out p (p\<lparr>pg_server := s\<rparr>)"
| prog_element: "handle_request_value V v (pg_server p) = (answered, s) \<Longrightarrow> program_step V out p (p\<lparr>pg_server := s\<rparr>)"
| prog_leader: "leader_watch_round (sv_env V) r (pg_conductor p) = (it, c) \<Longrightarrow>
    program_step V out p (with_conductor c p)"
| prog_other: "conductor_step (sv_env V) out (pg_conductor p) c \<Longrightarrow> program_step V out p (with_conductor c p)"

definition program_run :: "'w server_env \<Rightarrow> ('w \<Rightarrow> 'w \<Rightarrow> bool) \<Rightarrow> 'w program \<Rightarrow> 'w program \<Rightarrow> bool" where
  "program_run V out = (program_step V out)\<^sup>*\<^sup>*"

text \<open>The requests the proxy makes change the outside as \<open>out\<close> allows.\<close>

definition http_within :: "('w \<Rightarrow> 'w \<Rightarrow> bool) \<Rightarrow> 'w http \<Rightarrow> bool" where
  "http_within out http = (\<forall>u t req w. out w (snd (http u t req w)))"

section \<open>Runs of the conductor\<close>

lemma conductor_run_refl [simp]: "conductor_run E out c c"
  by (simp add: conductor_run_def)

lemma conductor_run_step: "conductor_step E out c c' \<Longrightarrow> conductor_run E out c c'"
  by (simp add: conductor_run_def)

lemma conductor_run_trans:
  "conductor_run E out a b \<Longrightarrow> conductor_run E out b c \<Longrightarrow> conductor_run E out a c"
  unfolding conductor_run_def by (rule rtranclp_trans)

text \<open>
  What every task owes the conductor: each of its steps, on whatever state it has, takes the
  conductor in that state through a run of its operations. Whole runs of the task then do so too,
  and keep the invariant.
\<close>

locale conductor_task =
  fixes E :: "'w env" and out :: "'w \<Rightarrow> 'w \<Rightarrow> bool"
    and conductor_of :: "'s \<Rightarrow> 'w conductor" and task_step :: "'s \<Rightarrow> 's \<Rightarrow> bool"
  assumes refines: "task_step s s' \<Longrightarrow> conductor_run E out (conductor_of s) (conductor_of s')"
begin

lemma run_refines: "task_step\<^sup>*\<^sup>* s s' \<Longrightarrow> conductor_run E out (conductor_of s) (conductor_of s')"
proof (induction rule: rtranclp_induct)
  case (step s1 s2)
  from step(3) refines [OF step(2)] show ?case by (rule conductor_run_trans)
qed simp

lemma run_keeps_inv:
  "task_step\<^sup>*\<^sup>* s s' \<Longrightarrow> conductor_inv (conductor_of s) \<Longrightarrow> conductor_inv (conductor_of s')"
  by (rule conductor_run_inv [OF run_refines])

end

lemma run_record: "conductor_run E out c d \<Longrightarrow> conductor_run E out c (on_metrics (apply_metric op) d)"
  by (rule conductor_run_trans [OF _ conductor_run_step [OF step_record]])

lemma run_action_once:
  assumes "run_control_action_once E elapsed c = (r, d)"
  shows "conductor_run E out c d"
proof -
  obtain r0 c0 where act: "action E c = (r0, c0)" by (cases "action E c")
  with assms have d: "d = on_metrics (apply_metric (MLoopTime elapsed)) c0" by (simp add: run_control_action_once_def)
  show ?thesis unfolding d by (rule run_record [OF conductor_run_step [OF step_action [OF act]]])
qed

lemma run_tick: "tick E secs elapsed c = (r, d) \<Longrightarrow> conductor_run E out c d"
  by (rule conductor_run_step [OF step_tick])

lemma control_step_run:
  assumes "control_step E ev t c = (b, t', d)"
  shows "conductor_run E out c d"
proof (cases ev)
  case (ActionChanged is_open now)
  with assms show ?thesis by (auto split: if_splits)
next
  case (RetryElapsed now elapsed ms)
  obtain r0 c0 where act: "run_control_action_once E elapsed c = (r0, c0)"
    by (cases "run_control_action_once E elapsed c")
  with assms RetryElapsed have "d = c \<or> d = c0" by (auto split: if_splits sum.splits)
  with run_action_once [OF act] show ?thesis by auto
next
  case (Ticked secs now elapsed ms)
  obtain r0 c0 where tk: "tick E secs elapsed c = (r0, c0)" by (cases "tick E secs elapsed c")
  with assms Ticked have "d = c \<or> d = c0" by (auto split: if_splits sum.splits)
  with run_tick [OF tk] show ?thesis by auto
qed

interpretation loop_task: conductor_task E out snd "\<lambda>(t, c) (t', c'). \<exists>ev b. control_step E ev t c = (b, t', c')"
  for E :: "'w env" and out
  by unfold_locales (auto intro: control_step_run)

lemma leader_watch_run: "leader_watch_round E r c = (it, d) \<Longrightarrow> conductor_run E out c d"
  by (auto simp: leader_watch_round_def split: sum.splits if_splits intro: conductor_run_step step_queue)

interpretation watch_task: conductor_task E out id "\<lambda>c c'. \<exists>r it. leader_watch_round E r c = (it, c')"
  for E :: "'w env" and out
  by unfold_locales (auto intro: leader_watch_run)

lemma stop_run: "stop E c = (r, d) \<Longrightarrow> conductor_run E out c d"
proof -
  assume "stop E c = (r, d)"
  then have fin: "stop_finish E (stop_begin c) = (r, d)" by (simp add: stop_def)
  have "stopping (stop_begin c) \<or> stopped (stop_begin c)" by (simp add: stop_begin_def)
  from step_stop_finish [OF this fin] show ?thesis
    by (rule conductor_run_trans [OF conductor_run_step [OF step_stop_begin] conductor_run_step])
qed

section \<open>Requests\<close>

text \<open>A server call whose effect on the conductor is a run of it.\<close>

definition runs :: "'w server_env \<Rightarrow> ('w \<Rightarrow> 'w \<Rightarrow> bool) \<Rightarrow> ('w, 'a) server_call \<Rightarrow> bool" where
  "runs V out m = (\<forall>s. conductor_run (sv_env V) out (rs_conductor s) (rs_conductor (snd (m s))))"

named_theorems runs_rules

lemma runs_if [runs_rules]: "runs V out m \<Longrightarrow> runs V out n \<Longrightarrow> runs V out (if c then m else n)"
  by simp

lemma runs_with_params [runs_rules]: "(\<And>a. runs V out (f a)) \<Longrightarrow> runs V out (with_params p f)"
  by (auto simp: runs_def with_params_def split: sum.split)

lemma runs_answer [runs_rules]: "runs V out (answer f)"
  by (simp add: runs_def answer_def)

lemma runs_fail [runs_rules]: "runs V out (call_fail e)"
  by (simp add: runs_def call_fail_def)

lemma runs_pure [runs_rules]: "runs V out (\<lambda>s. (r s, s))"
  by (simp add: runs_def)

lemma runs_case_prod [runs_rules]: "(\<And>a b. runs V out (f a b)) \<Longrightarrow> runs V out (case p of (a, b) \<Rightarrow> f a b)"
  by (cases p) simp

lemma runs_performI: "(\<And>c r d. m c = (r, d) \<Longrightarrow> conductor_run (sv_env V) out c d) \<Longrightarrow> runs V out (perform V m f)"
  by (auto simp: runs_def perform_def split: prod.split sum.split)

lemma runs_override [runs_rules]: "runs V out (perform V (\<lambda>c. (Inr (), set_leader_override b c)) f)"
  by (rule runs_performI) (auto intro: conductor_run_step step_override)

lemmas admin_steps = step_pause step_resume step_membership step_transfer step_transfer_to step_add_voter
  step_add_nonvoter step_remove step_demote step_commit

lemma runs_perform [runs_rules]:
  "runs V out (perform V pause f)"
  "runs V out (perform V (resume (sv_env V)) f)"
  "runs V out (perform V (stop (sv_env V)) f)"
  "runs V out (perform V (conductor_membership (sv_env V)) g)"
  "runs V out (perform V (transfer_leader (sv_env V)) f)"
  "runs V out (perform V (transfer_leader_to_server (sv_env V) i a) f)"
  "runs V out (perform V (add_server_as_voter (sv_env V) i a v) f)"
  "runs V out (perform V (add_server_as_nonvoter (sv_env V) i a v) f)"
  "runs V out (perform V (remove_server (sv_env V) i v) f)"
  "runs V out (perform V (demote_voter (sv_env V) i v) f)"
  "runs V out (perform V (commit_unsafe_payload (sv_env V) p) f)"
  by (rule runs_performI, (erule stop_run | erule admin_steps [THEN conductor_run_step]))+

lemma rpc_call_world:
  assumes "http_within out http" "rpc_call L http dec meth ps (client, w) = (r, client', w')"
  shows "out w w'"
proof -
  let ?req = "rpc_request (jc_next_id client) meth ps"
  obtain r0 w0 where call: "http (jc_url client) (jc_timeout client) ?req w = (r0, w0)"
    by (cases "http (jc_url client) (jc_timeout client) ?req w")
  then have "out w w0" using assms(1) unfolding http_within_def by (metis snd_conv)
  moreover have "w' = w0" using assms(2) call by (cases r0) (simp_all add: rpc_call_def Let_def)
  ultimately show ?thesis by simp
qed

lemma runs_proxy_to_backend [runs_rules]:
  assumes "http_within out (sv_http V)"
  shows "runs V out (proxy_to_backend V target meth ps)"
  unfolding runs_def
proof
  fix s
  show "conductor_run (sv_env V) out (rs_conductor s) (rs_conductor (snd (proxy_to_backend V target meth ps s)))"
  proof (cases "rs_proxy s")
    case None
    then show ?thesis by (simp add: proxy_to_backend_def)
  next
    case (Some proxy)
    let ?client = "case target of Execution \<Rightarrow> px_execution proxy | Node \<Rightarrow> px_node proxy"
    obtain r client' w' where call: "rpc_call (e_lib (sv_env V)) (sv_http V) deserialize_value meth
        (normalize_proxy_params ps) (?client, world (rs_conductor s)) = (r, client', w')"
      by (metis prod_cases3)
    then have "conductor_step (sv_env V) out (rs_conductor s) ((rs_conductor s)\<lparr>world := w'\<rparr>)"
      using rpc_call_world [OF assms] by (intro step_outside)
    with Some call show ?thesis by (simp add: proxy_to_backend_def Let_def conductor_run_step)
  qed
qed

lemma runs_proxy_to_leader [runs_rules]:
  assumes "http_within out (sv_http V)"
  shows "runs V out (proxy_to_leader V target meth ps)"
  unfolding runs_def
proof
  fix s
  obtain r s1 where pb: "proxy_to_backend V target meth ps s = (r, s1)"
    by (cases "proxy_to_backend V target meth ps s")
  then have "conductor_run (sv_env V) out (rs_conductor s) (rs_conductor s1)"
    using runs_proxy_to_backend [OF assms, of target meth ps] by (metis runs_def snd_conv)
  with pb show "conductor_run (sv_env V) out (rs_conductor s) (rs_conductor (snd (proxy_to_leader V target meth ps s)))"
    by (cases r) (simp_all add: proxy_to_leader_def try_call_def)
qed

lemma runs_dispatch_method:
  assumes "http_within out (sv_http V)"
  shows "runs V out (dispatch_method V meth ps)"
  unfolding dispatch_method_def Let_def by (intro runs_rules assms)

lemma dispatch_run:
  assumes "http_within out (sv_http V)" "dispatch V request s = (r, s')"
  shows "conductor_run (sv_env V) out (rs_conductor s) (rs_conductor s')"
proof (cases "snd (dispatch V request s) = s")
  case True
  with assms(2) show ?thesis by simp
next
  case False
  then have "dispatch_method V (rq_method request) (rq_params request) s = (r, s')"
    using assms(2) by (auto simp: dispatch_def split: if_splits)
  with runs_dispatch_method [OF assms(1)] show ?thesis unfolding runs_def by (metis snd_conv)
qed

lemma handle_request_value_run:
  assumes "http_within out (sv_http V)" "handle_request_value V v s = (r, s')"
  shows "conductor_run (sv_env V) out (rs_conductor s) (rs_conductor s')"
proof (cases "deserialize_request v")
  case (Inl e)
  with assms(2) show ?thesis by (simp add: handle_request_value_def Let_def)
next
  case (Inr request)
  obtain response s1 where d: "dispatch V request s = (response, s1)" by (cases "dispatch V request s")
  have "\<exists>op. rs_conductor s' = on_metrics (apply_metric op) (rs_conductor s1)"
  proof (cases "is_notification v")
    case True
    with assms(2) Inr d show ?thesis
      by (intro exI [of _ "MNotification (rq_method request)"]) (auto simp: handle_request_value_def Let_def)
  next
    case False
    let ?L = "e_lib (sv_env V)"
    have "rs_conductor s' = on_metrics (apply_metric (MRequest (rq_method request)
        (of_nat (length (json_text ?L (rq_params request))))
        (sv_now V (world (rs_conductor s1)) - sv_now V (world (rs_conductor s)))
        (case response of Inl e \<Rightarrow> Some (er_code e) | Inr _ \<Rightarrow> None)
        (case response of Inl _ \<Rightarrow> None | Inr x \<Rightarrow> Some (of_nat (length (json_text ?L x)))))) (rs_conductor s1)"
      using assms(2) Inr d False by (auto simp: handle_request_value_def Let_def)
    then show ?thesis ..
  qed
  with dispatch_run [OF assms(1) d] show ?thesis by (auto intro: run_record)
qed

lemma handle_batch_run:
  assumes "http_within out (sv_http V)"
  shows "handle_batch V vs s = (rs, s') \<Longrightarrow> conductor_run (sv_env V) out (rs_conductor s) (rs_conductor s')"
proof (induction vs arbitrary: s rs s')
  case (Cons v vs)
  obtain r s1 where v: "handle_request_value V v s = (r, s1)" by (cases "handle_request_value V v s")
  obtain rs2 s2 where vs: "handle_batch V vs s1 = (rs2, s2)" by (cases "handle_batch V vs s1")
  have "s2 = s'" using Cons.prems v vs by simp
  with handle_request_value_run [OF assms v] Cons.IH [OF vs] show ?case by (metis conductor_run_trans)
qed simp

lemma handle_bytes_run:
  assumes "http_within out (sv_http V)" "handle_bytes V body s = (r, s')"
  shows "conductor_run (sv_env V) out (rs_conductor s) (rs_conductor s')"
proof (cases "json_parse (e_lib (sv_env V)) body")
  case (Inl e)
  with assms(2) show ?thesis by (simp add: handle_bytes_def)
next
  case (Inr v)
  with assms(2) have p: "handle_payload V v s = (r, s')" by (simp add: handle_bytes_def)
  show ?thesis
  proof (cases "\<exists>vs. v = JArray vs")
    case True
    then obtain vs where v: "v = JArray vs" by blast
    show ?thesis
    proof (cases vs)
      case Nil
      with p v show ?thesis by (simp add: handle_payload_def)
    next
      case (Cons x xs)
      obtain rs s1 where b: "handle_batch V vs s = (rs, s1)" by (cases "handle_batch V vs s")
      with p v Cons have "s' = s1" by (simp add: handle_payload_def)
      with handle_batch_run [OF assms(1) b] show ?thesis by simp
    qed
  next
    case False
    with p have "handle_request_value V v s = (r, s')" by (cases v) (simp_all add: handle_payload_def)
    then show ?thesis by (rule handle_request_value_run [OF assms(1)])
  qed
qed

interpretation server_task: conductor_task "sv_env V" out rs_conductor
    "\<lambda>s s'. http_within out (sv_http V) \<and> (\<exists>body r. handle_bytes V body s = (r, s'))"
  for V :: "'w server_env" and out
  by unfold_locales (auto intro: handle_bytes_run)

section \<open>The program\<close>

lemma program_step_run:
  assumes "program_step V out p p'" "http_within out (sv_http V)"
  shows "conductor_run (sv_env V) out (pg_conductor p) (pg_conductor p')"
  using assms(1)
proof cases
  case (prog_control ev b t c)
  then show ?thesis using control_step_run by (simp add: with_conductor_def)
next
  case (prog_request body reply s)
  then show ?thesis using handle_bytes_run [OF assms(2)] by simp
next
  case (prog_element v answered s)
  then show ?thesis using handle_request_value_run [OF assms(2)] by simp
next
  case (prog_leader r it c)
  then show ?thesis using leader_watch_run by (simp add: with_conductor_def)
next
  case (prog_other c)
  then show ?thesis using conductor_run_step by (simp add: with_conductor_def)
qed

interpretation whole_program: conductor_task "sv_env V" out pg_conductor
    "\<lambda>p p'. http_within out (sv_http V) \<and> program_step V out p p'"
  for V :: "'w server_env" and out
  by unfold_locales (auto intro: program_step_run)

lemma program_run_task:
  "program_run V out p p' \<Longrightarrow> http_within out (sv_http V) \<Longrightarrow>
   (\<lambda>p p'. http_within out (sv_http V) \<and> program_step V out p p')\<^sup>*\<^sup>* p p'"
  by (simp add: program_run_def)


definition sample_server_env :: "sample_world server_env" where
  "sample_server_env =
     \<lparr>sv_env = sample_env, sv_http = (\<lambda>_ _ _ w. (Inl ''connection refused'', w)), sv_version = ''1'', sv_now = (\<lambda>_. 0)\<rparr>"

definition sample_program :: "sample_world program" where
  "sample_program =
     \<lparr>pg_timer = loop_timer_start 0,
      pg_server = rpc_state_new (conductor_new sample_env ''1'' default_config (sample_world True False)) None\<rparr>"


text \<open>
  Together with the runs of the conductor: once it has begun to stop, no task of the program makes
  another request to the sequencer.
\<close>

lemma stopping_program_calm:
  assumes "program_run V outside p p'" "http_within outside (sv_http V)" "sv_env V = log_env E"
    "stopping (pg_conductor p)"
  shows "calm (pg_conductor p) (pg_conductor p')"
  using conductor_run_calm whole_program.run_refines [OF program_run_task [OF assms(1,2)]] assms(3,4) by metis

end
