(* ===== verification/Conductor_World.thy ===== *)
theory Conductor_World
  imports Conductor_Behaviour "HOL-Library.Sublist"
begin

text \<open>
  What the environment of a conductor guarantees about the outside, its runs guarantee too: a
  relation that every call of the environment keeps within, and that is reflexive and transitive,
  holds between the outside before and after any run. Two guarantees are used: the log of a
  conductor only grows, and so does the history of a cluster.
\<close>

locale world_guarantee =
  fixes E :: "'w env" and G :: "'w \<Rightarrow> 'w \<Rightarrow> bool"
  assumes env: "env_within G E"
    and G_refl: "G w w"
    and G_trans: "G w w1 \<Longrightarrow> G w1 w2 \<Longrightarrow> G w w2"

sublocale world_guarantee \<subseteq> outer: action_relation E G "\<lambda>s s'. G (world s) (world s')"
  by unfold_locales (auto simp: env G_refl intro: G_trans)

context world_guarantee
begin

lemma action_within: "action E s = (r, s') \<Longrightarrow> G (world s) (world s')"
  by (drule outer.action_respects) (auto split: if_splits)

lemma update_health_within: "update_health E h s = (r, s') \<Longrightarrow> G (world s) (world s')"
  unfolding update_health_def by (drule action_within) simp

lemma update_leader_within: "update_leader E b s = (r, s') \<Longrightarrow> G (world s) (world s')"
  unfolding update_leader_def
  by (drule action_within) (use outer.upd_leader [of s s b] in \<open>auto simp: G_refl intro: G_trans\<close>)

lemma refresh_within: "refresh_sequencer_active E s = (r, s') \<Longrightarrow> G (world s) (world s')"
  unfolding refresh_sequencer_active_def
  by (auto elim!: outer.try_call_respects intro: outer.on_sequencer_respects simp: G_refl)

lemma supervisor_within: "check_supervisor E s = (h, s') \<Longrightarrow> G (world s) (world s')"
  using env
  by (auto simp: check_supervisor_def within_defs option.pred_set G_refl
      split: option.splits prod.splits sum.splits dest: outer.in_world_respects)

lemma execution_p2p_within: "check_execution_p2p E s = (h, s') \<Longrightarrow> G (world s) (world s')"
  using env
  by (auto simp: check_execution_p2p_def Let_def within_defs option.pred_set G_refl
      split: option.splits prod.splits sum.splits if_splits dest: outer.in_world_respects)

lemma rollup_boost_within:
  assumes "check_rollup_boost E now s = (h, s')"
  shows "G (world s) (world s')"
proof (cases "hc_rollup_boost (e_health E)")
  case None
  with assms show ?thesis by (simp add: check_rollup_boost_def G_refl)
next
  case (Some check)
  then have "stays G check" using env by (simp add: within_defs)
  moreover obtain r0 s0 where c: "in_world check s = (r0, s0)" by (cases "in_world check s")
  ultimately have "G (world s) (world s0)" by (auto dest: outer.in_world_respects)
  with assms Some c show ?thesis
    by (auto simp: check_rollup_boost_def split: sum.splits rollup_boost_status.splits prod.splits)
qed

lemma check_health_within:
  assumes "check_health_at E now s = (h, s')"
  shows "G (world s) (world s')"
proof -
  obtain r1 s1 where 1: "in_world (sq_sync_status (e_sequencer E)) s = (r1, s1)"
    by (cases "in_world (sq_sync_status (e_sequencer E)) s")
  obtain h2 s2 where 2: "check_supervisor E s1 = (h2, s2)" by (cases "check_supervisor E s1")
  obtain r3 s3 where 3: "in_world (sq_peer_stats (e_sequencer E)) s2 = (r3, s3)"
    by (cases "in_world (sq_peer_stats (e_sequencer E)) s2")
  obtain h4 s4 where 4: "check_execution_p2p E s3 = (h4, s4)" by (cases "check_execution_p2p E s3")
  obtain h5 s5 where 5: "check_rollup_boost E now s4 = (h5, s5)" by (cases "check_rollup_boost E now s4")
  have "G (world s) (world s1)" using outer.in_world_respects [OF 1] by simp
  moreover from this have g2: "G (world s) (world s2)" using supervisor_within [OF 2] by (rule G_trans)
  moreover have g3: "G (world s) (world s3)" using g2 outer.in_world_respects [OF 3] by (auto intro: G_trans)
  moreover have g4: "G (world s) (world s4)" using g3 execution_p2p_within [OF 4] by (rule G_trans)
  moreover have "G (world s) (world s5)" using g4 rollup_boost_within [OF 5] by (rule G_trans)
  moreover have "s' \<in> {s1, s2, s3, s4, s5}"
    using assms by (auto simp: check_health_at_def 1 2 3 4 5 split: sum.splits option.splits)
  ultimately show ?thesis by auto
qed

lemma tick_within:
  assumes "tick E now elapsed s = (r, s')"
  shows "G (world s) (world s')"
proof -
  obtain r1 s1 where 1: "refresh_sequencer_active E s = (r1, s1)" by (cases "refresh_sequencer_active E s")
  have g1: "G (world s) (world s1)" by (rule refresh_within [OF 1])
  obtain h2 s2 where 2: "check_health_at E now s1 = (h2, s2)" by (cases "check_health_at E now s1")
  have g2: "G (world s) (world s2)" using g1 check_health_within [OF 2] by (rule G_trans)
  show ?thesis
    using assms 1 2 g1 g2
    by (auto simp: tick_def G_refl split: if_splits sum.splits prod.splits
        dest!: update_health_within intro: G_trans)
qed

lemma stop_finish_within: "stop_finish E s = (r, s') \<Longrightarrow> G (world s) (world s')"
  unfolding stop_finish_def
  by (auto simp: G_refl split: if_splits elim!: outer.try_call_respects intro: outer.on_consensus_respects)
    (use env in \<open>simp add: within_defs\<close>)

lemma signal_within: "G w (sg_send_action (e_signals E) n w)"
  using env by (simp add: within_defs)

lemma resume_within: "resume E s = (r, s') \<Longrightarrow> G (world s) (world s')"
  unfolding resume_def
  by (auto simp: G_refl queue_action_def Let_def signal_within split: if_splits elim!: outer.try_call_respects
      intro: outer.on_sequencer_respects)

lemma init_within: "initialize_startup_state E s = (r, s') \<Longrightarrow> G (world s) (world s')"
  unfolding initialize_startup_state_def
  by (auto simp: seed_previous_state_from_current_def G_refl elim!: outer.try_call_respects intro: refresh_within)

lemma step_within:
  assumes "conductor_step E out s s'" "\<And>w w'. out w w' \<Longrightarrow> G w w'"
  shows "G (world s) (world s')"
  using assms
proof (induction rule: conductor_step.induct)
  case (step_queue s)
  then show ?case by (simp add: queue_action_def Let_def signal_within)
qed (auto simp: pause_def set_leader_override_def stop_begin_def add_server_as_voter_def
      add_server_as_nonvoter_def remove_server_def demote_voter_def transfer_leader_def
      transfer_leader_to_server_def conductor_membership_def commit_unsafe_payload_def
      latest_unsafe_payload_def G_refl split: if_splits
      dest: tick_within update_health_within update_leader_within action_within stop_finish_within
        resume_within init_within outer.on_consensus_respects)

lemma run_within:
  assumes "conductor_run E out s s'" "\<And>w w'. out w w' \<Longrightarrow> G w w'"
  shows "G (world s) (world s')"
  using assms(1) unfolding conductor_run_def
  by (induction rule: rtranclp_induct) (auto simp: G_refl intro: G_trans step_within assms(2))

end

text \<open>The log of a conductor only grows, whatever it does.\<close>

definition log_grows :: "'w \<times> event list \<Rightarrow> 'w \<times> event list \<Rightarrow> bool" where
  "log_grows wt wt' = prefix (snd wt) (snd wt')"

lemma stays_logged [simp]: "stays log_grows (logged before after m)"
  by (auto simp: stays_def log_grows_def logged_def split: prod.splits sum.splits)

lemma stays_silent [simp]: "stays log_grows (silent m)"
  by (simp add: silent_def)

interpretation log_growth: world_guarantee "log_env E" log_grows
  for E :: "'w env"
  by unfold_locales
    (auto simp: within_defs log_defs option.pred_map option.pred_set log_grows_def split: prod.splits)

end
