(* ===== verification/Conductor_Log.thy ===== *)
theory Conductor_Log
  imports Conductor_Runs
begin

text \<open>
  The log only observes. Every operation of the conductor on the environment with the log returns
  what it returns on the environment itself and leaves the same conductor behind, so what is shown
  of the log of an operation is about the operation as the program runs it.
\<close>

section \<open>Forgetting the log\<close>

definition unlog :: "('w \<times> event list) conductor \<Rightarrow> 'w conductor" where
  "unlog s =
     \<lparr>cfg = cfg s, cm_metrics = cm_metrics s, leader_override = leader_override s, paused = paused s,
      stopping = stopping s, stopped = stopped s, action_seq = action_seq s, c_health = c_health s,
      seq_active = seq_active s, previous = previous s, partial_counter = partial_counter s, world = fst (world s)\<rparr>"

lemma unlog_sel [simp]:
  "cfg (unlog s) = cfg s" "cm_metrics (unlog s) = cm_metrics s" "leader_override (unlog s) = leader_override s"
  "paused (unlog s) = paused s" "stopping (unlog s) = stopping s" "stopped (unlog s) = stopped s"
  "action_seq (unlog s) = action_seq s" "c_health (unlog s) = c_health s" "seq_active (unlog s) = seq_active s"
  "previous (unlog s) = previous s" "partial_counter (unlog s) = partial_counter s" "world (unlog s) = fst (world s)"
  by (simp_all add: unlog_def)

lemma unlog_upd [simp]:
  "unlog (s\<lparr>seq_active := a\<rparr>) = (unlog s)\<lparr>seq_active := a\<rparr>"
  "unlog (s\<lparr>c_health := h\<rparr>) = (unlog s)\<lparr>c_health := h\<rparr>"
  "unlog (s\<lparr>previous := v\<rparr>) = (unlog s)\<lparr>previous := v\<rparr>"
  "unlog (s\<lparr>paused := b\<rparr>) = (unlog s)\<lparr>paused := b\<rparr>"
  "unlog (s\<lparr>stopping := b\<rparr>) = (unlog s)\<lparr>stopping := b\<rparr>"
  "unlog (s\<lparr>stopped := b\<rparr>) = (unlog s)\<lparr>stopped := b\<rparr>"
  "unlog (s\<lparr>leader_override := b\<rparr>) = (unlog s)\<lparr>leader_override := b\<rparr>"
  "unlog (s\<lparr>action_seq := n\<rparr>) = (unlog s)\<lparr>action_seq := n\<rparr>"
  "unlog (s\<lparr>partial_counter := c\<rparr>) = (unlog s)\<lparr>partial_counter := c\<rparr>"
  "unlog (s\<lparr>world := wt\<rparr>) = (unlog s)\<lparr>world := fst wt\<rparr>"
  "unlog (on_metrics f s) = on_metrics f (unlog s)"
  "unlog (remember_state st s) = remember_state st (unlog s)"
  by (simp_all add: unlog_def on_metrics_def remember_state_def)

text \<open>A call on the conductor with the log does what another does on the conductor without it.\<close>

definition mirrors ::
  "(('w \<times> event list) conductor \<Rightarrow> 'a \<times> ('w \<times> event list) conductor) \<Rightarrow> ('w conductor \<Rightarrow> 'a \<times> 'w conductor) \<Rightarrow> bool" where
  "mirrors m m' = (\<forall>s r s'. m s = (r, s') \<longrightarrow> m' (unlog s) = (r, unlog s'))"

lemma mirrorsI: "(\<And>s r s'. m s = (r, s') \<Longrightarrow> m' (unlog s) = (r, unlog s')) \<Longrightarrow> mirrors m m'"
  by (simp add: mirrors_def)

lemma mirrorsD: "mirrors m m' \<Longrightarrow> m s = (r, s') \<Longrightarrow> m' (unlog s) = (r, unlog s')"
  by (simp add: mirrors_def)

named_theorems mirror_rules

lemma mirrors_logged [mirror_rules]: "mirrors (in_world (logged before after m)) (in_world m)"
  by (auto simp: mirrors_def in_world_def logged_def split: prod.splits sum.splits)

lemma mirrors_silent [mirror_rules]: "mirrors (in_world (silent m)) (in_world m)"
  unfolding silent_def by (rule mirrors_logged)

lemma mirrors_call_err [mirror_rules]: "mirrors m m' \<Longrightarrow> mirrors (call_err f m) (call_err f m')"
  by (auto simp: mirrors_def call_err_eq)

lemma mirrors_on_consensus [mirror_rules]:
  "mirrors (in_world m) (in_world m') \<Longrightarrow> mirrors (on_consensus m) (on_consensus m')"
  unfolding on_consensus_def by (rule mirrors_call_err)

lemma mirrors_on_sequencer [mirror_rules]:
  "mirrors (in_world m) (in_world m') \<Longrightarrow> mirrors (on_sequencer m) (on_sequencer m')"
  unfolding on_sequencer_def by (rule mirrors_call_err)

lemma mirrors_try [mirror_rules]:
  assumes "mirrors m m'" "\<And>a. mirrors (f a) (f' a)"
  shows "mirrors (try_call m f) (try_call m' f')"
proof (rule mirrorsI)
  fix s r s'
  assume "try_call m f s = (r, s')"
  moreover obtain r0 s0 where m: "m s = (r0, s0)" by (cases "m s")
  ultimately show "try_call m' f' (unlog s) = (r, unlog s')"
    using mirrorsD [OF assms(1) m] by (cases r0) (auto dest: mirrorsD [OF assms(2)])
qed

lemma mirrors_pure [mirror_rules]: "mirrors (call_ok a) (call_ok a)" "mirrors (call_fail e) (call_fail e)"
  by (auto simp: mirrors_def call_ok_def call_fail_def)

lemma unlog_set_leader [simp]:
  "unlog (set_consensus_leader (log_env E) b s) = set_consensus_leader E b (unlog s)"
  by (simp add: set_consensus_leader_def)

lemma current_state_unlog [simp]: "current_state (log_env E) s = current_state E (unlog s)"
  by (simp add: current_state_def)

lemma stopping_or_stopped_unlog [simp]: "stopping_or_stopped (unlog s) = stopping_or_stopped s"
  by (simp add: stopping_or_stopped_def)

section \<open>Below the action\<close>

lemma stop_sequencer_mirrors: "mirrors (stop_sequencer (log_env E)) (stop_sequencer E)"
proof (rule mirrorsI)
  fix s r s'
  let ?m = "in_world (logged [EvStop] (\<lambda>_. []) (sq_stop_sequencer (e_sequencer E)))"
  assume "stop_sequencer (log_env E) s = (r, s')"
  moreover obtain r0 s0 where m: "?m s = (r0, s0)" by (cases "?m s")
  moreover note mirrorsD [OF mirrors_logged m]
  ultimately show "stop_sequencer E (unlog s) = (r, unlog s')"
    by (cases r0) (auto simp: stop_sequencer_def split: if_splits)
qed

lemma start_at_mirrors: "mirrors (start_at (log_env E) h) (start_at E h)"
proof (rule mirrorsI)
  fix s r s'
  let ?m = "in_world (logged [EvStart h] (\<lambda>_. []) (sq_start_sequencer (e_sequencer E) h))"
  assume "start_at (log_env E) h s = (r, s')"
  moreover obtain r0 s0 where m: "?m s = (r0, s0)" by (cases "?m s")
  moreover note mirrorsD [OF mirrors_logged m]
  ultimately show "start_at E h (unlog s) = (r, unlog s')"
    by (cases r0) (auto simp: start_at_def split: if_splits)
qed

lemma choose_start_hash_mirrors: "mirrors (choose_start_hash (log_env E) p ch cn b) (choose_start_hash E p ch cn b)"
proof (rule mirrorsI)
  fix s r s'
  have post: "mirrors (try_call (on_sequencer (sq_post_unsafe_payload (e_sequencer (log_env E)) p)) (\<lambda>_. call_ok ch))
      (try_call (on_sequencer (sq_post_unsafe_payload (e_sequencer E) p)) (\<lambda>_. call_ok ch))"
    unfolding log_sequencer_sel by (intro mirror_rules)
  have block: "mirrors
      (try_call (on_sequencer (sq_block_by_number (e_sequencer (log_env E)) cn)) (\<lambda>ancestor.
         if bi_hash ancestor \<noteq> ch then call_fail UnsafeHeadMismatch else call_ok (bi_hash b)))
      (try_call (on_sequencer (sq_block_by_number (e_sequencer E) cn)) (\<lambda>ancestor.
         if bi_hash ancestor \<noteq> ch then call_fail UnsafeHeadMismatch else call_ok (bi_hash b)))"
    unfolding log_sequencer_sel by (rule mirrors_try) (auto intro: mirror_rules)
  assume "choose_start_hash (log_env E) p ch cn b s = (r, s')"
  then show "choose_start_hash E p ch cn b (unlog s) = (r, unlog s')"
    by (auto simp: choose_start_hash_def simp del: log_sequencer_sel split: if_splits
        dest: mirrorsD [OF post] mirrorsD [OF block])
qed

lemma start_attempt_mirrors: "mirrors (start_attempt (log_env E)) (start_attempt E)"
  unfolding start_attempt_def log_consensus_sel log_sequencer_sel log_env_sel
  by (rule mirrors_try)
    (auto intro!: mirror_rules choose_start_hash_mirrors start_at_mirrors split: option.split sum.split)

lemma start_sequencer_mirrors: "mirrors (start_sequencer (log_env E)) (start_sequencer E)"
proof (rule mirrorsI)
  fix s r s'
  assume "start_sequencer (log_env E) s = (r, s')"
  moreover obtain r0 s0 where m: "start_attempt (log_env E) s = (r0, s0)" by (cases "start_attempt (log_env E) s")
  moreover note mirrorsD [OF start_attempt_mirrors m]
  ultimately show "start_sequencer E (unlog s) = (r, unlog s')"
    by (cases r0) (auto simp: start_sequencer_def)
qed

lemma try_transfer_targets_mirrors: "mirrors (try_transfer_targets (log_env E) ts le) (try_transfer_targets E ts le)"
proof (induction ts arbitrary: le)
  case Nil
  have "mirrors (on_consensus (cs_transfer_leader (e_consensus (log_env E)))) (on_consensus (cs_transfer_leader (e_consensus E)))"
    unfolding log_consensus_sel by (intro mirror_rules)
  then show ?case by (auto simp: mirrors_def)
next
  case (Cons t ts)
  show ?case
  proof (rule mirrorsI)
    fix s r s'
    let ?m = "in_world (logged [EvTransferTo (si_id t) (si_addr t)] (\<lambda>_. [])
      (cs_transfer_leader_to (e_consensus E) (si_id t) (si_addr t)))"
    assume "try_transfer_targets (log_env E) (t # ts) le s = (r, s')"
    moreover obtain r0 s0 where m: "?m s = (r0, s0)" by (cases "?m s")
    moreover note mirrorsD [OF mirrors_logged m]
    ultimately show "try_transfer_targets E (t # ts) le (unlog s) = (r, unlog s')"
      by (cases r0) (auto split: if_splits dest: mirrorsD [OF Cons.IH])
  qed
qed

lemma round_robin_mirrors: "mirrors (transfer_leader_round_robin (log_env E)) (transfer_leader_round_robin E)"
  unfolding transfer_leader_round_robin_def log_consensus_sel
  by (intro mirror_rules mirrorsI)
    (auto simp: Let_def split: if_splits option.splits dest: mirrorsD [OF try_transfer_targets_mirrors])

lemma transfer_leader_internal_mirrors: "mirrors (transfer_leader_internal (log_env E)) (transfer_leader_internal E)"
proof (rule mirrorsI)
  fix s r s'
  let ?m = "\<lambda>E s. if round_robin_leader_transfer (cfg s) then transfer_leader_round_robin E s
     else on_consensus (cs_transfer_leader (e_consensus E)) s"
  have "mirrors (on_consensus (cs_transfer_leader (e_consensus (log_env E)))) (on_consensus (cs_transfer_leader (e_consensus E)))"
    unfolding log_consensus_sel by (intro mirror_rules)
  then have m: "mirrors (?m (log_env E)) (?m E)"
    using round_robin_mirrors [of E] by (auto simp: mirrors_def)
  assume run: "transfer_leader_internal (log_env E) s = (r, s')"
  obtain r0 s0 where l: "?m (log_env E) s = (r0, s0)" by (cases "?m (log_env E) s")
  note u = mirrorsD [OF m l]
  show "transfer_leader_internal E (unlog s) = (r, unlog s')"
    using run unfolding transfer_leader_internal_def Let_def l u
    by (auto split: if_splits sum.splits)
qed

lemma stop_and_transfer_mirrors: "mirrors (stop_and_transfer_leader (log_env E)) (stop_and_transfer_leader E)"
proof (rule mirrorsI)
  fix s r s'
  assume run: "stop_and_transfer_leader (log_env E) s = (r, s')"
  obtain r1 s1 where 1: "stop_sequencer (log_env E) s = (r1, s1)" by (cases "stop_sequencer (log_env E) s")
  obtain r2 s2 where 2: "transfer_leader_internal (log_env E) s1 = (r2, s2)"
    by (cases "transfer_leader_internal (log_env E) s1")
  from run 1 2 mirrorsD [OF stop_sequencer_mirrors 1] mirrorsD [OF transfer_leader_internal_mirrors 2]
  show "stop_and_transfer_leader E (unlog s) = (r, unlog s')"
    by (auto simp: stop_and_transfer_leader_def split: sum.splits)
qed

section \<open>The action and the tick\<close>

lemma mirrors_iff: "mirrors m m' \<longleftrightarrow> (\<forall>s. m' (unlog s) = map_prod id unlog (m s))"
  by (auto simp: mirrors_def) (metis id_apply map_prod_simp prod.collapse)

lemma action_mirrors: "mirrors (action (log_env E)) (action E)"
  unfolding mirrors_iff
proof
  fix s
  obtain r1 s1 where stop: "stop_sequencer (log_env E) s = (r1, s1)" by (cases "stop_sequencer (log_env E) s")
  obtain r2 s2 where start: "start_sequencer (log_env E) s = (r2, s2)" by (cases "start_sequencer (log_env E) s")
  obtain r3 s3 where tr: "transfer_leader_internal (log_env E) s = (r3, s3)"
    by (cases "transfer_leader_internal (log_env E) s")
  obtain r4 s4 where tr2: "transfer_leader_internal (log_env E) s2 = (r4, s4)"
    by (cases "transfer_leader_internal (log_env E) s2")
  obtain r5 s5 where both: "stop_and_transfer_leader (log_env E) s = (r5, s5)"
    by (cases "stop_and_transfer_leader (log_env E) s")
  note results = stop start tr tr2 both
    mirrorsD [OF stop_sequencer_mirrors stop] mirrorsD [OF start_sequencer_mirrors start]
    mirrorsD [OF transfer_leader_internal_mirrors tr] mirrorsD [OF transfer_leader_internal_mirrors tr2]
    mirrorsD [OF stop_and_transfer_mirrors both]
  let ?st = "current_state E (unlog s)"
  show "action E (unlog s) = map_prod id unlog (action (log_env E) s)"
    by (cases "st_leader ?st"; cases "st_healthy ?st"; cases "st_active ?st")
      (simp_all add: action_def Let_def results should_wait_for_health_recovery_def split: sum.split)
qed

lemma update_health_mirrors: "mirrors (update_health (log_env E) h) (update_health E h)"
  by (auto simp: mirrors_def update_health_def dest: mirrorsD [OF action_mirrors])

lemma update_leader_mirrors: "mirrors (update_leader (log_env E) b) (update_leader E b)"
  by (auto simp: mirrors_def update_leader_def dest: mirrorsD [OF action_mirrors])

lemma refresh_mirrors: "mirrors (refresh_sequencer_active (log_env E)) (refresh_sequencer_active E)"
  unfolding refresh_sequencer_active_def log_sequencer_sel
  by (intro mirror_rules) (auto simp: mirrors_def)

lemma supervisor_mirrors: "mirrors (check_supervisor (log_env E)) (check_supervisor E)"
  unfolding mirrors_iff
proof
  fix s
  show "check_supervisor E (unlog s) = map_prod id unlog (check_supervisor (log_env E) s)"
  proof (cases "hc_supervisor (e_health E)")
    case (Some check)
    moreover obtain r0 s0 where m: "in_world (silent check) s = (r0, s0)" by (cases "in_world (silent check) s")
    ultimately show ?thesis
      using mirrorsD [OF mirrors_silent m] by (simp add: check_supervisor_def split: sum.split)
  qed (simp add: check_supervisor_def)
qed

lemma execution_p2p_mirrors: "mirrors (check_execution_p2p (log_env E)) (check_execution_p2p E)"
  unfolding mirrors_iff
proof
  fix s
  show "check_execution_p2p E (unlog s) = map_prod id unlog (check_execution_p2p (log_env E) s)"
  proof (cases "hc_execution_p2p (e_health E)")
    case (Some check)
    moreover obtain r0 s0 where m: "in_world (silent check) s = (r0, s0)" by (cases "in_world (silent check) s")
    ultimately show ?thesis
      using mirrorsD [OF mirrors_silent m] by (simp add: check_execution_p2p_def Let_def split: sum.split)
  qed (simp add: check_execution_p2p_def)
qed

lemma rollup_boost_mirrors: "mirrors (check_rollup_boost (log_env E) now) (check_rollup_boost E now)"
  unfolding mirrors_iff
proof
  fix s
  show "check_rollup_boost E now (unlog s) = map_prod id unlog (check_rollup_boost (log_env E) now s)"
  proof (cases "hc_rollup_boost (e_health E)")
    case (Some check)
    moreover obtain r0 s0 where m: "in_world (silent check) s = (r0, s0)" by (cases "in_world (silent check) s")
    ultimately show ?thesis
      using mirrorsD [OF mirrors_silent m]
      by (simp add: check_rollup_boost_def split: sum.split rollup_boost_status.split prod.split)
  qed (simp add: check_rollup_boost_def)
qed

lemma check_health_mirrors: "mirrors (check_health_at (log_env E) now) (check_health_at E now)"
  unfolding mirrors_iff
proof
  fix s
  let ?sync = "in_world (silent (sq_sync_status (e_sequencer E)))"
  let ?peers = "in_world (silent (sq_peer_stats (e_sequencer E)))"
  obtain r1 s1 where 1: "?sync s = (r1, s1)" by (cases "?sync s")
  obtain h2 s2 where 2: "check_supervisor (log_env E) s1 = (h2, s2)" by (cases "check_supervisor (log_env E) s1")
  obtain r3 s3 where 3: "?peers s2 = (r3, s3)" by (cases "?peers s2")
  obtain h4 s4 where 4: "check_execution_p2p (log_env E) s3 = (h4, s4)" by (cases "check_execution_p2p (log_env E) s3")
  obtain h5 s5 where 5: "check_rollup_boost (log_env E) now s4 = (h5, s5)"
    by (cases "check_rollup_boost (log_env E) now s4")
  note results = 1 2 3 4 5 mirrorsD [OF mirrors_silent 1] mirrorsD [OF supervisor_mirrors 2]
    mirrorsD [OF mirrors_silent 3] mirrorsD [OF execution_p2p_mirrors 4] mirrorsD [OF rollup_boost_mirrors 5]
  show "check_health_at E now (unlog s) = map_prod id unlog (check_health_at (log_env E) now s)"
    by (simp add: check_health_at_def results split: sum.split option.split)
qed

lemma tick_mirrors: "mirrors (tick (log_env E) now elapsed) (tick E now elapsed)"
  unfolding mirrors_iff
proof
  fix s
  obtain r1 s1 where 1: "refresh_sequencer_active (log_env E) s = (r1, s1)"
    by (cases "refresh_sequencer_active (log_env E) s")
  obtain h2 s2 where 2: "check_health_at (log_env E) now s1 = (h2, s2)" by (cases "check_health_at (log_env E) now s1")
  have health: "update_health E h (on_metrics f (unlog t)) = map_prod id unlog (update_health (log_env E) h (on_metrics f t))"
    for h f t
    using update_health_mirrors unfolding mirrors_iff unlog_upd(11) [symmetric] by blast
  show "tick E now elapsed (unlog s) = map_prod id unlog (tick (log_env E) now elapsed s)"
    by (simp add: tick_def 1 2 mirrorsD [OF refresh_mirrors 1] mirrorsD [OF check_health_mirrors 2] health split_beta
        split: sum.split)
qed

section \<open>Steps and runs\<close>

lemma queue_action_unlog: "unlog (queue_action (log_env E) s) = queue_action E (unlog s)"
  by (simp add: queue_action_def Let_def)

lemma resume_mirrors: "mirrors (resume (log_env E)) (resume E)"
proof -
  have "mirrors
      (try_call (on_sequencer (sq_sequencer_active (e_sequencer (log_env E)))) (\<lambda>a s'.
         (Inr (), queue_action (log_env E) (s'\<lparr>seq_active := a, paused := False\<rparr>))))
      (try_call (on_sequencer (sq_sequencer_active (e_sequencer E))) (\<lambda>a s'.
         (Inr (), queue_action E (s'\<lparr>seq_active := a, paused := False\<rparr>))))"
    unfolding log_sequencer_sel by (intro mirror_rules) (auto simp: mirrors_def queue_action_unlog)
  then show ?thesis by (auto simp: mirrors_def resume_def)
qed

lemma stop_finish_mirrors: "mirrors (stop_finish (log_env E)) (stop_finish E)"
proof -
  have "mirrors
      (try_call (on_consensus (cs_shutdown (e_consensus (log_env E)))) (\<lambda>_ s'.
         (Inr (), s'\<lparr>stopped := True, world := sg_send_stopped (e_signals (log_env E)) True (world s')\<rparr>)))
      (try_call (on_consensus (cs_shutdown (e_consensus E))) (\<lambda>_ s'.
         (Inr (), s'\<lparr>stopped := True, world := sg_send_stopped (e_signals E) True (world s')\<rparr>)))"
    unfolding log_consensus_sel by (intro mirror_rules) (auto simp: mirrors_def)
  then show ?thesis by (auto simp: mirrors_def stop_finish_def)
qed

lemma init_mirrors: "mirrors (initialize_startup_state (log_env E)) (initialize_startup_state E)"
  unfolding initialize_startup_state_def
  by (intro mirror_rules refresh_mirrors) (auto simp: mirrors_def seed_previous_state_from_current_def)

lemma consensus_mirrors:
  "mirrors (add_server_as_voter (log_env E) i a v) (add_server_as_voter E i a v)"
  "mirrors (add_server_as_nonvoter (log_env E) i a v) (add_server_as_nonvoter E i a v)"
  "mirrors (remove_server (log_env E) i v) (remove_server E i v)"
  "mirrors (demote_voter (log_env E) i v) (demote_voter E i v)"
  "mirrors (transfer_leader (log_env E)) (transfer_leader E)"
  "mirrors (transfer_leader_to_server (log_env E) i a) (transfer_leader_to_server E i a)"
  "mirrors (conductor_membership (log_env E)) (conductor_membership E)"
  "mirrors (commit_unsafe_payload (log_env E) p) (commit_unsafe_payload E p)"
  "mirrors (latest_unsafe_payload (log_env E)) (latest_unsafe_payload E)"
  unfolding add_server_as_voter_def add_server_as_nonvoter_def remove_server_def demote_voter_def transfer_leader_def
    transfer_leader_to_server_def conductor_membership_def commit_unsafe_payload_def latest_unsafe_payload_def
    log_consensus_sel
  by (intro mirror_rules)+

lemma step_unlog:
  assumes "conductor_step (log_env E) (\<lambda>wt wt'. out (fst wt) (fst wt') \<and> snd wt' = snd wt) s s'"
  shows "conductor_step E out (unlog s) (unlog s')"
  using assms
proof cases
  case (step_outside w)
  then show ?thesis by (auto intro: conductor_step.step_outside)
next
  case (step_pause r)
  then have "pause (unlog s) = (r, unlog s')" by (auto simp: pause_def split: if_splits)
  then show ?thesis by (rule conductor_step.step_pause)
next
  case step_stop_begin
  then have "unlog s' = stop_begin (unlog s)" by (simp add: stop_begin_def)
  then show ?thesis by (simp add: conductor_step.step_stop_begin)
next
  case (step_stop_finish r)
  then show ?thesis using mirrorsD [OF stop_finish_mirrors]
    by (intro conductor_step.step_stop_finish [where r = r]) auto
next
  case (step_override b)
  then have "unlog s' = set_leader_override b (unlog s)" by (simp add: set_leader_override_def)
  then show ?thesis by (simp add: conductor_step.step_override)
next
  case step_queue
  then show ?thesis by (simp add: queue_action_unlog conductor_step.step_queue)
next
  case (step_record op)
  then show ?thesis by (simp add: conductor_step.step_record)
qed (blast intro: conductor_step.intros dest: mirrorsD [OF action_mirrors] mirrorsD [OF tick_mirrors]
      mirrorsD [OF update_health_mirrors] mirrorsD [OF update_leader_mirrors] mirrorsD [OF init_mirrors]
      mirrorsD [OF resume_mirrors] consensus_mirrors [THEN mirrorsD])+

text \<open>Conversely, whatever the conductor does can be observed.\<close>

lemma lift_call:
  assumes "mirrors m m'" "m' (unlog s) = (r, c)" "\<And>s'. m s = (r, s') \<Longrightarrow> step s s'"
  shows "\<exists>s'. step s s' \<and> unlog s' = c"
proof -
  obtain r' s' where m: "m s = (r', s')" by (cases "m s")
  with mirrorsD [OF assms(1) m] assms(2,3) show ?thesis by auto
qed

lemma step_relog:
  assumes "conductor_step E out (unlog s) c"
  shows "\<exists>s'. conductor_step (log_env E) (\<lambda>wt wt'. out (fst wt) (fst wt') \<and> snd wt' = snd wt) s s' \<and> unlog s' = c"
  using assms
proof cases
  case (step_outside w)
  then show ?thesis
    by (intro exI [of _ "s\<lparr>world := (w, log_of s)\<rparr>"] conjI conductor_step.step_outside) simp_all
next
  case (step_pause r)
  then obtain s' where "pause s = (r, s')" "unlog s' = c" by (auto simp: pause_def split: if_splits)
  then show ?thesis using conductor_step.step_pause by blast
next
  case step_stop_begin
  then have "unlog (stop_begin s) = c" by (simp add: stop_begin_def)
  then show ?thesis using conductor_step.step_stop_begin by blast
next
  case (step_stop_finish r)
  then have "stopping s \<or> stopped s" by simp
  from conductor_step.step_stop_finish [OF this] step_stop_finish(2) show ?thesis
    by (intro lift_call [OF stop_finish_mirrors])
next
  case (step_override b)
  then have "unlog (set_leader_override b s) = c" by (simp add: set_leader_override_def)
  then show ?thesis using conductor_step.step_override by blast
next
  case step_queue
  then have "unlog (queue_action (log_env E) s) = c" by (simp add: queue_action_unlog)
  then show ?thesis using conductor_step.step_queue by blast
next
  case (step_record op)
  then have "unlog (on_metrics (apply_metric op) s) = c" by simp
  then show ?thesis using conductor_step.step_record by blast
qed (erule lift_call [OF action_mirrors] lift_call [OF tick_mirrors] lift_call [OF update_health_mirrors]
      lift_call [OF update_leader_mirrors] lift_call [OF init_mirrors] lift_call [OF resume_mirrors]
      consensus_mirrors [THEN lift_call], erule conductor_step.intros)+

text \<open>The conductor with an empty log of its own.\<close>

definition with_log :: "'w conductor \<Rightarrow> ('w \<times> event list) conductor" where
  "with_log c =
     \<lparr>cfg = cfg c, cm_metrics = cm_metrics c, leader_override = leader_override c, paused = paused c,
      stopping = stopping c, stopped = stopped c, action_seq = action_seq c, c_health = c_health c,
      seq_active = seq_active c, previous = previous c, partial_counter = partial_counter c, world = (world c, [])\<rparr>"

lemma with_log_sel [simp]:
  "world (with_log c) = (world c, [])" "cfg (with_log c) = cfg c" "unlog (with_log c) = c"
  by (simp_all add: with_log_def unlog_def)


end
