(* ===== verification/Cluster.thy ===== *)
theory Cluster
  imports Program Conductor_World Conductor_Log
begin

text \<open>
  A cluster: the programs of all nodes around one outside, in which \<open>openraft\<close> replicates the log.
  From what \<open>openraft\<close> documents about a single node's calls, and from the programs as they are,
  follows that committed entries stay committed, that only payloads every replica can apply are
  written, and that a leader reads a head at least as new as any acknowledged payload.
\<close>

section \<open>What openraft guarantees\<close>

text \<open>
  What can be said of the outside: the entries committed so far, in order, and the commands any
  node has ever tried to write, committed or not.
\<close>

record ('l, 'm, 'w) raft_history =
  rh_committed :: "'w \<Rightarrow> ('l, 'm) entry list"
  rh_proposed :: "'w \<Rightarrow> raft_command set"

text \<open>Between two states committed entries stay, and no commands but those of \<open>new\<close> are proposed.\<close>

definition history_grows :: "('l, 'm, 'w) raft_history \<Rightarrow> raft_command set \<Rightarrow> 'w \<Rightarrow> 'w \<Rightarrow> bool" where
  "history_grows H new w w' =
     (prefix (rh_committed H w) (rh_committed H w') \<and> rh_proposed H w' \<subseteq> rh_proposed H w \<union> new)"

text \<open>
  The guarantees of one node's handle \<open>R\<close>. Only proposed commands are committed. A write proposes its
  command, and has committed it when it succeeds; no other call proposes anything. After
  \<open>ensure_linearizable\<close> succeeds, the state machine has applied, from its initial state and in order,
  at least the entries that were committed when it was called.
\<close>

definition raft_guarantees ::
  "lib \<Rightarrow> 'm \<Rightarrow> ('l, 'm, 'w) raft_history \<Rightarrow> ('l, 'm, 'v, 'w) openraft \<Rightarrow> bool" where
  "raft_guarantees L m0 H R =
     ((\<forall>w e c. e \<in> set (rh_committed H w) \<and> en_payload e = Normal c \<longrightarrow> c \<in> rh_proposed H w)
      \<and> (\<forall>c. stays (history_grows H {c}) (or_client_write R c))
      \<and> (\<forall>c w resp w'. or_client_write R c w = (Inr resp, w') \<longrightarrow>
           (\<exists>e \<in> set (rh_committed H w'). en_payload e = Normal c))
      \<and> (\<forall>change retain. stays (history_grows H {}) (or_change_membership R change retain))
      \<and> (\<forall>i. stays (history_grows H {}) (or_transfer_leader R i))
      \<and> (\<forall>addr. stays (history_grows H {}) (or_connect R addr))
      \<and> stays (history_grows H {}) (or_shutdown R)
      \<and> stays (history_grows H {}) (or_ensure_linearizable R)
      \<and> (\<forall>w w'. or_ensure_linearizable R w = (Inr (), w') \<longrightarrow>
           (\<exists>es. prefix (rh_committed H w) es \<and> prefix es (rh_committed H w')
              \<and> sm (or_store R w') = apply_batches L [es] (default_sm m0))))"

text \<open>
  What the nodes rely on between each other: the history grows, and only payloads every replica can
  apply are ever proposed.
\<close>

definition command_valid :: "lib \<Rightarrow> raft_command \<Rightarrow> bool" where
  "command_valid L c = (case c of CommitUnsafePayload p \<Rightarrow> payload_valid L p)"

definition proposals_valid :: "lib \<Rightarrow> ('l, 'm, 'w) raft_history \<Rightarrow> 'w \<Rightarrow> bool" where
  "proposals_valid L H w = (\<forall>c \<in> rh_proposed H w. command_valid L c)"

definition node_grows :: "lib \<Rightarrow> ('l, 'm, 'w) raft_history \<Rightarrow> 'w raft_consensus \<Rightarrow> 'w raft_consensus \<Rightarrow> bool" where
  "node_grows L H c c' =
     (prefix (rh_committed H (rc_world c)) (rh_committed H (rc_world c'))
      \<and> (proposals_valid L H (rc_world c) \<longrightarrow> proposals_valid L H (rc_world c')))"

lemma node_grows_refl [simp]: "node_grows L H c c"
  by (simp add: node_grows_def)

lemma node_grows_trans: "node_grows L H c c1 \<Longrightarrow> node_grows L H c1 c2 \<Longrightarrow> node_grows L H c c2"
  by (auto simp: node_grows_def)

lemma history_node_grows:
  "history_grows H new (rc_world c) (rc_world c') \<Longrightarrow> (\<And>x. x \<in> new \<Longrightarrow> command_valid L x) \<Longrightarrow> node_grows L H c c'"
  by (auto simp: history_grows_def node_grows_def proposals_valid_def)

section \<open>The consensus of a node keeps the history\<close>

lemma stays_iff: "stays G m \<longleftrightarrow> (\<forall>w r w'. m w = (r, w') \<longrightarrow> G w w')"
  unfolding stays_def by (metis prod.collapse snd_conv)

lemma stays_same: "(\<And>c. \<exists>m. stays G m \<and> f c = m c) \<Longrightarrow> stays G f"
  by (metis stays_def)

lemma stays_call_err [simp]: "stays G (call_err f m) = stays G m"
  by (auto simp: stays_iff call_err_def split: prod.splits)

lemma stays_pure [simp]: "stays (node_grows L H) (\<lambda>c. (r c, c))" "stays (node_grows L H) (call_ok a)"
  by (simp_all add: stays_def call_ok_def)

lemma stays_try:
  assumes "stays (node_grows L H) m" "\<And>a. stays (node_grows L H) (f a)"
  shows "stays (node_grows L H) (try_call m f)"
  using assms unfolding stays_iff
  by (auto simp: try_call_def split: prod.splits sum.splits) (metis node_grows_trans)

lemma stays_in_raft:
  assumes "stays (history_grows H new) m" "\<And>x. x \<in> new \<Longrightarrow> command_valid L x"
  shows "stays (node_grows L H) (in_raft m)"
  using assms unfolding stays_iff in_raft_def
  by (auto split: prod.splits intro!: history_node_grows [of H new])

lemma in_raft_stays: "stays (history_grows H {}) m \<Longrightarrow> stays (node_grows L H) (in_raft m)"
  by (erule stays_in_raft) simp

lemma raft_calls_stay:
  assumes "raft_guarantees L m0 H R"
  shows "stays (node_grows L H) (in_raft (or_change_membership R change retain))"
    "stays (node_grows L H) (in_raft (or_transfer_leader R i))"
    "stays (node_grows L H) (in_raft (or_connect R addr))"
    "stays (node_grows L H) (in_raft (or_shutdown R))"
    "stays (node_grows L H) (in_raft (or_ensure_linearizable R))"
  using assms by (auto simp: raft_guarantees_def intro: in_raft_stays)

lemma client_write_stays:
  assumes "raft_guarantees L m0 H R" "payload_valid L p"
  shows "stays (node_grows L H) (in_raft (or_client_write R (CommitUnsafePayload p)))"
  by (rule stays_in_raft [where new = "{CommitUnsafePayload p}"])
    (use assms in \<open>simp_all add: raft_guarantees_def command_valid_def\<close>)

lemma checks_stay:
  "stays (node_grows L H) (raft_check_leader R)" "stays (node_grows L H) (raft_check_version R v)"
  "stays (node_grows L H) (raft_membership_call R)"
  by (simp_all add: stays_def raft_check_leader_def raft_check_version_def raft_membership_call_def Let_def)

lemma transfer_to_stays:
  assumes "raft_guarantees L m0 H R"
  shows "stays (node_grows L H) (raft_transfer_leader_to R i addr)"
  using raft_calls_stay(2) [OF assms] unfolding stays_iff
  by (auto simp: raft_transfer_leader_to_def call_err_def split: option.splits prod.splits if_splits)

lemma transfer_stays:
  assumes "raft_guarantees L m0 H R"
  shows "stays (node_grows L H) (raft_transfer_leader R)"
  using transfer_to_stays [OF assms] unfolding stays_iff
  by (auto simp: raft_transfer_leader_def split: sum.splits if_splits)

lemma commit_stays:
  assumes "raft_guarantees L m0 H R"
  shows "stays (node_grows L H) (raft_commit_unsafe_payload L R p)"
proof (cases "payload_valid L p")
  case True
  from client_write_stays [OF assms True] show ?thesis unfolding stays_iff
    by (auto simp: raft_commit_unsafe_payload_def call_err_def split: sum.splits prod.splits)
next
  case False
  then show ?thesis unfolding stays_iff
    by (auto simp: raft_commit_unsafe_payload_def payload_valid_def is_ok_iff split: sum.splits)
qed

lemma latest_stays:
  assumes "raft_guarantees L m0 H R"
  shows "stays (node_grows L H) (raft_latest_unsafe_payload R)"
proof (rule stays_same)
  fix c
  let ?m = "if raft_leader R c then call_err raft_err (in_raft (or_ensure_linearizable R)) else call_ok ()"
  have "stays (node_grows L H) ?m" using raft_calls_stay(5) [OF assms] by simp
  then have "stays (node_grows L H) (try_call ?m (\<lambda>_ c'. (Inr (latest_payload (or_store R (rc_world c'))), c')))"
    by (rule stays_try) simp
  then show "\<exists>m. stays (node_grows L H) m \<and> raft_latest_unsafe_payload R c = m c"
    by (auto simp: raft_latest_unsafe_payload_def)
qed

lemma shutdown_stays:
  assumes "raft_guarantees L m0 H R"
  shows "stays (node_grows L H) (raft_shutdown R)"
  using raft_calls_stay(4) [OF assms] unfolding stays_iff raft_shutdown_def call_err_eq
  by (metis node_grows_def raft_consensus.select_convs(5) raft_consensus.surjective raft_consensus.update_convs(4))

lemma remove_stays:
  assumes "raft_guarantees L m0 H R"
  shows "stays (node_grows L H) (raft_remove_server R i v)"
  unfolding raft_remove_server_def raft_change_membership_def
  by (intro stays_try checks_stay stays_same) (metis raft_calls_stay(1) [OF assms] stays_call_err)

lemma consensus_grows:
  assumes "raft_guarantees L m0 H R"
  shows "consensus_within (node_grows L H) (raft_consensus_ops L R)"
  unfolding consensus_within_def raft_consensus_ops_def raft_add_voter_def raft_add_non_voter_def raft_demote_voter_def
    check_member_addr_open_def raft_change_membership_def
  by (simp add: stays_try checks_stay raft_calls_stay [OF assms] transfer_to_stays [OF assms] transfer_stays [OF assms]
      commit_stays [OF assms] latest_stays [OF assms] shutdown_stays [OF assms] remove_stays [OF assms])

section \<open>Nodes around one outside\<close>

text \<open>
  Every node runs its program on the common outside: before it makes a step it sees the outside as
  the others left it, and after the step they see what it did. Replication, elections and whatever
  else happens outside are steps \<open>out\<close> allows.
\<close>

record ('n, 'w) cluster =
  cl_world :: 'w
  cl_nodes :: "'n \<Rightarrow> 'w raft_consensus program"

definition node_conductor :: "('n, 'w) cluster \<Rightarrow> 'n \<Rightarrow> 'w raft_consensus conductor" where
  "node_conductor cl i =
     (let c = pg_conductor (cl_nodes cl i) in c\<lparr>world := (world c)\<lparr>rc_world := cl_world cl\<rparr>\<rparr>)"

definition node_program :: "('n, 'w) cluster \<Rightarrow> 'n \<Rightarrow> 'w raft_consensus program" where
  "node_program cl i = with_conductor (node_conductor cl i) (cl_nodes cl i)"

definition set_node :: "'n \<Rightarrow> 'w raft_consensus program \<Rightarrow> ('n, 'w) cluster \<Rightarrow> ('n, 'w) cluster" where
  "set_node i p cl =
     \<lparr>cl_world = rc_world (world (pg_conductor p)), cl_nodes = (cl_nodes cl)(i := p)\<rparr>"

inductive cluster_step ::
  "('n \<Rightarrow> 'w raft_consensus server_env) \<Rightarrow> ('w raft_consensus \<Rightarrow> 'w raft_consensus \<Rightarrow> bool) \<Rightarrow>
   ('n, 'w) cluster \<Rightarrow> ('n, 'w) cluster \<Rightarrow> bool"
  for V :: "'n \<Rightarrow> 'w raft_consensus server_env" and out :: "'w raft_consensus \<Rightarrow> 'w raft_consensus \<Rightarrow> bool" where
  cluster_node: "program_step (V i) out (node_program cl i) p \<Longrightarrow> cluster_step V out cl (set_node i p cl)"

definition cluster_run ::
  "('n \<Rightarrow> 'w raft_consensus server_env) \<Rightarrow> ('w raft_consensus \<Rightarrow> 'w raft_consensus \<Rightarrow> bool) \<Rightarrow>
   ('n, 'w) cluster \<Rightarrow> ('n, 'w) cluster \<Rightarrow> bool" where
  "cluster_run V out = (cluster_step V out)\<^sup>*\<^sup>*"

lemma node_conductor_world [simp]: "rc_world (world (node_conductor cl i)) = cl_world cl"
  by (simp add: node_conductor_def Let_def)

lemma node_program_conductor [simp]: "pg_conductor (node_program cl i) = node_conductor cl i"
  by (simp add: node_program_def with_conductor_def)

text \<open>
  A node as \<open>main\<close> builds it: its consensus is \<open>RaftConsensus\<close> on its handle \<open>R\<close>, and what it calls
  besides, its sequencer and health endpoints, leaves the replicated history alone.
\<close>

definition raft_server ::
  "lib \<Rightarrow> 'm \<Rightarrow> ('l, 'm, 'w) raft_history \<Rightarrow> ('l, 'm, 'v, 'w) openraft \<Rightarrow> 'w raft_consensus server_env \<Rightarrow> bool" where
  "raft_server L m0 H R V =
     (raft_guarantees L m0 H R \<and> e_lib (sv_env V) = L \<and> e_consensus (sv_env V) = raft_consensus_ops L R
      \<and> sequencer_within (node_grows L H) (e_sequencer (sv_env V))
      \<and> health_within (node_grows L H) (e_health (sv_env V)) \<and> signals_within (node_grows L H) (e_signals (sv_env V))
      \<and> http_within (node_grows L H) (sv_http V))"

lemma raft_server_guarantee: "raft_server L m0 H R V \<Longrightarrow> world_guarantee (sv_env V) (node_grows L H)"
  by unfold_locales (auto simp: raft_server_def env_within_def intro: consensus_grows node_grows_trans)

lemma cluster_step_grows:
  assumes "cluster_step V (node_grows L H) cl cl'" "\<And>i. raft_server L m0 H (R i) (V i)"
  shows "prefix (rh_committed H (cl_world cl)) (rh_committed H (cl_world cl'))
    \<and> (proposals_valid L H (cl_world cl) \<longrightarrow> proposals_valid L H (cl_world cl'))"
  using assms(1)
proof cases
  case (cluster_node i p)
  have "http_within (node_grows L H) (sv_http (V i))" using assms(2) by (simp add: raft_server_def)
  with cluster_node have "conductor_run (sv_env (V i)) (node_grows L H) (node_conductor cl i) (pg_conductor p)"
    using program_step_run by fastforce
  then have "node_grows L H (world (node_conductor cl i)) (world (pg_conductor p))"
    by (rule world_guarantee.run_within [OF raft_server_guarantee [OF assms(2)]])
  with cluster_node show ?thesis by (simp add: set_node_def node_grows_def)
qed

lemma cluster_run_grows:
  assumes "cluster_run V (node_grows L H) cl cl'" "\<And>i. raft_server L m0 H (R i) (V i)"
  shows "prefix (rh_committed H (cl_world cl)) (rh_committed H (cl_world cl'))
    \<and> (proposals_valid L H (cl_world cl) \<longrightarrow> proposals_valid L H (cl_world cl'))"
  using assms(1) unfolding cluster_run_def
proof (induction rule: rtranclp_induct)
  case (step cl1 cl2)
  then show ?case using cluster_step_grows [OF step(2) assms(2)] by (meson prefix_order.trans)
qed simp

section \<open>The head a leader reads\<close>

lemma proposals_entries_valid:
  assumes "raft_guarantees L m0 H R" "proposals_valid L H w"
  shows "\<forall>e \<in> set (rh_committed H w). entry_valid L e"
proof
  fix e
  assume "e \<in> set (rh_committed H w)"
  then have "\<forall>c. en_payload e = Normal c \<longrightarrow> command_valid L c"
    using assms unfolding raft_guarantees_def proposals_valid_def by blast
  then show "entry_valid L e"
    by (auto simp: entry_valid_def command_valid_def split: entry_payload.splits raft_command.splits)
qed

lemma committed_payloads_mem:
  "e \<in> set es \<Longrightarrow> en_payload e = Normal (CommitUnsafePayload p) \<Longrightarrow> p \<in> set (committed_payloads es)"
  by (induction es) auto

lemma default_sm_inv: "sm_inv L (default_sm m0)"
  by (simp add: sm_inv_def default_sm_def)

text \<open>
  A leader that reads the unsafe head reads one at least as new as every payload committed before.
\<close>

lemma leader_reads_committed:
  assumes "raft_guarantees L m0 H R" "proposals_valid L H (rc_world c)" "raft_leader R c"
    and "e \<in> set (rh_committed H (rc_world c))" "en_payload e = Normal (CommitUnsafePayload p)"
    and "raft_latest_unsafe_payload R c = (Inr po, c')"
  shows "\<exists>q. po = Some q \<and> payload_num L p \<le> payload_num L q"
proof -
  obtain w' where lin: "or_ensure_linearizable R (rc_world c) = (Inr (), w')"
    and po: "po = latest_unsafe (sm (or_store R w'))"
    using assms(3,6)
    by (auto simp: raft_latest_unsafe_payload_def try_call_def call_err_eq in_raft_def latest_payload_def map_err_ok_iff
        split: prod.splits sum.splits)
  from lin assms(1) obtain es where es: "prefix (rh_committed H (rc_world c)) es" "prefix es (rh_committed H w')"
    "sm (or_store R w') = apply_batches L [es] (default_sm m0)"
    unfolding raft_guarantees_def by blast
  have "history_grows H {} (rc_world c) w'"
    using assms(1) lin unfolding raft_guarantees_def stays_def by (metis snd_conv)
  then have "proposals_valid L H w'" using assms(2) by (auto simp: proposals_valid_def history_grows_def)
  then have valid: "\<forall>e \<in> set es. entry_valid L e"
    using proposals_entries_valid [OF assms(1)] set_mono_prefix [OF es(2)] by blast
  from replica_head [OF default_sm_inv valid, of m0] have "po = fold (newer_head (payload_num L)) (committed_payloads es) None"
    using po es(3) by (simp add: default_sm_def)
  moreover have "p \<in> set (committed_payloads es)"
    using assms(4,5) set_mono_prefix [OF es(1)] by (blast intro: committed_payloads_mem)
  ultimately show ?thesis using newest.head_bounds_all [where ps = "committed_payloads es" and p = p and num = "payload_num L" and s = None] by auto
qed

lemma acknowledged_committed:
  assumes "raft_guarantees L m0 H R" "raft_commit_unsafe_payload L R p c = (Inr (), c')"
  shows "\<exists>e \<in> set (rh_committed H (rc_world c')). en_payload e = Normal (CommitUnsafePayload p)"
proof -
  obtain resp where "or_client_write R (CommitUnsafePayload p) (rc_world c) = (Inr resp, rc_world c')"
    using assms(2)
    by (auto simp: raft_commit_unsafe_payload_def call_err_eq in_raft_def call_err_def
        split: prod.splits sum.splits) (metis map_err.elims map_ok.simps sum.distinct(1))
  with assms(1) show ?thesis unfolding raft_guarantees_def by blast
qed

section \<open>A sample cluster\<close>

text \<open>Two nodes, a log that commits at once, and whoever leads.\<close>

record sample_outside =
  so_log :: "(nat, unit) entry list"
  so_leader :: string

definition sample_history :: "(nat, unit, sample_outside) raft_history" where
  "sample_history =
     \<lparr>rh_committed = so_log, rh_proposed = (\<lambda>w. {c. \<exists>e \<in> set (so_log w). en_payload e = Normal c})\<rparr>"

definition sample_member :: "string \<Rightarrow> (nat, unit, unit, sample_outside) openraft" where
  "sample_member i =
     \<lparr>or_metrics = (\<lambda>w.
        \<lparr>mt_state = (if so_leader w = i then Leader else Follower), mt_current_leader = Some (so_leader w),
         mt_membership_log_id = None,
         mt_membership =
           \<lparr>voter_ids = [''a'', ''b''], nodes = [(''a'', \<lparr>node_addr = ''h1''\<rparr>), (''b'', \<lparr>node_addr = ''h2''\<rparr>)]\<rparr>,
         mt_replication = None\<rparr>),
      or_store = (\<lambda>w. (raft_store_new ())\<lparr>sm := apply_batches sample_lib [so_log w] (default_sm ())\<rparr>),
      or_client_write = (\<lambda>c w.
        (Inr default_response,
         w\<lparr>so_log := so_log w @ [\<lparr>en_log_id = \<lparr>lid_leader = 1, lid_index = 1\<rparr>, en_payload = Normal c\<rparr>]\<rparr>)),
      or_change_membership = (\<lambda>_ _. call_ok ()), or_ensure_linearizable = call_ok (),
      or_transfer_leader = (\<lambda>j w. (Inr (), w\<lparr>so_leader := j\<rparr>)), or_trigger_snapshot = call_ok (),
      or_is_initialized = call_ok True, or_initialize = (\<lambda>_. call_ok ()), or_shutdown = call_ok (), or_validate = Inr,
      or_new = (\<lambda>_ _ _. call_ok ()), or_metrics_changed = call_ok (), or_connect = (\<lambda>_. call_ok ()),
      or_now = (\<lambda>_. 0), or_sleep = (\<lambda>_ w. w)\<rparr>"

lemma sample_guarantees: "raft_guarantees sample_lib () sample_history (sample_member i)"
  by (auto simp: raft_guarantees_def sample_member_def sample_history_def stays_def call_ok_def history_grows_def
      raft_store_new_def store_of_def)

definition sample_node_env :: "string \<Rightarrow> sample_outside raft_consensus server_env" where
  "sample_node_env i =
     \<lparr>sv_env = \<lparr>e_lib = sample_lib, e_status_text = show_nat, e_consensus = raft_consensus_ops sample_lib (sample_member i),
        e_sequencer =
          \<lparr>sq_latest_unsafe_block = call_ok \<lparr>bi_hash = sample_hash 7, bi_number = 5\<rparr>,
           sq_block_by_number = (\<lambda>n. call_ok \<lparr>bi_hash = sample_hash 7, bi_number = n\<rparr>),
           sq_start_sequencer = (\<lambda>_. call_ok ()), sq_stop_sequencer = call_ok (sample_hash 7),
           sq_sequencer_active = call_ok False,
           sq_sync_status = call_ok \<lparr>unsafe_l2 = \<lparr>br_hash = None, br_number = 5, br_time = 100\<rparr>,
                                     safe_l2 = \<lparr>br_hash = None, br_number = 4, br_time = 90\<rparr>\<rparr>,
           sq_peer_stats = call_ok \<lparr>connected = 3\<rparr>, sq_post_unsafe_payload = (\<lambda>_. call_ok ()),
           sq_conductor_enabled = call_ok True\<rparr>,
        e_health = \<lparr>hc_supervisor = None, hc_execution_p2p = None, hc_rollup_boost = None\<rparr>,
        e_signals = \<lparr>sg_send_stopped = (\<lambda>_ w. w), sg_send_action = (\<lambda>_ w. w), sg_stopped_value = (\<lambda>_. False)\<rparr>\<rparr>,
      sv_http = (\<lambda>_ _ _ w. (Inl ''connection refused'', w)), sv_version = ''1'', sv_now = (\<lambda>_. 0)\<rparr>"

lemma sample_servers: "raft_server sample_lib () sample_history (sample_member i) (sample_node_env i)"
  using sample_guarantees [of i]
  by (simp add: raft_server_def sample_node_env_def within_defs http_within_def)

definition sample_cluster :: "(string, sample_outside) cluster" where
  "sample_cluster =
     \<lparr>cl_world = \<lparr>so_log = [], so_leader = ''a''\<rparr>,
      cl_nodes = (\<lambda>i.
        \<lparr>pg_timer = loop_timer_start 0,
         pg_server = rpc_state_new (conductor_new (sv_env (sample_node_env i)) ''1'' default_config
           \<lparr>rc_id = i, rc_addr = ''h'', rc_bootstrapped = False, rc_snapshot_task = False,
            rc_world = \<lparr>so_log = [], so_leader = ''a''\<rparr>\<rparr>) None\<rparr>)\<rparr>"

lemmas sample_node_defs = sample_cluster_def sample_node_env_def sample_member_def node_conductor_def node_program_def
  set_node_def with_conductor_def rpc_state_new_def conductor_new_def raft_consensus_ops_def default_config_def
  on_consensus_def call_err_def in_world_def in_raft_def call_ok_def

definition sample_entry :: "(nat, unit) entry" where
  "sample_entry = \<lparr>en_log_id = \<lparr>lid_leader = 1, lid_index = 1\<rparr>, en_payload = Normal (CommitUnsafePayload (sample_payload 5 7))\<rparr>"

lemma sample_commit:
  "\<exists>c. commit_unsafe_payload (sv_env (sample_node_env ''a'')) (sample_payload 5 7) (node_conductor sample_cluster ''a'')
         = (Inr (), c) \<and> rc_world (world c) = \<lparr>so_log = [sample_entry], so_leader = ''a''\<rparr>"
  by (simp add: commit_unsafe_payload_def sample_node_defs raft_commit_unsafe_payload_def sample_payload_simps
      sample_entry_def)

lemma sample_handover:
  assumes "cl_world cl = \<lparr>so_log = [sample_entry], so_leader = ''a''\<rparr>"
  shows "\<exists>c. transfer_leader_to_server (sv_env (sample_node_env ''a'')) ''b'' ''h2'' (node_conductor cl ''a'') = (Inr (), c)
    \<and> rc_world (world c) = \<lparr>so_log = [sample_entry], so_leader = ''b''\<rparr>"
  using assms
  by (simp add: transfer_leader_to_server_def sample_node_defs raft_transfer_leader_to_def membership_snapshot_def Let_def)

lemma sample_takeover:
  assumes "cl_world cl = \<lparr>so_log = [sample_entry], so_leader = ''b''\<rparr>" "cl_nodes cl ''b'' = cl_nodes sample_cluster ''b''"
  shows "\<exists>s. action (log_env (sv_env (sample_node_env ''b''))) (with_log (node_conductor cl ''b'')) = (Inr (), s)
    \<and> log_of s = [EvCommitted (sample_payload 5 7), EvHead \<lparr>bi_hash = sample_hash 7, bi_number = 5\<rparr>]
        @ EvStart (sample_hash 7) # []"
proof -
  have "latest_unsafe (apply_batches sample_lib [[sample_entry]] (default_sm ())) = Some (sample_payload 5 7)"
    using replica_head [OF default_sm_inv, of "[sample_entry]" sample_lib "()"]
    by (simp add: sample_entry_def entry_valid_def sample_payload_valid default_sm_def)
  with assms show ?thesis
    by (simp add: sample_node_defs with_log_def action_def stopping_or_stopped_def current_state_def healthy_def Let_def
        start_sequencer_def start_attempt_def choose_start_hash_def start_at_def on_sequencer_def log_defs logged_def
        raft_leader_def raft_latest_unsafe_payload_def latest_payload_def try_call_def sample_payload_simps)
qed

section \<open>Leadership lost within an action\<close>

text \<open>
  Whether it leads is asked twice: by the action, to decide, and by the read of the head, to make it
  linearizable. Should leadership move between the two, the read is answered from the node's own
  store without a word, and the sequencer is started on what that store has: here block 5, although
  block 6 is committed. The node behind lags by one entry and keeps all guarantees of \<open>openraft\<close>.
\<close>

definition lagging_member :: "(nat, unit, unit, sample_outside) openraft" where
  "lagging_member = (sample_member ''b'')
     \<lparr>or_store := (\<lambda>w. (raft_store_new ())\<lparr>sm := apply_batches sample_lib [take 1 (so_log w)] (default_sm ())\<rparr>),
      or_ensure_linearizable := call_fail ''behind''\<rparr>"

lemma lagging_guarantees: "raft_guarantees sample_lib () sample_history lagging_member"
  using sample_guarantees [of "''b''"]
  by (auto simp: raft_guarantees_def lagging_member_def call_fail_def stays_def history_grows_def)

definition losing_env :: "sample_outside raft_consensus env" where
  "losing_env = (sv_env (sample_node_env ''b''))
     \<lparr>e_consensus := (raft_consensus_ops sample_lib lagging_member)
        \<lparr>cs_latest_unsafe_payload := (\<lambda>c.
           raft_latest_unsafe_payload lagging_member (c\<lparr>rc_world := (rc_world c)\<lparr>so_leader := ''a''\<rparr>\<rparr>))\<rparr>\<rparr>"

definition ahead_log :: "(nat, unit) entry list" where
  "ahead_log = [sample_entry, commit_entry \<lparr>lid_leader = 1, lid_index = 2\<rparr> (sample_payload 6 8)]"

lemma lost_leadership_starts_stale:
  assumes "cl_world cl = \<lparr>so_log = ahead_log, so_leader = ''b''\<rparr>" "cl_nodes cl ''b'' = cl_nodes sample_cluster ''b''"
  shows "sample_payload 6 8 \<in> set (committed_payloads (so_log (cl_world cl)))
    \<and> (\<exists>s. action (log_env losing_env) (with_log (node_conductor cl ''b'')) = (Inr (), s)
         \<and> EvStart (sample_hash 7) \<in> set (log_of s))"
proof -
  have "latest_unsafe (apply_batches sample_lib [[sample_entry]] (default_sm ())) = Some (sample_payload 5 7)"
    using replica_head [OF default_sm_inv, of "[sample_entry]" sample_lib "()"]
    by (simp add: sample_entry_def entry_valid_def sample_payload_valid default_sm_def)
  then have "\<exists>s. action (log_env losing_env) (with_log (node_conductor cl ''b'')) = (Inr (), s)
      \<and> EvStart (sample_hash 7) \<in> set (log_of s)"
    using assms
    by (simp add: losing_env_def lagging_member_def ahead_log_def sample_node_defs with_log_def action_def
        stopping_or_stopped_def current_state_def healthy_def Let_def start_sequencer_def start_attempt_def
        choose_start_hash_def start_at_def on_sequencer_def log_defs logged_def raft_leader_def
        raft_latest_unsafe_payload_def latest_payload_def try_call_def sample_payload_simps)
  moreover have "sample_payload 6 8 \<in> set (committed_payloads ahead_log)" by (simp add: ahead_log_def commit_entry_def)
  ultimately show ?thesis using assms(1) by simp
qed

end
