(* ===== verification/Services.thy ===== *)
theory Services
  imports Program Flashblocks_Hub
begin

text \<open>
  The servers of the program and how it ends: the routes of each server, the functions that bind and
  serve them, the signals, and the \<open>select\<close> of \<open>main\<close> over all tasks. A task is a future: what it has
  come to in a state of the program, \<open>None\<close> while it is pending. Binding a listener and serving an
  application until a shutdown completes are the web framework's.
\<close>

section \<open>Routes\<close>

datatype endpoint =
    RpcWs | RpcHandle | RpcHealthz
  | MetricsHandler
  | PprofEndpoint pprof_handler
  | HttpAppendEntries | HttpVote | HttpFullSnapshot | HttpTransferLeader
  | FlashblocksWs

record router =
  ro_routes :: "(string \<times> http_method list \<times> endpoint) list"
  ro_fallback :: "(http_method list \<times> endpoint) option"

definition rpc_router :: router where
  "rpc_router =
     \<lparr>ro_routes =
        [(''/'', [GET], RpcWs), (''/'', [POST], RpcHandle), (''/ws'', [GET], RpcWs), (''/ws/'', [GET], RpcWs),
         (''/healthz'', [GET], RpcHealthz), (''/healthz/'', [GET], RpcHealthz)],
      ro_fallback = None\<rparr>"

definition metrics_router :: router where
  "metrics_router =
     \<lparr>ro_routes = [(''/'', [GET], MetricsHandler), (''/metrics'', [GET], MetricsHandler)],
      ro_fallback = Some ([GET], MetricsHandler)\<rparr>"

definition metrics_handler :: "(duration list \<Rightarrow> string) \<Rightarrow> metrics \<Rightarrow> string \<times> string" where
  "metrics_handler sum_text m = (''text/plain; version=0.0.4'', render_prometheus sum_text m)"

definition pprof_app :: router where
  "pprof_app =
     \<lparr>ro_routes = map (\<lambda>(p, ms, h). (p, ms, PprofEndpoint h)) pprof_router, ro_fallback = None\<rparr>"

definition raft_router :: router where
  "raft_router =
     \<lparr>ro_routes =
        [(''/raft/append_entries'', [POST], HttpAppendEntries), (''/raft/vote'', [POST], HttpVote),
         (''/raft/full_snapshot'', [POST], HttpFullSnapshot), (''/raft/transfer_leader'', [POST], HttpTransferLeader)],
      ro_fallback = None\<rparr>"

definition flashblocks_router :: router where
  "flashblocks_router = \<lparr>ro_routes = [(''/ws'', [GET], FlashblocksWs)], ro_fallback = None\<rparr>"

section \<open>Serving\<close>

text \<open>
  The web framework: binding an address gives a listener or an error; serving an application on it
  goes on until the future it is given as shutdown completes, or fails. A spawned task may fail.
\<close>

record 's web_lib =
  wb_bind :: "string \<Rightarrow> string + string"
  wb_local_addr :: "string \<Rightarrow> string + string"
  wb_serve :: "string \<Rightarrow> router \<Rightarrow> ('s \<Rightarrow> bool) \<Rightarrow> 's \<Rightarrow> (string + unit) option"
  wb_task_failed :: "'s \<Rightarrow> string option"

text \<open>The error of a server as \<open>anyhow\<close> has it, with the I/O error it wraps.\<close>

definition io_chain :: "string \<Rightarrow> string \<Rightarrow> anyhow" where
  "io_chain prefix e = [prefix @ e, e]"

definition bind_and_serve :: "'s web_lib \<Rightarrow> string \<Rightarrow> router \<Rightarrow> ('s \<Rightarrow> bool) \<Rightarrow> 's \<Rightarrow> (string + unit) option" where
  "bind_and_serve W addr app shutdown s =
     (case wb_bind W addr of
        Inl e \<Rightarrow> Some (Inl e)
      | Inr listener \<Rightarrow> wb_serve W listener app shutdown s)"

text \<open>\<open>wait_stopped\<close> as a future: it completes once the channel of \<open>stopped_tx\<close> holds true.\<close>

definition stop_signalled :: "'w env \<Rightarrow> 'w conductor \<Rightarrow> bool" where
  "stop_signalled E c = sg_stopped_value (e_signals E) (world c)"

definition serve_metrics_with_shutdown ::
  "'s web_lib \<Rightarrow> string \<Rightarrow> ('s \<Rightarrow> bool) \<Rightarrow> 's \<Rightarrow> (string + unit) option" where
  "serve_metrics_with_shutdown W addr shutdown = bind_and_serve W addr metrics_router shutdown"

definition serve_metrics :: "'s web_lib \<Rightarrow> string \<Rightarrow> 's \<Rightarrow> (string + unit) option" where
  "serve_metrics W addr = serve_metrics_with_shutdown W addr (\<lambda>_. False)"

definition serve_pprof_with_shutdown ::
  "'s web_lib \<Rightarrow> string \<Rightarrow> ('s \<Rightarrow> bool) \<Rightarrow> 's \<Rightarrow> (string + unit) option" where
  "serve_pprof_with_shutdown W addr shutdown = bind_and_serve W addr pprof_app shutdown"

definition serve_pprof :: "'s web_lib \<Rightarrow> string \<Rightarrow> 's \<Rightarrow> (string + unit) option" where
  "serve_pprof W addr = serve_pprof_with_shutdown W addr (\<lambda>_. False)"

definition run_metrics_server ::
  "'w conductor web_lib \<Rightarrow> 'w env \<Rightarrow> string option \<Rightarrow> 'w conductor \<Rightarrow> (anyhow + unit) option" where
  "run_metrics_server W E addr c =
     (case addr of
        Some a \<Rightarrow> map_option (map_err (\<lambda>e. [e])) (serve_metrics_with_shutdown W a (stop_signalled E) c)
      | None \<Rightarrow> None)"

definition run_pprof_server ::
  "'w conductor web_lib \<Rightarrow> 'w env \<Rightarrow> string option \<Rightarrow> 'w conductor \<Rightarrow> (anyhow + unit) option" where
  "run_pprof_server W E addr c =
     (case addr of
        Some a \<Rightarrow> map_option (map_err (\<lambda>e. [e])) (serve_pprof_with_shutdown W a (stop_signalled E) c)
      | None \<Rightarrow> None)"

definition serve_with_proxy ::
  "'w conductor web_lib \<Rightarrow> 'w env \<Rightarrow> string \<Rightarrow> 'w conductor \<Rightarrow> (anyhow + unit) option" where
  "serve_with_proxy W E addr c =
     map_option (map_err (io_chain ''io error: '')) (bind_and_serve W addr rpc_router (stop_signalled E) c)"

text \<open>
  The RPC server serves with the state of \<open>rpc_state_new\<close>, which is part of the program's state. The
  transport runs on the listener \<open>main\<close> has bound, without a shutdown.
\<close>

definition serve_raft_transport_on_listener :: "'s web_lib \<Rightarrow> string \<Rightarrow> 's \<Rightarrow> (anyhow + unit) option" where
  "serve_raft_transport_on_listener W listener s =
     map_option (map_err (io_chain ''io error: '')) (wb_serve W listener raft_router (\<lambda>_. False) s)"

section \<open>The block relay\<close>

record flashblocks_runtime =
  fr_local_addr :: string
  fr_listener :: string
  fr_shutdown :: bool
  fr_upstream :: upstream
  fr_upstream_running :: bool

text \<open>From the initial connection to the spawned tasks.\<close>

definition start_flashblocks_runtime ::
  "'s web_lib \<Rightarrow> ('w, string, unit) call \<Rightarrow> ('w \<Rightarrow> 'w) \<Rightarrow> string \<Rightarrow> string \<Rightarrow> string \<Rightarrow> metrics \<Rightarrow>
   ('w, flashblocks_error, flashblocks_runtime) call" where
  "start_flashblocks_runtime W dial sleep scheme url addr m w =
     (case start_flashblocks dial sleep scheme url w of
        (Inl e, w') \<Rightarrow> (Inl e, w')
      | (Inr _, w') \<Rightarrow>
          (and_then (map_err FlashblocksIo (wb_bind W addr)) (\<lambda>listener.
           and_then (map_err FlashblocksIo (wb_local_addr W listener)) (\<lambda>bound.
             Inr \<lparr>fr_local_addr = bound, fr_listener = listener, fr_shutdown = False,
                  fr_upstream = \<lparr>up_connected = True, up_hub = hub_new m\<rparr>,
                  fr_upstream_running = True\<rparr>)), w'))"

text \<open>
  The server task, and the handle's \<open>wait\<close> and \<open>shutdown\<close>, which both hand its failure on. Once the
  server has ended without one, \<open>wait\<close> aborts the upstream task and \<open>shutdown\<close> waits for it; after a failure
  the upstream task is left running.
\<close>

definition flashblocks_server_task :: "'s web_lib \<Rightarrow> flashblocks_runtime \<Rightarrow> 's \<Rightarrow> (string + (string + unit)) option" where
  "flashblocks_server_task W rt s =
     (case wb_task_failed W s of
        Some e \<Rightarrow> Some (Inl e)
      | None \<Rightarrow> map_option Inr (wb_serve W (fr_listener rt) flashblocks_router (\<lambda>_. fr_shutdown rt) s))"

definition join_server :: "string + (string + unit) \<Rightarrow> flashblocks_error + unit" where
  "join_server r = and_then (map_err FlashblocksJoin r) (map_err FlashblocksIo)"

definition flashblocks_wait ::
  "'s web_lib \<Rightarrow> flashblocks_runtime \<Rightarrow> 's \<Rightarrow> ((flashblocks_error + unit) \<times> flashblocks_runtime) option" where
  "flashblocks_wait W rt s =
     (case flashblocks_server_task W rt s of
        None \<Rightarrow> None
      | Some r \<Rightarrow>
          (case join_server r of
             Inl e \<Rightarrow> Some (Inl e, rt)
           | Inr _ \<Rightarrow> Some (Inr (), rt\<lparr>fr_upstream_running := False\<rparr>)))"

definition flashblocks_shutdown ::
  "'s web_lib \<Rightarrow> (string + unit) option \<Rightarrow> flashblocks_runtime \<Rightarrow> 's \<Rightarrow> (flashblocks_error + unit) option" where
  "flashblocks_shutdown W upstream_task rt s =
     (case flashblocks_server_task W (rt\<lparr>fr_shutdown := True\<rparr>) s of
        None \<Rightarrow> None
      | Some r \<Rightarrow>
          (case join_server r of
             Inl e \<Rightarrow> Some (Inl e)
           | Inr _ \<Rightarrow> map_option (map_err FlashblocksJoin) upstream_task))"

fun flashblocks_chain :: "flashblocks_error \<Rightarrow> anyhow" where
  "flashblocks_chain (FlashblocksIo e) = [show_flashblocks_error (FlashblocksIo e), e]"
| "flashblocks_chain (FlashblocksJoin e) = [show_flashblocks_error (FlashblocksJoin e), e]"
| "flashblocks_chain e = [show_flashblocks_error e]"

text \<open>
  What the relay starts with: connecting to its upstream and sleeping, in the network as it is when the
  relay starts, and the metrics it counts in.
\<close>

record 'n relay_start =
  rs_connect :: "'n \<Rightarrow> (string + unit) option \<times> 'n"
  rs_sleep :: "'n \<Rightarrow> 'n"
  rs_net :: 'n
  rs_metrics :: metrics

definition url_scheme :: "http_url \<Rightarrow> string" where
  "url_scheme u = takeWhile (\<lambda>c. c \<noteq> CHR '':'') (url_text u)"

definition serve_flashblocks ::
  "'s web_lib \<Rightarrow> 'n relay_start \<Rightarrow> http_url \<Rightarrow> string \<Rightarrow> 's \<Rightarrow> (flashblocks_error + unit) option" where
  "serve_flashblocks W D url addr s =
     (case fst (start_flashblocks_runtime W (dial_upstream (rs_connect D)) (rs_sleep D) (url_scheme url) (url_text url)
             addr (rs_metrics D) (rs_net D)) of
        Inl e \<Rightarrow> Some (Inl e)
      | Inr rt \<Rightarrow> map_option fst (flashblocks_wait W rt s))"

definition run_flashblocks_server ::
  "'s web_lib \<Rightarrow> 'n relay_start \<Rightarrow> http_url option \<Rightarrow> i64 \<Rightarrow> 's \<Rightarrow> (anyhow + unit) option" where
  "run_flashblocks_server W D ws_url port s =
     (case ws_url of
        None \<Rightarrow> None
      | Some url \<Rightarrow>
          (case websocket_server_port port of
             Inl e \<Rightarrow> Some (Inl e)
           | Inr p \<Rightarrow>
               map_option (map_err flashblocks_chain) (serve_flashblocks W D url (''0.0.0.0:'' @ show_nat (unat p)) s)))"

section \<open>Signals\<close>

datatype signal_event = CtrlC "string + unit" | Terminate

text \<open>On Unix; \<open>installed\<close> is the result of installing the handler, \<open>ev\<close> the first of the two to come.\<close>

definition wait_for_shutdown_signal :: "string + unit \<Rightarrow> signal_event option \<Rightarrow> (anyhow + string) option" where
  "wait_for_shutdown_signal installed ev =
     (case installed of
        Inl e \<Rightarrow> Some (Inl [''installing SIGTERM handler'', e])
      | Inr _ \<Rightarrow>
          (case ev of
             None \<Rightarrow> None
           | Some (CtrlC r) \<Rightarrow>
               Some (map_ok (\<lambda>_. ''interrupt'') (map_err (\<lambda>e. [''installing ctrl-c handler'', e]) r))
           | Some Terminate \<Rightarrow> Some (Inr ''SIGTERM'')))"

section \<open>How the program ends\<close>

text \<open>
  What the tasks are given: the listener of the transport, the addresses of the servers that are
  configured, and what the relay starts with.
\<close>

record 'w task_setup =
  ts_web :: "'w conductor web_lib"
  ts_raft_listener :: string
  ts_rpc_addr :: string
  ts_metrics_addr :: "string option"
  ts_pprof_addr :: "string option"
  ts_ws_url :: "http_url option"
  ts_ws_port :: i64
  ts_relay :: "'w relay_start"

text \<open>
  The branches of the \<open>select\<close> that are ready in a state of the program. The control loop and the
  leadership watch end in one of their iterations, the servers as futures.
\<close>

inductive program_ends ::
  "'w task_setup \<Rightarrow> 'w env \<Rightarrow> string + unit \<Rightarrow> 'w program \<Rightarrow> program_end \<Rightarrow> bool"
  for T :: "'w task_setup" and E :: "'w env" and installed :: "string + unit" and p :: "'w program" where
  end_rpc: "serve_with_proxy (ts_web T) E (ts_rpc_addr T) (pg_conductor p) = Some r \<Longrightarrow>
    program_ends T E installed p (TaskEnded RpcServer r)"
| end_raft: "serve_raft_transport_on_listener (ts_web T) (ts_raft_listener T) (pg_conductor p) = Some r \<Longrightarrow>
    program_ends T E installed p (TaskEnded RaftTransport r)"
| end_metrics: "run_metrics_server (ts_web T) E (ts_metrics_addr T) (pg_conductor p) = Some r \<Longrightarrow>
    program_ends T E installed p (TaskEnded MetricsServer r)"
| end_pprof: "run_pprof_server (ts_web T) E (ts_pprof_addr T) (pg_conductor p) = Some r \<Longrightarrow>
    program_ends T E installed p (TaskEnded PprofServer r)"
| end_flashblocks: "run_flashblocks_server (ts_web T) (ts_relay T) (ts_ws_url T) (ts_ws_port T) (pg_conductor p) = Some r \<Longrightarrow>
    program_ends T E installed p (TaskEnded FlashblocksServer r)"
| end_watch: "leader_watch_round E a (pg_conductor p) = (Return r, c) \<Longrightarrow>
    program_ends T E installed p (TaskEnded LeaderWatch r)"
| end_control: "loop_enabled ev (pg_timer p) \<Longrightarrow>
    control_step E ev (pg_timer p) (pg_conductor p) = (True, t, c) \<Longrightarrow>
    program_ends T E installed p (TaskEnded ControlTask (Inr ()))"
| end_signal: "wait_for_shutdown_signal installed (Some ev) = Some r \<Longrightarrow>
    program_ends T E installed p (SignalReceived r)"

text \<open>What the framework documents of serving with a graceful shutdown.\<close>

definition graceful :: "'s web_lib \<Rightarrow> bool" where
  "graceful W = (\<forall>l app shutdown s. wb_serve W l app shutdown s = Some (Inr ()) \<longrightarrow> shutdown s)"

lemma bind_and_serve_ok: "graceful W \<Longrightarrow> bind_and_serve W addr app shutdown s = Some (Inr ()) \<Longrightarrow> shutdown s"
  by (auto simp: bind_and_serve_def graceful_def split: sum.splits)

lemma map_err_Some_Inr_iff: "map_option (map_err f) x = Some (Inr a) \<longleftrightarrow> x = Some (Inr a)"
  by (auto simp: map_err_ok_iff)

lemma servers_end_ok:
  assumes "graceful W"
  shows "serve_with_proxy W E addr c = Some (Inr ()) \<Longrightarrow> stop_signalled E c"
    "run_metrics_server W E a c = Some (Inr ()) \<Longrightarrow> stop_signalled E c"
    "run_pprof_server W E a c = Some (Inr ()) \<Longrightarrow> stop_signalled E c"
    "serve_raft_transport_on_listener W listener c \<noteq> Some (Inr ())"
  using assms bind_and_serve_ok [OF assms]
  by (auto simp: serve_with_proxy_def run_metrics_server_def run_pprof_server_def serve_metrics_with_shutdown_def
      serve_pprof_with_shutdown_def serve_raft_transport_on_listener_def map_err_Some_Inr_iff map_err_ok_iff graceful_def
      split: option.splits)

text \<open>The relay is never told to shut down: its server ends only with an error.\<close>

lemma start_relay_not_shutdown:
  "fst (start_flashblocks_runtime W dial sleep scheme url addr m w) = Inr rt \<Longrightarrow> \<not> fr_shutdown rt"
  by (auto simp: start_flashblocks_runtime_def and_then_ok_iff split: prod.splits sum.splits)

lemma relay_wait_not_ok:
  assumes "graceful W" "\<not> fr_shutdown rt"
  shows "flashblocks_wait W rt s \<noteq> Some (Inr (), rt')"
  using assms
  by (auto simp: flashblocks_wait_def flashblocks_server_task_def join_server_def map_err_ok_iff and_then_ok_iff
      graceful_def split: option.splits sum.splits)

lemma relay_never_ends_ok:
  assumes "graceful W"
  shows "run_flashblocks_server W D ws_url port c \<noteq> Some (Inr ())"
proof -
  have "serve_flashblocks W D url addr c \<noteq> Some (Inr ())" for url addr
    by (auto simp: serve_flashblocks_def dest!: start_relay_not_shutdown dest: relay_wait_not_ok [OF assms]
        split: sum.splits)
  then show ?thesis
    by (simp add: run_flashblocks_server_def map_err_Some_Inr_iff map_err_ok_iff split: option.splits sum.splits)
qed

section \<open>Instances\<close>

definition sample_web :: "'s web_lib" where
  "sample_web =
     \<lparr>wb_bind = Inr, wb_local_addr = Inr, wb_serve = (\<lambda>_ _ shutdown s. if shutdown s then Some (Inr ()) else None),
      wb_task_failed = (\<lambda>_. None)\<rparr>"

definition sample_tasks :: "sample_world task_setup" where
  "sample_tasks =
     \<lparr>ts_web = sample_web, ts_raft_listener = ''l'', ts_rpc_addr = ''r'', ts_metrics_addr = None, ts_pprof_addr = None,
      ts_ws_url = None, ts_ws_port = 0,
      ts_relay = \<lparr>rs_connect = Pair (Some (Inr ())), rs_sleep = id,
                  rs_net = world (pg_conductor sample_program), rs_metrics = metrics_new ''1''\<rparr>\<rparr>"

definition sample_file_profiler :: "(unit, unit, unit, sample_world) profiler_lib" where
  "sample_file_profiler =
     \<lparr>pl_build = (\<lambda>_ _. call_ok ()), pl_report = (\<lambda>_ _. Inr ()), pl_pprof = Inr, pl_encode = (\<lambda>_. Inr ''profile''),
      pl_sleep = (\<lambda>_ w. w), pl_is_dir = (\<lambda>_. False)\<rparr>"

end
