(* ===== verification/Spec2Isabelle.thy ===== *)
theory Spec2Isabelle
  imports Conductor_Leadership Raft_Node_Props Rpc_Server_Props Rpc_Quantities Flashblocks_Delivery Cluster Services
begin

text \<open>
  A verification library for \<open>conductor-rs\<close>, the conductor of an OP Stack sequencer. A cluster of
  nodes elects a leader by Raft; on each node the conductor keeps the sequencer of the leader
  running and every other one stopped, and replicates the latest unsafe payload, so that a new
  leader starts exactly where the old one was.

  \<^bold>\<open>The parts and how they interact.\<close> The conductor (\<open>src/conductor.rs\<close>) reads leadership and the
  committed payload from consensus (\<open>src/consensus.rs\<close>, implemented by \<open>src/raft_consensus.rs\<close> over a
  JSON store, and for tests by \<open>LocalConsensus\<close> over \<open>src/store.rs\<close>), drives its sequencer through
  \<open>src/sequencer.rs\<close> and \<open>src/rpc/client.rs\<close>, and judges its health by those and by \<open>src/health.rs\<close>. It is
  called by the control loop and the leadership watch of \<open>src/main.rs\<close> and by the JSON-RPC server
  (\<open>src/rpc/server.rs\<close>), and records what it does in \<open>src/metrics.rs\<close>. Beside it run the relay of block
  streams (\<open>src/flashblocks.rs\<close>) and the profiling endpoint (\<open>src/pprof.rs\<close>).

  \<^bold>\<open>Conventions.\<close> A \<open>struct\<close> is a record with its fields, an \<open>enum\<close> a datatype, a \<open>u64\<close> a \<^typ>\<open>64 word\<close>, a
  \<open>String\<close> or byte vector a \<^typ>\<open>string\<close> of bytes, a \<open>Duration\<close> its nanoseconds, a \<open>BTreeMap\<close> the sorted list
  of its entries, \<open>Result\<close> a sum with the error on the left, an \<open>anyhow::Error\<close> the list of its messages.
  A fallible function with state \<open>'s\<close> is a \<open>call\<close>, which returns its result with the new state; \<open>try_call\<close>
  is the \<open>?\<close> operator. An \<open>async\<close> function is the function of what it computes; where other tasks may run
  in between, the pieces between two waits are separate steps of a transition system. Third-party
  code is an argument: \<open>lib\<close> (\<open>serde_json\<close>, \<open>hex\<close> and the texts they print), codecs for what is stored or
  sent, \<open>http\<close> exchanges, \<open>openraft\<close>, \<open>profiler_lib\<close>, \<open>net_lib\<close>, and \<open>env\<close>, which gathers what the conductor
  uses, and \<open>web_lib\<close> (\<open>axum\<close> and \<open>tokio\<close>). What a theorem needs of them is a hypothesis it names, such as
  \<open>hex_laws\<close>, \<open>raft_codec_ok\<close>, \<open>raft_guarantees\<close> or \<open>graceful\<close>, and every such theorem is applied to a
  concrete instance in its witness.

  \<^bold>\<open>Theories.\<close>
  \<^item> \<open>Prelude\<close>: integers, results and calls, strings as Rust handles them, printing and parsing of
    numbers, and ordered maps with their interface \<open>ordered_map\<close>. \<open>Json_Value\<close>: JSON documents.
    \<open>File_System\<close>: files, where any operation may fail after any number of bytes.
  \<^item> \<open>Core_Types\<close> (\<open>types.rs\<close>): hashes, quantities, block references, payloads, and the derived
    deserialisers.
  \<^item> \<open>Payload_Store\<close> (\<open>store.rs\<close>): the file store of the latest payload. A commit is atomic and durable
    under all faults, reopening restores it, and the head is the newest payload committed; the last is
    proved in the interface \<open>head_store\<close>, which the Raft state machine implements too.
  \<^item> \<open>Consensus_Local\<close> (\<open>consensus.rs\<close>): the consensus interface as a record of operations and the local
    implementation; membership changes are transactions on a version (\<open>versioned_changes\<close>).
  \<^item> \<open>Raft_Store\<close>, \<open>Raft_Replica\<close>, \<open>Raft_Durability\<close> (\<open>MemoryRaftStore\<close> of \<open>raft_consensus.rs\<close>): the log,
    vote, state machine and snapshots with their file. Replicas that apply the same entries agree, in
    whatever batches; the stored log refines the log of entries; a replica that restarts after any
    faults has its last successful state; a snapshot carries the state over.
  \<^item> \<open>Raft_Transport\<close>: the two networks; a request over HTTP has the outcome it has at the peer.
    \<open>Raft_Node\<close>, \<open>Raft_Node_Props\<close>: \<open>RaftConsensus\<close> on \<open>openraft\<close>, with the choice of a transfer target, the
    guards of membership changes, commits that all replicas can apply, and waiting for a leader,
    which ends at its deadline.
  \<^item> \<open>Rpc_Client\<close>, \<open>Sequencer_Control\<close>, \<open>Health_Checks\<close>, \<open>Metrics_Registry\<close>, \<open>Time_Counter\<close>: the clients of the
    nodes, the three ways of starting a sequencer, the bounded health checks, the metrics with their
    text, and the tolerance for partial health.
  \<^item> \<open>Conductor_State\<close>, \<open>Conductor_Actions\<close> (\<open>conductor.rs\<close>): the conductor and all its operations.
    \<open>Conductor_Safety\<close>: it starts its sequencer only as a running, unpaused leader at a justified hash,
    and a follower only stops. \<open>Conductor_Runs\<close>: its transition system; once stopping it leaves the
    sequencer alone. \<open>Conductor_Behaviour\<close>, \<open>Conductor_Leadership\<close>: its invariant, what it remembers, when
    it starts, waits and hands over, and what healthy means; what holds of every operation is proved
    in the interface \<open>action_relation\<close>. \<open>Conductor_World\<close> extends it to what the operations keep of the
    outside (\<open>world_guarantee\<close>), and \<open>Conductor_Log\<close> shows that the log in which requests are observed
    changes no run. \<open>Conductor_Sample\<close>, \<open>Sample_Lib\<close>: instances.
  \<^item> \<open>Rpc_Server\<close>, \<open>Rpc_Server_Props\<close>, \<open>Rpc_Quantities\<close> (\<open>rpc/server.rs\<close>): requests from bytes to answer; each
    request is answered once, a refused one has no effect, the proxy answers only on the leader.
  \<^item> \<open>Flashblocks_Hub\<close>, \<open>Flashblocks_Delivery\<close> (\<open>flashblocks.rs\<close>): the hub with its bounded channels, the
    upstream loop and a client's loop; in every interleaving a client receives a gapless stream.
  \<^item> \<open>Profiling\<close> (\<open>pprof.rs\<close>): profiles over HTTP and of a whole run.
  \<^item> \<open>Cli_Flags\<close>, \<open>Cli_Config\<close>, \<open>Cli_Props\<close> (\<open>main.rs\<close>): flags, validation and settings; of the settings
    computed from validated arguments only an unreadable URL, or election timeouts whose sum is not
    representable, can fail. \<open>Control_Loop\<close>, \<open>Control_Props\<close>: starting up, the control loop,
    the leadership watch and shutting down; no request for an action is lost and a failed one is
    retried within two seconds. \<open>Program\<close>: all tasks together; each owes the conductor a run of its
    operations (\<open>conductor_task\<close>), so the properties of its runs are properties of the program.
  \<^item> \<open>Services\<close> (\<open>main.rs\<close> and the \<open>serve\<close> functions): the routes, binding and serving of every server, the
    relay's handle, signals, and the \<open>select\<close> of \<open>main\<close>: which task ends the program, and with what.
  \<^item> \<open>Cluster\<close>: the programs of all nodes on one replicated log. This theory, below, has the properties
    of the whole: no acknowledged payload is lost to a failover, and the program reports success
    only when it was asked to end.

  \<^bold>\<open>Bounds and loops.\<close> Loops over data are structural. Event loops (\<open>select\<close>) are step relations or
  functions on the list of their events. Retries recurse on the attempts left. The two loops that
  may wait for ever, \<open>wait_for_leader\<close> and \<open>wait_for_leader_status_change\<close>, are partial functions; that the
  first returns is proved from a clock that advances. No fuel is used. Counters and block numbers
  wrap or saturate as in the source. Durations, times and lengths are natural numbers. The one sum
  of durations that come from flags, the upper election timeout, panics when it is not
  representable (\<open>duration_add\<close>); every other sum of times in the running program adds a constant of
  at most ten seconds to the clock, and its overflow is not modelled. The deadline of
  \<open>wait_for_leader\<close>, which only tests call, is likewise an unbounded sum.

  \<^bold>\<open>Atomicity.\<close> An operation of the conductor is one step, except \<open>stop\<close>, which is two. The code holds a
  lock over an action, but the outside may move while it waits for an answer. This matters in one
  place: whether the node leads is asked by the action and again by the read of the head. The
  failover property speaks of actions in which the two agree, and \<open>lost_leadership_starts_stale\<close> in
  \<open>Cluster\<close> shows what happens otherwise.

  \<^bold>\<open>Not modelled.\<close> How \<open>axum\<close> routes and serves, \<open>clap\<close> parses the command line, \<open>tokio\<close> spawns tasks and
  \<open>openraft\<close> elects and replicates: they are parameters, so that at most one leader is elected per term is
  not shown here. Log messages and \<open>Debug\<close> texts have no effect on what is modelled. \<open>lib.rs\<close> and
  \<open>rpc/mod.rs\<close> only declare and re-export the other modules. Test code is not modelled.
\<close>

section \<open>Failover\<close>



section \<open>How the program ends\<close>

text \<open>
  C16. The program reports success only when it was asked to end. When \<open>main\<close> returns without an error,
  a signal was received, or the conductor had stopped or signalled that it did, or the channel of
  requests for actions was closed; a server that fails, at binding its address or later, always
  shows in the result. In each case the conductor has stopped by then.
\<close>

theorem clean_exit_only_when_asked:
  assumes "graceful (ts_web T)" "program_ends T E installed p ended"
    and "main_exit E F ended profiler (pg_conductor p, fs) = (Inr (), c, fs')"
  shows "stopped c
    \<and> (ended = SignalReceived (Inr ''interrupt'') \<or> ended = SignalReceived (Inr ''SIGTERM'')
       \<or> stop_signalled E (pg_conductor p) \<or> stopped (pg_conductor p)
       \<or> (\<exists>now t d. control_step E (ActionChanged False now) (pg_timer p) (pg_conductor p) = (True, t, d)
            \<and> ended = TaskEnded ControlTask (Inr ())))"
proof -
  have ok: "stopped c" "runtime_result ended = Inr ()" using main_exit_ok [OF assms(3)] by simp_all
  have end_ok: "r = Inr ()" if "ended = TaskEnded task r" for task r
    using ok(2) that by (cases r) (simp_all add: add_context_def)
  from assms(2) show ?thesis
  proof cases
    case (end_watch a r d)
    with end_ok [OF end_watch(1)] end_watch(2) have "stopped (pg_conductor p)"
      by (auto simp: leader_watch_round_def split: sum.splits if_splits)
    with ok(1) show ?thesis by blast
  next
    case (end_control ev t d)
    then have "stopped (pg_conductor p) \<or> (\<exists>now. ev = ActionChanged False now)"
      using control_step_returns [of E ev "pg_timer p" "pg_conductor p"] by simp
    with ok(1) end_control show ?thesis by blast
  next
    case (end_signal ev r)
    with ok(2) have "r = Inr ''interrupt'' \<or> r = Inr ''SIGTERM''"
      by (cases r) (auto simp: wait_for_shutdown_signal_def map_ok_ok_iff split: sum.splits signal_event.splits)
    with ok(1) end_signal(1) show ?thesis by blast
  next
    case (end_rpc r)
    with end_ok [OF end_rpc(1)] have "stop_signalled E (pg_conductor p)"
      using servers_end_ok(1) [OF assms(1)] by simp
    then show ?thesis using ok(1) by simp
  next
    case (end_raft r)
    with end_ok [OF end_raft(1)] servers_end_ok(4) [OF assms(1)] show ?thesis by simp
  next
    case (end_metrics r)
    with end_ok [OF end_metrics(1)] have "stop_signalled E (pg_conductor p)"
      using servers_end_ok(2) [OF assms(1)] by simp
    then show ?thesis using ok(1) by simp
  next
    case (end_pprof r)
    with end_ok [OF end_pprof(1)] have "stop_signalled E (pg_conductor p)"
      using servers_end_ok(3) [OF assms(1)] by simp
    then show ?thesis using ok(1) by simp
  next
    case (end_flashblocks r)
    with end_ok [OF end_flashblocks(1)] show ?thesis by (simp add: relay_never_ends_ok [OF assms(1)])
  qed
qed

theorem clean_exit_only_when_asked_witness:
  "\<exists>c fs. main_exit sample_env sample_file_profiler (SignalReceived (Inr ''SIGTERM'')) None
       (pg_conductor sample_program, sample_files) = (Inr (), c, fs) \<and> stopped c"
proof -
  let ?ev = "SignalReceived (Inr ''SIGTERM'')"
  have ends: "program_ends sample_tasks sample_env (Inr ()) sample_program ?ev"
    by (rule end_signal [of _ Terminate]) (simp add: wait_for_shutdown_signal_def)
  obtain c fs where run: "main_exit sample_env sample_file_profiler ?ev None (pg_conductor sample_program, sample_files)
      = (Inr (), c, fs)"
    by (simp add: main_exit_def finalize_runtime_exit_def finish_pprof_file_profile_def stop_def stop_begin_def
        stop_finish_def sample_program_def rpc_state_new_def conductor_new_def sample_env_def sample_consensus_def
        on_consensus_def call_err_def in_world_def call_ok_def Let_def try_call_def)
  have "graceful (ts_web sample_tasks)"
    by (auto simp: graceful_def sample_tasks_def sample_web_def split: if_splits)
  from clean_exit_only_when_asked [OF this ends run] have "stopped c" ..
  with run show ?thesis by simp
qed

section \<open>Hashes and quantities\<close>

text \<open>
  Parsing the text of a hash gives the hash back.
\<close>

theorem hash_roundtrip:
  assumes "hex_laws L" "hash_wf h"
  shows "hash_from_str L (show_hash L h) = Inr h \<and> deserialize_hash L (serialize_hash L h) = Inr h"
  using hash_from_str_show [OF assms] by (simp add: deserialize_hash_def serialize_hash_def)

theorem hash_roundtrip_witness:
  "hash_from_str sample_lib (show_hash sample_lib hash_zero) = Inr hash_zero
   \<and> deserialize_hash sample_lib (serialize_hash sample_lib hash_zero) = Inr hash_zero"
  by (rule hash_roundtrip [OF sample_hex_laws]) (simp add: hash_wf_def hash_zero_def)

text \<open>
  A block number decodes to itself from a JSON number, from its decimal text and from its
  hexadecimal text, so every encoding the nodes use is read alike.
\<close>

theorem quantity_roundtrip:
  "parse_quantity L (JNumber (PosInt n)) = Inr n
   \<and> parse_quantity L (JString (show_hex n)) = Inr n
   \<and> parse_quantity L (JString (show_u64 n)) = Inr n"
  by (simp add: parse_quantity_forms)

end
